(* ===== verification/Prelude.thy ===== *)
theory Prelude
  imports Main "HOL-Library.AList" "HOL-Library.Char_ord" "HOL-Library.List_Lexorder"
    "HOL-Library.Sublist"
begin

text \<open>
  The shared vocabulary of the development: results of fallible code, the pieces of Rust's
  standard library the daemon uses (string trimming, ASCII case folding, decimal numbers,
  checked and saturating integers, format arguments), and the two keyed collections of the
  store, \<open>HashMap\<close> and \<open>BTreeMap\<close>, with the interface both implement.
\<close>

section \<open>Collections of facts\<close>

named_theorems ok_simps \<open>when a fallible step succeeds\<close>
named_theorems rust_defs \<open>definitions of the small standard-library wrappers\<close>

section \<open>Results\<close>

text \<open>
  \<open>Result<T, E>\<close> is the sum type with the error on the left. \<open>andthen\<close> is the \<open>?\<close>
  operator followed by the rest of the function, \<open>require\<close> an early return of an error,
  \<open>ok_or\<close> and \<open>map_err\<close> the methods of that name.
\<close>

definition andthen :: "'e + 'a \<Rightarrow> ('a \<Rightarrow> 'e + 'b) \<Rightarrow> 'e + 'b" where
  "andthen m f = (case m of Inl e \<Rightarrow> Inl e | Inr x \<Rightarrow> f x)"

definition require :: "bool \<Rightarrow> 'e \<Rightarrow> 'e + unit" where
  "require b e = (if b then Inr () else Inl e)"

definition ok_or :: "'a option \<Rightarrow> 'e \<Rightarrow> 'e + 'a" where
  "ok_or x e = (case x of None \<Rightarrow> Inl e | Some v \<Rightarrow> Inr v)"

definition map_err :: "('e \<Rightarrow> 'f) \<Rightarrow> 'e + 'a \<Rightarrow> 'f + 'a" where
  "map_err g m = (case m of Inl e \<Rightarrow> Inl (g e) | Inr x \<Rightarrow> Inr x)"

definition is_ok :: "'e + 'a \<Rightarrow> bool" where
  "is_ok m = (case m of Inl _ \<Rightarrow> False | Inr _ \<Rightarrow> True)"

text \<open>A loop \<open>for x in xs { f(x)?; }\<close>.\<close>

fun for_each :: "('a \<Rightarrow> 'e + unit) \<Rightarrow> 'a list \<Rightarrow> 'e + unit" where
  "for_each f [] = Inr ()"
| "for_each f (x # xs) = andthen (f x) (\<lambda>_. for_each f xs)"

lemma andthen_Inr [simp]: "andthen (Inr x) f = f x"
  and andthen_Inl [simp]: "andthen (Inl e) f = Inl e"
  by (simp_all add: andthen_def)

lemma andthen_eq_Inr [simp, ok_simps]:
  "andthen m f = Inr y \<longleftrightarrow> (\<exists>x. m = Inr x \<and> f x = Inr y)"
  by (cases m) simp_all

lemma andthen_intro: "m = Inr x \<Longrightarrow> f x = Inr y \<Longrightarrow> andthen m f = Inr y"
  by simp

lemma require_True [simp]: "require True e = Inr ()"
  and require_False [simp]: "require False e = Inl e"
  by (simp_all add: require_def)

lemma require_eq_Inr [simp, ok_simps]: "require b e = Inr u \<longleftrightarrow> b"
  by (simp add: require_def)

lemma ok_or_Some [simp]: "ok_or (Some v) e = Inr v"
  and ok_or_None [simp]: "ok_or None e = Inl e"
  by (simp_all add: ok_or_def)

lemma ok_or_eq_Inr [simp, ok_simps]: "ok_or x e = Inr v \<longleftrightarrow> x = Some v"
  by (cases x) simp_all

lemma map_err_eq_Inr [simp, ok_simps]: "map_err g m = Inr v \<longleftrightarrow> m = Inr v"
  by (cases m) (simp_all add: map_err_def)

lemma map_err_Inr [simp]: "map_err g (Inr v) = Inr v"
  and map_err_Inl [simp]: "map_err g (Inl e) = Inl (g e)"
  by (simp_all add: map_err_def)

lemma is_ok_Inr [simp]: "is_ok (Inr v)" and is_ok_Inl [simp]: "\<not> is_ok (Inl e)"
  by (simp_all add: is_ok_def)

lemma is_ok_iff: "is_ok m \<longleftrightarrow> (\<exists>v. m = Inr v)"
  by (cases m) simp_all

lemma for_each_eq_Inr [simp, ok_simps]:
  "for_each f xs = Inr u \<longleftrightarrow> (\<forall>x \<in> set xs. f x = Inr ())"
  by (induction xs) auto

lemma andthen_cong [fundef_cong]:
  "m = m' \<Longrightarrow> (\<And>x. m' = Inr x \<Longrightarrow> f x = g x) \<Longrightarrow> andthen m f = andthen m' g"
  by (cases m') simp_all

section \<open>Fixed-width counters\<close>

text \<open>
  Sequence numbers and byte counts are unsigned 64-bit integers (\<open>usize\<close> has 64 bits on the
  platforms the daemon ships for). They are natural numbers here, with the width written out in
  the operations that can reach it.
\<close>

definition u64_max :: nat where
  "u64_max = 18446744073709551615"

definition i64_max :: int where
  "i64_max = 9223372036854775807"

definition checked_add :: "nat \<Rightarrow> nat \<Rightarrow> nat option" where
  "checked_add a b = (if a + b \<le> u64_max then Some (a + b) else None)"

definition saturating_add :: "nat \<Rightarrow> nat \<Rightarrow> nat" where
  "saturating_add a b = min (a + b) u64_max"

lemma checked_add_eq_Some [simp, ok_simps]:
  "checked_add a b = Some c \<longleftrightarrow> c = a + b \<and> a + b \<le> u64_max"
  by (auto simp: checked_add_def)

lemma checked_add_eq_None [simp]: "checked_add a b = None \<longleftrightarrow> u64_max < a + b"
  by (auto simp: checked_add_def)

lemma saturating_add_le [simp]: "saturating_add a b \<le> u64_max"
  by (simp add: saturating_add_def)

lemma saturating_add_mono: "a \<le> a' \<Longrightarrow> b \<le> b' \<Longrightarrow> saturating_add a b \<le> saturating_add a' b'"
  by (auto simp: saturating_add_def min_def)

section \<open>Strings\<close>

text \<open>
  A Rust \<open>String\<close> is its UTF-8 bytes: \<open>string\<close> here, one \<open>char\<close> per byte, so that
  \<open>len()\<close> is \<open>length\<close> and \<open>Ord\<close> is the lexicographic order of the bytes. \<open>trim\<close> strips the
  code points with the property White\_Space; their encodings are listed in \<open>white_space\<close>,
  the one-byte ones first.
\<close>

definition white_space :: "string list" where
  "white_space =
     [[CHR 0x20], [CHR 0x09], [CHR 0x0A], [CHR 0x0B], [CHR 0x0C], [CHR 0x0D],
      [CHR 0xC2, CHR 0x85], [CHR 0xC2, CHR 0xA0],
      [CHR 0xE1, CHR 0x9A, CHR 0x80],
      [CHR 0xE2, CHR 0x80, CHR 0x80], [CHR 0xE2, CHR 0x80, CHR 0x81],
      [CHR 0xE2, CHR 0x80, CHR 0x82], [CHR 0xE2, CHR 0x80, CHR 0x83],
      [CHR 0xE2, CHR 0x80, CHR 0x84], [CHR 0xE2, CHR 0x80, CHR 0x85],
      [CHR 0xE2, CHR 0x80, CHR 0x86], [CHR 0xE2, CHR 0x80, CHR 0x87],
      [CHR 0xE2, CHR 0x80, CHR 0x88], [CHR 0xE2, CHR 0x80, CHR 0x89],
      [CHR 0xE2, CHR 0x80, CHR 0x8A], [CHR 0xE2, CHR 0x80, CHR 0xA8],
      [CHR 0xE2, CHR 0x80, CHR 0xA9], [CHR 0xE2, CHR 0x80, CHR 0xAF],
      [CHR 0xE2, CHR 0x81, CHR 0x9F], [CHR 0xE3, CHR 0x80, CHR 0x80]]"

text \<open>\<open>strip_any ws s\<close> drops encodings of \<open>ws\<close> from the front of \<open>s\<close> as long as one is there.\<close>

fun strip_any :: "string list \<Rightarrow> string \<Rightarrow> string" where
  "strip_any ws [] = []"
| "strip_any ws (c # cs) =
     (case find (\<lambda>w. w \<noteq> [] \<and> prefix w (c # cs)) ws of
        None \<Rightarrow> c # cs
      | Some w \<Rightarrow> strip_any ws (drop (length w - 1) cs))"

definition trim_start :: "string \<Rightarrow> string" where
  "trim_start s = strip_any white_space s"

definition trim_end :: "string \<Rightarrow> string" where
  "trim_end s = rev (strip_any (map rev white_space) (rev s))"

definition trim :: "string \<Rightarrow> string" where
  "trim s = trim_end (trim_start s)"

definition strip_prefix :: "string \<Rightarrow> string \<Rightarrow> string option" where
  "strip_prefix p s = (if prefix p s then Some (drop (length p) s) else None)"

definition ascii_lower :: "char \<Rightarrow> char" where
  "ascii_lower c = (if CHR ''A'' \<le> c \<and> c \<le> CHR ''Z'' then char_of (of_char c + (32 :: nat)) else c)"

definition to_ascii_lowercase :: "string \<Rightarrow> string" where
  "to_ascii_lowercase s = map ascii_lower s"

text \<open>\<open>str::replace\<close> with an array of ASCII characters and a one-character replacement.\<close>

definition replace_chars :: "char list \<Rightarrow> char \<Rightarrow> string \<Rightarrow> string" where
  "replace_chars cs d s = map (\<lambda>c. if c \<in> set cs then d else c) s"

lemma strip_any_suffix: "suffix (strip_any ws s) s"
proof (induction ws s rule: strip_any.induct)
  case (1 ws)
  then show ?case by simp
next
  case (2 ws c cs)
  then show ?case
    by (auto split: option.splits intro!: suffix_ConsI intro: suffix_order.trans [OF _ suffix_drop])
qed

lemma strip_any_stop:
  "w \<in> set ws \<Longrightarrow> w \<noteq> [] \<Longrightarrow> \<not> prefix w (strip_any ws s)"
proof (induction ws s rule: strip_any.induct)
  case (1 ws)
  then show ?case by simp
next
  case (2 ws c cs)
  then show ?case
    by (auto split: option.splits simp: find_None_iff)
qed

lemma strip_any_id:
  "(\<And>w. w \<in> set ws \<Longrightarrow> w \<noteq> [] \<Longrightarrow> \<not> prefix w s) \<Longrightarrow> strip_any ws s = s"
  by (cases s) (auto split: option.splits simp: find_Some_iff dest: nth_mem)

lemma white_space_nonempty: "w \<in> set white_space \<Longrightarrow> w \<noteq> []"
  by (auto simp: white_space_def)

lemma trim_start_stop: "w \<in> set white_space \<Longrightarrow> \<not> prefix w (trim_start s)"
  by (simp add: trim_start_def strip_any_stop white_space_nonempty)

lemma trim_end_prefix: "prefix (trim_end s) s"
  using strip_any_suffix [of "map rev white_space" "rev s"]
  by (simp add: trim_end_def suffix_to_prefix)

lemma trim_end_stop: "w \<in> set white_space \<Longrightarrow> \<not> suffix w (trim_end s)"
proof
  assume w: "w \<in> set white_space" and "suffix w (trim_end s)"
  then have "prefix (rev w) (strip_any (map rev white_space) (rev s))"
    by (simp add: trim_end_def suffix_to_prefix)
  moreover have "rev w \<in> set (map rev white_space)" "rev w \<noteq> []"
    using w white_space_nonempty by auto
  ultimately show False
    using strip_any_stop by blast
qed

lemma trim_end_id: "(\<And>w. w \<in> set white_space \<Longrightarrow> \<not> suffix w s) \<Longrightarrow> trim_end s = s"
proof -
  assume no: "\<And>w. w \<in> set white_space \<Longrightarrow> \<not> suffix w s"
  have "strip_any (map rev white_space) (rev s) = rev s"
    by (rule strip_any_id) (use no in \<open>auto simp: suffix_to_prefix\<close>)
  then show ?thesis by (simp add: trim_end_def)
qed

text \<open>Trimming is idempotent: what is left neither starts nor ends with white space.\<close>

lemma trim_idem [simp]: "trim (trim s) = trim s"
proof -
  let ?t = "trim_end (trim_start s)"
  have "\<not> prefix w ?t" if "w \<in> set white_space" for w
    using that trim_start_stop trim_end_prefix [of "trim_start s"] prefix_order.trans by blast
  then have "trim_start ?t = ?t"
    by (simp add: trim_start_def strip_any_id)
  moreover have "trim_end ?t = ?t"
    by (rule trim_end_id) (rule trim_end_stop)
  ultimately show ?thesis by (simp add: trim_def)
qed

lemma trim_Nil [simp]: "trim [] = []"
  by (simp add: trim_def trim_start_def trim_end_def)

lemma trim_nonempty: "trim s \<noteq> [] \<Longrightarrow> s \<noteq> []"
  by auto

lemma strip_prefix_append [simp]: "strip_prefix p (p @ s) = Some s"
  by (simp add: strip_prefix_def)

lemma strip_prefix_eq_Some [simp, ok_simps]: "strip_prefix p s = Some r \<longleftrightarrow> s = p @ r"
  by (auto simp: strip_prefix_def prefix_def)

section \<open>Decimal numbers\<close>

text \<open>\<open>usize::to_string\<close> and \<open>str::parse::<usize>\<close>: an optional plus sign, then digits, in range.\<close>

definition digit_char :: "nat \<Rightarrow> char" where
  "digit_char d = char_of (48 + d)"

definition is_digit :: "char \<Rightarrow> bool" where
  "is_digit c \<longleftrightarrow> CHR ''0'' \<le> c \<and> c \<le> CHR ''9''"

definition digit_val :: "char \<Rightarrow> nat" where
  "digit_val c = of_char c - 48"

fun show_nat :: "nat \<Rightarrow> string" where
  "show_nat n = (if n < 10 then [digit_char n] else show_nat (n div 10) @ [digit_char (n mod 10)])"

declare show_nat.simps [simp del]

definition digits_val :: "string \<Rightarrow> nat" where
  "digits_val s = foldl (\<lambda>a c. 10 * a + digit_val c) 0 s"

definition parse_u64 :: "string \<Rightarrow> nat option" where
  "parse_u64 s =
     (let ds = (case s of [] \<Rightarrow> [] | c # cs \<Rightarrow> if c = CHR ''+'' then cs else s)
      in if ds = [] \<or> \<not> list_all is_digit ds then None
         else if digits_val ds \<le> u64_max then Some (digits_val ds) else None)"

lemma digit_char_digit [simp]:
  assumes "d < 10"
  shows "is_digit (digit_char d)" "digit_val (digit_char d) = d"
proof -
  have "d \<in> {0,1,2,3,4,5,6,7,8,9}" using assms by auto
  then show "is_digit (digit_char d)" "digit_val (digit_char d) = d"
    by (auto simp: is_digit_def digit_char_def digit_val_def less_eq_char_def)
qed

lemma show_nat_digits: "show_nat n \<noteq> [] \<and> list_all is_digit (show_nat n)"
  by (induction n rule: show_nat.induct) (subst show_nat.simps, auto)+

lemma digits_val_show_nat: "digits_val (show_nat n) = n"
proof (induction n rule: show_nat.induct)
  case (1 n)
  then show ?case
    by (cases "n < 10") (simp_all add: show_nat.simps [of n] digits_val_def)
qed

lemma parse_show_nat: "n \<le> u64_max \<Longrightarrow> parse_u64 (show_nat n) = Some n"
proof -
  assume n: "n \<le> u64_max"
  obtain c cs where c: "show_nat n = c # cs"
    using show_nat_digits [of n] by (cases "show_nat n") auto
  have "is_digit c" using show_nat_digits [of n] c by simp
  then have "c \<noteq> CHR ''+''" by (auto simp: is_digit_def less_eq_char_def)
  then show ?thesis
    using n c show_nat_digits [of n] digits_val_show_nat [of n]
    by (simp add: parse_u64_def)
qed

section \<open>Format arguments\<close>

text \<open>
  Diagnostic texts are kept as \<open>format_args!\<close> keeps them: the format string and its arguments,
  not yet rendered. An argument is a string, a number or a value printed with its derived
  \<open>Debug\<close> (a constructor and its fields).
\<close>

datatype fmt_arg = FStr string | FInt int | FCtor string "fmt_arg list"

datatype message = Msg string "fmt_arg list"

definition FNat :: "nat \<Rightarrow> fmt_arg" where
  "FNat n = FInt (int n)"

definition FOpt :: "('a \<Rightarrow> fmt_arg) \<Rightarrow> 'a option \<Rightarrow> fmt_arg" where
  "FOpt f x = (case x of None \<Rightarrow> FCtor ''None'' [] | Some v \<Rightarrow> FCtor ''Some'' [f v])"

section \<open>Keyed collections\<close>

text \<open>
  What the store asks of a collection: \<open>get\<close> after \<open>insert\<close>, a representation invariant every
  insert keeps, and that \<open>values\<close> lists exactly the stored records.
\<close>

locale keyed_map =
  fixes get :: "'m \<Rightarrow> 'k \<Rightarrow> 'v option"
    and put :: "'k \<Rightarrow> 'v \<Rightarrow> 'm \<Rightarrow> 'm"
    and vals :: "'m \<Rightarrow> 'v list"
    and wf :: "'m \<Rightarrow> bool"
  assumes get_put: "get (put k v m) k' = (if k' = k then Some v else get m k')"
    and wf_put: "wf m \<Longrightarrow> wf (put k v m)"
    and vals_get: "wf m \<Longrightarrow> v \<in> set (vals m) \<longleftrightarrow> (\<exists>k. get m k = Some v)"
begin

lemma all_put:
  "(\<And>k v. get m k = Some v \<Longrightarrow> P k v) \<Longrightarrow> P k\<^sub>0 v\<^sub>0 \<Longrightarrow> get (put k\<^sub>0 v\<^sub>0 m) k = Some v \<Longrightarrow> P k v"
  by (auto simp: get_put split: if_splits)

lemma put_fresh_mono: "get m k\<^sub>0 = None \<Longrightarrow> get m k = Some v \<Longrightarrow> get (put k\<^sub>0 v\<^sub>0 m) k = Some v"
  by (auto simp: get_put)

lemma find_None: "wf m \<Longrightarrow> find P (vals m) = None \<longleftrightarrow> (\<forall>k v. get m k = Some v \<longrightarrow> \<not> P v)"
  by (auto simp: find_None_iff vals_get)

lemma find_Some: "wf m \<Longrightarrow> find P (vals m) = Some v \<Longrightarrow> P v \<and> (\<exists>k. get m k = Some v)"
  by (metis find_Some_iff nth_mem vals_get)

text \<open>
  Scanning the values for the record with a given id finds what the index has under that id,
  as long as every record is stored under its own id.
\<close>

lemma find_by_id:
  assumes "wf m" and keyed: "\<And>k v. get m k = Some v \<Longrightarrow> idf v = k"
  shows "find (\<lambda>v. idf v = i) (vals m) = get m i"
proof (cases "get m i")
  case None
  then show ?thesis using assms by (auto simp: find_None)
next
  case (Some v)
  have "find (\<lambda>v. idf v = i) (vals m) \<noteq> None"
    using assms Some by (auto simp: find_None)
  then obtain w where w: "find (\<lambda>v. idf v = i) (vals m) = Some w" by auto
  with find_Some [OF assms(1) w] keyed have "get m i = Some w" by auto
  with w show ?thesis by simp
qed

end

text \<open>
  \<open>HashMap\<close>: an association list whose order is the (unspecified) iteration order, with
  distinct keys. \<open>insert\<close> replaces the value of a present key.
\<close>

type_synonym ('k, 'v) hmap = "('k \<times> 'v) list"

abbreviation hm_get :: "('k, 'v) hmap \<Rightarrow> 'k \<Rightarrow> 'v option" where
  "hm_get \<equiv> map_of"

definition hm_insert :: "'k \<Rightarrow> 'v \<Rightarrow> ('k, 'v) hmap \<Rightarrow> ('k, 'v) hmap" where
  "hm_insert k v m = AList.update k v m"

definition hm_values :: "('k, 'v) hmap \<Rightarrow> 'v list" where
  "hm_values m = map snd m"

definition hm_keys :: "('k, 'v) hmap \<Rightarrow> 'k list" where
  "hm_keys m = map fst m"

definition hm_wf :: "('k, 'v) hmap \<Rightarrow> bool" where
  "hm_wf m = distinct (map fst m)"

definition contains_key :: "('k, 'v) hmap \<Rightarrow> 'k \<Rightarrow> bool" where
  "contains_key m k = (map_of m k \<noteq> None)"

lemma map_snd_map_of:
  "distinct (map fst m) \<Longrightarrow> v \<in> set (map snd m) \<longleftrightarrow> (\<exists>k. map_of m k = Some v)"
  by (force simp: map_of_eq_Some_iff image_iff)

interpretation hm: keyed_map hm_get hm_insert hm_values hm_wf
proof (unfold_locales, goal_cases)
  case (1 k v m k')
  then show ?case by (simp add: hm_insert_def update_conv')
next
  case (2 m k v)
  then show ?case by (simp add: hm_insert_def hm_wf_def distinct_update)
next
  case (3 m v)
  then show ?case
    by (simp only: hm_values_def hm_wf_def map_snd_map_of)
qed

text \<open>\<open>BTreeMap\<close>: an association list in strictly increasing key order.\<close>

type_synonym ('k, 'v) bmap = "('k \<times> 'v) list"

abbreviation bt_get :: "('k, 'v) bmap \<Rightarrow> 'k \<Rightarrow> 'v option" where
  "bt_get \<equiv> map_of"

fun bt_insert :: "'k::linorder \<Rightarrow> 'v \<Rightarrow> ('k, 'v) bmap \<Rightarrow> ('k, 'v) bmap" where
  "bt_insert k v [] = [(k, v)]"
| "bt_insert k v ((k', v') # m) =
     (if k < k' then (k, v) # (k', v') # m
      else if k = k' then (k, v) # m
      else (k', v') # bt_insert k v m)"

definition bt_values :: "('k, 'v) bmap \<Rightarrow> 'v list" where
  "bt_values m = map snd m"

definition bt_wf :: "('k::linorder, 'v) bmap \<Rightarrow> bool" where
  "bt_wf m = sorted_wrt (<) (map fst m)"

text \<open>\<open>range(start..)\<close>.\<close>

definition bt_range_from :: "'k::linorder \<Rightarrow> ('k, 'v) bmap \<Rightarrow> ('k, 'v) bmap" where
  "bt_range_from k m = filter (\<lambda>(k', _). k \<le> k') m"

lemma bt_get_insert: "bt_get (bt_insert k v m) k' = (if k' = k then Some v else bt_get m k')"
  by (induction k v m rule: bt_insert.induct) auto

lemma bt_keys_insert: "set (map fst (bt_insert k v m)) = insert k (set (map fst m))"
  by (induction k v m rule: bt_insert.induct) auto

lemma bt_wf_insert: "bt_wf m \<Longrightarrow> bt_wf (bt_insert k v m)"
proof (induction k v m rule: bt_insert.induct)
  case (2 k v k' v' m)
  then show ?case
    using bt_keys_insert [of k v m] by (auto simp: bt_wf_def)
qed (simp add: bt_wf_def)

lemma bt_wf_distinct: "bt_wf m \<Longrightarrow> distinct (map fst m)"
  by (simp add: bt_wf_def strict_sorted_iff)

lemma bt_insert_last:
  "\<forall>k' \<in> set (map fst m). k' < k \<Longrightarrow> bt_insert k v m = m @ [(k, v)]"
  by (induction k v m rule: bt_insert.induct) (auto dest: order.asym)

interpretation bt: keyed_map bt_get bt_insert bt_values bt_wf
proof (unfold_locales, goal_cases)
  case (1 k v m k')
  then show ?case by (rule bt_get_insert)
next
  case (2 m k v)
  then show ?case by (rule bt_wf_insert)
next
  case (3 m v)
  then show ?case
    by (simp only: bt_values_def map_snd_map_of [OF bt_wf_distinct])
qed

lemma hm_insert_new: "hm_get m k = None \<Longrightarrow> hm_insert k v m = m @ [(k, v)]"
  by (induction m) (auto simp: hm_insert_def split: if_splits)

lemma hm_get_insert [simp]: "hm_get (hm_insert k v m) k' = (if k' = k then Some v else hm_get m k')"
  by (rule hm.get_put)

lemma bt_get_insert_simp [simp]:
  "bt_get (bt_insert k v m) k' = (if k' = k then Some v else bt_get m k')"
  by (rule bt.get_put)

lemma contains_key_iff [simp]: "contains_key m k \<longleftrightarrow> (\<exists>v. hm_get m k = Some v)"
  by (auto simp: contains_key_def)

end
