(* ===== verification/Domain.thy ===== *)
theory Domain
  imports Prelude
begin

text \<open>
  The records of the ledger (\<open>atelia-core/src/domain.rs\<close>): opaque ids, jobs with their status
  machine, events, policy decisions, advisory locks, tool invocations and results, audit
  records and schema-migration locks. A field \<open>f\<close> of a Rust struct is \<open>x_f\<close> here, where \<open>x\<close>
  is a short prefix per struct (\<open>j\<close> for jobs, \<open>e\<close> for events and so on). Values the code draws
  from the system clock or from \<open>Uuid::new_v4\<close> are arguments.
\<close>

section \<open>Opaque ids\<close>

text \<open>
  The macro \<open>opaque_id!\<close> declares one newtype over \<open>String\<close> per kind of record; the kind is a
  phantom type parameter here. Ids are ordered as their strings are, which is the key order of
  the job index.
\<close>

datatype 'k opaque_id = OpaqueId (as_str: string)

instantiation opaque_id :: (type) linorder
begin

definition less_eq_opaque_id :: "'a opaque_id \<Rightarrow> 'a opaque_id \<Rightarrow> bool" where
  "x \<le> y \<longleftrightarrow> as_str x \<le> as_str y"

definition less_opaque_id :: "'a opaque_id \<Rightarrow> 'a opaque_id \<Rightarrow> bool" where
  "x < y \<longleftrightarrow> as_str x < as_str y"

instance
  by standard (auto simp: less_eq_opaque_id_def less_opaque_id_def opaque_id.expand)

end

datatype repository_kind = RepositoryKind
datatype job_kind_tag = JobTag
datatype job_event_kind_tag = JobEventTag
datatype policy_decision_kind = PolicyDecisionKind
datatype lock_decision_kind = LockDecisionKind
datatype tool_invocation_kind = ToolInvocationKind
datatype tool_result_kind = ToolResultKind
datatype audit_record_kind = AuditRecordKind
datatype schema_migration_kind = SchemaMigrationKind
datatype output_ref_kind = OutputRefKind
datatype artifact_ref_kind = ArtifactRefKind

type_synonym RepositoryId = "repository_kind opaque_id"
type_synonym JobId = "job_kind_tag opaque_id"
type_synonym JobEventId = "job_event_kind_tag opaque_id"
type_synonym PolicyDecisionId = "policy_decision_kind opaque_id"
type_synonym LockDecisionId = "lock_decision_kind opaque_id"
type_synonym ToolInvocationId = "tool_invocation_kind opaque_id"
type_synonym ToolResultId = "tool_result_kind opaque_id"
type_synonym AuditRecordId = "audit_record_kind opaque_id"
type_synonym SchemaMigrationId = "schema_migration_kind opaque_id"
type_synonym OutputRefId = "output_ref_kind opaque_id"
type_synonym ArtifactRefId = "artifact_ref_kind opaque_id"

record InvalidIdError =
  ie_type_name :: string
  ie_expected_prefix :: string
  ie_value :: string

text \<open>
  \<open>Uuid::parse_str\<close> belongs to the \<open>uuid\<close> crate: \<open>uuid_ok\<close> stands for \<open>parse_str(s).is_ok()\<close>.
  The argument of \<open>opaque_new\<close> is the text of the fresh UUID.
\<close>

definition opaque_new :: "string \<Rightarrow> string \<Rightarrow> 'k opaque_id" where
  "opaque_new pre uuid = OpaqueId (pre @ uuid)"

definition try_from_string ::
    "(string \<Rightarrow> bool) \<Rightarrow> string \<Rightarrow> string \<Rightarrow> string \<Rightarrow> InvalidIdError + 'k opaque_id" where
  "try_from_string uuid_ok type_name pre value =
     (let err = \<lparr>ie_type_name = type_name, ie_expected_prefix = pre, ie_value = value\<rparr>
      in andthen (ok_or (strip_prefix pre value) err) (\<lambda>uuid_part.
         andthen (require (\<not> (uuid_part = [] \<or> \<not> uuid_ok uuid_part)) err) (\<lambda>_.
         Inr (OpaqueId value))))"

definition has_valid_prefix :: "string \<Rightarrow> 'k opaque_id \<Rightarrow> bool" where
  "has_valid_prefix pre i = prefix pre (as_str i)"

text \<open>\<open>{:?}\<close> of an id: the type name and the quoted string.\<close>

definition id_debug :: "string \<Rightarrow> 'k opaque_id \<Rightarrow> fmt_arg" where
  "id_debug type_name i = FCtor type_name [FStr (as_str i)]"

section \<open>Time, actors, references\<close>

text \<open>\<open>LedgerTimestamp\<close>: milliseconds in an \<open>i64\<close>; only compared, never added, except in
  \<open>expires_at\<close> below.\<close>

type_synonym LedgerTimestamp = int

definition ts_debug :: "LedgerTimestamp \<Rightarrow> fmt_arg" where
  "ts_debug t = FCtor ''LedgerTimestamp'' [FInt t]"

datatype Actor =
    User string "string option"
  | Agent string "string option"
  | Extension string
  | System string

record RedactionMarker =
  rd_field_path :: string
  rd_reason :: string
  rd_redacted_at :: LedgerTimestamp

record TruncationMetadata =
  tm_original_bytes :: nat
  tm_retained_bytes :: nat
  tm_reason :: string

record OutputRef =
  or_id :: OutputRefId
  or_uri :: string
  or_media_type :: string
  or_label :: "string option"
  or_digest :: "string option"

record ArtifactRef =
  ar_id :: ArtifactRefId
  ar_uri :: string
  ar_media_type :: string
  ar_label :: "string option"
  ar_digest :: "string option"

section \<open>Repositories\<close>

record PathScope =
  ps_root_path :: string
  ps_allowed_paths :: "string list"

definition PathScope_repository :: "string \<Rightarrow> PathScope" where
  "PathScope_repository root_path = \<lparr>ps_root_path = root_path, ps_allowed_paths = [root_path]\<rparr>"

datatype RepositoryTrustState = Trusted | ReadOnly | Blocked

record RepositoryMetadata =
  rm_observed_at :: LedgerTimestamp
  rm_vcs_kind :: "string option"
  rm_branch :: "string option"
  rm_head_revision :: "string option"

record RepositoryRecord =
  rp_id :: RepositoryId
  rp_schema_version :: nat
  rp_created_at :: LedgerTimestamp
  rp_updated_at :: LedgerTimestamp
  rp_display_name :: string
  rp_root_path :: string
  rp_allowed_path_scope :: PathScope
  rp_trust_state :: RepositoryTrustState
  rp_owner_hint :: "string option"
  rp_last_observed_metadata :: "RepositoryMetadata option"
  rp_redactions :: "RedactionMarker list"

definition DOMAIN_SCHEMA_VERSION :: nat where
  "DOMAIN_SCHEMA_VERSION = 1"

definition RepositoryRecord_new ::
    "string \<Rightarrow> string \<Rightarrow> string \<Rightarrow> RepositoryTrustState \<Rightarrow> LedgerTimestamp \<Rightarrow> RepositoryRecord" where
  "RepositoryRecord_new uuid display_name root_path trust_state created_at =
     \<lparr>rp_id = opaque_new ''repo_'' uuid,
      rp_schema_version = DOMAIN_SCHEMA_VERSION,
      rp_created_at = created_at,
      rp_updated_at = created_at,
      rp_display_name = display_name,
      rp_root_path = root_path,
      rp_allowed_path_scope = PathScope_repository root_path,
      rp_trust_state = trust_state,
      rp_owner_hint = None,
      rp_last_observed_metadata = None,
      rp_redactions = []\<rparr>"

section \<open>Jobs\<close>

datatype JobKind = Read | Mutate | Process | Maintenance | Other string

datatype JobStatus = Queued | Running | Succeeded | Failed | Blocked | Canceled

fun is_terminal :: "JobStatus \<Rightarrow> bool" where
  "is_terminal Queued = False"
| "is_terminal Running = False"
| "is_terminal Succeeded = True"
| "is_terminal Failed = True"
| "is_terminal Blocked = True"
| "is_terminal Canceled = True"

fun can_transition_to :: "JobStatus \<Rightarrow> JobStatus \<Rightarrow> bool" where
  "can_transition_to self next =
     (if self = next then True
      else case self of
             Queued \<Rightarrow> next \<in> {Running, Failed, Blocked, Canceled}
           | Running \<Rightarrow> next \<in> {Succeeded, Failed, Blocked, Canceled}
           | Succeeded \<Rightarrow> False
           | Failed \<Rightarrow> False
           | Blocked \<Rightarrow> False
           | Canceled \<Rightarrow> False)"

declare can_transition_to.simps [simp del]

datatype CancellationState = NotRequested | Requested | CooperativeStop | ForceStop | Completed

datatype RiskTier = R0 | R1 | R2 | R3 | R4

datatype PolicyOutcome = Allowed | Audited | NeedsApproval | Blocked

record PolicySummary =
  su_decision_id :: "PolicyDecisionId option"
  su_outcome :: PolicyOutcome
  su_risk_tier :: RiskTier
  su_reason_code :: string

record JobRecord =
  j_id :: JobId
  j_schema_version :: nat
  j_created_at :: LedgerTimestamp
  j_updated_at :: LedgerTimestamp
  j_started_at :: "LedgerTimestamp option"
  j_completed_at :: "LedgerTimestamp option"
  j_requester :: Actor
  j_repository_id :: RepositoryId
  j_kind :: JobKind
  j_goal :: "string option"
  j_status :: JobStatus
  j_policy_summary :: "PolicySummary option"
  j_cancellation_state :: CancellationState
  j_latest_event_id :: "JobEventId option"
  j_redactions :: "RedactionMarker list"

definition normalize_optional_domain_goal :: "string option \<Rightarrow> string option" where
  "normalize_optional_domain_goal goal =
     Option.bind goal (\<lambda>g. let trimmed = trim g in if trimmed = [] then None else Some trimmed)"

definition JobRecord_new ::
    "string \<Rightarrow> Actor \<Rightarrow> RepositoryId \<Rightarrow> JobKind \<Rightarrow> string option \<Rightarrow> LedgerTimestamp \<Rightarrow> JobRecord" where
  "JobRecord_new uuid requester repository_id kind goal created_at =
     \<lparr>j_id = opaque_new ''job_'' uuid,
      j_schema_version = DOMAIN_SCHEMA_VERSION,
      j_created_at = created_at,
      j_updated_at = created_at,
      j_started_at = None,
      j_completed_at = None,
      j_requester = requester,
      j_repository_id = repository_id,
      j_kind = kind,
      j_goal = normalize_optional_domain_goal goal,
      j_status = Queued,
      j_policy_summary = None,
      j_cancellation_state = NotRequested,
      j_latest_event_id = None,
      j_redactions = []\<rparr>"

datatype JobStatusTransitionError =
    InvalidTransition JobStatus JobStatus
  | NonMonotonicTimestamp LedgerTimestamp LedgerTimestamp

text \<open>The latest of \<open>updated_at\<close> and the lifecycle timestamps that are set.\<close>

definition latest_timestamp :: "JobRecord \<Rightarrow> LedgerTimestamp" where
  "latest_timestamp j =
     (case List.map_filter (\<lambda>t. t) [Some (j_updated_at j), j_started_at j, j_completed_at j] of
        [] \<Rightarrow> j_updated_at j
      | t # ts \<Rightarrow> fold max ts t)"

definition ensure_monotonic_transition_timestamp ::
    "JobRecord \<Rightarrow> LedgerTimestamp \<Rightarrow> JobStatusTransitionError + unit" where
  "ensure_monotonic_transition_timestamp j t =
     (let latest = latest_timestamp j
      in if t < latest then Inl (NonMonotonicTimestamp t latest) else Inr ())"

definition transition_status ::
    "JobRecord \<Rightarrow> JobStatus \<Rightarrow> LedgerTimestamp \<Rightarrow> JobStatusTransitionError + JobRecord" where
  "transition_status j next t =
     andthen (require (can_transition_to (j_status j) next) (InvalidTransition (j_status j) next)) (\<lambda>_.
     andthen (ensure_monotonic_transition_timestamp j t) (\<lambda>_.
     let j1 = j\<lparr>j_status := next, j_updated_at := t\<rparr>;
         j2 = (if next = Running \<and> j_started_at j1 = None then j1\<lparr>j_started_at := Some t\<rparr> else j1);
         j3 = (if is_terminal next \<and> j_completed_at j2 = None then j2\<lparr>j_completed_at := Some t\<rparr> else j2)
     in Inr j3))"

section \<open>Events\<close>

datatype EventSubjectType =
    Repository | Job | PolicyDecision | LockDecision | ToolInvocation | ToolResult | AuditRecord

record EventSubject =
  s_subject_type :: EventSubjectType
  s_subject_id :: string

definition EventSubject_new :: "EventSubjectType \<Rightarrow> string \<Rightarrow> EventSubject" where
  "EventSubject_new ty i = \<lparr>s_subject_type = ty, s_subject_id = i\<rparr>"

definition EventSubject_repository :: "RepositoryId \<Rightarrow> EventSubject" where
  "EventSubject_repository i = EventSubject_new Repository (as_str i)"

definition EventSubject_job :: "JobId \<Rightarrow> EventSubject" where
  "EventSubject_job i = EventSubject_new Job (as_str i)"

definition EventSubject_policy_decision :: "PolicyDecisionId \<Rightarrow> EventSubject" where
  "EventSubject_policy_decision i = EventSubject_new PolicyDecision (as_str i)"

definition EventSubject_lock_decision :: "LockDecisionId \<Rightarrow> EventSubject" where
  "EventSubject_lock_decision i = EventSubject_new LockDecision (as_str i)"

definition EventSubject_tool_invocation :: "ToolInvocationId \<Rightarrow> EventSubject" where
  "EventSubject_tool_invocation i = EventSubject_new ToolInvocation (as_str i)"

definition EventSubject_tool_result :: "ToolResultId \<Rightarrow> EventSubject" where
  "EventSubject_tool_result i = EventSubject_new ToolResult (as_str i)"

definition EventSubject_audit_record :: "AuditRecordId \<Rightarrow> EventSubject" where
  "EventSubject_audit_record i = EventSubject_new AuditRecord (as_str i)"

definition has_valid_subject_id :: "(string \<Rightarrow> bool) \<Rightarrow> EventSubject \<Rightarrow> bool" where
  "has_valid_subject_id uuid_ok s =
     (let i = s_subject_id s in
      case s_subject_type s of
        Repository \<Rightarrow> is_ok (try_from_string uuid_ok ''RepositoryId'' ''repo_'' i :: InvalidIdError + RepositoryId)
      | Job \<Rightarrow> is_ok (try_from_string uuid_ok ''JobId'' ''job_'' i :: InvalidIdError + JobId)
      | PolicyDecision \<Rightarrow> is_ok (try_from_string uuid_ok ''PolicyDecisionId'' ''pol_'' i :: InvalidIdError + PolicyDecisionId)
      | LockDecision \<Rightarrow> is_ok (try_from_string uuid_ok ''LockDecisionId'' ''lock_'' i :: InvalidIdError + LockDecisionId)
      | ToolInvocation \<Rightarrow> is_ok (try_from_string uuid_ok ''ToolInvocationId'' ''tool_'' i :: InvalidIdError + ToolInvocationId)
      | ToolResult \<Rightarrow> is_ok (try_from_string uuid_ok ''ToolResultId'' ''res_'' i :: InvalidIdError + ToolResultId)
      | AuditRecord \<Rightarrow> is_ok (try_from_string uuid_ok ''AuditRecordId'' ''aud_'' i :: InvalidIdError + AuditRecordId))"

datatype EventSeverity = Debug | Info | Warning | Error

datatype ToolResultStatus = Succeeded | Failed | Canceled | TimedOut

datatype JobEventKind =
    JobSubmitted
  | JobStatusChanged JobStatus JobStatus
  | PolicyDecided PolicyOutcome
  | LockHeld
  | LockReleased
  | LockReclaimed
  | ToolInvoked string
  | ToolResultRecorded ToolResultStatus
  | AuditRecorded
  | CancellationRequested
  | RecoveryActionRecorded
  | Message

record EventRefs =
  rf_repository_id :: "RepositoryId option"
  rf_job_id :: "JobId option"
  rf_policy_decision_id :: "PolicyDecisionId option"
  rf_lock_decision_id :: "LockDecisionId option"
  rf_tool_invocation_id :: "ToolInvocationId option"
  rf_tool_result_id :: "ToolResultId option"
  rf_content_type :: "string option"
  rf_audit_record_id :: "AuditRecordId option"
  rf_output_refs :: "OutputRef list"
  rf_artifact_refs :: "ArtifactRef list"

definition EventRefs_default :: EventRefs where
  "EventRefs_default =
     \<lparr>rf_repository_id = None, rf_job_id = None, rf_policy_decision_id = None,
      rf_lock_decision_id = None, rf_tool_invocation_id = None, rf_tool_result_id = None,
      rf_content_type = None, rf_audit_record_id = None, rf_output_refs = [], rf_artifact_refs = []\<rparr>"

record JobEvent =
  e_id :: JobEventId
  e_schema_version :: nat
  e_sequence_number :: nat
  e_created_at :: LedgerTimestamp
  e_subject :: EventSubject
  e_kind :: JobEventKind
  e_severity :: EventSeverity
  e_public_message :: string
  e_refs :: EventRefs
  e_redactions :: "RedactionMarker list"

section \<open>Policy decisions\<close>

record ResourceScope =
  sc_kind :: string
  sc_value :: string

record PolicyDecision =
  p_id :: PolicyDecisionId
  p_schema_version :: nat
  p_created_at :: LedgerTimestamp
  p_requester :: Actor
  p_repository_id :: RepositoryId
  p_requested_capability :: string
  p_resource_scope :: ResourceScope
  p_tool_id :: "string option"
  p_provider_id :: "string option"
  p_declared_effect :: string
  p_current_trust_state :: RepositoryTrustState
  p_approval_available :: bool
  p_policy_version :: string
  p_outcome :: PolicyOutcome
  p_risk_tier :: RiskTier
  p_reason_code :: string
  p_user_reason :: string
  p_approval_request_ref :: "OutputRef option"
  p_audit_ref :: "AuditRecordId option"
  p_redactions :: "RedactionMarker list"

section \<open>Advisory locks\<close>

datatype LockOwner = Job JobId | Process string | System string

datatype LockedScope = Repository | Path string | PathPattern string

datatype LockStatus = Held | Released | Expired | Reclaimed

record LockDecision =
  l_id :: LockDecisionId
  l_schema_version :: nat
  l_created_at :: LedgerTimestamp
  l_updated_at :: LedgerTimestamp
  l_repository_id :: RepositoryId
  l_policy_decision_id :: PolicyDecisionId
  l_owner :: LockOwner
  l_locked_scope :: LockedScope
  l_locked_at :: LedgerTimestamp
  l_expires_at :: LedgerTimestamp
  l_released_at :: "LedgerTimestamp option"
  l_reclaimed_at :: "LedgerTimestamp option"
  l_status :: LockStatus
  l_redactions :: "RedactionMarker list"

datatype LockDecisionCreateError = NonPositiveDuration LedgerTimestamp LedgerTimestamp

definition LockDecision_new ::
    "string \<Rightarrow> RepositoryId \<Rightarrow> PolicyDecisionId \<Rightarrow> LockOwner \<Rightarrow> LockedScope \<Rightarrow> LedgerTimestamp
     \<Rightarrow> LedgerTimestamp \<Rightarrow> LockDecisionCreateError + LockDecision" where
  "LockDecision_new uuid repository_id policy_decision_id owner locked_scope locked_at expires_at =
     (if expires_at \<le> locked_at then Inl (NonPositiveDuration locked_at expires_at)
      else Inr
        \<lparr>l_id = opaque_new ''lock_'' uuid,
         l_schema_version = DOMAIN_SCHEMA_VERSION,
         l_created_at = locked_at,
         l_updated_at = locked_at,
         l_repository_id = repository_id,
         l_policy_decision_id = policy_decision_id,
         l_owner = owner,
         l_locked_scope = locked_scope,
         l_locked_at = locked_at,
         l_expires_at = expires_at,
         l_released_at = None,
         l_reclaimed_at = None,
         l_status = Held,
         l_redactions = []\<rparr>)"

datatype LockReclaimError =
    OwnerMismatch
  | AlreadyReleased
  | NotExpired LedgerTimestamp LedgerTimestamp
  | NonMonotonicTimestamp LedgerTimestamp LedgerTimestamp

definition ensure_monotonic_reclaim_timestamp ::
    "LockDecision \<Rightarrow> LedgerTimestamp \<Rightarrow> LockReclaimError + unit" where
  "ensure_monotonic_reclaim_timestamp l reclaimed_at =
     (if reclaimed_at < l_updated_at l
      then Inl (LockReclaimError.NonMonotonicTimestamp reclaimed_at (l_updated_at l)) else Inr ())"

text \<open>\<open>reclaim\<close> mutates the lock and returns whether it did.\<close>

definition reclaim ::
    "LockDecision \<Rightarrow> LockOwner \<Rightarrow> LedgerTimestamp \<Rightarrow> LockReclaimError + (bool \<times> LockDecision)" where
  "reclaim l owner reclaimed_at =
     (if owner \<noteq> l_owner l then Inl OwnerMismatch
      else case l_status l of
             Reclaimed \<Rightarrow> Inr (False, l)
           | Released \<Rightarrow> Inl AlreadyReleased
           | _ \<Rightarrow>
               andthen (ensure_monotonic_reclaim_timestamp l reclaimed_at) (\<lambda>_.
               if reclaimed_at < l_expires_at l
               then Inl (NotExpired reclaimed_at (l_expires_at l))
               else Inr (True, l\<lparr>l_status := Reclaimed, l_reclaimed_at := Some reclaimed_at,
                                 l_updated_at := reclaimed_at\<rparr>)))"

section \<open>Tool invocations, results, audit records\<close>

record ResolvedPath =
  pt_requested_path :: string
  pt_resolved_path :: string
  pt_display_path :: string

record ToolInvocation =
  t_id :: ToolInvocationId
  t_schema_version :: nat
  t_created_at :: LedgerTimestamp
  t_job_id :: JobId
  t_repository_id :: RepositoryId
  t_policy_decision_id :: PolicyDecisionId
  t_actor :: Actor
  t_tool_id :: string
  t_requested_capability :: string
  t_args_summary :: string
  t_resolved_paths :: "ResolvedPath list"
  t_timeout_millis :: "nat option"
  t_redactions :: "RedactionMarker list"

datatype StructuredValue = Null | Bool bool | Integer int | String string | StringList "string list"

record ToolResultField =
  fd_key :: string
  fd_value :: StructuredValue

record ToolResult =
  r_id :: ToolResultId
  r_schema_version :: nat
  r_created_at :: LedgerTimestamp
  r_invocation_id :: ToolInvocationId
  r_tool_id :: string
  r_status :: ToolResultStatus
  r_schema_ref :: "string option"
  r_fields :: "ToolResultField list"
  r_evidence_refs :: "ArtifactRef list"
  r_output_refs :: "OutputRef list"
  r_truncation :: "TruncationMetadata option"
  r_redactions :: "RedactionMarker list"

record AuditRecord =
  a_id :: AuditRecordId
  a_schema_version :: nat
  a_created_at :: LedgerTimestamp
  a_actor :: Actor
  a_repository_id :: RepositoryId
  a_requested_capability :: string
  a_policy_decision_id :: PolicyDecisionId
  a_tool_invocation_id :: "ToolInvocationId option"
  a_effect_summary :: string
  a_output_refs :: "OutputRef list"
  a_redactions :: "RedactionMarker list"

section \<open>Schema migrations\<close>

datatype SchemaMigrationStatus = Applied | Failed

definition MIGRATION_LOCK_RECORD_NAME :: string where
  "MIGRATION_LOCK_RECORD_NAME = ''migration_lock''"

datatype MigrationLockStatus = Held | Released | Expired

record MigrationLockRecord =
  k_status :: MigrationLockStatus
  k_leader_id :: string
  k_safe :: bool
  k_locked_at :: LedgerTimestamp
  k_timeout_millis :: nat
  k_released_at :: "LedgerTimestamp option"

datatype SchemaMigrationRecordError = NonPositiveTimeout

definition MigrationLockRecord_new ::
    "string \<Rightarrow> bool \<Rightarrow> nat \<Rightarrow> LedgerTimestamp \<Rightarrow> SchemaMigrationRecordError + MigrationLockRecord" where
  "MigrationLockRecord_new leader_id safe timeout_millis locked_at =
     (if timeout_millis = 0 then Inl NonPositiveTimeout
      else Inr \<lparr>k_status = MigrationLockStatus.Held, k_leader_id = leader_id, k_safe = safe,
                k_locked_at = locked_at, k_timeout_millis = timeout_millis, k_released_at = None\<rparr>)"

text \<open>
  The sum of an \<open>i64\<close> and a \<open>u64\<close> fits an \<open>i128\<close>, so the saturating addition of the code never
  saturates; the result is capped at \<open>i64::MAX\<close>.
\<close>

definition lock_expires_at :: "MigrationLockRecord \<Rightarrow> LedgerTimestamp" where
  "lock_expires_at k = min (k_locked_at k + int (k_timeout_millis k)) i64_max"

definition lock_is_active :: "MigrationLockRecord \<Rightarrow> LedgerTimestamp \<Rightarrow> bool" where
  "lock_is_active k t \<longleftrightarrow> k_status k = MigrationLockStatus.Held \<and> lock_expires_at k > t"

definition lock_is_expired :: "MigrationLockRecord \<Rightarrow> LedgerTimestamp \<Rightarrow> bool" where
  "lock_is_expired k t \<longleftrightarrow> lock_expires_at k \<le> t"

record SchemaMigrationRecord =
  m_id :: SchemaMigrationId
  m_schema_version :: nat
  m_created_at :: LedgerTimestamp
  m_updated_at :: LedgerTimestamp
  m_migration_name :: string
  m_migration_version :: nat
  m_status :: SchemaMigrationStatus
  m_leader_id :: "string option"
  m_migration_lock :: "MigrationLockRecord option"
  m_notes :: "string option"
  m_redactions :: "RedactionMarker list"

definition new_migration_lock ::
    "string \<Rightarrow> string \<Rightarrow> LedgerTimestamp \<Rightarrow> bool \<Rightarrow> nat \<Rightarrow> SchemaMigrationRecordError + SchemaMigrationRecord" where
  "new_migration_lock uuid leader_id locked_at safe timeout_millis =
     andthen (MigrationLockRecord_new leader_id safe timeout_millis locked_at) (\<lambda>lock.
     Inr \<lparr>m_id = opaque_new ''mig_'' uuid,
          m_schema_version = DOMAIN_SCHEMA_VERSION,
          m_created_at = locked_at,
          m_updated_at = locked_at,
          m_migration_name = MIGRATION_LOCK_RECORD_NAME,
          m_migration_version = 1,
          m_status = Applied,
          m_leader_id = Some (k_leader_id lock),
          m_migration_lock = Some lock,
          m_notes = None,
          m_redactions = []\<rparr>)"

definition is_migration_lock :: "SchemaMigrationRecord \<Rightarrow> bool" where
  "is_migration_lock m \<longleftrightarrow>
     m_migration_name m = MIGRATION_LOCK_RECORD_NAME \<and> m_migration_lock m \<noteq> None"

section \<open>Ids\<close>

lemma as_str_inject [simp]: "as_str x = as_str y \<longleftrightarrow> x = y"
  by (cases x; cases y) simp

lemma as_str_eq_iff: "as_str x = s \<longleftrightarrow> x = OpaqueId s"
  by (cases x) auto

lemma try_from_string_eq_Inr [simp, ok_simps]:
  "try_from_string ok ty pre s = Inr i \<longleftrightarrow> i = OpaqueId s \<and> (\<exists>u. s = pre @ u \<and> u \<noteq> [] \<and> ok u)"
  by (auto simp: try_from_string_def Let_def)

lemma try_from_string_is_ok [simp]:
  "is_ok (try_from_string ok ty pre s) \<longleftrightarrow> (\<exists>u. s = pre @ u \<and> u \<noteq> [] \<and> ok u)"
  by (auto simp: is_ok_iff)

section \<open>The job status machine\<close>

lemma can_transition_to_refl [simp]: "can_transition_to s s"
  by (simp add: can_transition_to.simps)

lemma can_transition_from_terminal: "is_terminal s \<Longrightarrow> can_transition_to s n \<longleftrightarrow> n = s"
  by (cases s) (auto simp: can_transition_to.simps)

lemma can_transition_to_Queued: "can_transition_to s Queued \<longleftrightarrow> s = Queued"
  by (cases s) (auto simp: can_transition_to.simps)

lemma can_transition_to_Running: "can_transition_to s Running \<longleftrightarrow> s = Queued \<or> s = Running"
  by (cases s) (auto simp: can_transition_to.simps)

lemma can_transition_to_Succeeded:
  "can_transition_to s JobStatus.Succeeded \<longleftrightarrow> s = Running \<or> s = JobStatus.Succeeded"
  by (cases s) (auto simp: can_transition_to.simps)

lemma latest_timestamp_eq:
  "latest_timestamp j =
     max (j_updated_at j) (max (case j_started_at j of None \<Rightarrow> j_updated_at j | Some s \<Rightarrow> s)
                               (case j_completed_at j of None \<Rightarrow> j_updated_at j | Some c \<Rightarrow> c))"
  by (auto simp: latest_timestamp_def List.map_filter_def max_def split: option.splits)

lemma transition_status_eq_Inr:
  "transition_status j n t = Inr j' \<longleftrightarrow>
     can_transition_to (j_status j) n \<and> latest_timestamp j \<le> t \<and>
     j' = j\<lparr>j_status := n, j_updated_at := t,
            j_started_at := (if n = Running \<and> j_started_at j = None then Some t else j_started_at j),
            j_completed_at := (if is_terminal n \<and> j_completed_at j = None then Some t
                               else j_completed_at j)\<rparr>"
  by (auto simp: transition_status_def ensure_monotonic_transition_timestamp_def Let_def)

text \<open>
  The timeline of a job: creation is earliest, the last update latest, the lifecycle
  timestamps lie in between in order, and they are set exactly in the states that call for them.
\<close>

definition job_wf :: "JobRecord \<Rightarrow> bool" where
  "job_wf j \<longleftrightarrow>
     j_created_at j \<le> j_updated_at j \<and>
     (case j_started_at j of None \<Rightarrow> True
      | Some s \<Rightarrow> j_created_at j \<le> s \<and> s \<le> j_updated_at j) \<and>
     (case j_completed_at j of None \<Rightarrow> True
      | Some c \<Rightarrow> j_created_at j \<le> c \<and> c \<le> j_updated_at j \<and>
          (case j_started_at j of None \<Rightarrow> True | Some s \<Rightarrow> s \<le> c)) \<and>
     (is_terminal (j_status j) \<longleftrightarrow> j_completed_at j \<noteq> None) \<and>
     (j_status j = Running \<or> j_status j = JobStatus.Succeeded \<longrightarrow> j_started_at j \<noteq> None) \<and>
     (j_status j = Queued \<longrightarrow> j_started_at j = None)"

lemma job_wf_new: "job_wf (JobRecord_new uuid requester repo kind goal t)"
  by (simp add: job_wf_def JobRecord_new_def)

lemma job_wf_latest: "job_wf j \<Longrightarrow> latest_timestamp j = j_updated_at j"
  by (auto simp: job_wf_def latest_timestamp_eq split: option.splits)

lemma job_wf_transition:
  assumes "job_wf j" "transition_status j n t = Inr j'"
  shows "job_wf j'"
proof (cases "is_terminal (j_status j)")
  case True
  then show ?thesis
    using assms job_wf_latest [OF assms(1)]
    by (auto simp: transition_status_eq_Inr job_wf_def can_transition_from_terminal
        split: option.splits)
next
  case False
  then show ?thesis
    using assms job_wf_latest [OF assms(1)]
    by (cases n; cases "j_status j")
       (auto simp: transition_status_eq_Inr job_wf_def can_transition_to.simps split: option.splits)
qed

text \<open>The states a job reaches from a given one by successful transitions.\<close>

inductive job_reach :: "JobRecord \<Rightarrow> JobRecord \<Rightarrow> bool" for j where
  start: "job_reach j j"
| step: "job_reach j j' \<Longrightarrow> transition_status j' n t = Inr j'' \<Longrightarrow> job_reach j j''"

inductive_cases job_reachE: "job_reach j j'"

lemma job_reach_wf: "job_reach j j' \<Longrightarrow> job_wf j \<Longrightarrow> job_wf j'"
  by (induction rule: job_reach.induct) (auto intro: job_wf_transition)

lemma job_reach_write_once:
  "job_reach j j' \<Longrightarrow>
     (j_started_at j \<noteq> None \<longrightarrow> j_started_at j' = j_started_at j) \<and>
     (j_completed_at j \<noteq> None \<longrightarrow> j_completed_at j' = j_completed_at j) \<and>
     (is_terminal (j_status j) \<longrightarrow> j_status j' = j_status j) \<and>
     j_id j' = j_id j \<and> j_created_at j' = j_created_at j \<and> j_updated_at j \<le> j_updated_at j'"
proof (induction rule: job_reach.induct)
  case start
  then show ?case by simp
next
  case (step j' n t j'')
  then have "j_updated_at j' \<le> t"
    by (simp add: transition_status_eq_Inr latest_timestamp_eq)
  with step show ?case
    by (auto simp: transition_status_eq_Inr can_transition_from_terminal)
qed

section \<open>Advisory locks\<close>

lemma reclaim_eq_Inr:
  "reclaim l owner t = Inr (b, l') \<longleftrightarrow>
     owner = l_owner l \<and>
     (if l_status l = Reclaimed then b = False \<and> l' = l
      else l_status l \<noteq> LockStatus.Released \<and> b = True \<and> l_updated_at l \<le> t \<and> l_expires_at l \<le> t \<and>
           l' = l\<lparr>l_status := Reclaimed, l_reclaimed_at := Some t, l_updated_at := t\<rparr>)"
  by (cases "l_status l")
     (auto simp: reclaim_def ensure_monotonic_reclaim_timestamp_def)

section \<open>Migration locks\<close>

lemma lock_active_not_expired: "lock_is_active k t \<Longrightarrow> \<not> lock_is_expired k t"
  by (simp add: lock_is_active_def lock_is_expired_def)

lemma new_migration_lock_eq_Inr:
  "new_migration_lock uuid leader t safe n = Inr m \<longleftrightarrow>
     n \<noteq> 0 \<and>
     m = \<lparr>m_id = opaque_new ''mig_'' uuid, m_schema_version = 1, m_created_at = t, m_updated_at = t,
          m_migration_name = MIGRATION_LOCK_RECORD_NAME, m_migration_version = 1, m_status = Applied,
          m_leader_id = Some leader,
          m_migration_lock = Some \<lparr>k_status = MigrationLockStatus.Held, k_leader_id = leader,
            k_safe = safe, k_locked_at = t, k_timeout_millis = n, k_released_at = None\<rparr>,
          m_notes = None, m_redactions = []\<rparr>"
  by (auto simp: new_migration_lock_def MigrationLockRecord_new_def DOMAIN_SCHEMA_VERSION_def)

end
