(* ===== verification/Policy.thy ===== *)
theory Policy
  imports Domain
begin

text \<open>
  The policy engine (\<open>atelia-core/src/policy.rs\<close>): the classification of capability names and the
  rule table that turns a request into an outcome, a risk tier and a reason. The contract a
  client of an engine relies on is the locale \<open>policy_engine\<close>; \<open>DefaultPolicyEngine\<close> meets it.
\<close>

section \<open>Inputs\<close>

definition POLICY_SCHEMA_VERSION :: nat where
  "POLICY_SCHEMA_VERSION = 1"

definition DEFAULT_POLICY_VERSION :: string where
  "DEFAULT_POLICY_VERSION = ''policy-default-v1''"

definition REASON_REPOSITORY_BLOCKED :: string where
  "REASON_REPOSITORY_BLOCKED = ''repository_blocked''"

definition SCOPE_KIND_REPOSITORY :: string where
  "SCOPE_KIND_REPOSITORY = ''repository''"

definition SCOPE_VALUE_ROOT :: string where
  "SCOPE_VALUE_ROOT = ''.''"

record PolicyInput =
  pi_requester :: Actor
  pi_repository_id :: RepositoryId
  pi_requested_capability :: string
  pi_resource_scope :: ResourceScope
  pi_tool_id :: "string option"
  pi_provider_id :: "string option"
  pi_declared_effect :: string
  pi_current_trust_state :: RepositoryTrustState
  pi_approval_available :: bool
  pi_policy_version :: string
  pi_registered_scope :: bool
  pi_broad_or_unbounded :: bool

definition PolicyInput_new ::
    "Actor \<Rightarrow> RepositoryId \<Rightarrow> string \<Rightarrow> ResourceScope \<Rightarrow> string \<Rightarrow> RepositoryTrustState \<Rightarrow> bool
     \<Rightarrow> string \<Rightarrow> PolicyInput" where
  "PolicyInput_new requester repository_id requested_capability resource_scope declared_effect
     current_trust_state approval_available policy_version =
     \<lparr>pi_requester = requester,
      pi_repository_id = repository_id,
      pi_requested_capability = requested_capability,
      pi_resource_scope = resource_scope,
      pi_tool_id = None,
      pi_provider_id = None,
      pi_declared_effect = declared_effect,
      pi_current_trust_state = current_trust_state,
      pi_approval_available = approval_available,
      pi_policy_version = policy_version,
      pi_registered_scope = True,
      pi_broad_or_unbounded = False\<rparr>"

definition with_tool_id :: "string \<Rightarrow> PolicyInput \<Rightarrow> PolicyInput" where
  "with_tool_id tool_id i = i\<lparr>pi_tool_id := Some tool_id\<rparr>"

definition with_provider_id :: "string \<Rightarrow> PolicyInput \<Rightarrow> PolicyInput" where
  "with_provider_id provider_id i = i\<lparr>pi_provider_id := Some provider_id\<rparr>"

definition outside_registered_scope :: "PolicyInput \<Rightarrow> PolicyInput" where
  "outside_registered_scope i = i\<lparr>pi_registered_scope := False\<rparr>"

definition broad_or_unbounded :: "PolicyInput \<Rightarrow> PolicyInput" where
  "broad_or_unbounded i = i\<lparr>pi_broad_or_unbounded := True\<rparr>"

section \<open>Capabilities\<close>

datatype Capability =
    Informational | FilesystemRead | FilesystemWrite | ProcessExec | BroadRepositoryMutation
  | DestructiveRepositoryAction | ExternalNetworkOrService | SecretAccess | Unsupported

definition normalize_capability_name :: "string \<Rightarrow> string" where
  "normalize_capability_name name =
     replace_chars [CHR ''_'', CHR ''-'', CHR '':'', CHR ''/''] CHR ''.'' (to_ascii_lowercase (trim name))"

definition from_name :: "string \<Rightarrow> Capability" where
  "from_name name =
     (let normalized = normalize_capability_name name in
      if normalized \<in> set [''informational'', ''status'', ''health'', ''capability.discovery'',
           ''capabilities.list'', ''policy.preview'', ''policy.check''] then Informational
      else if normalized \<in> set [''filesystem.read'', ''filesystem.list'', ''filesystem.search'',
           ''filesystem.stat'', ''filesystem.diff'', ''fs.read'', ''fs.list'', ''fs.search'',
           ''fs.stat'', ''fs.diff''] then FilesystemRead
      else if normalized \<in> set [''filesystem.write'', ''filesystem.patch'', ''filesystem.delete'',
           ''filesystem.move'', ''fs.write'', ''fs.patch'', ''fs.delete'', ''fs.move''] then FilesystemWrite
      else if normalized \<in> set [''process.exec'', ''process.execute'', ''process.run'', ''proc.exec'',
           ''proc.run''] then ProcessExec
      else if normalized \<in> set [''repository.mutate.broad'', ''repo.mutate.broad'',
           ''repository.broad.mutation'', ''repo.broad.mutation''] then BroadRepositoryMutation
      else if normalized \<in> set [''repository.destructive'', ''repo.destructive'', ''repository.delete'',
           ''repo.delete'', ''repository.reset.hard'', ''repo.reset.hard''] then DestructiveRepositoryAction
      else if normalized \<in> set [''network.external'', ''external.network'', ''service.external'',
           ''external.service'', ''network.call'', ''service.call''] then ExternalNetworkOrService
      else if normalized \<in> set [''secret.access'', ''secrets.access'', ''secret.read'',
           ''secrets.read''] then SecretAccess
      else Unsupported)"

fun is_repository_mutating :: "Capability \<Rightarrow> bool" where
  "is_repository_mutating FilesystemWrite = True"
| "is_repository_mutating ProcessExec = True"
| "is_repository_mutating BroadRepositoryMutation = True"
| "is_repository_mutating DestructiveRepositoryAction = True"
| "is_repository_mutating _ = False"

definition canonicalize_job_requested_capability :: "string \<Rightarrow> string option" where
  "canonicalize_job_requested_capability name =
     (case from_name name of Informational \<Rightarrow> Some ''capability.discovery'' | _ \<Rightarrow> None)"

section \<open>The rule table\<close>

record RuleDecision =
  ru_outcome :: PolicyOutcome
  ru_risk_tier :: RiskTier
  ru_reason_code :: string
  ru_user_reason :: string

definition rule_allowed :: "RiskTier \<Rightarrow> string \<Rightarrow> string \<Rightarrow> RuleDecision" where
  "rule_allowed tier reason_code user_reason =
     \<lparr>ru_outcome = Allowed, ru_risk_tier = tier, ru_reason_code = reason_code, ru_user_reason = user_reason\<rparr>"

definition rule_audited :: "RiskTier \<Rightarrow> string \<Rightarrow> string \<Rightarrow> RuleDecision" where
  "rule_audited tier reason_code user_reason =
     \<lparr>ru_outcome = Audited, ru_risk_tier = tier, ru_reason_code = reason_code, ru_user_reason = user_reason\<rparr>"

definition rule_needs_approval :: "RiskTier \<Rightarrow> string \<Rightarrow> string \<Rightarrow> RuleDecision" where
  "rule_needs_approval tier reason_code user_reason =
     \<lparr>ru_outcome = NeedsApproval, ru_risk_tier = tier, ru_reason_code = reason_code, ru_user_reason = user_reason\<rparr>"

definition rule_blocked :: "RiskTier \<Rightarrow> string \<Rightarrow> string \<Rightarrow> RuleDecision" where
  "rule_blocked tier reason_code user_reason =
     \<lparr>ru_outcome = PolicyOutcome.Blocked, ru_risk_tier = tier, ru_reason_code = reason_code,
      ru_user_reason = user_reason\<rparr>"

definition evaluate_rule :: "PolicyInput \<Rightarrow> RuleDecision" where
  "evaluate_rule i =
     (let capability = from_name (pi_requested_capability i) in
      if pi_current_trust_state i = RepositoryTrustState.Blocked then
        rule_blocked R4 REASON_REPOSITORY_BLOCKED
          ''The repository is blocked by policy, so the requested action cannot run.''
      else if \<not> pi_registered_scope i then
        rule_blocked R4 ''outside_registered_scope''
          ''The requested resource is outside the registered repository scope.''
      else if is_repository_mutating capability \<and> pi_current_trust_state i = ReadOnly then
        rule_blocked R4 ''repository_read_only''
          ''The repository is read-only, so repository-mutating actions cannot run.''
      else case capability of
        Informational \<Rightarrow>
          rule_allowed R0 ''informational_allowed''
            ''Informational status or capability discovery is allowed.''
      | FilesystemRead \<Rightarrow>
          (if pi_current_trust_state i = ReadOnly then
             rule_audited R1 ''bounded_read_audited_read_only''
               ''Bounded filesystem read is allowed in a read-only repository with audit evidence.''
           else
             rule_allowed R1 ''bounded_read_allowed''
               ''Bounded filesystem read is allowed inside the registered repository scope.'')
      | FilesystemWrite \<Rightarrow>
          (if pi_broad_or_unbounded i then
             rule_needs_approval R3 ''filesystem_write_broad_or_unbounded_needs_approval''
               ''Broad or unbounded filesystem write needs approval before it can run.''
           else
             rule_audited R2 ''bounded_write_audited''
               ''Filesystem modifications inside the registered repository scope require audit evidence.'')
      | ProcessExec \<Rightarrow>
          (if pi_broad_or_unbounded i then
             rule_needs_approval R3 ''process_broad_or_unbounded_needs_approval''
               ''Process execution is broad or unbounded and needs approval before it can run.''
           else
             rule_audited R2 ''bounded_process_audited''
               ''Process execution with explicit argv, cwd, timeout, and env allowlist requires audit evidence.'')
      | BroadRepositoryMutation \<Rightarrow>
          rule_needs_approval R3 ''broad_repository_mutation_needs_approval''
            ''Broad repository mutation needs approval before it can run.''
      | DestructiveRepositoryAction \<Rightarrow>
          rule_blocked R4 ''destructive_repository_action_blocked''
            ''Destructive repository actions are blocked until explicit policy support exists.''
      | ExternalNetworkOrService \<Rightarrow>
          rule_needs_approval R3 ''external_network_or_service_needs_approval''
            ''External network or service access needs approval before it can run.''
      | SecretAccess \<Rightarrow>
          rule_needs_approval R3 ''secret_access_needs_approval''
            ''Secret access needs approval before it can run.''
      | Unsupported \<Rightarrow>
          rule_blocked R4 ''unsupported_capability_blocked''
            ''The requested capability is not supported by the default policy.'')"

text \<open>\<open>DefaultPolicyEngine::evaluate\<close>; the UUID and the time of the decision are arguments.\<close>

definition evaluate :: "string \<Rightarrow> LedgerTimestamp \<Rightarrow> PolicyInput \<Rightarrow> PolicyDecision" where
  "evaluate uuid now i =
     (let rule = evaluate_rule i in
      \<lparr>p_id = opaque_new ''pol_'' uuid,
       p_schema_version = POLICY_SCHEMA_VERSION,
       p_created_at = now,
       p_requester = pi_requester i,
       p_repository_id = pi_repository_id i,
       p_requested_capability = pi_requested_capability i,
       p_resource_scope = pi_resource_scope i,
       p_tool_id = pi_tool_id i,
       p_provider_id = pi_provider_id i,
       p_declared_effect = pi_declared_effect i,
       p_current_trust_state = pi_current_trust_state i,
       p_approval_available = pi_approval_available i,
       p_policy_version = pi_policy_version i,
       p_outcome = ru_outcome rule,
       p_risk_tier = ru_risk_tier rule,
       p_reason_code = ru_reason_code rule,
       p_user_reason = ru_user_reason rule,
       p_approval_request_ref = None,
       p_audit_ref = None,
       p_redactions = []\<rparr>)"

section \<open>The engine's contract\<close>

text \<open>
  What a client of a policy engine relies on: the decision carries the fresh id and the request
  it was made for, and an engine never lets an action through on a blocked repository.
\<close>

locale policy_engine =
  fixes eval :: "string \<Rightarrow> LedgerTimestamp \<Rightarrow> PolicyInput \<Rightarrow> PolicyDecision"
  assumes eval_id: "p_id (eval uuid now i) = opaque_new ''pol_'' uuid"
    and eval_repository: "p_repository_id (eval uuid now i) = pi_repository_id i"
    and eval_trust: "p_current_trust_state (eval uuid now i) = pi_current_trust_state i"
    and eval_blocked:
      "pi_current_trust_state i = RepositoryTrustState.Blocked \<Longrightarrow>
         p_outcome (eval uuid now i) = PolicyOutcome.Blocked"
begin

text \<open>An action may run when its outcome is \<open>Allowed\<close> or \<open>Audited\<close>.\<close>

lemma runs_not_blocked:
  "p_outcome (eval uuid now i) \<in> {Allowed, Audited} \<Longrightarrow>
     p_current_trust_state (eval uuid now i) \<noteq> RepositoryTrustState.Blocked"
  using eval_blocked eval_trust by auto

end

lemmas rule_defs = rule_allowed_def rule_audited_def rule_needs_approval_def rule_blocked_def

interpretation default_engine: policy_engine evaluate
  by unfold_locales (simp_all add: evaluate_def evaluate_rule_def rule_defs Let_def)

section \<open>Properties of the rule table\<close>

fun strictness :: "PolicyOutcome \<Rightarrow> nat" where
  "strictness Allowed = 0"
| "strictness Audited = 1"
| "strictness NeedsApproval = 2"
| "strictness PolicyOutcome.Blocked = 3"

fun distrust :: "RepositoryTrustState \<Rightarrow> nat" where
  "distrust Trusted = 0"
| "distrust ReadOnly = 1"
| "distrust RepositoryTrustState.Blocked = 2"

lemma evaluate_rule_monotone:
  assumes "pi_requested_capability i = pi_requested_capability i'"
    and "distrust (pi_current_trust_state i) \<le> distrust (pi_current_trust_state i')"
    and "pi_registered_scope i' \<longrightarrow> pi_registered_scope i"
    and "pi_broad_or_unbounded i \<longrightarrow> pi_broad_or_unbounded i'"
  shows "strictness (ru_outcome (evaluate_rule i)) \<le> strictness (ru_outcome (evaluate_rule i'))"
  using assms
  by (cases "from_name (pi_requested_capability i')";
      cases "pi_current_trust_state i"; cases "pi_current_trust_state i'")
     (auto simp: evaluate_rule_def rule_defs Let_def)

lemma evaluate_rule_tier:
  "ru_risk_tier (evaluate_rule i) = R4 \<longleftrightarrow> ru_outcome (evaluate_rule i) = PolicyOutcome.Blocked"
  "ru_risk_tier (evaluate_rule i) = R3 \<longleftrightarrow> ru_outcome (evaluate_rule i) = NeedsApproval"
  "ru_risk_tier (evaluate_rule i) = R2 \<longrightarrow> ru_outcome (evaluate_rule i) = Audited"
  "ru_risk_tier (evaluate_rule i) = R1 \<longrightarrow> ru_outcome (evaluate_rule i) \<in> {Allowed, Audited}"
  "ru_risk_tier (evaluate_rule i) = R0 \<longrightarrow> ru_outcome (evaluate_rule i) = Allowed"
  by (cases "from_name (pi_requested_capability i)";
      simp add: evaluate_rule_def rule_defs Let_def)+

lemma evaluate_rule_runs:
  "ru_outcome (evaluate_rule i) \<in> {Allowed, Audited} \<longleftrightarrow>
     pi_current_trust_state i \<noteq> RepositoryTrustState.Blocked \<and> pi_registered_scope i \<and>
     (from_name (pi_requested_capability i) \<in> {Informational, FilesystemRead} \<or>
      from_name (pi_requested_capability i) \<in> {FilesystemWrite, ProcessExec} \<and>
        pi_current_trust_state i = Trusted \<and> \<not> pi_broad_or_unbounded i)"
  by (cases "from_name (pi_requested_capability i)"; cases "pi_current_trust_state i")
     (auto simp: evaluate_rule_def rule_defs Let_def)

lemma from_name_trim [simp]: "from_name (trim name) = from_name name"
  by (simp add: from_name_def normalize_capability_name_def)

lemma ascii_lower_idem [simp]: "ascii_lower (ascii_lower c) = ascii_lower c"
  by (cases c rule: char.exhaust) (auto simp: ascii_lower_def less_eq_char_def)

end
