(* ===== verification/Ledger.thy ===== *)
theory Ledger
  imports Policy
begin

text \<open>
  The state of the ledger (\<open>atelia-core/src/store.rs\<close>, \<open>InMemoryInner\<close>), its errors, and the
  checks on single records: repositories, schema migrations, advisory locks, tool invocations,
  tool results and audit records. A check returns \<open>Inr ()\<close> or the error the code returns, with
  the message kept as its format string and arguments.
\<close>

section \<open>Errors\<close>

datatype StoreError =
    NotFound string message
  | DuplicateId string message
  | Conflict string message
  | InvalidReference string message
  | InvalidCursor message
  | CursorExpired message
  | SequenceOverflow
  | InvalidRecord string message

type_synonym 'a StoreResult = "StoreError + 'a"

text \<open>The \<open>Debug\<close> texts that appear as arguments of messages.\<close>

definition str_debug :: "string \<Rightarrow> fmt_arg" where
  "str_debug s = FCtor ''str'' [FStr s]"

fun actor_debug :: "Actor \<Rightarrow> fmt_arg" where
  "actor_debug (User i n) = FCtor ''User'' [str_debug i, FOpt str_debug n]"
| "actor_debug (Agent i n) = FCtor ''Agent'' [str_debug i, FOpt str_debug n]"
| "actor_debug (Extension i) = FCtor ''Extension'' [str_debug i]"
| "actor_debug (Actor.System i) = FCtor ''System'' [str_debug i]"

fun job_kind_debug :: "JobKind \<Rightarrow> fmt_arg" where
  "job_kind_debug Read = FCtor ''Read'' []"
| "job_kind_debug Mutate = FCtor ''Mutate'' []"
| "job_kind_debug JobKind.Process = FCtor ''Process'' []"
| "job_kind_debug Maintenance = FCtor ''Maintenance'' []"
| "job_kind_debug (Other s) = FCtor ''Other'' [str_debug s]"

fun job_status_debug :: "JobStatus \<Rightarrow> fmt_arg" where
  "job_status_debug Queued = FCtor ''Queued'' []"
| "job_status_debug Running = FCtor ''Running'' []"
| "job_status_debug JobStatus.Succeeded = FCtor ''Succeeded'' []"
| "job_status_debug JobStatus.Failed = FCtor ''Failed'' []"
| "job_status_debug JobStatus.Blocked = FCtor ''Blocked'' []"
| "job_status_debug JobStatus.Canceled = FCtor ''Canceled'' []"

fun cancellation_debug :: "CancellationState \<Rightarrow> fmt_arg" where
  "cancellation_debug NotRequested = FCtor ''NotRequested'' []"
| "cancellation_debug Requested = FCtor ''Requested'' []"
| "cancellation_debug CooperativeStop = FCtor ''CooperativeStop'' []"
| "cancellation_debug ForceStop = FCtor ''ForceStop'' []"
| "cancellation_debug Completed = FCtor ''Completed'' []"

fun transition_error_debug :: "JobStatusTransitionError \<Rightarrow> fmt_arg" where
  "transition_error_debug (InvalidTransition a b) =
     FCtor ''InvalidTransition'' [job_status_debug a, job_status_debug b]"
| "transition_error_debug (JobStatusTransitionError.NonMonotonicTimestamp a b) =
     FCtor ''NonMonotonicTimestamp'' [ts_debug a, ts_debug b]"

fun subject_type_debug :: "EventSubjectType \<Rightarrow> fmt_arg" where
  "subject_type_debug EventSubjectType.Repository = FCtor ''Repository'' []"
| "subject_type_debug EventSubjectType.Job = FCtor ''Job'' []"
| "subject_type_debug PolicyDecision = FCtor ''PolicyDecision'' []"
| "subject_type_debug LockDecision = FCtor ''LockDecision'' []"
| "subject_type_debug ToolInvocation = FCtor ''ToolInvocation'' []"
| "subject_type_debug ToolResult = FCtor ''ToolResult'' []"
| "subject_type_debug AuditRecord = FCtor ''AuditRecord'' []"

fun lock_status_debug :: "LockStatus \<Rightarrow> string" where
  "lock_status_debug LockStatus.Held = ''Held''"
| "lock_status_debug LockStatus.Released = ''Released''"
| "lock_status_debug LockStatus.Expired = ''Expired''"
| "lock_status_debug Reclaimed = ''Reclaimed''"

fun locked_scope_debug :: "LockedScope \<Rightarrow> fmt_arg" where
  "locked_scope_debug LockedScope.Repository = FCtor ''Repository'' []"
| "locked_scope_debug (Path s) = FCtor ''Path'' [str_debug s]"
| "locked_scope_debug (PathPattern s) = FCtor ''PathPattern'' [str_debug s]"

section \<open>State\<close>

datatype OutputFormat = Toon | Json | Text

record RenderedToolOutput =
  ro_format :: OutputFormat
  ro_schema_version :: string
  ro_body :: string
  ro_fallback_reason :: "string option"
  ro_truncation :: "TruncationMetadata option"

record RuntimeJobReceipt =
  rc_job :: JobRecord
  rc_policy_decision :: PolicyDecision
  rc_tool_invocation :: "ToolInvocation option"
  rc_tool_result :: "ToolResult option"
  rc_rendered_output :: "RenderedToolOutput option"
  rc_audit_record :: "AuditRecord option"
  rc_events :: "JobEvent list"

record SubmitJobIdempotencyRecord =
  sj_signature :: string
  sj_receipt :: RuntimeJobReceipt

text \<open>The type of the extension registry's snapshot is the parameter \<open>'x\<close>.\<close>

record 'x InMemoryInner =
  repositories :: "(RepositoryId, RepositoryRecord) hmap"
  jobs :: "(JobId, JobRecord) bmap"
  job_events_by_id :: "(JobEventId, JobEvent) hmap"
  job_events_by_sequence :: "(nat, JobEventId) bmap"
  next_event_sequence :: nat
  policy_decisions :: "(PolicyDecisionId, PolicyDecision) hmap"
  lock_decisions :: "(LockDecisionId, LockDecision) hmap"
  schema_migrations :: "(SchemaMigrationId, SchemaMigrationRecord) hmap"
  tool_invocations :: "(ToolInvocationId, ToolInvocation) hmap"
  tool_results :: "(ToolResultId, ToolResult) hmap"
  audit_records :: "(AuditRecordId, AuditRecord) hmap"
  idempotent_submit_jobs :: "(string, SubmitJobIdempotencyRecord) hmap"
  extension_registry_snapshot :: 'x

definition InMemoryInner_default :: "'x \<Rightarrow> 'x InMemoryInner" where
  "InMemoryInner_default x =
     \<lparr>repositories = [], jobs = [], job_events_by_id = [], job_events_by_sequence = [],
      next_event_sequence = 0, policy_decisions = [], lock_decisions = [], schema_migrations = [],
      tool_invocations = [], tool_results = [], audit_records = [], idempotent_submit_jobs = [],
      extension_registry_snapshot = x\<rparr>"

section \<open>References\<close>

definition insert_record ::
    "('k, 'v) hmap \<Rightarrow> 'k \<Rightarrow> 'v \<Rightarrow> string \<Rightarrow> fmt_arg \<Rightarrow> ('k, 'v) hmap StoreResult" where
  "insert_record m k v collection_name id_text =
     andthen (require (\<not> contains_key m k) (DuplicateId collection_name (Msg ''{}'' [id_text]))) (\<lambda>_.
     Inr (hm_insert k v m))"

definition get_record :: "('k, 'v) hmap \<Rightarrow> 'k \<Rightarrow> string \<Rightarrow> fmt_arg \<Rightarrow> 'v StoreResult" where
  "get_record m k collection_name id_text =
     ok_or (hm_get m k) (NotFound collection_name (Msg ''{}'' [id_text]))"

definition get_record_btree :: "('k, 'v) bmap \<Rightarrow> 'k \<Rightarrow> string \<Rightarrow> fmt_arg \<Rightarrow> 'v StoreResult" where
  "get_record_btree m k collection_name id_text =
     ok_or (bt_get m k) (NotFound collection_name (Msg ''{}'' [id_text]))"

definition list_records :: "('k, 'v) hmap \<Rightarrow> 'v list" where
  "list_records m = hm_values m"

definition list_records_btree :: "('k, 'v) bmap \<Rightarrow> 'v list" where
  "list_records_btree m = bt_values m"

definition ensure_same_repository ::
    "string \<Rightarrow> string \<Rightarrow> RepositoryId \<Rightarrow> RepositoryId \<Rightarrow> unit StoreResult" where
  "ensure_same_repository collection ctxt expected actual =
     (if actual = expected then Inr ()
      else Inl (InvalidReference collection (Msg ''{context} belongs to repository {}, not {}''
             [FStr ctxt, id_debug ''RepositoryId'' actual, id_debug ''RepositoryId'' expected])))"

definition ensure_ref_exists :: "bool \<Rightarrow> string \<Rightarrow> fmt_arg \<Rightarrow> string \<Rightarrow> unit StoreResult" where
  "ensure_ref_exists exist collection id_text ctxt =
     (if exist then Inr () else Inl (NotFound collection (Msg ''{} ({context})'' [id_text, FStr ctxt])))"

definition ensure_ref_absent :: "bool \<Rightarrow> string \<Rightarrow> fmt_arg \<Rightarrow> unit StoreResult" where
  "ensure_ref_absent absent collection id_text =
     (if absent then Inr () else Inl (DuplicateId collection (Msg ''{}'' [id_text])))"

lemma insert_record_eq_Inr [simp, ok_simps]:
  "insert_record m k v c i = Inr m' \<longleftrightarrow> hm_get m k = None \<and> m' = hm_insert k v m"
  by (auto simp: insert_record_def)

lemma get_record_eq_Inr [simp, ok_simps]: "get_record m k c i = Inr v \<longleftrightarrow> hm_get m k = Some v"
  and get_record_btree_eq_Inr [simp, ok_simps]: "get_record_btree m k c i = Inr v \<longleftrightarrow> hm_get m k = Some v"
  by (simp_all add: get_record_def get_record_btree_def)

lemma ensure_same_repository_eq_Inr [simp, ok_simps]:
  "ensure_same_repository c t e a = Inr u \<longleftrightarrow> a = e"
  by (simp add: ensure_same_repository_def)

lemma ensure_ref_exists_eq_Inr [simp, ok_simps]: "ensure_ref_exists b c i t = Inr u \<longleftrightarrow> b"
  by (simp add: ensure_ref_exists_def)

lemma ensure_ref_absent_eq_Inr [simp, ok_simps]: "ensure_ref_absent b c i = Inr u \<longleftrightarrow> b"
  by (simp add: ensure_ref_absent_def)

section \<open>Paths\<close>

text \<open>
  \<open>Path::components\<close> on Unix: repeated separators and interior \<open>.\<close> are skipped, a leading \<open>.\<close>
  and every \<open>..\<close> are kept. \<open>==\<close> and \<open>starts_with\<close> compare components.
\<close>

datatype PathComponent = RootDir | CurDir | ParentDir | Normal string

fun split_on :: "char \<Rightarrow> string \<Rightarrow> string list" where
  "split_on d [] = [[]]"
| "split_on d (c # cs) =
     (if c = d then [] # split_on d cs
      else case split_on d cs of [] \<Rightarrow> [[c]] | p # ps \<Rightarrow> (c # p) # ps)"

definition path_component :: "string \<Rightarrow> PathComponent" where
  "path_component p = (if p = ''..'' then ParentDir else Normal p)"

definition components :: "string \<Rightarrow> PathComponent list" where
  "components s =
     (let pieces = split_on CHR ''/'' s;
          body = map path_component (filter (\<lambda>p. p \<noteq> [] \<and> p \<noteq> ''.'') pieces)
      in if prefix ''/'' s then RootDir # body
         else if hd pieces = ''.'' then CurDir # body
         else body)"

definition path_starts_with :: "string \<Rightarrow> string \<Rightarrow> bool" where
  "path_starts_with p base = prefix (components base) (components p)"

definition repository_roots_strictly_overlap :: "string \<Rightarrow> string \<Rightarrow> bool" where
  "repository_roots_strictly_overlap candidate_root blocked_root \<longleftrightarrow>
     components candidate_root \<noteq> components blocked_root \<and>
     (path_starts_with candidate_root blocked_root \<or> path_starts_with blocked_root candidate_root)"

lemma roots_overlap_sym:
  "repository_roots_strictly_overlap a b \<longleftrightarrow> repository_roots_strictly_overlap b a"
  by (auto simp: repository_roots_strictly_overlap_def)

lemma roots_overlap_irrefl [simp]: "\<not> repository_roots_strictly_overlap a a"
  by (simp add: repository_roots_strictly_overlap_def)

section \<open>Repositories and policy decisions\<close>

definition validate_repository_record :: "RepositoryRecord \<Rightarrow> unit StoreResult" where
  "validate_repository_record r =
     andthen (require (trim (rp_display_name r) \<noteq> [])
       (InvalidRecord ''repositories'' (Msg ''display_name must not be empty'' []))) (\<lambda>_.
     andthen (require (trim (rp_root_path r) \<noteq> [])
       (InvalidRecord ''repositories'' (Msg ''root_path must not be empty'' []))) (\<lambda>_.
     andthen (require (ps_root_path (rp_allowed_path_scope r) = rp_root_path r)
       (InvalidRecord ''repositories''
         (Msg ''allowed_path_scope.root_path must match repository root_path'' []))) (\<lambda>_.
     andthen (require (ps_allowed_paths (rp_allowed_path_scope r) \<noteq> [])
       (InvalidRecord ''repositories''
         (Msg ''allowed_path_scope must include at least one path'' []))) (\<lambda>_.
     Inr ()))))"

definition is_root_scoped_repository_block :: "PolicyDecision \<Rightarrow> bool" where
  "is_root_scoped_repository_block d \<longleftrightarrow>
     p_outcome d = PolicyOutcome.Blocked \<and>
     trim (p_reason_code d) = REASON_REPOSITORY_BLOCKED \<and>
     trim (sc_kind (p_resource_scope d)) = SCOPE_KIND_REPOSITORY \<and>
     trim (sc_value (p_resource_scope d)) = SCOPE_VALUE_ROOT"

definition missing_policy_repository :: "PolicyDecision \<Rightarrow> StoreError" where
  "missing_policy_repository d =
     InvalidReference ''policy_decisions'' (Msg ''policy decision {} references missing repository {}''
       [id_debug ''PolicyDecisionId'' (p_id d), id_debug ''RepositoryId'' (p_repository_id d)])"

fun blocked_policy_scan ::
    "(RepositoryId, RepositoryRecord) hmap \<Rightarrow> string \<Rightarrow> PolicyDecision list
     \<Rightarrow> (PolicyDecision \<times> string) option StoreResult" where
  "blocked_policy_scan repos root_path [] = Inr None"
| "blocked_policy_scan repos root_path (d # ds) =
     (if \<not> is_root_scoped_repository_block d then blocked_policy_scan repos root_path ds
      else
        andthen (ok_or (hm_get repos (p_repository_id d)) (missing_policy_repository d)) (\<lambda>r.
        if repository_roots_strictly_overlap root_path (rp_root_path r)
        then Inr (Some (d, rp_root_path r))
        else blocked_policy_scan repos root_path ds))"

definition root_scoped_blocked_policy_overlapping_repository ::
    "'x InMemoryInner \<Rightarrow> string \<Rightarrow> (PolicyDecision \<times> string) option StoreResult" where
  "root_scoped_blocked_policy_overlapping_repository s root_path =
     blocked_policy_scan (repositories s) root_path (hm_values (policy_decisions s))"

lemma blocked_policy_scan_None:
  "blocked_policy_scan repos root ds = Inr None \<longleftrightarrow>
     (\<forall>d \<in> set ds. is_root_scoped_repository_block d \<longrightarrow>
        (\<exists>r. hm_get repos (p_repository_id d) = Some r \<and>
             \<not> repository_roots_strictly_overlap root (rp_root_path r)))"
  by (induction ds) auto

section \<open>Schema migrations\<close>

definition invalid_migration :: "string \<Rightarrow> StoreError" where
  "invalid_migration reason = InvalidRecord ''schema_migrations'' (Msg reason [])"

definition validate_schema_migration_record :: "SchemaMigrationRecord \<Rightarrow> unit StoreResult" where
  "validate_schema_migration_record m =
     andthen (require (trim (m_migration_name m) \<noteq> [])
       (invalid_migration ''migration_name must not be empty'')) (\<lambda>_.
     andthen (case m_leader_id m of
         None \<Rightarrow> Inr ()
       | Some leader_id \<Rightarrow>
           require (trim leader_id \<noteq> []) (invalid_migration ''leader_id must not be blank'')) (\<lambda>_.
     andthen (require (\<not> m_updated_at m < m_created_at m)
       (invalid_migration ''updated_at must not be earlier than created_at'')) (\<lambda>_.
     if m_migration_name m = MIGRATION_LOCK_RECORD_NAME then
       andthen (ok_or (m_leader_id m)
         (invalid_migration ''migration_lock records require leader_id'')) (\<lambda>top_level_leader_id.
       andthen (ok_or (m_migration_lock m)
         (invalid_migration ''migration_lock record requires migration_lock metadata'')) (\<lambda>lock.
       andthen (require (k_timeout_millis lock \<noteq> 0)
         (invalid_migration ''schema migration lock timeout_millis must be greater than zero'')) (\<lambda>_.
       andthen (require (trim (k_leader_id lock) \<noteq> [])
         (invalid_migration ''schema migration lock leader_id must not be blank'')) (\<lambda>_.
       andthen (require (top_level_leader_id = k_leader_id lock)
         (invalid_migration ''migration_lock record leader_id must match migration_lock.leader_id'')) (\<lambda>_.
       andthen (require (m_created_at m = k_locked_at lock)
         (invalid_migration ''lock held record created_at must equal locked_at'')) (\<lambda>_.
       if k_status lock = MigrationLockStatus.Held then
         require (k_released_at lock = None)
           (invalid_migration ''lock held records cannot have released_at'')
       else case k_released_at lock of
         Some released_at \<Rightarrow>
           andthen (require (\<not> released_at < m_created_at m)
             (invalid_migration ''lock released_at must not be earlier than created_at'')) (\<lambda>_.
           require (\<not> m_updated_at m < released_at)
             (invalid_migration ''lock updated_at must not be earlier than released_at''))
       | None \<Rightarrow> Inl (invalid_migration ''lock released/expired records require released_at'')))))))
     else
       require (m_migration_lock m = None)
         (invalid_migration ''non-lock migration records cannot include migration_lock metadata''))))"

section \<open>Advisory locks\<close>

definition is_active_lock_status :: "LockStatus \<Rightarrow> bool" where
  "is_active_lock_status status \<longleftrightarrow>
     lock_status_debug status \<in> set [''Held'', ''Active'', ''held'', ''active'']"

lemma is_active_lock_status_iff [simp]: "is_active_lock_status st \<longleftrightarrow> st = LockStatus.Held"
  by (cases st) (simp_all add: is_active_lock_status_def)

definition invalid_lock :: "string \<Rightarrow> StoreError" where
  "invalid_lock reason = InvalidRecord ''lock_decisions'' (Msg reason [])"

definition validate_lock_decision_timing :: "LockDecision \<Rightarrow> unit StoreResult" where
  "validate_lock_decision_timing l =
     andthen (require (\<not> l_expires_at l \<le> l_locked_at l)
       (invalid_lock ''expires_at must be later than locked_at'')) (\<lambda>_.
     andthen (require (l_created_at l = l_locked_at l)
       (invalid_lock ''created_at must equal locked_at'')) (\<lambda>_.
     andthen (require (\<not> l_updated_at l < l_locked_at l)
       (invalid_lock ''updated_at must not be earlier than locked_at'')) (\<lambda>_.
     andthen (require (\<not> (l_released_at l \<noteq> None \<and> l_reclaimed_at l \<noteq> None))
       (invalid_lock ''released_at and reclaimed_at are mutually exclusive'')) (\<lambda>_.
     if l_status l = LockStatus.Held \<or> l_status l = LockStatus.Expired then
       require (\<not> (l_released_at l \<noteq> None \<or> l_reclaimed_at l \<noteq> None))
         (invalid_lock ''active or expired locks must not have terminal timestamps'')
     else if l_status l = LockStatus.Released then
       andthen (ok_or (l_released_at l) (invalid_lock ''released locks require released_at'')) (\<lambda>released_at.
       require (\<not> (released_at < l_locked_at l \<or> l_updated_at l < released_at))
         (invalid_lock ''released_at must be monotonic with lock timestamps''))
     else
       andthen (ok_or (l_reclaimed_at l) (invalid_lock ''reclaimed locks require reclaimed_at'')) (\<lambda>reclaimed_at.
       require (\<not> (reclaimed_at < l_expires_at l \<or> l_updated_at l < reclaimed_at))
         (invalid_lock ''reclaimed_at must be at or after expires_at and updated_at''))))))"

section \<open>Tool records\<close>

definition validate_job_refs :: "'x InMemoryInner \<Rightarrow> JobRecord \<Rightarrow> unit StoreResult" where
  "validate_job_refs s j =
     ensure_ref_exists (contains_key (repositories s) (j_repository_id j)) ''repositories''
       (id_debug ''RepositoryId'' (j_repository_id j)) ''job.repository_id''"

definition validate_tool_invocation_refs ::
    "'x InMemoryInner \<Rightarrow> ToolInvocation \<Rightarrow> unit StoreResult" where
  "validate_tool_invocation_refs s t =
     andthen (ok_or (bt_get (jobs s) (t_job_id t))
       (NotFound ''jobs'' (Msg ''{} (tool_invocation.job_id)'' [id_debug ''JobId'' (t_job_id t)]))) (\<lambda>job.
     andthen (ensure_ref_exists (contains_key (repositories s) (t_repository_id t)) ''repositories''
       (id_debug ''RepositoryId'' (t_repository_id t)) ''tool_invocation.repository_id'') (\<lambda>_.
     andthen (ensure_same_repository ''tool_invocations'' ''tool_invocation.job_id''
       (t_repository_id t) (j_repository_id job)) (\<lambda>_.
     andthen (ok_or (hm_get (policy_decisions s) (t_policy_decision_id t))
       (NotFound ''policy_decisions'' (Msg ''{} (tool_invocation.policy_decision_id)''
         [id_debug ''PolicyDecisionId'' (t_policy_decision_id t)]))) (\<lambda>policy_decision.
     ensure_same_repository ''tool_invocations'' ''tool_invocation.policy_decision_id''
       (t_repository_id t) (p_repository_id policy_decision)))))"

definition tool_result_invocation_missing :: "ToolResult \<Rightarrow> StoreError" where
  "tool_result_invocation_missing r =
     NotFound ''tool_invocations'' (Msg ''{} (tool_result.invocation_id)''
       [id_debug ''ToolInvocationId'' (r_invocation_id r)])"

definition tool_result_tool_mismatch :: "ToolResult \<Rightarrow> ToolInvocation \<Rightarrow> StoreError" where
  "tool_result_tool_mismatch r t =
     InvalidReference ''tool_results''
       (Msg ''tool_result.tool_id {} does not match invocation tool_id {}''
         [FStr (r_tool_id r), FStr (t_tool_id t)])"

definition validate_tool_result_refs :: "'x InMemoryInner \<Rightarrow> ToolResult \<Rightarrow> unit StoreResult" where
  "validate_tool_result_refs s r =
     andthen (ok_or (hm_get (tool_invocations s) (r_invocation_id r))
       (tool_result_invocation_missing r)) (\<lambda>invocation.
     andthen (require (t_tool_id invocation = r_tool_id r) (tool_result_tool_mismatch r invocation)) (\<lambda>_.
     require (\<not> list_ex (\<lambda>existing. r_invocation_id existing = r_invocation_id r)
                  (hm_values (tool_results s)))
       (Conflict ''tool_results'' (Msg ''tool_result already exists for invocation {}''
         [id_debug ''ToolInvocationId'' (r_invocation_id r)]))))"

definition validate_audit_record_refs_with_pending_tool_result ::
    "'x InMemoryInner \<Rightarrow> AuditRecord \<Rightarrow> ToolResult option \<Rightarrow> unit StoreResult" where
  "validate_audit_record_refs_with_pending_tool_result s a pending_tool_result =
     andthen (ensure_ref_exists (contains_key (repositories s) (a_repository_id a)) ''repositories''
       (id_debug ''RepositoryId'' (a_repository_id a)) ''audit_record.repository_id'') (\<lambda>_.
     andthen (ok_or (hm_get (policy_decisions s) (a_policy_decision_id a))
       (NotFound ''policy_decisions'' (Msg ''{} (audit_record.policy_decision_id)''
         [id_debug ''PolicyDecisionId'' (a_policy_decision_id a)]))) (\<lambda>policy_decision.
     andthen (ensure_same_repository ''audit_records'' ''audit_record.policy_decision_id''
       (a_repository_id a) (p_repository_id policy_decision)) (\<lambda>_.
     case a_tool_invocation_id a of
       None \<Rightarrow> Inr ()
     | Some tool_invocation_id \<Rightarrow>
         andthen (ok_or (hm_get (tool_invocations s) tool_invocation_id)
           (NotFound ''tool_invocations'' (Msg ''{} (audit_record.tool_invocation_id)''
             [id_debug ''ToolInvocationId'' tool_invocation_id]))) (\<lambda>tool_invocation.
         andthen (ensure_same_repository ''audit_records'' ''audit_record.tool_invocation_id''
           (a_repository_id a) (t_repository_id tool_invocation)) (\<lambda>_.
         andthen (require (t_policy_decision_id tool_invocation = a_policy_decision_id a)
           (InvalidReference ''audit_records''
             (Msg ''audit_record.tool_invocation_id {} belongs to policy_decision_id {}, not {}''
               [id_debug ''ToolInvocationId'' tool_invocation_id,
                id_debug ''PolicyDecisionId'' (t_policy_decision_id tool_invocation),
                id_debug ''PolicyDecisionId'' (a_policy_decision_id a)]))) (\<lambda>_.
         case pending_tool_result of
           None \<Rightarrow> Inr ()
         | Some tool_result \<Rightarrow>
             require (r_invocation_id tool_result = tool_invocation_id)
               (InvalidReference ''audit_records''
                 (Msg ''pending tool_result {} belongs to invocation_id {}, not {}''
                   [id_debug ''ToolResultId'' (r_id tool_result),
                    id_debug ''ToolInvocationId'' (r_invocation_id tool_result),
                    id_debug ''ToolInvocationId'' tool_invocation_id]))))))))"

definition validate_audit_record_refs :: "'x InMemoryInner \<Rightarrow> AuditRecord \<Rightarrow> unit StoreResult" where
  "validate_audit_record_refs s a = validate_audit_record_refs_with_pending_tool_result s a None"

end
