(* ===== verification/Events.thy ===== *)
theory Events
  imports Ledger
begin

text \<open>
  The checks on events and job updates (\<open>store.rs\<close>, from \<open>validate_new_job_event\<close> to
  \<open>ensure_event_repository_consistency\<close>, and the derivation of an event's repository): an event's
  subject exists, its references exist and agree on one repository, one job and one policy
  decision, and an update of a job's materialized record is the one its event announces.
  The second half shows that these checks are stable: what passes on a ledger passes on every
  extension of it.
\<close>

section \<open>Optional lookups\<close>

definition or_else :: "'a option \<Rightarrow> 'a option \<Rightarrow> 'a option" where
  "or_else a b = (case a of None \<Rightarrow> b | Some v \<Rightarrow> Some v)"

definition opt_filter :: "('a \<Rightarrow> bool) \<Rightarrow> 'a option \<Rightarrow> 'a option" where
  "opt_filter P a = (case a of None \<Rightarrow> None | Some v \<Rightarrow> if P v then Some v else None)"

lemma or_else_simps [simp]: "or_else (Some v) b = Some v" "or_else None b = b"
  by (simp_all add: or_else_def)

lemma or_else_None [simp]: "or_else a None = a"
  by (cases a) simp_all

lemma or_else_eq_Some: "or_else a b = Some v \<longleftrightarrow> a = Some v \<or> a = None \<and> b = Some v"
  by (cases a) auto

lemma opt_filter_eq_Some [simp]: "opt_filter P a = Some v \<longleftrightarrow> a = Some v \<and> P v"
  by (auto simp: opt_filter_def split: option.splits)

lemma opt_filter_None [simp]: "opt_filter P None = None"
  by (simp add: opt_filter_def)

section \<open>The subject of an event\<close>

definition subject_not_found :: "string \<Rightarrow> JobEvent \<Rightarrow> StoreError" where
  "subject_not_found collection e =
     NotFound collection (Msg ''{} (job_event.subject_id)'' [FStr (s_subject_id (e_subject e))])"

definition subject_repository_id ::
    "'x InMemoryInner \<Rightarrow> JobEvent \<Rightarrow> JobRecord option \<Rightarrow> ToolResult option \<Rightarrow> AuditRecord option
     \<Rightarrow> RepositoryId option StoreResult" where
  "subject_repository_id s e pending_job pending_tool_result pending_audit_record =
     (let sid = s_subject_id (e_subject e) in
      case s_subject_type (e_subject e) of
        EventSubjectType.Repository \<Rightarrow>
          andthen (ok_or (find (\<lambda>i. as_str i = sid) (hm_keys (repositories s)))
            (subject_not_found ''repositories'' e)) (\<lambda>repository.
          Inr (Some repository))
      | EventSubjectType.Job \<Rightarrow>
          andthen (ok_or (or_else (find (\<lambda>j. as_str (j_id j) = sid) (bt_values (jobs s)))
              (opt_filter (\<lambda>j. as_str (j_id j) = sid) pending_job))
            (subject_not_found ''jobs'' e)) (\<lambda>job.
          Inr (Some (j_repository_id job)))
      | PolicyDecision \<Rightarrow>
          andthen (ok_or (find (\<lambda>d. as_str (p_id d) = sid) (hm_values (policy_decisions s)))
            (subject_not_found ''policy_decisions'' e)) (\<lambda>policy_decision.
          Inr (Some (p_repository_id policy_decision)))
      | LockDecision \<Rightarrow>
          andthen (ok_or (find (\<lambda>l. as_str (l_id l) = sid) (hm_values (lock_decisions s)))
            (subject_not_found ''lock_decisions'' e)) (\<lambda>lock_decision.
          Inr (Some (l_repository_id lock_decision)))
      | ToolInvocation \<Rightarrow>
          andthen (ok_or (find (\<lambda>t. as_str (t_id t) = sid) (hm_values (tool_invocations s)))
            (subject_not_found ''tool_invocations'' e)) (\<lambda>tool_invocation.
          Inr (Some (t_repository_id tool_invocation)))
      | ToolResult \<Rightarrow>
          andthen (ok_or (or_else (find (\<lambda>r. as_str (r_id r) = sid) (hm_values (tool_results s)))
              (opt_filter (\<lambda>r. as_str (r_id r) = sid) pending_tool_result))
            (subject_not_found ''tool_results'' e)) (\<lambda>tool_result.
          andthen (ok_or (hm_get (tool_invocations s) (r_invocation_id tool_result))
            (Conflict ''tool_results'' (Msg ''tool_result {} references missing invocation {}''
              [FStr sid, id_debug ''ToolInvocationId'' (r_invocation_id tool_result)]))) (\<lambda>tool_invocation.
          Inr (Some (t_repository_id tool_invocation))))
      | AuditRecord \<Rightarrow>
          andthen (ok_or (or_else (find (\<lambda>a. as_str (a_id a) = sid) (hm_values (audit_records s)))
              (opt_filter (\<lambda>a. as_str (a_id a) = sid) pending_audit_record))
            (subject_not_found ''audit_records'' e)) (\<lambda>audit_record.
          Inr (Some (a_repository_id audit_record))))"

definition validate_event_subject ::
    "'x InMemoryInner \<Rightarrow> JobEvent \<Rightarrow> JobRecord option \<Rightarrow> ToolResult option \<Rightarrow> AuditRecord option
     \<Rightarrow> RepositoryId option StoreResult" where
  "validate_event_subject s e pending_job pending_tool_result pending_audit_record =
     andthen (subject_repository_id s e pending_job pending_tool_result pending_audit_record) (\<lambda>srepo.
     andthen (case (srepo, rf_repository_id (e_refs e)) of
         (Some subject_repository, Some ref_repository) \<Rightarrow>
           ensure_same_repository ''job_events'' ''job_event.subject_id'' ref_repository subject_repository
       | _ \<Rightarrow> Inr ()) (\<lambda>_.
     Inr srepo))"

section \<open>The references of an event\<close>

definition ensure_subject_ref_matches ::
    "JobEvent \<Rightarrow> EventSubjectType \<Rightarrow> string \<Rightarrow> string \<Rightarrow> unit StoreResult" where
  "ensure_subject_ref_matches e expected_subject_type ref_id ctxt =
     (if s_subject_type (e_subject e) \<noteq> expected_subject_type \<or> s_subject_id (e_subject e) = ref_id
      then Inr ()
      else Inl (InvalidReference ''job_events''
        (Msg ''{context} {} does not match event.subject_id {} for subject_type {:?}''
          [FStr ctxt, FStr ref_id, FStr (s_subject_id (e_subject e)),
           subject_type_debug (s_subject_type (e_subject e))])))"

text \<open>
  The three \<open>&mut Option\<close> accumulators of the code (the repository, job and policy decision the
  event is about, as far as known) are returned updated.
\<close>

definition ensure_event_identity_consistency ::
    "string option \<Rightarrow> string \<Rightarrow> string \<Rightarrow> string \<Rightarrow> string option StoreResult" where
  "ensure_event_identity_consistency expected actual ctxt field_name =
     (case expected of
        Some ex \<Rightarrow>
          if ex = actual then Inr (Some ex)
          else Inl (InvalidReference ''job_events'' (Msg ''{context} implies {field_name} {actual}, not {expected}''
                 [FStr ctxt, FStr field_name, FStr actual, FStr ex]))
      | None \<Rightarrow> Inr (Some actual))"

definition ensure_event_job_consistency ::
    "string option \<Rightarrow> JobId \<Rightarrow> string \<Rightarrow> string option StoreResult" where
  "ensure_event_job_consistency expected implied_job_id ctxt =
     ensure_event_identity_consistency expected (as_str implied_job_id) ctxt ''job_id''"

definition ensure_event_policy_consistency ::
    "string option \<Rightarrow> PolicyDecisionId \<Rightarrow> string \<Rightarrow> string option StoreResult" where
  "ensure_event_policy_consistency expected implied_policy_decision_id ctxt =
     ensure_event_identity_consistency expected (as_str implied_policy_decision_id) ctxt
       ''policy_decision_id''"

definition ensure_event_repository_consistency ::
    "RepositoryId option \<Rightarrow> RepositoryId \<Rightarrow> string \<Rightarrow> RepositoryId option StoreResult" where
  "ensure_event_repository_consistency expected actual ctxt =
     (case expected of
        Some ex \<Rightarrow> andthen (ensure_same_repository ''job_events'' ctxt ex actual) (\<lambda>_. Inr (Some ex))
      | None \<Rightarrow> Inr (Some actual))"

record event_ids =
  x_repository :: "RepositoryId option"
  x_job :: "string option"
  x_policy :: "string option"

definition initial_event_ids :: "JobEvent \<Rightarrow> RepositoryId option \<Rightarrow> event_ids" where
  "initial_event_ids e subject_repository =
     \<lparr>x_repository = or_else (rf_repository_id (e_refs e)) subject_repository,
      x_job = (case s_subject_type (e_subject e) of
                 EventSubjectType.Job \<Rightarrow> Some (s_subject_id (e_subject e))
               | _ \<Rightarrow> map_option as_str (rf_job_id (e_refs e))),
      x_policy = (case s_subject_type (e_subject e) of
                    PolicyDecision \<Rightarrow> Some (s_subject_id (e_subject e))
                  | _ \<Rightarrow> map_option as_str (rf_policy_decision_id (e_refs e)))\<rparr>"

text \<open>\<open>validate_event_refs\<close>, one definition per reference, in the order of the code.\<close>

definition check_repository_ref :: "'x InMemoryInner \<Rightarrow> JobEvent \<Rightarrow> unit StoreResult" where
  "check_repository_ref s e =
     (case rf_repository_id (e_refs e) of
        None \<Rightarrow> Inr ()
      | Some repository_id \<Rightarrow>
          andthen (ensure_subject_ref_matches e EventSubjectType.Repository (as_str repository_id)
            ''job_event.refs.repository_id'') (\<lambda>_.
          ensure_ref_exists (contains_key (repositories s) repository_id) ''repositories''
            (id_debug ''RepositoryId'' repository_id) ''job_event.refs.repository_id''))"

definition check_job_ref ::
    "'x InMemoryInner \<Rightarrow> JobEvent \<Rightarrow> JobRecord option \<Rightarrow> event_ids \<Rightarrow> event_ids StoreResult" where
  "check_job_ref s e pending_job x =
     (case rf_job_id (e_refs e) of
        None \<Rightarrow> Inr x
      | Some job_id \<Rightarrow>
          andthen (ensure_subject_ref_matches e EventSubjectType.Job (as_str job_id)
            ''job_event.refs.job_id'') (\<lambda>_.
          andthen (ok_or (or_else (bt_get (jobs s) job_id) (opt_filter (\<lambda>j. j_id j = job_id) pending_job))
            (NotFound ''jobs'' (Msg ''{} (job_event.refs.job_id)'' [id_debug ''JobId'' job_id]))) (\<lambda>job.
          andthen (ensure_event_repository_consistency (x_repository x) (j_repository_id job)
            ''job_event.refs.job_id'') (\<lambda>xr.
          andthen (ensure_event_job_consistency (x_job x) (j_id job) ''job_event.refs.job_id'') (\<lambda>xj.
          Inr (x\<lparr>x_repository := xr, x_job := xj\<rparr>))))))"

definition check_policy_ref :: "'x InMemoryInner \<Rightarrow> JobEvent \<Rightarrow> event_ids \<Rightarrow> event_ids StoreResult" where
  "check_policy_ref s e x =
     (case rf_policy_decision_id (e_refs e) of
        None \<Rightarrow> Inr x
      | Some policy_decision_id \<Rightarrow>
          andthen (ensure_subject_ref_matches e PolicyDecision (as_str policy_decision_id)
            ''job_event.refs.policy_decision_id'') (\<lambda>_.
          andthen (ok_or (hm_get (policy_decisions s) policy_decision_id)
            (NotFound ''policy_decisions'' (Msg ''{} (job_event.refs.policy_decision_id)''
              [id_debug ''PolicyDecisionId'' policy_decision_id]))) (\<lambda>policy_decision.
          andthen (ensure_event_repository_consistency (x_repository x) (p_repository_id policy_decision)
            ''job_event.refs.policy_decision_id'') (\<lambda>xr.
          Inr (x\<lparr>x_repository := xr\<rparr>)))))"

definition check_lock_ref :: "'x InMemoryInner \<Rightarrow> JobEvent \<Rightarrow> event_ids \<Rightarrow> event_ids StoreResult" where
  "check_lock_ref s e x =
     (case rf_lock_decision_id (e_refs e) of
        None \<Rightarrow> Inr x
      | Some lock_decision_id \<Rightarrow>
          andthen (ensure_subject_ref_matches e LockDecision (as_str lock_decision_id)
            ''job_event.refs.lock_decision_id'') (\<lambda>_.
          andthen (ok_or (hm_get (lock_decisions s) lock_decision_id)
            (NotFound ''lock_decisions'' (Msg ''{} (job_event.refs.lock_decision_id)''
              [id_debug ''LockDecisionId'' lock_decision_id]))) (\<lambda>lock_decision.
          andthen (ensure_event_repository_consistency (x_repository x) (l_repository_id lock_decision)
            ''job_event.refs.lock_decision_id'') (\<lambda>xr.
          andthen (ensure_event_policy_consistency (x_policy x) (l_policy_decision_id lock_decision)
            ''job_event.refs.lock_decision_id'') (\<lambda>xp.
          Inr (x\<lparr>x_repository := xr, x_policy := xp\<rparr>))))))"

definition check_invocation_ref ::
    "'x InMemoryInner \<Rightarrow> JobEvent \<Rightarrow> event_ids \<Rightarrow> event_ids StoreResult" where
  "check_invocation_ref s e x =
     (case rf_tool_invocation_id (e_refs e) of
        None \<Rightarrow> Inr x
      | Some tool_invocation_id \<Rightarrow>
          andthen (ensure_subject_ref_matches e ToolInvocation (as_str tool_invocation_id)
            ''job_event.refs.tool_invocation_id'') (\<lambda>_.
          andthen (ok_or (hm_get (tool_invocations s) tool_invocation_id)
            (NotFound ''tool_invocations'' (Msg ''{} (job_event.refs.tool_invocation_id)''
              [id_debug ''ToolInvocationId'' tool_invocation_id]))) (\<lambda>tool_invocation.
          andthen (ensure_event_repository_consistency (x_repository x) (t_repository_id tool_invocation)
            ''job_event.refs.tool_invocation_id'') (\<lambda>xr.
          andthen (ensure_event_job_consistency (x_job x) (t_job_id tool_invocation)
            ''job_event.refs.tool_invocation_id'') (\<lambda>xj.
          andthen (ensure_event_policy_consistency (x_policy x) (t_policy_decision_id tool_invocation)
            ''job_event.refs.tool_invocation_id'') (\<lambda>xp.
          Inr \<lparr>x_repository = xr, x_job = xj, x_policy = xp\<rparr>))))))"

definition check_result_ref ::
    "'x InMemoryInner \<Rightarrow> JobEvent \<Rightarrow> ToolResult option \<Rightarrow> event_ids \<Rightarrow> event_ids StoreResult" where
  "check_result_ref s e pending_tool_result x =
     (case rf_tool_result_id (e_refs e) of
        None \<Rightarrow> Inr x
      | Some tool_result_id \<Rightarrow>
          andthen (ensure_subject_ref_matches e ToolResult (as_str tool_result_id)
            ''job_event.refs.tool_result_id'') (\<lambda>_.
          andthen (ok_or (or_else (hm_get (tool_results s) tool_result_id)
              (opt_filter (\<lambda>r. r_id r = tool_result_id) pending_tool_result))
            (NotFound ''tool_results'' (Msg ''{} (job_event.refs.tool_result_id)''
              [id_debug ''ToolResultId'' tool_result_id]))) (\<lambda>tool_result.
          andthen (ok_or (hm_get (tool_invocations s) (r_invocation_id tool_result))
            (Conflict ''tool_results'' (Msg ''tool_result {} references missing invocation {}''
              [id_debug ''ToolResultId'' tool_result_id,
               id_debug ''ToolInvocationId'' (r_invocation_id tool_result)]))) (\<lambda>tool_invocation.
          andthen (ensure_event_repository_consistency (x_repository x) (t_repository_id tool_invocation)
            ''job_event.refs.tool_result_id'') (\<lambda>xr.
          andthen (require (\<not> (case rf_tool_invocation_id (e_refs e) of
                None \<Rightarrow> False | Some i \<Rightarrow> i \<noteq> r_invocation_id tool_result))
            (InvalidReference ''job_events''
              (Msg ''job_event.refs.tool_result_id {} belongs to invocation_id {}, not {:?}''
                [id_debug ''ToolResultId'' tool_result_id,
                 id_debug ''ToolInvocationId'' (r_invocation_id tool_result),
                 FOpt (id_debug ''ToolInvocationId'') (rf_tool_invocation_id (e_refs e))]))) (\<lambda>_.
          andthen (ensure_event_job_consistency (x_job x) (t_job_id tool_invocation)
            ''job_event.refs.tool_result_id'') (\<lambda>xj.
          andthen (ensure_event_policy_consistency (x_policy x) (t_policy_decision_id tool_invocation)
            ''job_event.refs.tool_result_id'') (\<lambda>xp.
          Inr \<lparr>x_repository = xr, x_job = xj, x_policy = xp\<rparr>))))))))"

text \<open>The part of the audit reference that concerns the tool invocation the audit record names.\<close>

definition check_audit_invocation ::
    "'x InMemoryInner \<Rightarrow> JobEvent \<Rightarrow> ToolResult option \<Rightarrow> AuditRecordId \<Rightarrow> ToolInvocationId
     \<Rightarrow> event_ids \<Rightarrow> event_ids StoreResult" where
  "check_audit_invocation s e pending_tool_result audit_record_id tool_invocation_id x =
     andthen (ok_or (hm_get (tool_invocations s) tool_invocation_id)
       (Conflict ''audit_records'' (Msg ''audit_record {} references missing invocation {}''
         [id_debug ''AuditRecordId'' audit_record_id,
          id_debug ''ToolInvocationId'' tool_invocation_id]))) (\<lambda>canonical_invocation.
     andthen (require (\<not> (case rf_tool_invocation_id (e_refs e) of
           None \<Rightarrow> False | Some i \<Rightarrow> i \<noteq> tool_invocation_id))
       (InvalidReference ''job_events''
         (Msg ''job_event.refs.audit_record_id {} belongs to invocation_id {}, not {:?}''
           [id_debug ''AuditRecordId'' audit_record_id,
            id_debug ''ToolInvocationId'' tool_invocation_id,
            FOpt (id_debug ''ToolInvocationId'') (rf_tool_invocation_id (e_refs e))]))) (\<lambda>_.
     andthen (ensure_event_job_consistency (x_job x) (t_job_id canonical_invocation)
       ''job_event.refs.audit_record_id'') (\<lambda>xj.
     andthen (case rf_tool_result_id (e_refs e) of
         None \<Rightarrow> Inr ()
       | Some tool_result_id \<Rightarrow>
           andthen (ok_or (or_else (hm_get (tool_results s) tool_result_id)
               (opt_filter (\<lambda>r. r_id r = tool_result_id) pending_tool_result))
             (NotFound ''tool_results'' (Msg ''{} (job_event.refs.tool_result_id)''
               [id_debug ''ToolResultId'' tool_result_id]))) (\<lambda>tool_result.
           require (r_invocation_id tool_result = tool_invocation_id)
             (InvalidReference ''job_events''
               (Msg ''job_event.refs.audit_record_id {} belongs to invocation_id {}, but tool_result_id {} belongs to invocation_id {}''
                 [id_debug ''AuditRecordId'' audit_record_id,
                  id_debug ''ToolInvocationId'' tool_invocation_id,
                  id_debug ''ToolResultId'' tool_result_id,
                  id_debug ''ToolInvocationId'' (r_invocation_id tool_result)])))) (\<lambda>_.
     Inr (x\<lparr>x_job := xj\<rparr>)))))"

definition check_audit_ref ::
    "'x InMemoryInner \<Rightarrow> JobEvent \<Rightarrow> ToolResult option \<Rightarrow> AuditRecord option \<Rightarrow> event_ids
     \<Rightarrow> event_ids StoreResult" where
  "check_audit_ref s e pending_tool_result pending_audit_record x =
     (case rf_audit_record_id (e_refs e) of
        None \<Rightarrow> Inr x
      | Some audit_record_id \<Rightarrow>
          andthen (ensure_subject_ref_matches e AuditRecord (as_str audit_record_id)
            ''job_event.refs.audit_record_id'') (\<lambda>_.
          andthen (ok_or (or_else (hm_get (audit_records s) audit_record_id)
              (opt_filter (\<lambda>a. a_id a = audit_record_id) pending_audit_record))
            (NotFound ''audit_records'' (Msg ''{} (job_event.refs.audit_record_id)''
              [id_debug ''AuditRecordId'' audit_record_id]))) (\<lambda>audit_record.
          andthen (ensure_event_repository_consistency (x_repository x) (a_repository_id audit_record)
            ''job_event.refs.audit_record_id'') (\<lambda>xr.
          andthen (ensure_event_policy_consistency (x_policy x) (a_policy_decision_id audit_record)
            ''job_event.refs.audit_record_id'') (\<lambda>xp.
          let x' = x\<lparr>x_repository := xr, x_policy := xp\<rparr> in
          case a_tool_invocation_id audit_record of
            None \<Rightarrow> Inr x'
          | Some tool_invocation_id \<Rightarrow>
              check_audit_invocation s e pending_tool_result audit_record_id tool_invocation_id x')))))"

definition validate_event_refs ::
    "'x InMemoryInner \<Rightarrow> JobEvent \<Rightarrow> JobRecord option \<Rightarrow> ToolResult option \<Rightarrow> AuditRecord option
     \<Rightarrow> RepositoryId option \<Rightarrow> unit StoreResult" where
  "validate_event_refs s e pending_job pending_tool_result pending_audit_record subject_repository =
     andthen (check_repository_ref s e) (\<lambda>_.
     andthen (check_job_ref s e pending_job (initial_event_ids e subject_repository)) (\<lambda>x1.
     andthen (check_policy_ref s e x1) (\<lambda>x2.
     andthen (check_lock_ref s e x2) (\<lambda>x3.
     andthen (check_invocation_ref s e x3) (\<lambda>x4.
     andthen (check_result_ref s e pending_tool_result x4) (\<lambda>x5.
     andthen (check_audit_ref s e pending_tool_result pending_audit_record x5) (\<lambda>_.
     Inr ())))))))"

definition validate_new_job_event_with_pending_records ::
    "(string \<Rightarrow> bool) \<Rightarrow> 'x InMemoryInner \<Rightarrow> JobEvent \<Rightarrow> JobRecord option \<Rightarrow> ToolResult option
     \<Rightarrow> AuditRecord option \<Rightarrow> unit StoreResult" where
  "validate_new_job_event_with_pending_records uuid_ok s e pending_job pending_tool_result pending_audit_record =
     andthen (require (\<not> contains_key (job_events_by_id s) (e_id e))
       (DuplicateId ''job_events'' (Msg ''{}'' [id_debug ''JobEventId'' (e_id e)]))) (\<lambda>_.
     andthen (require (has_valid_subject_id uuid_ok (e_subject e))
       (InvalidReference ''job_events'' (Msg ''event.subject_id {} does not match subject_type {:?}''
         [FStr (s_subject_id (e_subject e)), subject_type_debug (s_subject_type (e_subject e))]))) (\<lambda>_.
     andthen (validate_event_subject s e pending_job pending_tool_result pending_audit_record) (\<lambda>srepo.
     validate_event_refs s e pending_job pending_tool_result pending_audit_record srepo)))"

definition validate_new_job_event ::
    "(string \<Rightarrow> bool) \<Rightarrow> 'x InMemoryInner \<Rightarrow> JobEvent \<Rightarrow> JobRecord option \<Rightarrow> unit StoreResult" where
  "validate_new_job_event uuid_ok s e pending_job =
     validate_new_job_event_with_pending_records uuid_ok s e pending_job None None"

section \<open>Updates of a job record\<close>

definition validate_initial_event_for_job :: "JobRecord \<Rightarrow> JobEvent \<Rightarrow> unit StoreResult" where
  "validate_initial_event_for_job j e =
     andthen (require (\<not> (s_subject_type (e_subject e) \<noteq> EventSubjectType.Job \<or>
           s_subject_id (e_subject e) \<noteq> as_str (j_id j)))
       (InvalidReference ''job_events'' (Msg ''initial event subject must identify job {}''
         [id_debug ''JobId'' (j_id j)]))) (\<lambda>_.
     andthen (require (rf_job_id (e_refs e) = Some (j_id j))
       (InvalidReference ''job_events'' (Msg ''initial event refs.job_id must identify job {}''
         [id_debug ''JobId'' (j_id j)]))) (\<lambda>_.
     andthen (require (rf_repository_id (e_refs e) = Some (j_repository_id j))
       (InvalidReference ''job_events'' (Msg ''initial event refs.repository_id must identify repository {}''
         [id_debug ''RepositoryId'' (j_repository_id j)]))) (\<lambda>_.
     Inr ())))"

definition job_update_conflict :: "JobId \<Rightarrow> string \<Rightarrow> fmt_arg list \<Rightarrow> StoreError" where
  "job_update_conflict job_id reason args =
     Conflict ''jobs'' (Msg (''job update for {} '' @ reason) (id_debug ''JobId'' job_id # args))"

definition ensure_immutable_job_field ::
    "('a \<Rightarrow> fmt_arg) \<Rightarrow> JobId \<Rightarrow> string \<Rightarrow> 'a \<Rightarrow> 'a \<Rightarrow> unit StoreResult" where
  "ensure_immutable_job_field dbg job_id field_name existing incoming =
     (if existing = incoming then Inr ()
      else Inl (Conflict ''jobs''
        (Msg ''job update for {} attempted to change immutable field {field_name}: existing {:?}, incoming {:?}''
          [id_debug ''JobId'' job_id, FStr field_name, dbg existing, dbg incoming])))"

fun is_status_changed :: "JobEventKind \<Rightarrow> bool" where
  "is_status_changed (JobStatusChanged _ _) = True"
| "is_status_changed _ = False"

fun is_policy_decided :: "JobEventKind \<Rightarrow> bool" where
  "is_policy_decided (PolicyDecided _) = True"
| "is_policy_decided _ = False"

definition validate_job_lifecycle_update :: "JobRecord \<Rightarrow> JobRecord \<Rightarrow> JobEvent \<Rightarrow> unit StoreResult" where
  "validate_job_lifecycle_update existing j e =
     andthen (require (\<not> j_updated_at j < j_updated_at existing)
       (job_update_conflict (j_id j) ''updated_at moved backwards from {:?} to {:?}''
         [ts_debug (j_updated_at existing), ts_debug (j_updated_at j)])) (\<lambda>_.
     andthen
       (if j_status j \<noteq> j_status existing then
          andthen (require (e_kind e = JobStatusChanged (j_status existing) (j_status j))
            (job_update_conflict (j_id j)
              ''status changed from {:?} to {:?} without matching JobStatusChanged event''
              [job_status_debug (j_status existing), job_status_debug (j_status j)])) (\<lambda>_.
          andthen (map_err (\<lambda>error. Conflict ''jobs''
                (Msg ''job update for {} has invalid lifecycle transition: {error:?}''
                  [id_debug ''JobId'' (j_id j), transition_error_debug error]))
              (transition_status existing (j_status j) (j_updated_at j))) (\<lambda>expected.
          require (\<not> (j_started_at j \<noteq> j_started_at expected \<or> j_completed_at j \<noteq> j_completed_at expected))
            (job_update_conflict (j_id j)
              ''lifecycle timestamps do not match transition from {:?} to {:?}''
              [job_status_debug (j_status existing), job_status_debug (j_status j)])))
        else
          andthen (require (\<not> is_status_changed (e_kind e))
            (job_update_conflict (j_id j)
              ''JobStatusChanged event did not change materialized job status'' [])) (\<lambda>_.
          require (\<not> (j_started_at j \<noteq> j_started_at existing \<or> j_completed_at j \<noteq> j_completed_at existing))
            (job_update_conflict (j_id j)
              ''lifecycle timestamps changed without a status transition'' []))) (\<lambda>_.
     andthen (require (\<not> (j_status j = Running \<and> j_started_at j = None))
       (job_update_conflict (j_id j) ''running job must have started_at'' [])) (\<lambda>_.
     andthen (require (\<not> (is_terminal (j_status j) \<and> j_completed_at j = None))
       (job_update_conflict (j_id j) ''terminal job must have completed_at'' [])) (\<lambda>_.
     andthen (require (\<not> (\<not> is_terminal (j_status j) \<and> j_completed_at j \<noteq> None))
       (job_update_conflict (j_id j) ''non-terminal job cannot have completed_at'' [])) (\<lambda>_.
     Inr ())))))"

definition validate_job_cancellation_update :: "JobRecord \<Rightarrow> JobRecord \<Rightarrow> JobEvent \<Rightarrow> unit StoreResult" where
  "validate_job_cancellation_update existing j e =
     (if j_cancellation_state j = j_cancellation_state existing then
        require (e_kind e \<noteq> CancellationRequested)
          (job_update_conflict (j_id j)
            ''CancellationRequested event did not change materialized cancellation state'' [])
      else
        require (j_cancellation_state existing = NotRequested \<and> j_cancellation_state j = Requested \<and>
            e_kind e = CancellationRequested)
          (job_update_conflict (j_id j)
            ''cancellation_state changed from {:?} to {:?} without matching CancellationRequested event''
            [cancellation_debug (j_cancellation_state existing), cancellation_debug (j_cancellation_state j)]))"

definition validate_job_policy_summary_update :: "JobRecord \<Rightarrow> JobRecord \<Rightarrow> JobEvent \<Rightarrow> unit StoreResult" where
  "validate_job_policy_summary_update existing j e =
     (if j_policy_summary j = j_policy_summary existing then Inr ()
      else
        andthen (require (is_policy_decided (e_kind e))
          (job_update_conflict (j_id j) ''policy_summary changed without a PolicyDecided event'' [])) (\<lambda>_.
        require (Option.bind (j_policy_summary j) su_decision_id = rf_policy_decision_id (e_refs e))
          (job_update_conflict (j_id j)
            ''policy_summary decision_id must match event refs.policy_decision_id'' [])))"

definition validate_job_update_against :: "JobRecord \<Rightarrow> JobRecord \<Rightarrow> JobEvent \<Rightarrow> unit StoreResult" where
  "validate_job_update_against existing j e =
     andthen (ensure_same_repository ''jobs'' ''job.repository_id''
       (j_repository_id existing) (j_repository_id j)) (\<lambda>_.
     andthen (ensure_immutable_job_field FNat (j_id j) ''schema_version''
       (j_schema_version existing) (j_schema_version j)) (\<lambda>_.
     andthen (ensure_immutable_job_field ts_debug (j_id j) ''created_at''
       (j_created_at existing) (j_created_at j)) (\<lambda>_.
     andthen (ensure_immutable_job_field actor_debug (j_id j) ''requester''
       (j_requester existing) (j_requester j)) (\<lambda>_.
     andthen (ensure_immutable_job_field job_kind_debug (j_id j) ''kind''
       (j_kind existing) (j_kind j)) (\<lambda>_.
     andthen (ensure_immutable_job_field (FOpt str_debug) (j_id j) ''goal''
       (j_goal existing) (j_goal j)) (\<lambda>_.
     andthen (validate_job_lifecycle_update existing j e) (\<lambda>_.
     andthen (validate_job_cancellation_update existing j e) (\<lambda>_.
     andthen (validate_job_policy_summary_update existing j e) (\<lambda>_.
     andthen (require (rf_job_id (e_refs e) = Some (j_id j))
       (InvalidReference ''job_events'' (Msg ''job update event refs.job_id must identify job {}''
         [id_debug ''JobId'' (j_id j)]))) (\<lambda>_.
     andthen (require (rf_repository_id (e_refs e) = Some (j_repository_id j))
       (InvalidReference ''job_events'' (Msg ''job update event refs.repository_id must identify repository {}''
         [id_debug ''RepositoryId'' (j_repository_id j)]))) (\<lambda>_.
     Inr ())))))))))))"

definition validate_job_update :: "'x InMemoryInner \<Rightarrow> JobRecord \<Rightarrow> JobEvent \<Rightarrow> unit StoreResult" where
  "validate_job_update s j e =
     andthen (ok_or (bt_get (jobs s) (j_id j))
       (NotFound ''jobs'' (Msg ''{}'' [id_debug ''JobId'' (j_id j)]))) (\<lambda>existing.
     andthen (require (j_latest_event_id j = j_latest_event_id existing)
       (Conflict ''jobs''
         (Msg ''job update for {} is stale: expected latest_event_id {:?}, got {:?}''
           [id_debug ''JobId'' (j_id j),
            FOpt (id_debug ''JobEventId'') (j_latest_event_id existing),
            FOpt (id_debug ''JobEventId'') (j_latest_event_id j)]))) (\<lambda>_.
     validate_job_update_against existing j e))"

definition validate_two_stage_job_update_identity ::
    "JobRecord \<Rightarrow> JobEvent \<Rightarrow> JobRecord \<Rightarrow> JobEvent \<Rightarrow> unit StoreResult" where
  "validate_two_stage_job_update_identity first_record first_event final_record final_event =
     andthen (require (j_id first_record = j_id final_record)
       (InvalidReference ''jobs''
         (Msg ''two-stage job update first_record {} does not match final_record {}''
           [id_debug ''JobId'' (j_id first_record), id_debug ''JobId'' (j_id final_record)]))) (\<lambda>_.
     for_each (\<lambda>(ctxt, e).
         require (rf_job_id (e_refs e) = Some (j_id first_record))
           (InvalidReference ''job_events'' (Msg ''{context} must identify job {}''
             [FStr ctxt, id_debug ''JobId'' (j_id first_record)])))
       [(''first_event.refs.job_id'', first_event), (''final_event.refs.job_id'', final_event)])"

definition validate_sibling_event_ids_are_unique :: "JobEvent \<Rightarrow> JobEvent \<Rightarrow> unit StoreResult" where
  "validate_sibling_event_ids_are_unique left right =
     (if e_id left \<noteq> e_id right then Inr ()
      else Inl (DuplicateId ''job_events'' (Msg ''{}'' [id_debug ''JobEventId'' (e_id left)])))"

section \<open>The repository of an event\<close>

definition ensure_owned_event_repository_consistency ::
    "RepositoryId option \<Rightarrow> RepositoryId \<Rightarrow> string \<Rightarrow> RepositoryId option StoreResult" where
  "ensure_owned_event_repository_consistency expected actual ctxt =
     (case expected of
        Some ex \<Rightarrow> andthen (ensure_same_repository ''job_events'' ctxt ex actual) (\<lambda>_. Inr (Some ex))
      | None \<Rightarrow> Inr (Some actual))"

definition derive_event_repository_from_refs ::
    "'x InMemoryInner \<Rightarrow> JobEvent \<Rightarrow> RepositoryId option \<Rightarrow> RepositoryId option StoreResult" where
  "derive_event_repository_from_refs s e x0 =
     andthen (case rf_job_id (e_refs e) of None \<Rightarrow> Inr x0 | Some job_id \<Rightarrow>
         andthen (ok_or (bt_get (jobs s) job_id)
           (NotFound ''jobs'' (Msg ''{} (job_event.refs.job_id)'' [id_debug ''JobId'' job_id]))) (\<lambda>job.
         ensure_owned_event_repository_consistency x0 (j_repository_id job) ''job_event.refs.job_id'')) (\<lambda>x1.
     andthen (case rf_policy_decision_id (e_refs e) of None \<Rightarrow> Inr x1 | Some policy_decision_id \<Rightarrow>
         andthen (ok_or (hm_get (policy_decisions s) policy_decision_id)
           (NotFound ''policy_decisions'' (Msg ''{} (job_event.refs.policy_decision_id)''
             [id_debug ''PolicyDecisionId'' policy_decision_id]))) (\<lambda>policy_decision.
         ensure_owned_event_repository_consistency x1 (p_repository_id policy_decision)
           ''job_event.refs.policy_decision_id'')) (\<lambda>x2.
     andthen (case rf_lock_decision_id (e_refs e) of None \<Rightarrow> Inr x2 | Some lock_decision_id \<Rightarrow>
         andthen (ok_or (hm_get (lock_decisions s) lock_decision_id)
           (NotFound ''lock_decisions'' (Msg ''{} (job_event.refs.lock_decision_id)''
             [id_debug ''LockDecisionId'' lock_decision_id]))) (\<lambda>lock_decision.
         ensure_owned_event_repository_consistency x2 (l_repository_id lock_decision)
           ''job_event.refs.lock_decision_id'')) (\<lambda>x3.
     andthen (case rf_tool_invocation_id (e_refs e) of None \<Rightarrow> Inr x3 | Some tool_invocation_id \<Rightarrow>
         andthen (ok_or (hm_get (tool_invocations s) tool_invocation_id)
           (NotFound ''tool_invocations'' (Msg ''{} (job_event.refs.tool_invocation_id)''
             [id_debug ''ToolInvocationId'' tool_invocation_id]))) (\<lambda>tool_invocation.
         ensure_owned_event_repository_consistency x3 (t_repository_id tool_invocation)
           ''job_event.refs.tool_invocation_id'')) (\<lambda>x4.
     andthen (case rf_tool_result_id (e_refs e) of None \<Rightarrow> Inr x4 | Some tool_result_id \<Rightarrow>
         andthen (ok_or (hm_get (tool_results s) tool_result_id)
           (NotFound ''tool_results'' (Msg ''{} (job_event.refs.tool_result_id)''
             [id_debug ''ToolResultId'' tool_result_id]))) (\<lambda>tool_result.
         andthen (ok_or (hm_get (tool_invocations s) (r_invocation_id tool_result))
           (Conflict ''tool_results'' (Msg ''tool_result {} references missing invocation {}''
             [id_debug ''ToolResultId'' tool_result_id,
              id_debug ''ToolInvocationId'' (r_invocation_id tool_result)]))) (\<lambda>tool_invocation.
         ensure_owned_event_repository_consistency x4 (t_repository_id tool_invocation)
           ''job_event.refs.tool_result_id''))) (\<lambda>x5.
     case rf_audit_record_id (e_refs e) of None \<Rightarrow> Inr x5 | Some audit_record_id \<Rightarrow>
         andthen (ok_or (hm_get (audit_records s) audit_record_id)
           (NotFound ''audit_records'' (Msg ''{} (job_event.refs.audit_record_id)''
             [id_debug ''AuditRecordId'' audit_record_id]))) (\<lambda>audit_record.
         ensure_owned_event_repository_consistency x5 (a_repository_id audit_record)
           ''job_event.refs.audit_record_id''))))))"

definition event_repository_id :: "'x InMemoryInner \<Rightarrow> JobEvent \<Rightarrow> RepositoryId option StoreResult" where
  "event_repository_id s e =
     (case rf_repository_id (e_refs e) of
        Some repository_id \<Rightarrow> Inr (Some repository_id)
      | None \<Rightarrow>
          andthen (subject_repository_id s e None None None) (\<lambda>srepo.
          derive_event_repository_from_refs s e srepo))"

end
