(* ===== verification/Extension.thy ===== *)
theory Extension
  imports Events
begin

text \<open>
  The event checks are stable. Ledgers only grow: records are added, and a job's record changes
  but keeps its id and repository. \<open>extends\<close> says so, with the records an operation is about to
  insert (\<open>pending\<close> in the code) counted as present. An event that passes the checks passes them
  on every extension; its repository can be derived, and is a registered one.
\<close>

section \<open>Indexes\<close>

text \<open>Every collection is well formed and keeps a record under its own id.\<close>

definition keyed :: "'x InMemoryInner \<Rightarrow> bool" where
  "keyed s \<longleftrightarrow>
     hm_wf (repositories s) \<and> (\<forall>i r. hm_get (repositories s) i = Some r \<longrightarrow> rp_id r = i) \<and>
     bt_wf (jobs s) \<and> (\<forall>i j. bt_get (jobs s) i = Some j \<longrightarrow> j_id j = i) \<and>
     hm_wf (policy_decisions s) \<and> (\<forall>i d. hm_get (policy_decisions s) i = Some d \<longrightarrow> p_id d = i) \<and>
     hm_wf (lock_decisions s) \<and> (\<forall>i l. hm_get (lock_decisions s) i = Some l \<longrightarrow> l_id l = i) \<and>
     hm_wf (schema_migrations s) \<and> (\<forall>i m. hm_get (schema_migrations s) i = Some m \<longrightarrow> m_id m = i) \<and>
     hm_wf (tool_invocations s) \<and> (\<forall>i t. hm_get (tool_invocations s) i = Some t \<longrightarrow> t_id t = i) \<and>
     hm_wf (tool_results s) \<and> (\<forall>i r. hm_get (tool_results s) i = Some r \<longrightarrow> r_id r = i) \<and>
     hm_wf (audit_records s) \<and> (\<forall>i a. hm_get (audit_records s) i = Some a \<longrightarrow> a_id a = i) \<and>
     hm_wf (idempotent_submit_jobs s)"

text \<open>The scans of the code for a subject find what the index has under the subject's id.\<close>

lemma scan_repositories:
  "find (\<lambda>i. as_str i = sid) (hm_keys m) = Some i \<longleftrightarrow> i = OpaqueId sid \<and> hm_get m i \<noteq> None"
proof -
  have "find (\<lambda>i. as_str i = sid) (map fst m) = Some i \<longleftrightarrow> i = OpaqueId sid \<and> i \<in> set (map fst m)" for i
  proof (induction m)
    case (Cons kv m)
    then show ?case by (auto simp: as_str_eq_iff)
  qed simp
  then show ?thesis by (simp add: hm_keys_def map_of_eq_None_iff)
qed

lemma keyed_scans:
  assumes "keyed s"
  shows "find (\<lambda>j. as_str (j_id j) = sid) (bt_values (jobs s)) = bt_get (jobs s) (OpaqueId sid)"
    and "find (\<lambda>d. as_str (p_id d) = sid) (hm_values (policy_decisions s)) = hm_get (policy_decisions s) (OpaqueId sid)"
    and "find (\<lambda>l. as_str (l_id l) = sid) (hm_values (lock_decisions s)) = hm_get (lock_decisions s) (OpaqueId sid)"
    and "find (\<lambda>t. as_str (t_id t) = sid) (hm_values (tool_invocations s)) = hm_get (tool_invocations s) (OpaqueId sid)"
    and "find (\<lambda>r. as_str (r_id r) = sid) (hm_values (tool_results s)) = hm_get (tool_results s) (OpaqueId sid)"
    and "find (\<lambda>a. as_str (a_id a) = sid) (hm_values (audit_records s)) = hm_get (audit_records s) (OpaqueId sid)"
  using assms unfolding keyed_def as_str_eq_iff
  by (auto intro!: bt.find_by_id hm.find_by_id)

lemma keyed_ids:
  assumes "keyed s"
  shows "bt_get (jobs s) i1 = Some j \<Longrightarrow> j_id j = i1"
    and "hm_get (policy_decisions s) i2 = Some d \<Longrightarrow> p_id d = i2"
    and "hm_get (lock_decisions s) i3 = Some l \<Longrightarrow> l_id l = i3"
    and "hm_get (tool_invocations s) i4 = Some t \<Longrightarrow> t_id t = i4"
    and "hm_get (tool_results s) i5 = Some r \<Longrightarrow> r_id r = i5"
    and "hm_get (audit_records s) i6 = Some a \<Longrightarrow> a_id a = i6"
    and "hm_get (repositories s) i7 = Some rp \<Longrightarrow> rp_id rp = i7"
    and "hm_get (schema_migrations s) i8 = Some m \<Longrightarrow> m_id m = i8"
  using assms by (simp_all add: keyed_def)

section \<open>Extension\<close>

definition extends ::
    "'x InMemoryInner \<Rightarrow> JobRecord option \<Rightarrow> ToolResult option \<Rightarrow> AuditRecord option
     \<Rightarrow> 'y InMemoryInner \<Rightarrow> bool" where
  "extends s pj pr pa s' \<longleftrightarrow>
     (\<forall>i v. hm_get (repositories s) i = Some v \<longrightarrow> hm_get (repositories s') i = Some v) \<and>
     (\<forall>i v. or_else (bt_get (jobs s) i) (opt_filter (\<lambda>j. j_id j = i) pj) = Some v \<longrightarrow>
        (\<exists>v'. bt_get (jobs s') i = Some v' \<and> j_id v' = j_id v \<and> j_repository_id v' = j_repository_id v)) \<and>
     (\<forall>i v. hm_get (policy_decisions s) i = Some v \<longrightarrow> hm_get (policy_decisions s') i = Some v) \<and>
     (\<forall>i v. hm_get (lock_decisions s) i = Some v \<longrightarrow> hm_get (lock_decisions s') i = Some v) \<and>
     (\<forall>i v. hm_get (tool_invocations s) i = Some v \<longrightarrow> hm_get (tool_invocations s') i = Some v) \<and>
     (\<forall>i v. or_else (hm_get (tool_results s) i) (opt_filter (\<lambda>r. r_id r = i) pr) = Some v \<longrightarrow>
        hm_get (tool_results s') i = Some v) \<and>
     (\<forall>i v. or_else (hm_get (audit_records s) i) (opt_filter (\<lambda>a. a_id a = i) pa) = Some v \<longrightarrow>
        hm_get (audit_records s') i = Some v)"

lemma extendsD:
  assumes "extends s pj pr pa s'"
  shows "hm_get (repositories s) i1 = Some v1 \<Longrightarrow> hm_get (repositories s') i1 = Some v1"
    and "or_else (bt_get (jobs s) i2) (opt_filter (\<lambda>j. j_id j = i2) pj) = Some v2 \<Longrightarrow>
        \<exists>v'. bt_get (jobs s') i2 = Some v' \<and> j_id v' = j_id v2 \<and> j_repository_id v' = j_repository_id v2"
    and "hm_get (policy_decisions s) i3 = Some v3 \<Longrightarrow> hm_get (policy_decisions s') i3 = Some v3"
    and "hm_get (lock_decisions s) i4 = Some v4 \<Longrightarrow> hm_get (lock_decisions s') i4 = Some v4"
    and "hm_get (tool_invocations s) i5 = Some v5 \<Longrightarrow> hm_get (tool_invocations s') i5 = Some v5"
    and "or_else (hm_get (tool_results s) i6) (opt_filter (\<lambda>r. r_id r = i6) pr) = Some v6 \<Longrightarrow>
        hm_get (tool_results s') i6 = Some v6"
    and "or_else (hm_get (audit_records s) i7) (opt_filter (\<lambda>a. a_id a = i7) pa) = Some v7 \<Longrightarrow>
        hm_get (audit_records s') i7 = Some v7"
  using assms by (simp_all add: extends_def)

lemma extends_refl [simp]: "extends s None None None s"
  by (simp add: extends_def)

text \<open>Extension composes; pending records of the first step are present after it.\<close>

lemma extends_trans:
  assumes a: "extends s pj pr pa s'" and b: "extends s' None None None s''"
  shows "extends s pj pr pa s''"
  unfolding extends_def
proof (intro conjI allI impI)
  fix i v
  assume "or_else (bt_get (jobs s) i) (opt_filter (\<lambda>j. j_id j = i) pj) = Some v"
  then show "\<exists>v'. bt_get (jobs s'') i = Some v' \<and> j_id v' = j_id v \<and> j_repository_id v' = j_repository_id v"
    using extendsD(2) [OF a] extendsD(2) [OF b, simplified] by metis
qed (simp_all add: extendsD [OF b, simplified] extendsD [OF a])

section \<open>Stability of the checks\<close>

lemma identity_consistency_eq_Inr [simp, ok_simps]:
  "ensure_event_identity_consistency x a c f = Inr y \<longleftrightarrow> y = Some a \<and> (x = None \<or> x = Some a)"
  by (auto simp: ensure_event_identity_consistency_def split: option.splits)

lemma repository_consistency_eq_Inr [simp, ok_simps]:
  "ensure_event_repository_consistency x r c = Inr y \<longleftrightarrow> y = Some r \<and> (x = None \<or> x = Some r)"
  "ensure_owned_event_repository_consistency x r c = Inr y \<longleftrightarrow> y = Some r \<and> (x = None \<or> x = Some r)"
  by (auto simp: ensure_event_repository_consistency_def
      ensure_owned_event_repository_consistency_def split: option.splits)

lemma subject_ref_matches_eq_Inr [simp, ok_simps]:
  "ensure_subject_ref_matches e ty i c = Inr u \<longleftrightarrow>
     (s_subject_type (e_subject e) = ty \<longrightarrow> s_subject_id (e_subject e) = i)"
  by (auto simp: ensure_subject_ref_matches_def)

lemmas consistency_defs = ensure_event_job_consistency_def ensure_event_policy_consistency_def

lemma check_repository_ref_mono:
  "extends s pj pr pa s' \<Longrightarrow> check_repository_ref s e = Inr u \<Longrightarrow> check_repository_ref s' e = Inr u"
  by (auto simp: check_repository_ref_def split: option.splits dest: extendsD(1))

lemma check_job_ref_mono:
  assumes "extends s pj pr pa s'" "check_job_ref s e pj x = Inr y"
  shows "check_job_ref s' e None x = Inr y"
proof (cases "rf_job_id (e_refs e)")
  case None
  then show ?thesis using assms(2) by (simp add: check_job_ref_def)
next
  case (Some i)
  with assms(2) obtain j where
    j: "or_else (bt_get (jobs s) i) (opt_filter (\<lambda>j. j_id j = i) pj) = Some j"
    by (auto simp: check_job_ref_def)
  from extendsD(2) [OF assms(1) j] obtain j' where
    "bt_get (jobs s') i = Some j'" "j_id j' = j_id j" "j_repository_id j' = j_repository_id j" by blast
  then show ?thesis using assms(2) Some j by (simp add: check_job_ref_def)
qed

lemma check_policy_ref_mono:
  "extends s pj pr pa s' \<Longrightarrow> check_policy_ref s e x = Inr y \<Longrightarrow> check_policy_ref s' e x = Inr y"
  by (auto simp: check_policy_ref_def split: option.splits dest: extendsD(3))

lemma check_lock_ref_mono:
  "extends s pj pr pa s' \<Longrightarrow> check_lock_ref s e x = Inr y \<Longrightarrow> check_lock_ref s' e x = Inr y"
  by (cases "rf_lock_decision_id (e_refs e)") (auto simp: check_lock_ref_def dest: extendsD(4))

lemma check_invocation_ref_mono:
  "extends s pj pr pa s' \<Longrightarrow> check_invocation_ref s e x = Inr y \<Longrightarrow> check_invocation_ref s' e x = Inr y"
  by (cases "rf_tool_invocation_id (e_refs e)")
     (auto simp: check_invocation_ref_def dest: extendsD(5))

lemma check_result_ref_mono:
  assumes "extends s pj pr pa s'" "check_result_ref s e pr x = Inr y"
  shows "check_result_ref s' e None x = Inr y"
proof (cases "rf_tool_result_id (e_refs e)")
  case None
  then show ?thesis using assms(2) by (simp add: check_result_ref_def)
next
  case (Some i)
  with assms(2) obtain r t where
    "or_else (hm_get (tool_results s) i) (opt_filter (\<lambda>r. r_id r = i) pr) = Some r"
    "hm_get (tool_invocations s) (r_invocation_id r) = Some t"
    by (auto simp: check_result_ref_def)
  moreover from this have "hm_get (tool_results s') i = Some r"
    "hm_get (tool_invocations s') (r_invocation_id r) = Some t"
    using extendsD(5,6) [OF assms(1)] by blast+
  ultimately show ?thesis using assms(2) Some by (simp add: check_result_ref_def)
qed

lemma check_audit_invocation_mono:
  assumes "extends s pj pr pa s'" "check_audit_invocation s e pr a i x = Inr y"
  shows "check_audit_invocation s' e None a i x = Inr y"
proof -
  from assms(2) obtain t where t: "hm_get (tool_invocations s) i = Some t"
    by (auto simp: check_audit_invocation_def)
  with extendsD(5) [OF assms(1)] have t': "hm_get (tool_invocations s') i = Some t" by blast
  show ?thesis
  proof (cases "rf_tool_result_id (e_refs e)")
    case None
    then show ?thesis using assms(2) t t' by (simp add: check_audit_invocation_def)
  next
    case (Some k)
    with assms(2) obtain r where
      "or_else (hm_get (tool_results s) k) (opt_filter (\<lambda>r. r_id r = k) pr) = Some r"
      by (auto simp: check_audit_invocation_def)
    moreover from this have "hm_get (tool_results s') k = Some r"
      by (rule extendsD(6) [OF assms(1)])
    ultimately show ?thesis using assms(2) t t' Some by (simp add: check_audit_invocation_def)
  qed
qed

lemma check_audit_ref_mono:
  assumes "extends s pj pr pa s'" "check_audit_ref s e pr pa x = Inr y"
  shows "check_audit_ref s' e None None x = Inr y"
proof (cases "rf_audit_record_id (e_refs e)")
  case None
  then show ?thesis using assms(2) by (simp add: check_audit_ref_def)
next
  case (Some i)
  with assms(2) obtain a where
    a: "or_else (hm_get (audit_records s) i) (opt_filter (\<lambda>a. a_id a = i) pa) = Some a"
    by (auto simp: check_audit_ref_def)
  moreover from this have "hm_get (audit_records s') i = Some a"
    by (rule extendsD(7) [OF assms(1)])
  ultimately show ?thesis
    using assms(2) Some check_audit_invocation_mono [OF assms(1)]
    by (cases "a_tool_invocation_id a") (auto simp: check_audit_ref_def Let_def)
qed

lemma validate_event_refs_mono:
  assumes ex: "extends s pj pr pa s'" and "validate_event_refs s e pj pr pa sr = Inr ()"
  shows "validate_event_refs s' e None None None sr = Inr ()"
proof -
  from assms(2) obtain u x1 x2 x3 x4 x5 x6 where
    "check_repository_ref s e = Inr u"
    "check_job_ref s e pj (initial_event_ids e sr) = Inr x1"
    "check_policy_ref s e x1 = Inr x2" "check_lock_ref s e x2 = Inr x3"
    "check_invocation_ref s e x3 = Inr x4" "check_result_ref s e pr x4 = Inr x5"
    "check_audit_ref s e pr pa x5 = Inr x6"
    by (auto simp: validate_event_refs_def)
  from this(1) [THEN check_repository_ref_mono [OF ex]] this(2) [THEN check_job_ref_mono [OF ex]]
    this(3) [THEN check_policy_ref_mono [OF ex]] this(4) [THEN check_lock_ref_mono [OF ex]]
    this(5) [THEN check_invocation_ref_mono [OF ex]] this(6) [THEN check_result_ref_mono [OF ex]]
    this(7) [THEN check_audit_ref_mono [OF ex]]
  show ?thesis by (simp add: validate_event_refs_def)
qed

lemma subject_repository_id_mono:
  assumes ex: "extends s pj pr pa s'" and k: "keyed s" "keyed s'"
    and sub: "subject_repository_id s e pj pr pa = Inr r"
  shows "subject_repository_id s' e None None None = Inr r"
proof (cases "s_subject_type (e_subject e)")
  case Repository
  then show ?thesis using sub extendsD(1) [OF ex]
    by (auto simp: subject_repository_id_def Let_def scan_repositories)
next
  case Job
  let ?i = "OpaqueId (s_subject_id (e_subject e))"
  from sub Job obtain j where
    "or_else (bt_get (jobs s) ?i) (opt_filter (\<lambda>j. j_id j = ?i) pj) = Some j" "r = Some (j_repository_id j)"
    by (auto simp: subject_repository_id_def Let_def as_str_eq_iff keyed_scans [OF k(1), unfolded as_str_eq_iff])
  then show ?thesis using extendsD(2) [OF ex] Job
    by (fastforce simp: subject_repository_id_def Let_def keyed_scans [OF k(2)])
next
  case ToolResult
  let ?i = "OpaqueId (s_subject_id (e_subject e))"
  from sub ToolResult obtain v t where
    "or_else (hm_get (tool_results s) ?i) (opt_filter (\<lambda>j. r_id j = ?i) pr) = Some v"
    "hm_get (tool_invocations s) (r_invocation_id v) = Some t" "r = Some (t_repository_id t)"
    by (auto simp: subject_repository_id_def Let_def as_str_eq_iff keyed_scans [OF k(1), unfolded as_str_eq_iff])
  then show ?thesis using extendsD(5,6) [OF ex] ToolResult
    by (fastforce simp: subject_repository_id_def Let_def keyed_scans [OF k(2)])
next
  case AuditRecord
  let ?i = "OpaqueId (s_subject_id (e_subject e))"
  from sub AuditRecord obtain v where
    "or_else (hm_get (audit_records s) ?i) (opt_filter (\<lambda>j. a_id j = ?i) pa) = Some v"
    "r = Some (a_repository_id v)"
    by (auto simp: subject_repository_id_def Let_def as_str_eq_iff keyed_scans [OF k(1), unfolded as_str_eq_iff])
  then show ?thesis using extendsD(7) [OF ex] AuditRecord
    by (fastforce simp: subject_repository_id_def Let_def keyed_scans [OF k(2)])
qed (use sub extendsD(3-5) [OF ex] in
      \<open>auto simp: subject_repository_id_def Let_def keyed_scans [OF k(1)] keyed_scans [OF k(2)]\<close>)

lemma validate_event_subject_mono:
  assumes "extends s pj pr pa s'" "keyed s" "keyed s'" "validate_event_subject s e pj pr pa = Inr r"
  shows "validate_event_subject s' e None None None = Inr r"
  using assms(4) subject_repository_id_mono [OF assms(1-3)]
  by (auto simp: validate_event_subject_def split: option.splits)

text \<open>What an event that is already in the ledger satisfies: every check but freshness.\<close>

definition event_valid :: "(string \<Rightarrow> bool) \<Rightarrow> 'x InMemoryInner \<Rightarrow> JobEvent \<Rightarrow> bool" where
  "event_valid uuid_ok s e \<longleftrightarrow>
     has_valid_subject_id uuid_ok (e_subject e) \<and>
     (\<exists>r. validate_event_subject s e None None None = Inr r \<and>
          validate_event_refs s e None None None r = Inr ())"

lemma validate_new_job_event_iff:
  "validate_new_job_event ok s e None = Inr () \<longleftrightarrow>
     hm_get (job_events_by_id s) (e_id e) = None \<and> event_valid ok s e"
  by (auto simp: validate_new_job_event_def validate_new_job_event_with_pending_records_def
      event_valid_def)

lemma validate_pending_fresh:
  "validate_new_job_event_with_pending_records ok s e pj pr pa = Inr () \<Longrightarrow>
     hm_get (job_events_by_id s) (e_id e) = None"
  by (auto simp: validate_new_job_event_with_pending_records_def)

lemma validate_pending_event_valid:
  assumes "validate_new_job_event_with_pending_records ok s e pj pr pa = Inr ()"
    and "extends s pj pr pa s'" "keyed s" "keyed s'"
  shows "event_valid ok s' e"
  using assms(1) validate_event_subject_mono [OF assms(2-4)] validate_event_refs_mono [OF assms(2)]
  by (auto simp: validate_new_job_event_with_pending_records_def event_valid_def)

lemma event_valid_mono:
  assumes "event_valid ok s e" and "extends s None None None s'" "keyed s" "keyed s'"
  shows "event_valid ok s' e"
  using assms(1) validate_event_subject_mono [OF assms(2-4)] validate_event_refs_mono [OF assms(2)]
  by (auto simp: event_valid_def)

text \<open>The checks read no field of an event but its subject and its references.\<close>

lemma check_sequence [simp]:
  "subject_repository_id s (e\<lparr>e_sequence_number := n\<rparr>) pj pr pa = subject_repository_id s e pj pr pa"
  "check_repository_ref s (e\<lparr>e_sequence_number := n\<rparr>) = check_repository_ref s e"
  "check_job_ref s (e\<lparr>e_sequence_number := n\<rparr>) pj x = check_job_ref s e pj x"
  "check_policy_ref s (e\<lparr>e_sequence_number := n\<rparr>) x = check_policy_ref s e x"
  "check_lock_ref s (e\<lparr>e_sequence_number := n\<rparr>) x = check_lock_ref s e x"
  "check_invocation_ref s (e\<lparr>e_sequence_number := n\<rparr>) x = check_invocation_ref s e x"
  "check_result_ref s (e\<lparr>e_sequence_number := n\<rparr>) pr x = check_result_ref s e pr x"
  "check_audit_ref s (e\<lparr>e_sequence_number := n\<rparr>) pr pa x = check_audit_ref s e pr pa x"
  "initial_event_ids (e\<lparr>e_sequence_number := n\<rparr>) r = initial_event_ids e r"
proof -
  have f: "e_refs (e\<lparr>e_sequence_number := n\<rparr>) = e_refs e" "e_subject (e\<lparr>e_sequence_number := n\<rparr>) = e_subject e"
    by simp_all
  show "subject_repository_id s (e\<lparr>e_sequence_number := n\<rparr>) pj pr pa = subject_repository_id s e pj pr pa"
    "check_repository_ref s (e\<lparr>e_sequence_number := n\<rparr>) = check_repository_ref s e"
    "check_job_ref s (e\<lparr>e_sequence_number := n\<rparr>) pj x = check_job_ref s e pj x"
    "check_policy_ref s (e\<lparr>e_sequence_number := n\<rparr>) x = check_policy_ref s e x"
    "check_lock_ref s (e\<lparr>e_sequence_number := n\<rparr>) x = check_lock_ref s e x"
    "check_invocation_ref s (e\<lparr>e_sequence_number := n\<rparr>) x = check_invocation_ref s e x"
    "check_result_ref s (e\<lparr>e_sequence_number := n\<rparr>) pr x = check_result_ref s e pr x"
    "check_audit_ref s (e\<lparr>e_sequence_number := n\<rparr>) pr pa x = check_audit_ref s e pr pa x"
    "initial_event_ids (e\<lparr>e_sequence_number := n\<rparr>) r = initial_event_ids e r"
    unfolding subject_repository_id_def check_repository_ref_def check_job_ref_def
      check_policy_ref_def check_lock_ref_def check_invocation_ref_def check_result_ref_def
      check_audit_ref_def check_audit_invocation_def initial_event_ids_def
      ensure_subject_ref_matches_def subject_not_found_def f
    by (rule refl)+
qed

lemma event_valid_sequence [simp]: "event_valid ok s (e\<lparr>e_sequence_number := n\<rparr>) = event_valid ok s e"
  by (simp add: event_valid_def validate_event_subject_def validate_event_refs_def)

section \<open>The repository of a valid event\<close>

text \<open>Every record names a registered repository.\<close>

definition owners_registered :: "'x InMemoryInner \<Rightarrow> bool" where
  "owners_registered s \<longleftrightarrow>
     (\<forall>i j. bt_get (jobs s) i = Some j \<longrightarrow> hm_get (repositories s) (j_repository_id j) \<noteq> None) \<and>
     (\<forall>i d. hm_get (policy_decisions s) i = Some d \<longrightarrow> hm_get (repositories s) (p_repository_id d) \<noteq> None) \<and>
     (\<forall>i l. hm_get (lock_decisions s) i = Some l \<longrightarrow> hm_get (repositories s) (l_repository_id l) \<noteq> None) \<and>
     (\<forall>i t. hm_get (tool_invocations s) i = Some t \<longrightarrow> hm_get (repositories s) (t_repository_id t) \<noteq> None) \<and>
     (\<forall>i a. hm_get (audit_records s) i = Some a \<longrightarrow> hm_get (repositories s) (a_repository_id a) \<noteq> None)"

lemma subject_repository_registered:
  assumes "keyed s" "owners_registered s" "subject_repository_id s e None None None = Inr r"
  shows "\<exists>i. r = Some i \<and> hm_get (repositories s) i \<noteq> None"
  using assms(2,3)
  by (cases "s_subject_type (e_subject e)")
     (auto simp: subject_repository_id_def Let_def scan_repositories owners_registered_def
        keyed_scans [OF assms(1)])

text \<open>
  The references of a valid event agree with its repository, so deriving the repository from
  them never fails and gives that one.
\<close>

lemma check_job_ref_repository:
  "check_job_ref s e None x = Inr y \<Longrightarrow> x_repository x = Some r \<Longrightarrow>
     x_repository y = Some r \<and>
     (\<forall>i. rf_job_id (e_refs e) = Some i \<longrightarrow> (\<exists>j. bt_get (jobs s) i = Some j \<and> j_repository_id j = r))"
  by (cases "rf_job_id (e_refs e)") (auto simp: check_job_ref_def)

lemma check_policy_ref_repository:
  "check_policy_ref s e x = Inr y \<Longrightarrow> x_repository x = Some r \<Longrightarrow>
     x_repository y = Some r \<and>
     (\<forall>i. rf_policy_decision_id (e_refs e) = Some i \<longrightarrow>
        (\<exists>d. hm_get (policy_decisions s) i = Some d \<and> p_repository_id d = r))"
  by (cases "rf_policy_decision_id (e_refs e)") (auto simp: check_policy_ref_def)

lemma check_lock_ref_repository:
  "check_lock_ref s e x = Inr y \<Longrightarrow> x_repository x = Some r \<Longrightarrow>
     x_repository y = Some r \<and>
     (\<forall>i. rf_lock_decision_id (e_refs e) = Some i \<longrightarrow>
        (\<exists>l. hm_get (lock_decisions s) i = Some l \<and> l_repository_id l = r))"
  by (cases "rf_lock_decision_id (e_refs e)") (auto simp: check_lock_ref_def)

lemma check_invocation_ref_repository:
  "check_invocation_ref s e x = Inr y \<Longrightarrow> x_repository x = Some r \<Longrightarrow>
     x_repository y = Some r \<and>
     (\<forall>i. rf_tool_invocation_id (e_refs e) = Some i \<longrightarrow>
        (\<exists>t. hm_get (tool_invocations s) i = Some t \<and> t_repository_id t = r))"
  by (cases "rf_tool_invocation_id (e_refs e)") (auto simp: check_invocation_ref_def)

lemma check_result_ref_repository:
  "check_result_ref s e None x = Inr y \<Longrightarrow> x_repository x = Some r \<Longrightarrow>
     x_repository y = Some r \<and>
     (\<forall>i. rf_tool_result_id (e_refs e) = Some i \<longrightarrow>
        (\<exists>v t. hm_get (tool_results s) i = Some v \<and>
           hm_get (tool_invocations s) (r_invocation_id v) = Some t \<and> t_repository_id t = r))"
  by (cases "rf_tool_result_id (e_refs e)") (auto simp: check_result_ref_def)

lemma check_audit_ref_repository:
  "check_audit_ref s e None None x = Inr y \<Longrightarrow> x_repository x = Some r \<Longrightarrow>
     (\<forall>i. rf_audit_record_id (e_refs e) = Some i \<longrightarrow>
        (\<exists>a. hm_get (audit_records s) i = Some a \<and> a_repository_id a = r))"
  by (cases "rf_audit_record_id (e_refs e)") (auto simp: check_audit_ref_def)

lemma validate_event_refs_derive:
  assumes "validate_event_refs s e None None None (Some r) = Inr ()"
    and "rf_repository_id (e_refs e) = None"
  shows "derive_event_repository_from_refs s e (Some r) = Inr (Some r)"
proof -
  let ?x = "initial_event_ids e (Some r)"
  from assms(1) obtain x1 x2 x3 x4 x5 x6 where c:
    "check_job_ref s e None ?x = Inr x1"
    "check_policy_ref s e x1 = Inr x2" "check_lock_ref s e x2 = Inr x3"
    "check_invocation_ref s e x3 = Inr x4" "check_result_ref s e None x4 = Inr x5"
    "check_audit_ref s e None None x5 = Inr x6"
    by (auto simp: validate_event_refs_def)
  have x0: "x_repository ?x = Some r" using assms(2) by (simp add: initial_event_ids_def)
  note r1 = check_job_ref_repository [OF c(1) x0]
  note r2 = check_policy_ref_repository [OF c(2) r1 [THEN conjunct1]]
  note r3 = check_lock_ref_repository [OF c(3) r2 [THEN conjunct1]]
  note r4 = check_invocation_ref_repository [OF c(4) r3 [THEN conjunct1]]
  note r5 = check_result_ref_repository [OF c(5) r4 [THEN conjunct1]]
  note r6 = check_audit_ref_repository [OF c(6) r5 [THEN conjunct1]]
  note steps = r1 [THEN conjunct2] r2 [THEN conjunct2] r3 [THEN conjunct2]
    r4 [THEN conjunct2] r5 [THEN conjunct2] r6
  show ?thesis
    unfolding derive_event_repository_from_refs_def
    by (intro andthen_intro [where x = "Some r"]) (use steps in \<open>auto split: option.splits\<close>)
qed

lemma event_valid_repository:
  assumes "event_valid ok s e" "keyed s" "owners_registered s"
  obtains i where "event_repository_id s e = Inr (Some i)" "hm_get (repositories s) i \<noteq> None"
proof (cases "rf_repository_id (e_refs e)")
  case (Some i)
  with assms(1) that show ?thesis
    by (auto simp: event_valid_def validate_event_refs_def check_repository_ref_def event_repository_id_def)
next
  case None
  from assms(1) obtain r where r: "subject_repository_id s e None None None = Inr r"
    "validate_event_refs s e None None None r = Inr ()"
    by (auto simp: event_valid_def validate_event_subject_def)
  from subject_repository_registered [OF assms(2,3) r(1)] obtain i where
    "r = Some i" "hm_get (repositories s) i \<noteq> None" by blast
  with r None show ?thesis
    using validate_event_refs_derive [of s e i] that [of i] by (simp add: event_repository_id_def)
qed

end
