(* ===== verification/Receipts.thy ===== *)
theory Receipts
  imports Extension
begin

text \<open>
  Durable submit-job receipts (\<open>store.rs\<close>, \<open>validate_submit_job_idempotency_record\<close> to
  \<open>insert_submit_job_idempotency_locked\<close>). A receipt is stored under the client's idempotency
  key and replayed on a retry, so it must agree with the ledger: its job, policy decision and
  tool records are the stored ones, and its events are the complete event chain of the job.
\<close>

section \<open>The events of a job\<close>

definition submit_job_receipt_event_belongs_to_job ::
    "'x InMemoryInner \<Rightarrow> JobId \<Rightarrow> JobEvent \<Rightarrow> bool StoreResult" where
  "submit_job_receipt_event_belongs_to_job s job_id e =
     (if rf_job_id (e_refs e) = Some job_id then Inr True
      else if s_subject_type (e_subject e) = EventSubjectType.Job \<and> s_subject_id (e_subject e) = as_str job_id
      then Inr True
      else
        andthen (case rf_tool_invocation_id (e_refs e) of
            None \<Rightarrow> Inr False
          | Some tool_invocation_id \<Rightarrow>
              andthen (ok_or (hm_get (tool_invocations s) tool_invocation_id)
                (NotFound ''tool_invocations''
                  (Msg ''{} (submit_job_idempotency.event.refs.tool_invocation_id)''
                    [id_debug ''ToolInvocationId'' tool_invocation_id]))) (\<lambda>tool_invocation.
              Inr (t_job_id tool_invocation = job_id))) (\<lambda>by_invocation.
        if by_invocation then Inr True
        else
        andthen (case rf_tool_result_id (e_refs e) of
            None \<Rightarrow> Inr False
          | Some tool_result_id \<Rightarrow>
              andthen (ok_or (hm_get (tool_results s) tool_result_id)
                (NotFound ''tool_results''
                  (Msg ''{} (submit_job_idempotency.event.refs.tool_result_id)''
                    [id_debug ''ToolResultId'' tool_result_id]))) (\<lambda>tool_result.
              andthen (ok_or (hm_get (tool_invocations s) (r_invocation_id tool_result))
                (NotFound ''tool_invocations''
                  (Msg ''{} (submit_job_idempotency.event.refs.tool_result_id.invocation_id)''
                    [id_debug ''ToolInvocationId'' (r_invocation_id tool_result)]))) (\<lambda>tool_invocation.
              Inr (t_job_id tool_invocation = job_id)))) (\<lambda>by_result.
        if by_result then Inr True
        else
          case rf_audit_record_id (e_refs e) of
            None \<Rightarrow> Inr False
          | Some audit_record_id \<Rightarrow>
              andthen (ok_or (hm_get (audit_records s) audit_record_id)
                (NotFound ''audit_records''
                  (Msg ''{} (submit_job_idempotency.event.refs.audit_record_id)''
                    [id_debug ''AuditRecordId'' audit_record_id]))) (\<lambda>audit_record.
              case a_tool_invocation_id audit_record of
                None \<Rightarrow> Inr False
              | Some tool_invocation_id \<Rightarrow>
                  andthen (ok_or (hm_get (tool_invocations s) tool_invocation_id)
                    (NotFound ''tool_invocations''
                      (Msg ''{} (submit_job_idempotency.event.refs.audit_record_id.tool_invocation_id)''
                        [id_debug ''ToolInvocationId'' tool_invocation_id]))) (\<lambda>tool_invocation.
                  Inr (t_job_id tool_invocation = job_id))))))"

definition validate_submit_job_receipt_event_lineage ::
    "'x InMemoryInner \<Rightarrow> JobId \<Rightarrow> JobEvent \<Rightarrow> unit StoreResult" where
  "validate_submit_job_receipt_event_lineage s job_id e =
     andthen (submit_job_receipt_event_belongs_to_job s job_id e) (\<lambda>belongs.
     require belongs
       (InvalidReference ''submit_job_idempotency''
         (Msg ''receipt.event {} does not belong to receipt.job {}''
           [id_debug ''JobEventId'' (e_id e), id_debug ''JobId'' job_id])))"

definition missing_sequence_id :: "JobEventId \<Rightarrow> StoreError" where
  "missing_sequence_id event_id =
     Conflict ''job_events'' (Msg ''sequence index references missing id {}''
       [id_debug ''JobEventId'' event_id])"

text \<open>
  The loop of \<open>expected_submit_job_receipt_events\<close> over the ids in sequence order; the events
  collected so far and the flag \<open>found_latest_event\<close> are its state.
\<close>

fun expected_events_loop ::
    "'x InMemoryInner \<Rightarrow> JobId \<Rightarrow> JobEventId \<Rightarrow> JobEventId list \<Rightarrow> JobEvent list \<Rightarrow> bool
     \<Rightarrow> (JobEvent list \<times> bool) StoreResult" where
  "expected_events_loop s job_id latest_event_id [] acc found = Inr (acc, found)"
| "expected_events_loop s job_id latest_event_id (event_id # event_ids) acc found =
     andthen (ok_or (hm_get (job_events_by_id s) event_id) (missing_sequence_id event_id)) (\<lambda>event.
     andthen (submit_job_receipt_event_belongs_to_job s job_id event) (\<lambda>belongs.
     if belongs then
       andthen (require (\<not> found)
         (InvalidRecord ''submit_job_idempotency''
           (Msg ''receipt.job.latest_event_id {} is not the end of the current job event chain for job {}''
             [id_debug ''JobEventId'' latest_event_id, id_debug ''JobId'' job_id]))) (\<lambda>_.
       expected_events_loop s job_id latest_event_id event_ids (acc @ [event]) (e_id event = latest_event_id))
     else expected_events_loop s job_id latest_event_id event_ids acc found))"

definition expected_submit_job_receipt_events ::
    "'x InMemoryInner \<Rightarrow> RuntimeJobReceipt \<Rightarrow> JobEvent list StoreResult" where
  "expected_submit_job_receipt_events s receipt =
     (let job_id = j_id (rc_job receipt) in
      andthen (ok_or (j_latest_event_id (rc_job receipt))
        (InvalidRecord ''submit_job_idempotency''
          (Msg ''receipt.job.latest_event_id is missing for job {}'' [id_debug ''JobId'' job_id]))) (\<lambda>latest_event_id.
      andthen (expected_events_loop s job_id latest_event_id
          (bt_values (job_events_by_sequence s)) [] False) (\<lambda>(expected_events, found_latest_event).
      andthen (require found_latest_event
        (InvalidReference ''submit_job_idempotency''
          (Msg ''receipt.job.latest_event_id {} was not found in the stored job event chain for job {}''
            [id_debug ''JobEventId'' latest_event_id, id_debug ''JobId'' job_id]))) (\<lambda>_.
      Inr expected_events))))"

fun match_event_chain :: "JobId \<Rightarrow> nat \<Rightarrow> (JobEvent \<times> JobEvent) list \<Rightarrow> unit StoreResult" where
  "match_event_chain job_id index [] = Inr ()"
| "match_event_chain job_id index ((expected_event, receipt_event) # rest) =
     andthen (require (expected_event = receipt_event)
       (InvalidReference ''submit_job_idempotency''
         (Msg ''receipt.events[{index}] does not match the stored job event chain for job {}''
           [FNat index, id_debug ''JobId'' job_id]))) (\<lambda>_.
     match_event_chain job_id (index + 1) rest)"

definition validate_loaded_submit_job_receipt_event_chain ::
    "'x InMemoryInner \<Rightarrow> RuntimeJobReceipt \<Rightarrow> unit StoreResult" where
  "validate_loaded_submit_job_receipt_event_chain s receipt =
     andthen (expected_submit_job_receipt_events s receipt) (\<lambda>expected_events.
     andthen (require (length expected_events = length (rc_events receipt))
       (InvalidRecord ''submit_job_idempotency''
         (Msg ''receipt.events must contain the complete job event chain for job {}''
           [id_debug ''JobId'' (j_id (rc_job receipt))]))) (\<lambda>_.
     match_event_chain (j_id (rc_job receipt)) 0 (zip expected_events (rc_events receipt))))"

section \<open>The records of a receipt\<close>

definition invalid_receipt :: "string \<Rightarrow> StoreError" where
  "invalid_receipt reason = InvalidRecord ''submit_job_idempotency'' (Msg reason [])"

definition validate_loaded_submit_job_receipt_job :: "JobRecord \<Rightarrow> JobRecord \<Rightarrow> unit StoreResult" where
  "validate_loaded_submit_job_receipt_job stored_job receipt_job =
     andthen (require (\<not> j_updated_at receipt_job < j_created_at receipt_job)
       (invalid_receipt ''receipt.job.updated_at must not be earlier than created_at'')) (\<lambda>_.
     andthen (case j_started_at receipt_job of
         None \<Rightarrow> Inr ()
       | Some started_at \<Rightarrow>
           andthen (require (\<not> started_at < j_created_at receipt_job)
             (invalid_receipt ''receipt.job.started_at must not be earlier than created_at'')) (\<lambda>_.
           require (\<not> started_at > j_updated_at receipt_job)
             (invalid_receipt ''receipt.job.started_at must not be later than updated_at''))) (\<lambda>_.
     andthen (case j_completed_at receipt_job of
         None \<Rightarrow> Inr ()
       | Some completed_at \<Rightarrow>
           andthen (require (\<not> completed_at < j_created_at receipt_job)
             (invalid_receipt ''receipt.job.completed_at must not be earlier than created_at'')) (\<lambda>_.
           andthen (require (\<not> completed_at > j_updated_at receipt_job)
             (invalid_receipt ''receipt.job.completed_at must not be later than updated_at'')) (\<lambda>_.
           case j_started_at receipt_job of
             None \<Rightarrow> Inr ()
           | Some started_at \<Rightarrow>
               require (\<not> completed_at < started_at)
                 (invalid_receipt ''receipt.job.completed_at must not be earlier than started_at'')))) (\<lambda>_.
     andthen (ensure_same_repository ''submit_job_idempotency'' ''receipt.job.repository_id''
       (j_repository_id stored_job) (j_repository_id receipt_job)) (\<lambda>_.
     require (stored_job\<lparr>j_updated_at := j_updated_at receipt_job\<rparr> = receipt_job)
       (Conflict ''jobs''
         (Msg ''submit_job idempotency receipt job {} does not match stored job when ignoring updated_at''
           [id_debug ''JobId'' (j_id receipt_job)]))))))"

definition receipt_result_invocation_mismatch :: "ToolResult \<Rightarrow> ToolInvocation \<Rightarrow> StoreError" where
  "receipt_result_invocation_mismatch r t =
     InvalidReference ''submit_job_idempotency''
       (Msg ''receipt.tool_result {} does not reference receipt.tool_invocation {}''
         [id_debug ''ToolResultId'' (r_id r), id_debug ''ToolInvocationId'' (t_id t)])"

definition receipt_audit_invocation_mismatch :: "AuditRecord \<Rightarrow> ToolInvocation \<Rightarrow> StoreError" where
  "receipt_audit_invocation_mismatch a t =
     InvalidReference ''submit_job_idempotency''
       (Msg ''receipt.audit_record {} does not reference receipt.tool_invocation {}''
         [id_debug ''AuditRecordId'' (a_id a), id_debug ''ToolInvocationId'' (t_id t)])"

definition validate_loaded_submit_job_receipt_lineage ::
    "'x InMemoryInner \<Rightarrow> RuntimeJobReceipt \<Rightarrow> unit StoreResult" where
  "validate_loaded_submit_job_receipt_lineage s receipt =
     (let job = rc_job receipt; policy_decision = rc_policy_decision receipt in
      andthen (ensure_same_repository ''submit_job_idempotency'' ''receipt.policy_decision.repository_id''
        (j_repository_id job) (p_repository_id policy_decision)) (\<lambda>_.
      andthen (case rc_tool_invocation receipt of
          None \<Rightarrow> Inr ()
        | Some tool_invocation \<Rightarrow>
            andthen (ensure_same_repository ''submit_job_idempotency'' ''receipt.tool_invocation.repository_id''
              (j_repository_id job) (t_repository_id tool_invocation)) (\<lambda>_.
            andthen (require (t_job_id tool_invocation = j_id job)
              (InvalidReference ''submit_job_idempotency''
                (Msg ''receipt.tool_invocation {} does not belong to receipt.job {}''
                  [id_debug ''ToolInvocationId'' (t_id tool_invocation), id_debug ''JobId'' (j_id job)]))) (\<lambda>_.
            require (t_policy_decision_id tool_invocation = p_id policy_decision)
              (InvalidReference ''submit_job_idempotency''
                (Msg ''receipt.tool_invocation {} does not belong to receipt.policy_decision {}''
                  [id_debug ''ToolInvocationId'' (t_id tool_invocation),
                   id_debug ''PolicyDecisionId'' (p_id policy_decision)]))))) (\<lambda>_.
      andthen (case (rc_tool_result receipt, rc_tool_invocation receipt) of
          (Some tool_result, Some tool_invocation) \<Rightarrow>
            require (r_invocation_id tool_result = t_id tool_invocation)
              (receipt_result_invocation_mismatch tool_result tool_invocation)
        | _ \<Rightarrow> Inr ()) (\<lambda>_.
      andthen (case rc_audit_record receipt of
          None \<Rightarrow> Inr ()
        | Some audit_record \<Rightarrow>
            andthen (ensure_same_repository ''submit_job_idempotency'' ''receipt.audit_record.repository_id''
              (j_repository_id job) (a_repository_id audit_record)) (\<lambda>_.
            andthen (require (a_policy_decision_id audit_record = p_id policy_decision)
              (InvalidReference ''submit_job_idempotency''
                (Msg ''receipt.audit_record {} does not belong to receipt.policy_decision {}''
                  [id_debug ''AuditRecordId'' (a_id audit_record),
                   id_debug ''PolicyDecisionId'' (p_id policy_decision)]))) (\<lambda>_.
            case (a_tool_invocation_id audit_record, rc_tool_invocation receipt) of
              (Some tool_invocation_id, Some tool_invocation) \<Rightarrow>
                require (tool_invocation_id = t_id tool_invocation)
                  (receipt_audit_invocation_mismatch audit_record tool_invocation)
            | _ \<Rightarrow> Inr ()))) (\<lambda>_.
      for_each (validate_submit_job_receipt_event_lineage s (j_id job)) (rc_events receipt))))))"

text \<open>A receipt carries all four tool records, each equal to the stored one, or none.\<close>

definition validate_receipt_tool_records ::
    "'x InMemoryInner \<Rightarrow> ToolInvocation \<Rightarrow> ToolResult \<Rightarrow> AuditRecord \<Rightarrow> unit StoreResult" where
  "validate_receipt_tool_records s tool_invocation tool_result audit_record =
     andthen (ok_or (hm_get (tool_invocations s) (t_id tool_invocation))
       (NotFound ''tool_invocations'' (Msg ''{} (submit_job_idempotency.tool_invocation)''
         [id_debug ''ToolInvocationId'' (t_id tool_invocation)]))) (\<lambda>stored_tool_invocation.
     andthen (require (stored_tool_invocation = tool_invocation)
       (InvalidReference ''submit_job_idempotency''
         (Msg ''receipt.tool_invocation {} does not match stored tool invocation record''
           [id_debug ''ToolInvocationId'' (t_id tool_invocation)]))) (\<lambda>_.
     andthen (ok_or (hm_get (tool_results s) (r_id tool_result))
       (NotFound ''tool_results'' (Msg ''{} (submit_job_idempotency.tool_result)''
         [id_debug ''ToolResultId'' (r_id tool_result)]))) (\<lambda>stored_tool_result.
     andthen (require (stored_tool_result = tool_result)
       (InvalidReference ''submit_job_idempotency''
         (Msg ''receipt.tool_result {} does not match stored tool result record''
           [id_debug ''ToolResultId'' (r_id tool_result)]))) (\<lambda>_.
     andthen (ok_or (hm_get (audit_records s) (a_id audit_record))
       (NotFound ''audit_records'' (Msg ''{} (submit_job_idempotency.audit_record)''
         [id_debug ''AuditRecordId'' (a_id audit_record)]))) (\<lambda>stored_audit_record.
     andthen (require (stored_audit_record = audit_record)
       (InvalidReference ''submit_job_idempotency''
         (Msg ''receipt.audit_record {} does not match stored audit record''
           [id_debug ''AuditRecordId'' (a_id audit_record)]))) (\<lambda>_.
     andthen (require (r_invocation_id tool_result = t_id tool_invocation)
       (receipt_result_invocation_mismatch tool_result tool_invocation)) (\<lambda>_.
     require (a_tool_invocation_id audit_record = Some (t_id tool_invocation))
       (receipt_audit_invocation_mismatch audit_record tool_invocation))))))))"

fun check_increasing_events :: "nat \<Rightarrow> JobEvent list \<Rightarrow> unit StoreResult" where
  "check_increasing_events index (previous_event # event # rest) =
     andthen (require (\<not> e_sequence_number event \<le> e_sequence_number previous_event)
       (InvalidRecord ''submit_job_idempotency''
         (Msg ''receipt.events[{next_index}] sequence_number {} must be greater than receipt.events[{previous_index}] sequence_number {}''
           [FNat (index + 1), FNat (e_sequence_number event), FNat index,
            FNat (e_sequence_number previous_event)]))) (\<lambda>_.
     check_increasing_events (index + 1) (event # rest))"
| "check_increasing_events index _ = Inr ()"

definition check_stored_event :: "'x InMemoryInner \<Rightarrow> JobEvent \<Rightarrow> unit StoreResult" where
  "check_stored_event s event =
     andthen (ok_or (hm_get (job_events_by_id s) (e_id event))
       (NotFound ''job_events'' (Msg ''{} (submit_job_idempotency.events)''
         [id_debug ''JobEventId'' (e_id event)]))) (\<lambda>stored_event.
     require (stored_event = event)
       (InvalidReference ''submit_job_idempotency''
         (Msg ''receipt.event {} does not match stored job event record''
           [id_debug ''JobEventId'' (e_id event)])))"

definition last_event_id :: "JobEvent list \<Rightarrow> JobEventId option" where
  "last_event_id es = (if es = [] then None else Some (e_id (last es)))"

definition validate_loaded_submit_job_receipt ::
    "'x InMemoryInner \<Rightarrow> RuntimeJobReceipt \<Rightarrow> unit StoreResult" where
  "validate_loaded_submit_job_receipt s receipt =
     andthen (ok_or (bt_get (jobs s) (j_id (rc_job receipt)))
       (NotFound ''jobs'' (Msg ''{} (submit_job_idempotency.job)''
         [id_debug ''JobId'' (j_id (rc_job receipt))]))) (\<lambda>stored_job.
     andthen (validate_loaded_submit_job_receipt_job stored_job (rc_job receipt)) (\<lambda>_.
     andthen (ok_or (hm_get (policy_decisions s) (p_id (rc_policy_decision receipt)))
       (NotFound ''policy_decisions'' (Msg ''{} (submit_job_idempotency.policy_decision)''
         [id_debug ''PolicyDecisionId'' (p_id (rc_policy_decision receipt))]))) (\<lambda>stored_policy_decision.
     andthen (require (stored_policy_decision = rc_policy_decision receipt)
       (InvalidReference ''submit_job_idempotency''
         (Msg ''receipt.policy_decision {} does not match stored policy decision record''
           [id_debug ''PolicyDecisionId'' (p_id (rc_policy_decision receipt))]))) (\<lambda>_.
     andthen (validate_loaded_submit_job_receipt_lineage s receipt) (\<lambda>_.
     andthen (case (rc_tool_invocation receipt, rc_tool_result receipt, rc_rendered_output receipt,
                    rc_audit_record receipt) of
         (None, None, None, None) \<Rightarrow> Inr ()
       | (Some tool_invocation, Some tool_result, Some _, Some audit_record) \<Rightarrow>
           validate_receipt_tool_records s tool_invocation tool_result audit_record
       | _ \<Rightarrow> Inl (invalid_receipt
           ''successful submit_job receipts must include either all tool records or none'')) (\<lambda>_.
     andthen (require (rc_events receipt \<noteq> [])
       (invalid_receipt ''successful submit_job receipts must include events'')) (\<lambda>_.
     andthen (check_increasing_events 0 (rc_events receipt)) (\<lambda>_.
     andthen (validate_loaded_submit_job_receipt_event_chain s receipt) (\<lambda>_.
     andthen (for_each (check_stored_event s) (rc_events receipt)) (\<lambda>_.
     require (j_latest_event_id (rc_job receipt) = last_event_id (rc_events receipt))
       (InvalidReference ''submit_job_idempotency''
         (Msg ''receipt.job.latest_event_id does not match the final receipt event for job {}''
           [id_debug ''JobId'' (j_id (rc_job receipt))]))))))))))))"

section \<open>Storing a receipt\<close>

definition validate_submit_job_idempotency_record ::
    "'x InMemoryInner \<Rightarrow> string \<Rightarrow> SubmitJobIdempotencyRecord \<Rightarrow> unit StoreResult" where
  "validate_submit_job_idempotency_record s idempotency_key record =
     andthen (require (trim idempotency_key \<noteq> [])
       (invalid_receipt ''idempotency key must not be empty'')) (\<lambda>_.
     andthen (require (trim (sj_signature record) \<noteq> [])
       (InvalidRecord ''submit_job_idempotency''
         (Msg ''idempotency key {} has an empty request signature'' [str_debug idempotency_key]))) (\<lambda>_.
     andthen (require (j_status (rc_job (sj_receipt record)) = JobStatus.Succeeded)
       (InvalidRecord ''submit_job_idempotency''
         (Msg ''idempotency key {} must reference a succeeded submit_job receipt''
           [str_debug idempotency_key]))) (\<lambda>_.
     validate_loaded_submit_job_receipt s (sj_receipt record))))"

definition insert_submit_job_idempotency_locked ::
    "'x InMemoryInner \<Rightarrow> string \<Rightarrow> SubmitJobIdempotencyRecord \<Rightarrow> 'x InMemoryInner StoreResult" where
  "insert_submit_job_idempotency_locked s idempotency_key record =
     andthen (validate_submit_job_idempotency_record s idempotency_key record) (\<lambda>_.
     case hm_get (idempotent_submit_jobs s) idempotency_key of
       Some existing \<Rightarrow>
         if existing = record then Inr s
         else Inl (Conflict ''submit_job_idempotency''
           (Msg ''idempotency key {} is already bound to a different submit receipt''
             [str_debug idempotency_key]))
     | None \<Rightarrow>
         Inr (s\<lparr>idempotent_submit_jobs := hm_insert idempotency_key record (idempotent_submit_jobs s)\<rparr>))"

end
