(* ===== verification/Operations.thy ===== *)
theory Operations
  imports Receipts
begin

text \<open>
  The operations of \<open>SecretaryStore\<close> that change the ledger (\<open>store.rs\<close>,
  \<open>impl SecretaryStore for InMemoryStore\<close>): each closure the code passes to \<open>mutate\<close> is a function
  from the draft to an error or the result and the changed draft; an operation that appends
  events also returns the events to publish. The surrounding transaction is in \<open>Durable\<close>.
\<close>

type_synonym ('x, 'r) mutator = "'x InMemoryInner \<Rightarrow> ('r \<times> 'x InMemoryInner) StoreResult"

section \<open>Appending to the event log\<close>

definition append_event_locked :: "JobEvent \<Rightarrow> ('x, JobEvent) mutator" where
  "append_event_locked event s =
     andthen (ok_or (checked_add (next_event_sequence s) 1) SequenceOverflow) (\<lambda>next_sequence.
     let event' = event\<lparr>e_sequence_number := next_sequence\<rparr>
     in Inr (event',
             s\<lparr>next_event_sequence := next_sequence,
               job_events_by_sequence := bt_insert next_sequence (e_id event') (job_events_by_sequence s),
               job_events_by_id := hm_insert (e_id event') event' (job_events_by_id s)\<rparr>))"

definition ensure_event_sequence_capacity :: "'x InMemoryInner \<Rightarrow> nat \<Rightarrow> unit StoreResult" where
  "ensure_event_sequence_capacity s event_count =
     andthen (ok_or (checked_add (next_event_sequence s) event_count) SequenceOverflow) (\<lambda>_. Inr ())"

definition put_job :: "JobRecord \<Rightarrow> 'x InMemoryInner \<Rightarrow> 'x InMemoryInner" where
  "put_job j s = s\<lparr>jobs := bt_insert (j_id j) j (jobs s)\<rparr>"

section \<open>Repositories\<close>

definition create_repository :: "RepositoryRecord \<Rightarrow> ('x, unit) mutator" where
  "create_repository record s =
     andthen (validate_repository_record record) (\<lambda>_.
     andthen (require (\<not> list_ex (\<lambda>repository. rp_root_path repository = rp_root_path record)
                (hm_values (repositories s)))
       (DuplicateId ''repositories'' (Msg ''root_path {}'' [FStr (rp_root_path record)]))) (\<lambda>_.
     andthen (case find (\<lambda>existing.
            repository_roots_strictly_overlap (rp_root_path record) (rp_root_path existing) \<and>
            (rp_trust_state record = RepositoryTrustState.Blocked \<or>
             rp_trust_state existing = RepositoryTrustState.Blocked)) (hm_values (repositories s)) of
         None \<Rightarrow> Inr ()
       | Some conflicting_repository \<Rightarrow>
           Inl (Conflict ''repositories''
             (Msg ''root_path {} conflicts with blocked repository root {}''
               [FStr (rp_root_path record), FStr (rp_root_path conflicting_repository)]))) (\<lambda>_.
     andthen (root_scoped_blocked_policy_overlapping_repository s (rp_root_path record)) (\<lambda>blocked.
     andthen (case blocked of
         None \<Rightarrow> Inr ()
       | Some (policy_decision, blocked_root) \<Rightarrow>
           Inl (Conflict ''repositories''
             (Msg ''root_path {} conflicts with blocked policy root {} from policy decision {}''
               [FStr (rp_root_path record), FStr blocked_root,
                id_debug ''PolicyDecisionId'' (p_id policy_decision)]))) (\<lambda>_.
     andthen (insert_record (repositories s) (rp_id record) record ''repositories''
       (id_debug ''RepositoryId'' (rp_id record))) (\<lambda>m.
     Inr ((), s\<lparr>repositories := m\<rparr>)))))))"

section \<open>Jobs and their events\<close>

definition create_job_with_initial_event ::
    "(string \<Rightarrow> bool) \<Rightarrow> JobRecord \<Rightarrow> JobEvent \<Rightarrow> ('x, JobEvent \<times> JobEvent list) mutator" where
  "create_job_with_initial_event uuid_ok record initial_event s =
     andthen (validate_job_refs s record) (\<lambda>_.
     andthen (require (\<not> contains_key (jobs s) (j_id record))
       (DuplicateId ''jobs'' (Msg ''{}'' [id_debug ''JobId'' (j_id record)]))) (\<lambda>_.
     andthen (validate_initial_event_for_job record initial_event) (\<lambda>_.
     andthen (validate_new_job_event uuid_ok s initial_event (Some record)) (\<lambda>_.
     andthen (ok_or (checked_add (next_event_sequence s) 1) SequenceOverflow) (\<lambda>next_sequence.
     let event = initial_event\<lparr>e_sequence_number := next_sequence\<rparr>;
         record' = record\<lparr>j_latest_event_id := Some (e_id event)\<rparr>
     in Inr ((event, [event]),
             s\<lparr>next_event_sequence := next_sequence,
               jobs := bt_insert (j_id record') record' (jobs s),
               job_events_by_sequence := bt_insert next_sequence (e_id event) (job_events_by_sequence s),
               job_events_by_id := hm_insert (e_id event) event (job_events_by_id s)\<rparr>))))))"

definition append_job_event ::
    "(string \<Rightarrow> bool) \<Rightarrow> JobEvent \<Rightarrow> ('x, JobEvent \<times> JobEvent list) mutator" where
  "append_job_event uuid_ok event s =
     andthen (validate_new_job_event uuid_ok s event None) (\<lambda>_.
     andthen (append_event_locked event s) (\<lambda>(event', s').
     Inr ((event', [event']), s')))"

definition append_job_event_and_update_job ::
    "(string \<Rightarrow> bool) \<Rightarrow> JobRecord \<Rightarrow> JobEvent \<Rightarrow> ('x, JobEvent \<times> JobEvent list) mutator" where
  "append_job_event_and_update_job uuid_ok record event s =
     andthen (validate_job_update s record event) (\<lambda>_.
     andthen (validate_new_job_event uuid_ok s event None) (\<lambda>_.
     andthen (append_event_locked event s) (\<lambda>(event', s').
     Inr ((event', [event']), put_job (record\<lparr>j_latest_event_id := Some (e_id event')\<rparr>) s'))))"

text \<open>\<open>*last_mut() = e\<close>, when there is a last element.\<close>

definition set_last :: "'a \<Rightarrow> 'a list \<Rightarrow> 'a list" where
  "set_last e es = (if es = [] then [] else butlast es @ [e])"

definition append_job_event_and_update_job_with_submit_job_idempotency ::
    "(string \<Rightarrow> bool) \<Rightarrow> JobRecord \<Rightarrow> JobEvent \<Rightarrow> string \<Rightarrow> SubmitJobIdempotencyRecord
     \<Rightarrow> ('x, JobEvent \<times> JobEvent list) mutator" where
  "append_job_event_and_update_job_with_submit_job_idempotency uuid_ok record event idempotency_key idempotency_record s =
     andthen (validate_job_update s record event) (\<lambda>_.
     andthen (validate_new_job_event uuid_ok s event None) (\<lambda>_.
     andthen (append_event_locked event s) (\<lambda>(event', s1).
     let committed_job = record\<lparr>j_latest_event_id := Some (e_id event')\<rparr>;
         s2 = put_job committed_job s1;
         receipt = (sj_receipt idempotency_record)
           \<lparr>rc_events := set_last event' (rc_events (sj_receipt idempotency_record)), rc_job := committed_job\<rparr>
     in andthen (insert_submit_job_idempotency_locked s2 idempotency_key
          (idempotency_record\<lparr>sj_receipt := receipt\<rparr>)) (\<lambda>s3.
        Inr ((event', [event']), s3)))))"

definition append_job_events_and_update_job ::
    "(string \<Rightarrow> bool) \<Rightarrow> JobRecord \<Rightarrow> JobEvent \<Rightarrow> JobRecord \<Rightarrow> JobEvent
     \<Rightarrow> ('x, (JobEvent \<times> JobEvent) \<times> JobEvent list) mutator" where
  "append_job_events_and_update_job uuid_ok first_record first_event final_record final_event s =
     andthen (validate_sibling_event_ids_are_unique first_event final_event) (\<lambda>_.
     andthen (validate_two_stage_job_update_identity first_record first_event final_record final_event) (\<lambda>_.
     andthen (validate_job_update s first_record first_event) (\<lambda>_.
     andthen (validate_new_job_event uuid_ok s first_event None) (\<lambda>_.
     let intermediate_record = first_record\<lparr>j_latest_event_id := Some (e_id first_event)\<rparr> in
     andthen (validate_job_update_against intermediate_record final_record final_event) (\<lambda>_.
     andthen (validate_new_job_event uuid_ok s final_event None) (\<lambda>_.
     andthen (ensure_event_sequence_capacity s 2) (\<lambda>_.
     andthen (append_event_locked first_event s) (\<lambda>(first_event', s1).
     andthen (append_event_locked final_event s1) (\<lambda>(final_event', s2).
     Inr (((first_event', final_event'), [first_event', final_event']),
          put_job (final_record\<lparr>j_latest_event_id := Some (e_id final_event')\<rparr>) s2))))))))))"

section \<open>Policy decisions and advisory locks\<close>

definition create_policy_decision :: "PolicyDecision \<Rightarrow> ('x, unit) mutator" where
  "create_policy_decision record s =
     andthen (ensure_ref_exists (contains_key (repositories s) (p_repository_id record)) ''repositories''
       (id_debug ''RepositoryId'' (p_repository_id record)) ''policy_decision.repository_id'') (\<lambda>_.
     andthen
       (if is_root_scoped_repository_block record then
          andthen (ok_or (hm_get (repositories s) (p_repository_id record))
            (NotFound ''repositories'' (Msg ''{}'' [id_debug ''RepositoryId'' (p_repository_id record)]))) (\<lambda>repository.
          case find (\<lambda>existing. rp_id existing \<noteq> rp_id repository \<and>
                 repository_roots_strictly_overlap (rp_root_path repository) (rp_root_path existing))
               (hm_values (repositories s)) of
            None \<Rightarrow> Inr ()
          | Some conflicting_repository \<Rightarrow>
              Inl (Conflict ''policy_decisions''
                (Msg ''repository root_path {} conflicts with repository root_path {}''
                  [FStr (rp_root_path repository), FStr (rp_root_path conflicting_repository)])))
        else Inr ()) (\<lambda>_.
     andthen (insert_record (policy_decisions s) (p_id record) record ''policy_decisions''
       (id_debug ''PolicyDecisionId'' (p_id record))) (\<lambda>m.
     Inr ((), s\<lparr>policy_decisions := m\<rparr>))))"

definition validate_lock_owner :: "'x InMemoryInner \<Rightarrow> LockDecision \<Rightarrow> unit StoreResult" where
  "validate_lock_owner s record =
     (case l_owner record of
        LockOwner.Job job_id \<Rightarrow>
          andthen (ok_or (bt_get (jobs s) job_id)
            (NotFound ''jobs'' (Msg ''{} (lock_decision.owner)'' [id_debug ''JobId'' job_id]))) (\<lambda>job.
          ensure_same_repository ''lock_decisions'' ''lock_decision.owner''
            (l_repository_id record) (j_repository_id job))
      | _ \<Rightarrow> Inr ())"

definition create_lock_decision :: "LockDecision \<Rightarrow> ('x, unit) mutator" where
  "create_lock_decision record s =
     andthen (require (\<not> contains_key (lock_decisions s) (l_id record))
       (DuplicateId ''lock_decisions'' (Msg ''{}'' [id_debug ''LockDecisionId'' (l_id record)]))) (\<lambda>_.
     andthen (validate_lock_decision_timing record) (\<lambda>_.
     andthen (require (contains_key (repositories s) (l_repository_id record))
       (NotFound ''repositories'' (Msg ''{}'' [id_debug ''RepositoryId'' (l_repository_id record)]))) (\<lambda>_.
     andthen (ok_or (hm_get (policy_decisions s) (l_policy_decision_id record))
       (NotFound ''policy_decisions''
         (Msg ''{}'' [id_debug ''PolicyDecisionId'' (l_policy_decision_id record)]))) (\<lambda>policy_decision.
     andthen (ensure_same_repository ''lock_decisions'' ''lock_decision.policy_decision_id''
       (l_repository_id record) (p_repository_id policy_decision)) (\<lambda>_.
     andthen (validate_lock_owner s record) (\<lambda>_.
     andthen
       (if is_active_lock_status (l_status record) then
          case find (\<lambda>existing. is_active_lock_status (l_status existing) \<and>
                 l_repository_id existing = l_repository_id record \<and>
                 l_locked_scope existing = l_locked_scope record) (hm_values (lock_decisions s)) of
            None \<Rightarrow> Inr ()
          | Some existing \<Rightarrow>
              Inl (Conflict ''lock_decisions'' (Msg ''active lock {} already covers repository/scope''
                [id_debug ''LockDecisionId'' (l_id existing)]))
        else Inr ()) (\<lambda>_.
     Inr ((), s\<lparr>lock_decisions := hm_insert (l_id record) record (lock_decisions s)\<rparr>))))))))"

section \<open>Tool invocations, results and audit records\<close>

definition create_tool_invocation :: "ToolInvocation \<Rightarrow> ('x, unit) mutator" where
  "create_tool_invocation record s =
     andthen (validate_tool_invocation_refs s record) (\<lambda>_.
     andthen (insert_record (tool_invocations s) (t_id record) record ''tool_invocations''
       (id_debug ''ToolInvocationId'' (t_id record))) (\<lambda>m.
     Inr ((), s\<lparr>tool_invocations := m\<rparr>)))"

definition create_tool_result :: "ToolResult \<Rightarrow> ('x, unit) mutator" where
  "create_tool_result record s =
     andthen (validate_tool_result_refs s record) (\<lambda>_.
     andthen (insert_record (tool_results s) (r_id record) record ''tool_results''
       (id_debug ''ToolResultId'' (r_id record))) (\<lambda>m.
     Inr ((), s\<lparr>tool_results := m\<rparr>)))"

definition create_audit_record :: "AuditRecord \<Rightarrow> ('x, unit) mutator" where
  "create_audit_record record s =
     andthen (validate_audit_record_refs s record) (\<lambda>_.
     andthen (insert_record (audit_records s) (a_id record) record ''audit_records''
       (id_debug ''AuditRecordId'' (a_id record))) (\<lambda>m.
     Inr ((), s\<lparr>audit_records := m\<rparr>)))"

definition record_submit_job_idempotency ::
    "string \<Rightarrow> SubmitJobIdempotencyRecord \<Rightarrow> ('x, unit) mutator" where
  "record_submit_job_idempotency idempotency_key record s =
     andthen (insert_submit_job_idempotency_locked s idempotency_key record) (\<lambda>s'. Inr ((), s'))"

text \<open>
  The checks and writes that the two operations on a finished tool call share. The result and
  the audit record are checked as pending; then the result, its event, the audit record and its
  event are written, the job pointing at the latest event after each.
\<close>

definition check_tool_result_and_audit ::
    "(string \<Rightarrow> bool) \<Rightarrow> JobRecord \<Rightarrow> ToolResult \<Rightarrow> JobEvent \<Rightarrow> AuditRecord \<Rightarrow> JobEvent
     \<Rightarrow> 'x InMemoryInner \<Rightarrow> unit StoreResult" where
  "check_tool_result_and_audit uuid_ok record tool_result tool_result_event audit_record audit_event s =
     andthen (validate_job_update s record tool_result_event) (\<lambda>_.
     andthen (validate_job_update s record audit_event) (\<lambda>_.
     andthen (validate_tool_result_refs s tool_result) (\<lambda>_.
     andthen (validate_audit_record_refs_with_pending_tool_result s audit_record (Some tool_result)) (\<lambda>_.
     andthen (validate_new_job_event_with_pending_records uuid_ok s tool_result_event None
       (Some tool_result) None) (\<lambda>_.
     andthen (validate_new_job_event_with_pending_records uuid_ok s audit_event None
       (Some tool_result) (Some audit_record)) (\<lambda>_.
     andthen (ensure_ref_absent (\<not> contains_key (tool_results s) (r_id tool_result)) ''tool_results''
       (id_debug ''ToolResultId'' (r_id tool_result))) (\<lambda>_.
     ensure_ref_absent (\<not> contains_key (audit_records s) (a_id audit_record)) ''audit_records''
       (id_debug ''AuditRecordId'' (a_id audit_record)))))))))"

definition write_tool_result_and_audit ::
    "JobRecord \<Rightarrow> ToolResult \<Rightarrow> JobEvent \<Rightarrow> AuditRecord \<Rightarrow> JobEvent \<Rightarrow> ('x, JobEvent \<times> JobEvent) mutator" where
  "write_tool_result_and_audit record tool_result tool_result_event audit_record audit_event s =
     andthen (insert_record (tool_results s) (r_id tool_result) tool_result ''tool_results''
       (id_debug ''ToolResultId'' (r_id tool_result))) (\<lambda>rs.
     andthen (append_event_locked tool_result_event (s\<lparr>tool_results := rs\<rparr>)) (\<lambda>(tool_result_event', s1).
     let s2 = put_job (record\<lparr>j_latest_event_id := Some (e_id tool_result_event')\<rparr>) s1 in
     andthen (insert_record (audit_records s2) (a_id audit_record) audit_record ''audit_records''
       (id_debug ''AuditRecordId'' (a_id audit_record))) (\<lambda>as.
     andthen (append_event_locked audit_event (s2\<lparr>audit_records := as\<rparr>)) (\<lambda>(audit_event', s3).
     Inr ((tool_result_event', audit_event'),
          put_job (record\<lparr>j_latest_event_id := Some (e_id audit_event')\<rparr>) s3)))))"

definition record_tool_result_and_audit_with_events ::
    "(string \<Rightarrow> bool) \<Rightarrow> JobRecord \<Rightarrow> ToolResult \<Rightarrow> JobEvent \<Rightarrow> AuditRecord \<Rightarrow> JobEvent
     \<Rightarrow> ('x, (JobEvent \<times> JobEvent) \<times> JobEvent list) mutator" where
  "record_tool_result_and_audit_with_events uuid_ok record tool_result tool_result_event audit_record audit_event s =
     andthen (validate_sibling_event_ids_are_unique tool_result_event audit_event) (\<lambda>_.
     andthen (check_tool_result_and_audit uuid_ok record tool_result tool_result_event
       audit_record audit_event s) (\<lambda>_.
     andthen (ensure_event_sequence_capacity s 2) (\<lambda>_.
     andthen (write_tool_result_and_audit record tool_result tool_result_event audit_record audit_event s)
       (\<lambda>((tool_result_event', audit_event'), s').
     Inr (((tool_result_event', audit_event'), [tool_result_event', audit_event']), s')))))"

record ToolResultAuditTerminalRequest =
  tq_record :: JobRecord
  tq_tool_result :: ToolResult
  tq_tool_result_event :: JobEvent
  tq_audit_record :: AuditRecord
  tq_audit_event :: JobEvent
  tq_terminal_event :: JobEvent
  tq_idempotency :: "(string \<times> SubmitJobIdempotencyRecord) option"

fun terminal_status_of :: "ToolResultStatus \<Rightarrow> JobStatus" where
  "terminal_status_of ToolResultStatus.Succeeded = JobStatus.Succeeded"
| "terminal_status_of ToolResultStatus.Failed = JobStatus.Failed"
| "terminal_status_of TimedOut = JobStatus.Failed"
| "terminal_status_of ToolResultStatus.Canceled = JobStatus.Canceled"

text \<open>The receipt's last three events are replaced by the committed ones (\<open>get_mut\<close> ignores an
  index out of range, \<open>saturating_sub\<close> stops at 0), then its job.\<close>

definition commit_receipt ::
    "JobEvent \<Rightarrow> JobEvent \<Rightarrow> JobEvent \<Rightarrow> JobRecord \<Rightarrow> SubmitJobIdempotencyRecord
     \<Rightarrow> SubmitJobIdempotencyRecord" where
  "commit_receipt tool_result_event audit_event terminal_event final_record idempotency_record =
     (let receipt = sj_receipt idempotency_record;
          event_len = length (rc_events receipt);
          events1 = (rc_events receipt)[event_len - 3 := tool_result_event];
          events2 = events1[event_len - 2 := audit_event];
          events3 = set_last terminal_event events2
      in idempotency_record\<lparr>sj_receipt := receipt\<lparr>rc_events := events3, rc_job := final_record\<rparr>\<rparr>)"

definition record_tool_result_audit_terminal_with_submit_job_idempotency ::
    "(string \<Rightarrow> bool) \<Rightarrow> ToolResultAuditTerminalRequest
     \<Rightarrow> ('x, (JobEvent \<times> JobEvent \<times> JobEvent) \<times> JobEvent list) mutator" where
  "record_tool_result_audit_terminal_with_submit_job_idempotency uuid_ok request s =
     (let record = tq_record request;
          tool_result = tq_tool_result request;
          tool_result_event = tq_tool_result_event request;
          audit_record = tq_audit_record request;
          audit_event = tq_audit_event request;
          terminal_event = tq_terminal_event request
      in
      andthen (validate_sibling_event_ids_are_unique tool_result_event audit_event) (\<lambda>_.
      andthen (validate_sibling_event_ids_are_unique tool_result_event terminal_event) (\<lambda>_.
      andthen (validate_sibling_event_ids_are_unique audit_event terminal_event) (\<lambda>_.
      andthen (check_tool_result_and_audit uuid_ok record tool_result tool_result_event
        audit_record audit_event s) (\<lambda>_.
      andthen (ensure_event_sequence_capacity s 3) (\<lambda>_.
      andthen (map_err (\<lambda>error. Conflict ''jobs''
            (Msg ''job update for {} has invalid lifecycle transition: {error:?}''
              [id_debug ''JobId'' (j_id record), transition_error_debug error]))
          (transition_status record (terminal_status_of (r_status tool_result))
            (e_created_at terminal_event))) (\<lambda>final_record.
      andthen (validate_job_update_against record final_record terminal_event) (\<lambda>_.
      andthen (validate_new_job_event_with_pending_records uuid_ok s terminal_event
        (Some final_record) (Some tool_result) (Some audit_record)) (\<lambda>_.
      andthen (write_tool_result_and_audit record tool_result tool_result_event audit_record audit_event s)
        (\<lambda>((tool_result_event', audit_event'), s1).
      andthen (append_event_locked terminal_event s1) (\<lambda>(terminal_event', s2).
      let final_record' = final_record\<lparr>j_latest_event_id := Some (e_id terminal_event')\<rparr>;
          s3 = put_job final_record' s2
      in
      andthen (case tq_idempotency request of
          None \<Rightarrow> Inr s3
        | Some (idempotency_key, idempotency_record) \<Rightarrow>
            insert_submit_job_idempotency_locked s3 idempotency_key
              (commit_receipt tool_result_event' audit_event' terminal_event' final_record'
                idempotency_record)) (\<lambda>s4.
      Inr (((tool_result_event', audit_event', terminal_event'),
            [tool_result_event', audit_event', terminal_event']), s4)))))))))))))"

section \<open>The extension registry\<close>

text \<open>\<open>validate_ext\<close> is \<open>ExtensionRegistrySnapshot::validate_with_policy\<close> under the default policy.\<close>

definition set_extension_registry_snapshot ::
    "('x \<Rightarrow> message + unit) \<Rightarrow> 'x \<Rightarrow> ('x, unit) mutator" where
  "set_extension_registry_snapshot validate_ext snapshot s =
     andthen (map_err (InvalidRecord ''extension_registry'') (validate_ext snapshot)) (\<lambda>_.
     Inr ((), s\<lparr>extension_registry_snapshot := snapshot\<rparr>))"

end
