(* ===== verification/EventLog.thy ===== *)
theory EventLog
  imports Operations
begin

text \<open>
  The event ledger as an abstract log. The store keeps the events in two indexes (by id, and
  ids by sequence number) and a counter; \<open>log_rep s es\<close> says that together they represent the
  list \<open>es\<close>: the event with sequence number \<open>n\<close> is the \<open>n\<close>-th of the list. Appending an event
  to the store appends it to the list, and looking an event up is looking it up in the list.
\<close>

definition event_log :: "'x InMemoryInner \<Rightarrow> JobEvent list" where
  "event_log s = List.map_filter (hm_get (job_events_by_id s)) (bt_values (job_events_by_sequence s))"

definition log_rep :: "'x InMemoryInner \<Rightarrow> JobEvent list \<Rightarrow> bool" where
  "log_rep s es \<longleftrightarrow>
     next_event_sequence s = length es \<and> length es \<le> u64_max \<and>
     job_events_by_sequence s = zip [1..<Suc (length es)] (map e_id es) \<and>
     map e_sequence_number es = [1..<Suc (length es)] \<and>
     distinct (map e_id es) \<and> hm_wf (job_events_by_id s) \<and>
     (\<forall>i. hm_get (job_events_by_id s) i = find (\<lambda>e. e_id e = i) es)"

section \<open>Reading the log\<close>

lemma find_distinct_id:
  "distinct (map e_id es) \<Longrightarrow> e \<in> set es \<Longrightarrow> find (\<lambda>x. e_id x = e_id e) es = Some e"
  by (induction es) (auto simp: image_iff)

lemma find_id_None: "find (\<lambda>e. e_id e = i) es = None \<longleftrightarrow> i \<notin> set (map e_id es)"
  by (auto simp: find_None_iff)

lemma find_id_Some: "find (\<lambda>e. e_id e = i) es = Some e \<Longrightarrow> e \<in> set es \<and> e_id e = i"
  by (induction es) (auto split: if_splits)

lemma find_append: "find P (xs @ ys) = (case find P xs of None \<Rightarrow> find P ys | Some x \<Rightarrow> Some x)"
  by (induction xs) auto

lemma log_rep_get_id:
  "log_rep s es \<Longrightarrow> hm_get (job_events_by_id s) i = Some e \<longleftrightarrow> e \<in> set es \<and> e_id e = i"
  unfolding log_rep_def using find_distinct_id [of es e] find_id_Some [of i es e] by auto

lemma map_filter_total:
  "(\<And>x. x \<in> set xs \<Longrightarrow> f (g x) = Some x) \<Longrightarrow> List.map_filter f (map g xs) = xs"
  by (induction xs) (simp_all add: List.map_filter_simps)

lemma log_rep_values:
  "log_rep s es \<Longrightarrow> bt_values (job_events_by_sequence s) = map e_id es"
  by (simp add: log_rep_def bt_values_def del: upt_Suc)

lemma log_rep_event_log: "log_rep s es \<Longrightarrow> event_log s = es"
  unfolding event_log_def log_rep_values by (rule map_filter_total) (simp add: log_rep_get_id)

lemma log_rep_default: "log_rep (InMemoryInner_default x) []"
  by (simp add: log_rep_def InMemoryInner_default_def hm_wf_def)

lemma log_rep_nth: "log_rep s es \<Longrightarrow> k < length es \<Longrightarrow> e_sequence_number (es ! k) = Suc k"
proof -
  assume rep: "log_rep s es" and k: "k < length es"
  then have "map e_sequence_number es ! k = [1..<Suc (length es)] ! k" by (simp only: log_rep_def)
  with k show ?thesis by (simp del: upt_Suc)
qed

lemma log_rep_suffix:
  assumes "log_rep s (es @ es')"
  shows "map e_sequence_number es' = [Suc (length es)..<Suc (length (es @ es'))]"
proof (rule nth_equalityI)
  fix k assume "k < length (map e_sequence_number es')"
  with log_rep_nth [OF assms, of "length es + k"]
  show "map e_sequence_number es' ! k = [Suc (length es)..<Suc (length (es @ es'))] ! k"
    by (simp add: nth_append del: upt_Suc)
qed (simp del: upt_Suc)

lemma log_rep_sequence:
  assumes "log_rep s es" "e \<in> set es"
  shows "es ! (e_sequence_number e - 1) = e" "1 \<le> e_sequence_number e" "e_sequence_number e \<le> length es"
  using assms log_rep_nth [OF assms(1)] by (auto simp: in_set_conv_nth)

section \<open>Appending\<close>

lemma append_event_locked_eq_Inr:
  "append_event_locked e s = Inr (e', s') \<longleftrightarrow>
     next_event_sequence s < u64_max \<and>
     e' = e\<lparr>e_sequence_number := Suc (next_event_sequence s)\<rparr> \<and>
     s' = s\<lparr>next_event_sequence := Suc (next_event_sequence s),
            job_events_by_sequence :=
              bt_insert (Suc (next_event_sequence s)) (e_id e) (job_events_by_sequence s),
            job_events_by_id := hm_insert (e_id e) e' (job_events_by_id s)\<rparr>"
  by (auto simp: append_event_locked_def Let_def)

text \<open>Appending an event with a fresh id appends it to the log, with the next sequence number.\<close>

lemma log_rep_append:
  assumes rep: "log_rep s es" and "hm_get (job_events_by_id s) (e_id e) = None"
    and "append_event_locked e s = Inr (e', s')"
  shows "log_rep s' (es @ [e'])"
proof -
  let ?n = "Suc (length es)"
  have fresh: "e_id e \<notin> set (map e_id es)"
    using rep assms(2) find_id_None by (metis log_rep_def)
  have n: "next_event_sequence s = length es" using rep by (simp add: log_rep_def)
  have e': "e' = e\<lparr>e_sequence_number := ?n\<rparr>" and "length es < u64_max"
    and s': "s' = s\<lparr>next_event_sequence := ?n,
        job_events_by_sequence := bt_insert ?n (e_id e) (job_events_by_sequence s),
        job_events_by_id := hm_insert (e_id e) e' (job_events_by_id s)\<rparr>"
    using assms(3) unfolding append_event_locked_eq_Inr n by auto
  have "bt_insert ?n (e_id e) (job_events_by_sequence s) = job_events_by_sequence s @ [(?n, e_id e)]"
    using rep by (intro bt_insert_last) (auto simp: log_rep_def simp del: upt_Suc)
  moreover have "hm_wf (hm_insert (e_id e) e' (job_events_by_id s))"
    using rep by (auto simp: log_rep_def intro: hm.wf_put)
  moreover have "find (\<lambda>x. e_id x = i) (es @ [e']) =
      (if i = e_id e then Some e' else find (\<lambda>x. e_id x = i) es)" for i
    using fresh e' find_id_None [of "e_id e" es] by (auto simp: find_append split: option.splits)
  moreover have u: "[1..<Suc (length (es @ [e']))] = [1..<?n] @ [?n]"
    by (simp add: upt_Suc_append)
  moreover have "zip ([1..<?n] @ [?n]) (map e_id (es @ [e'])) = zip [1..<?n] (map e_id es) @ [(?n, e_id e)]"
    using e' by (simp del: upt_Suc)
  ultimately show ?thesis
    using rep fresh \<open>length es < u64_max\<close> e' s' unfolding log_rep_def u by (auto simp del: upt_Suc)
qed

text \<open>The capacity check makes the appends of one transaction total.\<close>

lemma ensure_event_sequence_capacity_eq_Inr [simp, ok_simps]:
  "ensure_event_sequence_capacity s n = Inr u \<longleftrightarrow> next_event_sequence s + n \<le> u64_max"
  by (auto simp: ensure_event_sequence_capacity_def)

lemma append_event_locked_total:
  "next_event_sequence s < u64_max \<longleftrightarrow> (\<exists>e' s'. append_event_locked e s = Inr (e', s'))"
  by (auto simp: append_event_locked_eq_Inr)

text \<open>Only the indexes and the counter of the log are touched.\<close>

lemma append_event_locked_frame:
  assumes "append_event_locked e s = Inr (e', s')"
  shows "repositories s' = repositories s" "jobs s' = jobs s" "policy_decisions s' = policy_decisions s"
    "lock_decisions s' = lock_decisions s" "schema_migrations s' = schema_migrations s"
    "tool_invocations s' = tool_invocations s" "tool_results s' = tool_results s"
    "audit_records s' = audit_records s" "idempotent_submit_jobs s' = idempotent_submit_jobs s"
    "extension_registry_snapshot s' = extension_registry_snapshot s"
    "e' = e\<lparr>e_sequence_number := Suc (next_event_sequence s)\<rparr>"
    "next_event_sequence s' = Suc (next_event_sequence s)"
    "job_events_by_id s' = hm_insert (e_id e) e' (job_events_by_id s)"
  using assms by (auto simp: append_event_locked_eq_Inr)

text \<open>\<open>log_rep\<close> depends on the log's fields only.\<close>

lemma log_rep_cong:
  "next_event_sequence s' = next_event_sequence s \<Longrightarrow> job_events_by_sequence s' = job_events_by_sequence s \<Longrightarrow>
   job_events_by_id s' = job_events_by_id s \<Longrightarrow> log_rep s' es = log_rep s es"
  by (simp add: log_rep_def)

end
