(* ===== verification/Migrations.thy ===== *)
theory Migrations
  imports Operations
begin

text \<open>
  Schema migrations and the migration lock (\<open>store.rs\<close>, \<open>create_schema_migration\<close> to
  \<open>list_schema_migrations\<close> and their helpers). A lock record is held, released or expired;
  every operation first expires the locks that are out of date at its timestamp. The lemmas
  show mutual exclusion: at most one lock is held, whatever the timestamps of the callers.
\<close>

section \<open>Operations\<close>

definition is_schema_migration_lock :: "SchemaMigrationRecord \<Rightarrow> bool" where
  "is_schema_migration_lock record \<longleftrightarrow>
     m_migration_name record = MIGRATION_LOCK_RECORD_NAME \<and> m_migration_lock record \<noteq> None"

definition schema_migration_lock_records ::
    "(SchemaMigrationId, SchemaMigrationRecord) hmap \<Rightarrow> SchemaMigrationRecord list" where
  "schema_migration_lock_records records = filter is_schema_migration_lock (hm_values records)"

text \<open>\<open>Iterator::max_by\<close> keeps the later of two equal elements; \<open>gt\<close> is \<open>Ordering::Greater\<close>.\<close>

definition max_by :: "('a \<Rightarrow> 'a \<Rightarrow> bool) \<Rightarrow> 'a list \<Rightarrow> 'a option" where
  "max_by gt xs =
     (case xs of [] \<Rightarrow> None | x # ys \<Rightarrow> Some (foldl (\<lambda>a b. if gt a b then a else b) x ys))"

definition later_migration :: "SchemaMigrationRecord \<Rightarrow> SchemaMigrationRecord \<Rightarrow> bool" where
  "later_migration left right \<longleftrightarrow>
     m_created_at left > m_created_at right \<or>
     m_created_at left = m_created_at right \<and> as_str (m_id left) > as_str (m_id right)"

definition most_recent_schema_migration_lock_record ::
    "(SchemaMigrationId, SchemaMigrationRecord) hmap \<Rightarrow> SchemaMigrationRecord option" where
  "most_recent_schema_migration_lock_record records =
     max_by later_migration (schema_migration_lock_records records)"

definition active_migration_lock ::
    "'x InMemoryInner \<Rightarrow> LedgerTimestamp \<Rightarrow> SchemaMigrationRecord option" where
  "active_migration_lock s at =
     max_by later_migration
       (filter (\<lambda>record. case m_migration_lock record of
                   None \<Rightarrow> False | Some lock \<Rightarrow> lock_is_active lock at)
         (schema_migration_lock_records (schema_migrations s)))"

definition schema_migration_lock_conflict_reason :: "SchemaMigrationRecord \<Rightarrow> message" where
  "schema_migration_lock_conflict_reason active_lock =
     Msg ''active migration lock {} already held by {}''
       [id_debug ''SchemaMigrationId'' (m_id active_lock),
        FStr (case m_migration_lock active_lock of
                None \<Rightarrow> ''<unknown>'' | Some lock \<Rightarrow> k_leader_id lock)]"

definition expire_record :: "LedgerTimestamp \<Rightarrow> SchemaMigrationRecord \<Rightarrow> SchemaMigrationRecord" where
  "expire_record now record =
     (case m_migration_lock record of
        None \<Rightarrow> record
      | Some lock \<Rightarrow>
          if k_status lock = MigrationLockStatus.Held \<and> lock_is_expired lock now then
            let terminal_at = max now (m_updated_at record) in
            record\<lparr>m_migration_lock :=
                     Some (lock\<lparr>k_status := MigrationLockStatus.Expired, k_released_at := Some terminal_at\<rparr>),
                   m_updated_at := terminal_at\<rparr>
          else record)"

definition expire_schema_migration_locks ::
    "LedgerTimestamp \<Rightarrow> 'x InMemoryInner \<Rightarrow> 'x InMemoryInner" where
  "expire_schema_migration_locks now s =
     s\<lparr>schema_migrations := map (\<lambda>(i, record). (i, expire_record now record)) (schema_migrations s)\<rparr>"

definition create_schema_migration :: "SchemaMigrationRecord \<Rightarrow> ('x, unit) mutator" where
  "create_schema_migration record s =
     andthen (validate_schema_migration_record record) (\<lambda>_.
     let write_at = (case m_migration_lock record of
                       None \<Rightarrow> m_updated_at record | Some lock \<Rightarrow> k_locked_at lock);
         s1 = expire_schema_migration_locks write_at s
     in
     andthen (case active_migration_lock s1 write_at of
         None \<Rightarrow> Inr ()
       | Some active_lock \<Rightarrow>
           andthen (require (\<not> is_migration_lock record)
             (Conflict ''schema_migrations'' (schema_migration_lock_conflict_reason active_lock))) (\<lambda>_.
           let active_leader_id = (case m_migration_lock active_lock of
                 None \<Rightarrow> ''<unknown>'' | Some lock \<Rightarrow> k_leader_id lock)
           in require (m_leader_id record = Some active_leader_id)
                (Conflict ''schema_migrations'' (schema_migration_lock_conflict_reason active_lock)))) (\<lambda>_.
     andthen (insert_record (schema_migrations s1) (m_id record) record ''schema_migrations''
       (id_debug ''SchemaMigrationId'' (m_id record))) (\<lambda>m.
     Inr ((), s1\<lparr>schema_migrations := m\<rparr>))))"

text \<open>The \<open>expect\<close> on \<open>new_migration_lock\<close> cannot fail: the timeout has been checked. \<open>uuid\<close> is
  the fresh UUID of the lock record.\<close>

definition acquire_schema_migration_lock ::
    "string \<Rightarrow> string \<Rightarrow> bool \<Rightarrow> nat \<Rightarrow> LedgerTimestamp \<Rightarrow> ('x, SchemaMigrationRecord) mutator" where
  "acquire_schema_migration_lock uuid leader_id safe timeout_millis locked_at s =
     andthen (require (trim leader_id \<noteq> []) (invalid_migration ''leader_id must not be blank'')) (\<lambda>_.
     andthen (require (timeout_millis \<noteq> 0)
       (invalid_migration ''timeout_millis must be greater than zero'')) (\<lambda>_.
     let s1 = expire_schema_migration_locks locked_at s in
     andthen (case active_migration_lock s1 locked_at of
         None \<Rightarrow> Inr ()
       | Some active_lock \<Rightarrow>
           Inl (Conflict ''schema_migrations'' (schema_migration_lock_conflict_reason active_lock))) (\<lambda>_.
     andthen (map_err (\<lambda>_. invalid_migration ''timeout_millis validated above'')
       (new_migration_lock uuid leader_id locked_at safe timeout_millis)) (\<lambda>record.
     andthen (insert_record (schema_migrations s1) (m_id record) record ''schema_migrations''
       (id_debug ''SchemaMigrationId'' (m_id record))) (\<lambda>m.
     Inr (record, s1\<lparr>schema_migrations := m\<rparr>))))))"

definition get_schema_migration_lock ::
    "LedgerTimestamp \<Rightarrow> ('x, SchemaMigrationRecord option) mutator" where
  "get_schema_migration_lock now s =
     (let s1 = expire_schema_migration_locks now s
      in Inr (most_recent_schema_migration_lock_record (schema_migrations s1), s1))"

definition release_schema_migration_lock ::
    "SchemaMigrationId \<Rightarrow> string \<Rightarrow> LedgerTimestamp \<Rightarrow> ('x, SchemaMigrationRecord) mutator" where
  "release_schema_migration_lock i leader_id released_at s =
     (let s1 = expire_schema_migration_locks released_at s in
      andthen (ok_or (hm_get (schema_migrations s1) i)
        (NotFound ''schema_migrations'' (Msg ''{}'' [id_debug ''SchemaMigrationId'' i]))) (\<lambda>record.
      andthen (require (is_schema_migration_lock record)
        (InvalidRecord ''schema_migrations''
          (Msg ''{} is not a migration lock'' [id_debug ''SchemaMigrationId'' i]))) (\<lambda>_.
      let lock = the (m_migration_lock record) in
      andthen (require (k_leader_id lock = leader_id)
        (Conflict ''schema_migrations'' (Msg ''migration lock leader_id mismatch'' []))) (\<lambda>_.
      if k_status lock = MigrationLockStatus.Released then Inr (record, s1)
      else
        andthen (require (k_status lock \<noteq> MigrationLockStatus.Expired)
          (Conflict ''schema_migrations'' (Msg ''migration lock is already expired'' []))) (\<lambda>_.
        andthen (require (\<not> released_at < k_locked_at lock)
          (invalid_migration ''released_at must not be earlier than locked_at'')) (\<lambda>_.
        let record' = record\<lparr>
              m_migration_lock := Some (lock\<lparr>k_status := MigrationLockStatus.Released,
                                              k_released_at := Some released_at\<rparr>),
              m_updated_at := max released_at (m_updated_at record)\<rparr>
        in Inr (record', s1\<lparr>schema_migrations := hm_insert i record' (schema_migrations s1)\<rparr>)))))))"

section \<open>Mutual exclusion\<close>

definition held :: "SchemaMigrationRecord \<Rightarrow> bool" where
  "held m \<longleftrightarrow> (case m_migration_lock m of None \<Rightarrow> False | Some k \<Rightarrow> k_status k = MigrationLockStatus.Held)"

text \<open>The invariant of the collection: every record is valid and at most one lock is held.\<close>

definition migrations_ok :: "(SchemaMigrationId, SchemaMigrationRecord) hmap \<Rightarrow> bool" where
  "migrations_ok ms \<longleftrightarrow>
     hm_wf ms \<and>
     (\<forall>i m. hm_get ms i = Some m \<longrightarrow> m_id m = i \<and> validate_schema_migration_record m = Inr ()) \<and>
     (\<forall>i m i' m'. hm_get ms i = Some m \<longrightarrow> hm_get ms i' = Some m' \<longrightarrow> held m \<longrightarrow> held m' \<longrightarrow> i = i')"

lemma migrations_okI:
  assumes "hm_wf ms"
    and "\<And>i m. hm_get ms i = Some m \<Longrightarrow> m_id m = i \<and> validate_schema_migration_record m = Inr ()"
    and "\<And>i m i' m'. \<lbrakk>hm_get ms i = Some m; hm_get ms i' = Some m'; held m; held m'\<rbrakk> \<Longrightarrow> i = i'"
  shows "migrations_ok ms"
  using assms unfolding migrations_ok_def by blast

lemma validate_schema_migration_record_iff:
  "validate_schema_migration_record m = Inr u \<longleftrightarrow>
     trim (m_migration_name m) \<noteq> [] \<and> (\<forall>l. m_leader_id m = Some l \<longrightarrow> trim l \<noteq> []) \<and>
     m_created_at m \<le> m_updated_at m \<and>
     (if m_migration_name m = MIGRATION_LOCK_RECORD_NAME then
        \<exists>k. m_migration_lock m = Some k \<and> m_leader_id m = Some (k_leader_id k) \<and>
            k_timeout_millis k \<noteq> 0 \<and> trim (k_leader_id k) \<noteq> [] \<and> m_created_at m = k_locked_at k \<and>
            (if k_status k = MigrationLockStatus.Held then k_released_at k = None
             else \<exists>r. k_released_at k = Some r \<and> m_created_at m \<le> r \<and> r \<le> m_updated_at m)
      else m_migration_lock m = None)"
proof (cases "m_migration_name m = MIGRATION_LOCK_RECORD_NAME")
  case True
  then show ?thesis
    by (cases "m_leader_id m"; cases "m_migration_lock m")
      (auto simp: validate_schema_migration_record_def not_less split: option.splits)
next
  case False
  then show ?thesis
    by (auto simp: validate_schema_migration_record_def not_less split: option.splits)
qed

lemma expire_record_id [simp]: "m_id (expire_record now m) = m_id m"
  and expire_record_name [simp]: "m_migration_name (expire_record now m) = m_migration_name m"
  and expire_record_created [simp]: "m_created_at (expire_record now m) = m_created_at m"
  by (simp_all add: expire_record_def Let_def split: option.splits)

lemma expire_record_valid:
  "validate_schema_migration_record m = Inr () \<Longrightarrow> validate_schema_migration_record (expire_record now m) = Inr ()"
proof (cases "m_migration_lock m")
  case (Some k)
  then show "validate_schema_migration_record m = Inr () \<Longrightarrow> ?thesis"
    by (cases "k_status k")
       (auto simp: expire_record_def validate_schema_migration_record_iff Let_def split: if_splits)
qed (simp add: expire_record_def)

lemma held_expire_record:
  "held (expire_record now m) \<longleftrightarrow>
     (\<exists>k. m_migration_lock m = Some k \<and> k_status k = MigrationLockStatus.Held \<and> \<not> lock_is_expired k now)"
  by (auto simp: held_def expire_record_def Let_def split: option.splits)

lemma held_expire_record_imp: "held (expire_record now m) \<Longrightarrow> held m"
  unfolding held_expire_record by (auto simp: held_def)

lemma expire_get [simp]:
  "hm_get (schema_migrations (expire_schema_migration_locks now s)) i =
     map_option (expire_record now) (hm_get (schema_migrations s) i)"
  by (simp add: expire_schema_migration_locks_def map_of_map)

lemma expire_wf [simp]:
  "hm_wf (schema_migrations (expire_schema_migration_locks now s)) = hm_wf (schema_migrations s)"
  by (simp add: expire_schema_migration_locks_def hm_wf_def comp_def case_prod_beta')

lemma expire_migrations_ok:
  assumes "migrations_ok (schema_migrations s)"
  shows "migrations_ok (schema_migrations (expire_schema_migration_locks now s))"
proof (rule migrations_okI)
  fix i m i' m'
  assume "hm_get (schema_migrations (expire_schema_migration_locks now s)) i = Some m" "held m"
    "hm_get (schema_migrations (expire_schema_migration_locks now s)) i' = Some m'" "held m'"
  then obtain z z' where "hm_get (schema_migrations s) i = Some z" "held z"
    "hm_get (schema_migrations s) i' = Some z'" "held z'"
    by (auto dest: held_expire_record_imp)
  with assms show "i = i'" unfolding migrations_ok_def by blast
qed (use assms in \<open>auto simp: migrations_ok_def intro: expire_record_valid\<close>)

text \<open>A lock that is still held after expiry at a time is active at that time.\<close>

lemma held_after_expire_active:
  assumes "hm_get (schema_migrations (expire_schema_migration_locks now s)) i = Some m" "held m"
  obtains k where "m_migration_lock m = Some k" "lock_is_active k now"
proof -
  from assms obtain m0 where m0: "hm_get (schema_migrations s) i = Some m0" "m = expire_record now m0"
    by auto
  with assms(2) obtain k where "m_migration_lock m0 = Some k" "k_status k = MigrationLockStatus.Held"
    "\<not> lock_is_expired k now"
    by (auto simp: held_expire_record)
  then show ?thesis
    using m0 that by (auto simp: expire_record_def lock_is_active_def lock_is_expired_def)
qed

lemma max_by_None [simp]: "max_by gt xs = None \<longleftrightarrow> xs = []"
  by (simp add: max_by_def split: list.splits)

lemma foldl_max_mem: "foldl (\<lambda>a b. if gt a b then a else b) x ys \<in> insert x (set ys)"
  by (induction ys arbitrary: x) auto

lemma max_by_Some: "max_by gt xs = Some x \<Longrightarrow> x \<in> set xs"
  using foldl_max_mem by (fastforce simp: max_by_def split: list.splits)

lemma valid_lock_name:
  "validate_schema_migration_record m = Inr () \<Longrightarrow>
     m_migration_lock m \<noteq> None \<longleftrightarrow> m_migration_name m = MIGRATION_LOCK_RECORD_NAME"
  by (auto simp: validate_schema_migration_record_iff split: if_splits)

lemma valid_is_lock:
  "validate_schema_migration_record m = Inr () \<Longrightarrow> is_schema_migration_lock m \<longleftrightarrow> m_migration_lock m \<noteq> None"
  using valid_lock_name by (auto simp: is_schema_migration_lock_def)

lemma active_migration_lock_None:
  assumes "migrations_ok (schema_migrations s)"
  shows "active_migration_lock s t = None \<longleftrightarrow>
     (\<forall>i m k. hm_get (schema_migrations s) i = Some m \<longrightarrow> m_migration_lock m = Some k \<longrightarrow> \<not> lock_is_active k t)"
proof -
  have wf: "hm_wf (schema_migrations s)"
    and v: "\<And>i m. hm_get (schema_migrations s) i = Some m \<Longrightarrow> validate_schema_migration_record m = Inr ()"
    using assms by (auto simp: migrations_ok_def)
  have "active_migration_lock s t = None \<longleftrightarrow>
      (\<forall>m \<in> set (hm_values (schema_migrations s)). is_schema_migration_lock m \<longrightarrow>
         (\<forall>k. m_migration_lock m = Some k \<longrightarrow> \<not> lock_is_active k t))"
    by (auto simp: active_migration_lock_def schema_migration_lock_records_def filter_empty_conv
        split: option.splits)
  also have "\<dots> \<longleftrightarrow> (\<forall>i m. hm_get (schema_migrations s) i = Some m \<longrightarrow>
         (\<forall>k. m_migration_lock m = Some k \<longrightarrow> \<not> lock_is_active k t))"
    unfolding Ball_def hm.vals_get [OF wf] using v valid_is_lock by blast
  finally show ?thesis by blast
qed

lemma active_migration_lock_Some:
  assumes "migrations_ok (schema_migrations s)" "active_migration_lock s t = Some m"
  obtains i k where "hm_get (schema_migrations s) i = Some m" "m_migration_lock m = Some k" "lock_is_active k t"
proof -
  have wf: "hm_wf (schema_migrations s)" using assms(1) by (simp add: migrations_ok_def)
  from max_by_Some [OF assms(2) [unfolded active_migration_lock_def]] that show ?thesis
    by (auto simp: schema_migration_lock_records_def hm.vals_get [OF wf] split: option.splits)
qed

text \<open>Inserting a valid record keeps the invariant if the record is not held or nothing is.\<close>

lemma migrations_ok_insert:
  assumes "migrations_ok ms" "validate_schema_migration_record m = Inr ()"
    and "held m \<Longrightarrow> \<forall>i' m'. hm_get ms i' = Some m' \<longrightarrow> i' \<noteq> m_id m \<longrightarrow> \<not> held m'"
  shows "migrations_ok (hm_insert (m_id m) m ms)"
proof (rule migrations_okI)
  show "hm_wf (hm_insert (m_id m) m ms)"
    using assms(1) by (auto simp: migrations_ok_def intro: hm.wf_put)
next
  fix i v
  assume "hm_get (hm_insert (m_id m) m ms) i = Some v"
  then show "m_id v = i \<and> validate_schema_migration_record v = Inr ()"
    using assms(1,2) by (auto simp: migrations_ok_def split: if_splits)
next
  fix i v i' v'
  assume "hm_get (hm_insert (m_id m) m ms) i = Some v" "held v"
    "hm_get (hm_insert (m_id m) m ms) i' = Some v'" "held v'"
  then show "i = i'"
    using assms(3) assms(1) [unfolded migrations_ok_def] by (cases "i = m_id m"; cases "i' = m_id m") auto
qed

lemma no_held_after_expire:
  assumes "migrations_ok (schema_migrations s)"
    and "active_migration_lock (expire_schema_migration_locks t s) t = None"
    and "hm_get (schema_migrations (expire_schema_migration_locks t s)) i = Some m"
  shows "\<not> held m"
proof
  assume "held m"
  from held_after_expire_active [OF assms(3) this] obtain k where
    "m_migration_lock m = Some k" "lock_is_active k t" .
  with assms(2,3) show False
    unfolding active_migration_lock_None [OF expire_migrations_ok [OF assms(1)]] by blast
qed

lemma acquire_eq_Inr:
  "acquire_schema_migration_lock uuid leader safe timeout t s = Inr (m, s') \<longleftrightarrow>
     trim leader \<noteq> [] \<and> timeout \<noteq> 0 \<and>
     active_migration_lock (expire_schema_migration_locks t s) t = None \<and>
     new_migration_lock uuid leader t safe timeout = Inr m \<and>
     hm_get (schema_migrations s) (m_id m) = None \<and>
     s' = (expire_schema_migration_locks t s)\<lparr>schema_migrations :=
            hm_insert (m_id m) m (schema_migrations (expire_schema_migration_locks t s))\<rparr>"
  by (auto simp: acquire_schema_migration_lock_def Let_def split: option.splits)

lemma trim_lock_name: "trim MIGRATION_LOCK_RECORD_NAME \<noteq> []"
  by code_simp

lemma new_lock_valid:
  "new_migration_lock uuid leader t safe n = Inr m \<Longrightarrow> trim leader \<noteq> [] \<Longrightarrow>
     validate_schema_migration_record m = Inr () \<and> held m"
  unfolding new_migration_lock_eq_Inr
  by (auto simp: validate_schema_migration_record_iff held_def trim_lock_name)

lemma acquire_migrations_ok:
  assumes "migrations_ok (schema_migrations s)"
    and "acquire_schema_migration_lock uuid leader safe timeout t s = Inr (m, s')"
  shows "migrations_ok (schema_migrations s')"
proof -
  note a = assms(2) [unfolded acquire_eq_Inr]
  have "migrations_ok (hm_insert (m_id m) m (schema_migrations (expire_schema_migration_locks t s)))"
    using expire_migrations_ok [OF assms(1)] new_lock_valid a no_held_after_expire [OF assms(1)]
    by (intro migrations_ok_insert) blast+
  with a show ?thesis by simp
qed

lemma create_schema_migration_eq_Inr:
  "create_schema_migration record s = Inr (u, s') \<longleftrightarrow>
     (let write_at = (case m_migration_lock record of None \<Rightarrow> m_updated_at record | Some k \<Rightarrow> k_locked_at k);
          s1 = expire_schema_migration_locks write_at s
      in validate_schema_migration_record record = Inr () \<and>
         (\<forall>a. active_migration_lock s1 write_at = Some a \<longrightarrow>
            \<not> is_migration_lock record \<and>
            m_leader_id record = Some (case m_migration_lock a of None \<Rightarrow> ''<unknown>'' | Some k \<Rightarrow> k_leader_id k)) \<and>
         hm_get (schema_migrations s) (m_id record) = None \<and>
         s' = s1\<lparr>schema_migrations := hm_insert (m_id record) record (schema_migrations s1)\<rparr>)"
  by (auto simp: create_schema_migration_def Let_def split: option.splits)

lemma create_schema_migration_ok:
  assumes "migrations_ok (schema_migrations s)" "create_schema_migration record s = Inr (u, s')"
  shows "migrations_ok (schema_migrations s')"
proof -
  define t where "t = (case m_migration_lock record of None \<Rightarrow> m_updated_at record | Some k \<Rightarrow> k_locked_at k)"
  let ?s = "expire_schema_migration_locks t s"
  note c = assms(2) [unfolded create_schema_migration_eq_Inr Let_def, folded t_def]
  have "\<not> held m" if "held record" "hm_get (schema_migrations ?s) i = Some m" for i m
  proof -
    from that(1) have "is_migration_lock record"
      using c valid_lock_name [of "record"] by (auto simp: held_def is_migration_lock_def split: option.splits)
    with c have "active_migration_lock ?s t = None" by (cases "active_migration_lock ?s t") auto
    with that(2) assms(1) show ?thesis by (blast dest: no_held_after_expire)
  qed
  then have "migrations_ok (hm_insert (m_id record) record (schema_migrations ?s))"
    using expire_migrations_ok [OF assms(1)] c by (intro migrations_ok_insert) blast+
  with c show ?thesis by simp
qed

lemma release_record_valid:
  assumes "validate_schema_migration_record m = Inr ()" "m_migration_lock m = Some k"
    and "k_locked_at k \<le> t"
  shows "validate_schema_migration_record
     (m\<lparr>m_migration_lock := Some (k\<lparr>k_status := MigrationLockStatus.Released, k_released_at := Some t\<rparr>),
        m_updated_at := max t (m_updated_at m)\<rparr>) = Inr ()"
  using assms valid_lock_name [OF assms(1)]
  by (auto simp: validate_schema_migration_record_iff)

lemma release_eq_Inr:
  assumes "hm_get (schema_migrations (expire_schema_migration_locks t s)) i = Some m" "m_migration_lock m = Some k"
  shows "release_schema_migration_lock i leader t s = Inr (m', s') \<longleftrightarrow>
     is_schema_migration_lock m \<and> k_leader_id k = leader \<and> k_status k \<noteq> MigrationLockStatus.Expired \<and>
     (if k_status k = MigrationLockStatus.Released
      then m' = m \<and> s' = expire_schema_migration_locks t s
      else k_locked_at k \<le> t \<and>
        m' = m\<lparr>m_migration_lock := Some (k\<lparr>k_status := MigrationLockStatus.Released, k_released_at := Some t\<rparr>),
               m_updated_at := max t (m_updated_at m)\<rparr> \<and>
        s' = (expire_schema_migration_locks t s)\<lparr>schema_migrations :=
               hm_insert i m' (schema_migrations (expire_schema_migration_locks t s))\<rparr>)"
  using assms(2) unfolding release_schema_migration_lock_def Let_def assms(1) andthen_eq_Inr ok_or_Some
  by (cases "k_status k") (auto simp: not_less)

lemma release_Inr_lock:
  assumes "release_schema_migration_lock i leader t s = Inr (m', s')"
  obtains m k where "hm_get (schema_migrations (expire_schema_migration_locks t s)) i = Some m"
    "m_migration_lock m = Some k"
proof -
  from assms obtain m where "hm_get (schema_migrations (expire_schema_migration_locks t s)) i = Some m"
    "is_schema_migration_lock m"
    unfolding release_schema_migration_lock_def Let_def andthen_eq_Inr ok_or_eq_Inr require_eq_Inr by blast
  with that show ?thesis unfolding is_schema_migration_lock_def by blast
qed

lemma release_migrations_ok:
  assumes ok: "migrations_ok (schema_migrations s)"
    and r: "release_schema_migration_lock i leader t s = Inr (m', s')"
  shows "migrations_ok (schema_migrations s')"
proof -
  let ?s = "expire_schema_migration_locks t s"
  note ok1 = expire_migrations_ok [OF ok, of t]
  obtain m k where m: "hm_get (schema_migrations ?s) i = Some m" "m_migration_lock m = Some k"
    using release_Inr_lock [OF r] .
  from ok1 m(1) have v: "m_id m = i" "validate_schema_migration_record m = Inr ()"
    unfolding migrations_ok_def by blast+
  note c = r [unfolded release_eq_Inr [OF m]]
  show ?thesis
  proof (cases "k_status k = MigrationLockStatus.Released")
    case True
    with c ok1 show ?thesis by simp
  next
    case False
    with c have m': "m' = m\<lparr>m_migration_lock := Some (k\<lparr>k_status := MigrationLockStatus.Released, k_released_at := Some t\<rparr>),
               m_updated_at := max t (m_updated_at m)\<rparr>"
      and s': "schema_migrations s' = hm_insert i m' (schema_migrations ?s)" and "k_locked_at k \<le> t"
      by simp_all
    then have "validate_schema_migration_record m' = Inr ()"
      using release_record_valid [OF v(2) m(2)] by simp
    moreover have "m_id m' = i" "\<not> held m'" using m' v(1) by (simp_all add: held_def)
    ultimately show ?thesis using migrations_ok_insert [OF ok1, of m'] s' by simp
  qed
qed

end
