(* ===== verification/Invariant.thy ===== *)
theory Invariant
  imports EventLog Migrations
begin

text \<open>
  The invariant of the ledger: the collections are keyed by id, the event indexes represent a
  log whose events all pass the event checks, every record's references resolve and agree, the
  uniqueness rules of repositories, advisory locks and tool results hold, and the schema
  migrations are well formed. Every operation keeps it.
\<close>

section \<open>Valid records\<close>

definition job_valid :: "'x InMemoryInner \<Rightarrow> JobRecord \<Rightarrow> bool" where
  "job_valid s j \<longleftrightarrow>
     hm_get (repositories s) (j_repository_id j) \<noteq> None \<and>
     (\<exists>i e. j_latest_event_id j = Some i \<and> hm_get (job_events_by_id s) i = Some e \<and>
            rf_job_id (e_refs e) = Some (j_id j))"

definition policy_valid :: "'x InMemoryInner \<Rightarrow> PolicyDecision \<Rightarrow> bool" where
  "policy_valid s d \<longleftrightarrow> hm_get (repositories s) (p_repository_id d) \<noteq> None"

definition lock_valid :: "'x InMemoryInner \<Rightarrow> LockDecision \<Rightarrow> bool" where
  "lock_valid s l \<longleftrightarrow>
     validate_lock_decision_timing l = Inr () \<and>
     hm_get (repositories s) (l_repository_id l) \<noteq> None \<and>
     (\<exists>d. hm_get (policy_decisions s) (l_policy_decision_id l) = Some d \<and>
          p_repository_id d = l_repository_id l) \<and>
     validate_lock_owner s l = Inr ()"

definition result_valid :: "'x InMemoryInner \<Rightarrow> ToolResult \<Rightarrow> bool" where
  "result_valid s r \<longleftrightarrow>
     (\<exists>t. hm_get (tool_invocations s) (r_invocation_id r) = Some t \<and> t_tool_id t = r_tool_id r)"

definition records_valid :: "'x InMemoryInner \<Rightarrow> bool" where
  "records_valid s \<longleftrightarrow>
     (\<forall>i j. bt_get (jobs s) i = Some j \<longrightarrow> job_valid s j) \<and>
     (\<forall>i d. hm_get (policy_decisions s) i = Some d \<longrightarrow> policy_valid s d) \<and>
     (\<forall>i l. hm_get (lock_decisions s) i = Some l \<longrightarrow> lock_valid s l) \<and>
     (\<forall>i t. hm_get (tool_invocations s) i = Some t \<longrightarrow> validate_tool_invocation_refs s t = Inr ()) \<and>
     (\<forall>i r. hm_get (tool_results s) i = Some r \<longrightarrow> result_valid s r) \<and>
     (\<forall>i a. hm_get (audit_records s) i = Some a \<longrightarrow> validate_audit_record_refs s a = Inr ())"

section \<open>Growth\<close>

text \<open>What every operation does to the ledger: records and events stay, jobs keep id and repository.\<close>

definition grows :: "'x InMemoryInner \<Rightarrow> 'x InMemoryInner \<Rightarrow> bool" where
  "grows s s' \<longleftrightarrow>
     extends s None None None s' \<and>
     (\<forall>i e. hm_get (job_events_by_id s) i = Some e \<longrightarrow> hm_get (job_events_by_id s') i = Some e)"

lemma grows_refl [simp]: "grows s s"
  by (simp add: grows_def)

lemma grows_trans: "grows s s' \<Longrightarrow> grows s' s'' \<Longrightarrow> grows s s''"
  by (auto simp: grows_def intro: extends_trans)

lemma grows_repository: "grows s s' \<Longrightarrow> hm_get (repositories s) i \<noteq> None \<Longrightarrow> hm_get (repositories s') i \<noteq> None"
  unfolding grows_def by (auto dest: extendsD(1))

lemma job_valid_grows: "grows s s' \<Longrightarrow> job_valid s j \<Longrightarrow> job_valid s' j"
  using grows_repository unfolding job_valid_def grows_def by blast

lemma policy_valid_grows: "grows s s' \<Longrightarrow> policy_valid s d \<Longrightarrow> policy_valid s' d"
  using grows_repository unfolding policy_valid_def by blast

lemma extends_job:
  "extends s None None None s' \<Longrightarrow> bt_get (jobs s) i = Some j \<Longrightarrow>
     \<exists>j'. bt_get (jobs s') i = Some j' \<and> j_id j' = j_id j \<and> j_repository_id j' = j_repository_id j"
  using extendsD(2) [of s None None None s' i j] by simp

lemma validate_lock_owner_grows:
  assumes "grows s s'" "validate_lock_owner s l = Inr ()"
  shows "validate_lock_owner s' l = Inr ()"
proof (cases "l_owner l")
  case (Job i)
  then obtain j where "bt_get (jobs s) i = Some j" "j_repository_id j = l_repository_id l"
    using assms(2) by (auto simp: validate_lock_owner_def)
  with Job extends_job [of s s' i j] assms(1) show ?thesis
    by (auto simp: validate_lock_owner_def grows_def)
qed (simp_all add: validate_lock_owner_def)

lemma lock_valid_grows: "grows s s' \<Longrightarrow> lock_valid s l \<Longrightarrow> lock_valid s' l"
  using validate_lock_owner_grows grows_repository unfolding lock_valid_def
  by (auto simp: grows_def dest: extendsD(1,3))

lemma result_valid_grows: "grows s s' \<Longrightarrow> result_valid s r \<Longrightarrow> result_valid s' r"
  unfolding result_valid_def grows_def by (auto dest: extendsD(5))

lemma invocation_valid_grows:
  assumes "grows s s'" "validate_tool_invocation_refs s t = Inr ()"
  shows "validate_tool_invocation_refs s' t = Inr ()"
proof -
  from assms(2) obtain j where "bt_get (jobs s) (t_job_id t) = Some j" "j_repository_id j = t_repository_id t"
    by (auto simp: validate_tool_invocation_refs_def)
  with extends_job [of s s' "t_job_id t" j] assms show ?thesis
    by (auto simp: validate_tool_invocation_refs_def grows_def dest: extendsD(1,3))
qed

lemma audit_valid_grows:
  assumes "grows s s'" "validate_audit_record_refs s a = Inr ()"
  shows "validate_audit_record_refs s' a = Inr ()"
proof (cases "a_tool_invocation_id a")
  case None
  then show ?thesis using assms
    by (auto simp: validate_audit_record_refs_def validate_audit_record_refs_with_pending_tool_result_def
        grows_def dest: extendsD(1,3))
next
  case (Some i)
  then show ?thesis using assms
    by (auto simp: validate_audit_record_refs_def validate_audit_record_refs_with_pending_tool_result_def
        grows_def dest: extendsD(1,3,5))
qed

lemma audit_pending_valid:
  "validate_audit_record_refs_with_pending_tool_result s a p = Inr () \<Longrightarrow> validate_audit_record_refs s a = Inr ()"
  by (auto simp: validate_audit_record_refs_def validate_audit_record_refs_with_pending_tool_result_def
      split: option.splits)

text \<open>Growth keeps the records valid; only the new ones have to be checked.\<close>

lemma records_valid_grows:
  assumes "records_valid s" "grows s s'"
    and "\<And>i j. bt_get (jobs s') i = Some j \<Longrightarrow> bt_get (jobs s) i = Some j \<or> job_valid s' j"
    and "\<And>i d. hm_get (policy_decisions s') i = Some d \<Longrightarrow> hm_get (policy_decisions s) i = Some d \<or> policy_valid s' d"
    and "\<And>i l. hm_get (lock_decisions s') i = Some l \<Longrightarrow> hm_get (lock_decisions s) i = Some l \<or> lock_valid s' l"
    and "\<And>i t. hm_get (tool_invocations s') i = Some t \<Longrightarrow>
        hm_get (tool_invocations s) i = Some t \<or> validate_tool_invocation_refs s' t = Inr ()"
    and "\<And>i r. hm_get (tool_results s') i = Some r \<Longrightarrow> hm_get (tool_results s) i = Some r \<or> result_valid s' r"
    and "\<And>i a. hm_get (audit_records s') i = Some a \<Longrightarrow>
        hm_get (audit_records s) i = Some a \<or> validate_audit_record_refs s' a = Inr ()"
  shows "records_valid s'"
  unfolding records_valid_def
proof (intro conjI allI impI)
  note r = assms(1) [unfolded records_valid_def]
  fix i j assume "bt_get (jobs s') i = Some j"
  with assms(3) r job_valid_grows [OF assms(2)] show "job_valid s' j" by blast
next
  note r = assms(1) [unfolded records_valid_def]
  fix i d assume "hm_get (policy_decisions s') i = Some d"
  with assms(4) r policy_valid_grows [OF assms(2)] show "policy_valid s' d" by blast
next
  note r = assms(1) [unfolded records_valid_def]
  fix i l assume "hm_get (lock_decisions s') i = Some l"
  with assms(5) r lock_valid_grows [OF assms(2)] show "lock_valid s' l" by blast
next
  note r = assms(1) [unfolded records_valid_def]
  fix i t assume "hm_get (tool_invocations s') i = Some t"
  with assms(6) r invocation_valid_grows [OF assms(2)] show "validate_tool_invocation_refs s' t = Inr ()" by blast
next
  note r = assms(1) [unfolded records_valid_def]
  fix i x assume "hm_get (tool_results s') i = Some x"
  with assms(7) r result_valid_grows [OF assms(2)] show "result_valid s' x" by blast
next
  note r = assms(1) [unfolded records_valid_def]
  fix i a assume "hm_get (audit_records s') i = Some a"
  with assms(8) r audit_valid_grows [OF assms(2)] show "validate_audit_record_refs s' a = Inr ()" by blast
qed

lemma records_valid_owners: "records_valid s \<Longrightarrow> owners_registered s"
  unfolding records_valid_def owners_registered_def
  by (auto simp: job_valid_def policy_valid_def lock_valid_def validate_tool_invocation_refs_def
      validate_audit_record_refs_def validate_audit_record_refs_with_pending_tool_result_def)

section \<open>Uniqueness\<close>

definition repositories_ok :: "'x InMemoryInner \<Rightarrow> bool" where
  "repositories_ok s \<longleftrightarrow>
     (\<forall>i r. hm_get (repositories s) i = Some r \<longrightarrow> validate_repository_record r = Inr ()) \<and>
     (\<forall>i r i' r'. hm_get (repositories s) i = Some r \<longrightarrow> hm_get (repositories s) i' = Some r' \<longrightarrow> i \<noteq> i' \<longrightarrow>
        rp_root_path r \<noteq> rp_root_path r' \<and>
        (repository_roots_strictly_overlap (rp_root_path r) (rp_root_path r') \<longrightarrow>
           rp_trust_state r \<noteq> RepositoryTrustState.Blocked)) \<and>
     (\<forall>k d r i' r'. hm_get (policy_decisions s) k = Some d \<longrightarrow> is_root_scoped_repository_block d \<longrightarrow>
        hm_get (repositories s) (p_repository_id d) = Some r \<longrightarrow> hm_get (repositories s) i' = Some r' \<longrightarrow>
        \<not> repository_roots_strictly_overlap (rp_root_path r) (rp_root_path r'))"

definition locks_ok :: "(LockDecisionId, LockDecision) hmap \<Rightarrow> bool" where
  "locks_ok ls \<longleftrightarrow>
     (\<forall>i l i' l'. hm_get ls i = Some l \<longrightarrow> hm_get ls i' = Some l' \<longrightarrow>
        l_status l = LockStatus.Held \<longrightarrow> l_status l' = LockStatus.Held \<longrightarrow>
        l_repository_id l = l_repository_id l' \<longrightarrow> l_locked_scope l = l_locked_scope l' \<longrightarrow> i = i')"

definition results_ok :: "(ToolResultId, ToolResult) hmap \<Rightarrow> bool" where
  "results_ok rs \<longleftrightarrow>
     (\<forall>i r i' r'. hm_get rs i = Some r \<longrightarrow> hm_get rs i' = Some r' \<longrightarrow>
        r_invocation_id r = r_invocation_id r' \<longrightarrow> i = i')"

section \<open>The invariant\<close>

definition ledger_inv :: "(string \<Rightarrow> bool) \<Rightarrow> 'x InMemoryInner \<Rightarrow> bool" where
  "ledger_inv uuid_ok s \<longleftrightarrow>
     keyed s \<and> log_rep s (event_log s) \<and> (\<forall>e \<in> set (event_log s). event_valid uuid_ok s e) \<and>
     records_valid s \<and> repositories_ok s \<and> locks_ok (lock_decisions s) \<and> results_ok (tool_results s) \<and>
     migrations_ok (schema_migrations s)"

lemma ledger_invD:
  assumes "ledger_inv ok s"
  shows "keyed s" "log_rep s (event_log s)" "\<And>e. e \<in> set (event_log s) \<Longrightarrow> event_valid ok s e"
    "records_valid s" "repositories_ok s" "locks_ok (lock_decisions s)" "results_ok (tool_results s)"
    "migrations_ok (schema_migrations s)" "owners_registered s"
  using assms records_valid_owners by (auto simp: ledger_inv_def)

lemma ledger_inv_default: "ledger_inv ok (InMemoryInner_default x)"
  using log_rep_default [of x] log_rep_event_log [OF log_rep_default, of x]
  by (simp add: ledger_inv_def keyed_def records_valid_def repositories_ok_def locks_ok_def results_ok_def
      migrations_ok_def InMemoryInner_default_def hm_wf_def bt_wf_def)

text \<open>
  The step all operations share: the ledger grows, the log gets the new events, and the new
  records and events are valid.
\<close>

lemma ledger_inv_step:
  assumes "ledger_inv ok s" "grows s s'" "keyed s'"
    and "log_rep s' (event_log s @ es)" "\<And>e. e \<in> set es \<Longrightarrow> event_valid ok s' e"
    and "records_valid s'" "repositories_ok s'" "locks_ok (lock_decisions s')" "results_ok (tool_results s')"
    and "migrations_ok (schema_migrations s')"
  shows "ledger_inv ok s'" "event_log s' = event_log s @ es"
proof -
  show log: "event_log s' = event_log s @ es" using log_rep_event_log [OF assms(4)] .
  have "event_valid ok s' e" if "e \<in> set (event_log s)" for e
    using event_valid_mono [of ok s e s'] ledger_invD(1,3) [OF assms(1)] that assms(2,3)
    by (auto simp: grows_def)
  with assms log show "ledger_inv ok s'" by (auto simp: ledger_inv_def)
qed

end
