(* ===== verification/Preservation.thy ===== *)
theory Preservation
  imports Invariant
begin

text \<open>
  Every operation of the store keeps the ledger's invariant, grows the ledger, and appends
  exactly the events it returns to the log.
\<close>

text \<open>What a successful operation with the given events guarantees.\<close>

definition op_ok :: "(string \<Rightarrow> bool) \<Rightarrow> 'x InMemoryInner \<Rightarrow> JobEvent list \<Rightarrow> 'x InMemoryInner \<Rightarrow> bool" where
  "op_ok uuid_ok s es s' \<longleftrightarrow> ledger_inv uuid_ok s' \<and> grows s s' \<and> event_log s' = event_log s @ es"

lemma op_ok_trans: "op_ok ok s es s' \<Longrightarrow> op_ok ok s' es' s'' \<Longrightarrow> op_ok ok s (es @ es') s''"
  by (auto simp: op_ok_def intro: grows_trans)

lemma op_okI:
  assumes "ledger_inv ok s" "grows s s'" "keyed s'"
    and "log_rep s' (event_log s @ es)" "\<And>e. e \<in> set es \<Longrightarrow> event_valid ok s' e"
    and "records_valid s'" "repositories_ok s'" "locks_ok (lock_decisions s')" "results_ok (tool_results s')"
    and "migrations_ok (schema_migrations s')"
  shows "op_ok ok s es s'"
  using ledger_inv_step [OF assms] assms(2) by (simp add: op_ok_def)

section \<open>Operations that insert a record\<close>

lemma create_repository_eq_Inr:
  "create_repository record s = Inr (u, s') \<longleftrightarrow>
     validate_repository_record record = Inr () \<and>
     \<not> list_ex (\<lambda>r. rp_root_path r = rp_root_path record) (hm_values (repositories s)) \<and>
     find (\<lambda>r. repository_roots_strictly_overlap (rp_root_path record) (rp_root_path r) \<and>
        (rp_trust_state record = RepositoryTrustState.Blocked \<or> rp_trust_state r = RepositoryTrustState.Blocked))
       (hm_values (repositories s)) = None \<and>
     blocked_policy_scan (repositories s) (rp_root_path record) (hm_values (policy_decisions s)) = Inr None \<and>
     hm_get (repositories s) (rp_id record) = None \<and>
     s' = s\<lparr>repositories := hm_insert (rp_id record) record (repositories s)\<rparr>"
  unfolding create_repository_def root_scoped_blocked_policy_overlapping_repository_def
  by (cases "blocked_policy_scan (repositories s) (rp_root_path record) (hm_values (policy_decisions s))")
     (auto split: option.splits)

lemma repositories_ok_insert:
  assumes R: "repositories_ok s" and v: "validate_repository_record record = Inr ()"
    and fresh: "hm_get (repositories s) (rp_id record) = None"
    and pv: "\<And>k d. hm_get (policy_decisions s) k = Some d \<Longrightarrow> policy_valid s d"
    and roots: "\<And>i r. hm_get (repositories s) i = Some r \<Longrightarrow> rp_root_path r \<noteq> rp_root_path record"
    and overlap: "\<And>i r. \<lbrakk>hm_get (repositories s) i = Some r;
        repository_roots_strictly_overlap (rp_root_path record) (rp_root_path r)\<rbrakk> \<Longrightarrow>
        rp_trust_state record \<noteq> RepositoryTrustState.Blocked \<and> rp_trust_state r \<noteq> RepositoryTrustState.Blocked"
    and policy: "\<And>k d r. \<lbrakk>hm_get (policy_decisions s) k = Some d; is_root_scoped_repository_block d;
        hm_get (repositories s) (p_repository_id d) = Some r\<rbrakk> \<Longrightarrow>
        \<not> repository_roots_strictly_overlap (rp_root_path record) (rp_root_path r)"
  shows "repositories_ok (s\<lparr>repositories := hm_insert (rp_id record) record (repositories s)\<rparr>)"
    (is "repositories_ok ?s")
  unfolding repositories_ok_def
proof (intro conjI allI impI)
  note R = R [unfolded repositories_ok_def]
  have get: "hm_get (repositories ?s) i = (if i = rp_id record then Some record else hm_get (repositories s) i)" for i
    by simp
  {
    fix i r i' r'
    assume "hm_get (repositories ?s) i = Some r" "hm_get (repositories ?s) i' = Some r'" "i \<noteq> i'"
    then show "rp_root_path r \<noteq> rp_root_path r'"
      using roots R unfolding get by (metis option.inject)
  next
    fix i r i' r'
    assume "hm_get (repositories ?s) i = Some r" "hm_get (repositories ?s) i' = Some r'" "i \<noteq> i'"
      "repository_roots_strictly_overlap (rp_root_path r) (rp_root_path r')"
    then show "rp_trust_state r \<noteq> RepositoryTrustState.Blocked"
      using overlap R roots_overlap_sym unfolding get by (metis option.inject)
  next
    fix k d r i' r'
    assume "hm_get (policy_decisions ?s) k = Some d" "is_root_scoped_repository_block d"
      "hm_get (repositories ?s) (p_repository_id d) = Some r" "hm_get (repositories ?s) i' = Some r'"
    then show "\<not> repository_roots_strictly_overlap (rp_root_path r) (rp_root_path r')"
      using pv [of k d, unfolded policy_valid_def] policy [of k d r] R fresh
        roots_overlap_sym [of "rp_root_path record" "rp_root_path r"]
      by (auto split: if_splits)
  next
    fix i r
    assume "hm_get (repositories ?s) i = Some r"
    then show "validate_repository_record r = Inr ()" using R v unfolding get by (metis option.inject)
  }
qed

lemma create_repository_ok:
  assumes inv: "ledger_inv ok s" and c: "create_repository record s = Inr (u, s')"
  shows "op_ok ok s [] s'"
proof -
  note I = ledger_invD [OF inv]
  have wf: "hm_wf (repositories s)" "hm_wf (policy_decisions s)" using I(1) by (simp_all add: keyed_def)
  note c = c [unfolded create_repository_eq_Inr]
  then have s': "s' = s\<lparr>repositories := hm_insert (rp_id record) record (repositories s)\<rparr>"
    and fresh: "hm_get (repositories s) (rp_id record) = None" by auto
  have "repositories_ok s'" unfolding s'
  proof (rule repositories_ok_insert [OF I(5) _ fresh])
    show "policy_valid s d" if "hm_get (policy_decisions s) k = Some d" for k d
      using I(4) that by (auto simp: records_valid_def)
    show "rp_root_path r \<noteq> rp_root_path record" if "hm_get (repositories s) i = Some r" for i r
      using c that hm.vals_get [OF wf(1)] by (auto simp: list_ex_iff)
    show "rp_trust_state record \<noteq> RepositoryTrustState.Blocked \<and> rp_trust_state r \<noteq> RepositoryTrustState.Blocked"
      if "hm_get (repositories s) i = Some r"
        "repository_roots_strictly_overlap (rp_root_path record) (rp_root_path r)" for i r
      using c that hm.find_None [OF wf(1)] by auto
    show "\<not> repository_roots_strictly_overlap (rp_root_path record) (rp_root_path r)"
      if "hm_get (policy_decisions s) k = Some d" "is_root_scoped_repository_block d"
        "hm_get (repositories s) (p_repository_id d) = Some r" for k d r
      using c that hm.vals_get [OF wf(2)] unfolding blocked_policy_scan_None by fastforce
  qed (use c in simp)
  moreover have g: "grows s s'" using s' fresh by (auto simp: grows_def extends_def)
  moreover have "records_valid s'" by (rule records_valid_grows [OF I(4) g]) (use s' in simp_all)
  moreover have "keyed s'" using I(1) s' by (auto simp: keyed_def intro: hm.wf_put)
  moreover have "log_rep s' (event_log s @ [])" using I(2) s' by (simp add: log_rep_def)
  ultimately show ?thesis using inv I s' by (intro op_okI) simp_all
qed

lemma create_policy_decision_ok:
  assumes inv: "ledger_inv ok s" and c: "create_policy_decision record s = Inr (u, s')"
  shows "op_ok ok s [] s'"
proof -
  note I = ledger_invD [OF inv]
  have wf: "hm_wf (repositories s)" using I(1) by (simp add: keyed_def)
  have s': "s' = s\<lparr>policy_decisions := hm_insert (p_id record) record (policy_decisions s)\<rparr>"
    and fresh: "hm_get (policy_decisions s) (p_id record) = None"
    and reg: "hm_get (repositories s) (p_repository_id record) \<noteq> None"
    using c by (auto simp: create_policy_decision_def)
  have new: "\<not> repository_roots_strictly_overlap (rp_root_path r) (rp_root_path r')"
    if "is_root_scoped_repository_block record" "hm_get (repositories s) (p_repository_id record) = Some r"
      "hm_get (repositories s) i' = Some r'" for r i' r'
    using c that hm.find_None [OF wf] keyed_ids(7) [OF I(1)]
    by (cases "i' = p_repository_id record") (auto simp: create_policy_decision_def split: option.splits)
  have g: "grows s s'" using s' fresh by (auto simp: grows_def extends_def)
  have "records_valid s'"
    by (rule records_valid_grows [OF I(4) g])
       (use s' reg in \<open>auto simp: policy_valid_def split: if_splits\<close>)
  moreover have "repositories_ok s'"
    using I(5) new s' unfolding repositories_ok_def by (auto split: if_splits)
  moreover have "keyed s'" using I(1) s' by (auto simp: keyed_def intro: hm.wf_put)
  moreover have "log_rep s' (event_log s @ [])" using I(2) s' by (simp add: log_rep_def)
  ultimately show ?thesis using inv g I s' by (intro op_okI) simp_all
qed

lemma create_lock_decision_eq_Inr:
  "create_lock_decision l s = Inr (u, s') \<longleftrightarrow>
     hm_get (lock_decisions s) (l_id l) = None \<and> lock_valid s l \<and>
     (l_status l = LockStatus.Held \<longrightarrow>
        find (\<lambda>x. l_status x = LockStatus.Held \<and> l_repository_id x = l_repository_id l \<and>
                l_locked_scope x = l_locked_scope l) (hm_values (lock_decisions s)) = None) \<and>
     s' = s\<lparr>lock_decisions := hm_insert (l_id l) l (lock_decisions s)\<rparr>"
  unfolding create_lock_decision_def lock_valid_def
  by (cases "hm_get (policy_decisions s) (l_policy_decision_id l)") (auto split: option.splits)

lemma create_lock_decision_ok:
  assumes inv: "ledger_inv ok s" and c: "create_lock_decision l s = Inr (u, s')"
  shows "op_ok ok s [] s'"
proof -
  note I = ledger_invD [OF inv] and c = c [unfolded create_lock_decision_eq_Inr]
  have wf: "hm_wf (lock_decisions s)" using I(1) by (simp add: keyed_def)
  have s': "s' = s\<lparr>lock_decisions := hm_insert (l_id l) l (lock_decisions s)\<rparr>"
    and fresh: "hm_get (lock_decisions s) (l_id l) = None" using c by auto
  have g: "grows s s'" using s' fresh by (auto simp: grows_def extends_def)
  have "lock_valid s' l" using c lock_valid_grows [OF g] by blast
  then have "records_valid s'"
    by (intro records_valid_grows [OF I(4) g]) (use s' in \<open>auto split: if_splits\<close>)
  moreover have "locks_ok (lock_decisions s')"
    using I(6) c hm.find_None [OF wf] s' unfolding locks_ok_def by (auto split: if_splits) blast
  moreover have "repositories_ok s'" using I(5) s' by (simp add: repositories_ok_def)
  moreover have "keyed s'" using I(1) s' by (auto simp: keyed_def intro: hm.wf_put)
  moreover have "log_rep s' (event_log s @ [])" using I(2) s' by (simp add: log_rep_def)
  ultimately show ?thesis using inv g I s' by (intro op_okI) simp_all
qed

lemma create_tool_invocation_ok:
  assumes inv: "ledger_inv ok s" and c: "create_tool_invocation t s = Inr (u, s')"
  shows "op_ok ok s [] s'"
proof -
  note I = ledger_invD [OF inv]
  have s': "s' = s\<lparr>tool_invocations := hm_insert (t_id t) t (tool_invocations s)\<rparr>"
    and fresh: "hm_get (tool_invocations s) (t_id t) = None"
    and v: "validate_tool_invocation_refs s t = Inr ()"
    using c by (auto simp: create_tool_invocation_def)
  have g: "grows s s'" using s' fresh by (auto simp: grows_def extends_def)
  have "records_valid s'"
    by (rule records_valid_grows [OF I(4) g])
       (use s' invocation_valid_grows [OF g v] in \<open>auto split: if_splits\<close>)
  moreover have "repositories_ok s'" using I(5) s' by (simp add: repositories_ok_def)
  moreover have "keyed s'" using I(1) s' by (auto simp: keyed_def intro: hm.wf_put)
  moreover have "log_rep s' (event_log s @ [])" using I(2) s' by (simp add: log_rep_def)
  ultimately show ?thesis using inv g I s' by (intro op_okI) simp_all
qed

text \<open>A result whose invocation has none yet keeps the results unique.\<close>

lemma results_ok_insert:
  assumes "results_ok (tool_results s)" "hm_wf (tool_results s)" "validate_tool_result_refs s r = Inr ()"
  shows "results_ok (hm_insert (r_id r) r (tool_results s))"
proof -
  have "r_invocation_id x \<noteq> r_invocation_id r" if "hm_get (tool_results s) i = Some x" for i x
    using assms(3) that hm.vals_get [OF assms(2)] by (auto simp: validate_tool_result_refs_def list_ex_iff)
  with assms(1) show ?thesis unfolding results_ok_def by (auto split: if_splits) blast
qed

lemma tool_result_refs_valid: "validate_tool_result_refs s r = Inr () \<Longrightarrow> result_valid s r"
  by (auto simp: validate_tool_result_refs_def result_valid_def)

lemma create_tool_result_ok:
  assumes inv: "ledger_inv ok s" and c: "create_tool_result r s = Inr (u, s')"
  shows "op_ok ok s [] s'"
proof -
  note I = ledger_invD [OF inv]
  have s': "s' = s\<lparr>tool_results := hm_insert (r_id r) r (tool_results s)\<rparr>"
    and fresh: "hm_get (tool_results s) (r_id r) = None"
    and v: "validate_tool_result_refs s r = Inr ()"
    using c by (auto simp: create_tool_result_def)
  have g: "grows s s'" using s' fresh by (auto simp: grows_def extends_def)
  have "records_valid s'"
    by (rule records_valid_grows [OF I(4) g])
       (use s' result_valid_grows [OF g tool_result_refs_valid [OF v]] in \<open>auto split: if_splits\<close>)
  moreover have "results_ok (tool_results s')"
    using results_ok_insert [OF I(7) _ v] I(1) s' by (simp add: keyed_def)
  moreover have "repositories_ok s'" using I(5) s' by (simp add: repositories_ok_def)
  moreover have "keyed s'" using I(1) s' by (auto simp: keyed_def intro: hm.wf_put)
  moreover have "log_rep s' (event_log s @ [])" using I(2) s' by (simp add: log_rep_def)
  ultimately show ?thesis using inv g I s' by (intro op_okI) simp_all
qed

lemma create_audit_record_ok:
  assumes inv: "ledger_inv ok s" and c: "create_audit_record a s = Inr (u, s')"
  shows "op_ok ok s [] s'"
proof -
  note I = ledger_invD [OF inv]
  have s': "s' = s\<lparr>audit_records := hm_insert (a_id a) a (audit_records s)\<rparr>"
    and fresh: "hm_get (audit_records s) (a_id a) = None"
    and v: "validate_audit_record_refs s a = Inr ()"
    using c by (auto simp: create_audit_record_def)
  have g: "grows s s'" using s' fresh by (auto simp: grows_def extends_def)
  have "records_valid s'"
    by (rule records_valid_grows [OF I(4) g])
       (use s' audit_valid_grows [OF g v] in \<open>auto split: if_splits\<close>)
  moreover have "repositories_ok s'" using I(5) s' by (simp add: repositories_ok_def)
  moreover have "keyed s'" using I(1) s' by (auto simp: keyed_def intro: hm.wf_put)
  moreover have "log_rep s' (event_log s @ [])" using I(2) s' by (simp add: log_rep_def)
  ultimately show ?thesis using inv g I s' by (intro op_okI) simp_all
qed

section \<open>Operations on other collections\<close>

text \<open>Receipts, schema migrations and the extension registry are not referenced by other records.\<close>

lemma frame_ok:
  assumes inv: "ledger_inv ok s" and "migrations_ok ms" "hm_wf rs"
  shows "op_ok ok s [] (s\<lparr>schema_migrations := ms, idempotent_submit_jobs := rs,
     extension_registry_snapshot := x\<rparr>)" (is "op_ok ok s [] ?s")
proof -
  note I = ledger_invD [OF inv]
  have g: "grows s ?s" by (auto simp: grows_def extends_def)
  have "records_valid ?s" by (rule records_valid_grows [OF I(4) g]) simp_all
  moreover have "repositories_ok ?s" using I(5) by (simp add: repositories_ok_def)
  moreover have "keyed ?s" using I(1) assms(2,3) by (auto simp: keyed_def migrations_ok_def)
  moreover have "log_rep ?s (event_log s @ [])" using I(2) by (simp add: log_rep_def)
  ultimately show ?thesis using inv g I assms(2) by (intro op_okI) simp_all
qed

lemma frame_migrations_ok:
  assumes inv: "ledger_inv ok s" and "migrations_ok ms"
  shows "op_ok ok s [] (s\<lparr>schema_migrations := ms\<rparr>)"
  using frame_ok [OF assms, of "idempotent_submit_jobs s" "extension_registry_snapshot s"]
    ledger_invD(1) [OF inv] by (simp add: keyed_def)

lemma expire_eq:
  "expire_schema_migration_locks t s =
     s\<lparr>schema_migrations := schema_migrations (expire_schema_migration_locks t s)\<rparr>"
  by (simp add: expire_schema_migration_locks_def)

lemma create_schema_migration_op_ok:
  assumes inv: "ledger_inv ok s" and c: "create_schema_migration m s = Inr (u, s')"
  shows "op_ok ok s [] s'"
proof -
  have "s' = s\<lparr>schema_migrations := schema_migrations s'\<rparr>"
    using c expire_eq [of _ s] unfolding create_schema_migration_eq_Inr Let_def by (simp add: expire_schema_migration_locks_def)
  then show ?thesis
    using frame_migrations_ok [OF inv create_schema_migration_ok [OF ledger_invD(8) [OF inv] c]] by simp
qed

lemma acquire_op_ok:
  assumes inv: "ledger_inv ok s" and c: "acquire_schema_migration_lock uuid leader safe n t s = Inr (m, s')"
  shows "op_ok ok s [] s'"
proof -
  have "s' = s\<lparr>schema_migrations := schema_migrations s'\<rparr>"
    using c unfolding acquire_eq_Inr by (simp add: expire_schema_migration_locks_def)
  then show ?thesis
    using frame_migrations_ok [OF inv acquire_migrations_ok [OF ledger_invD(8) [OF inv] c]] by simp
qed

lemma get_lock_op_ok:
  assumes inv: "ledger_inv ok s" and c: "get_schema_migration_lock t s = Inr (m, s')"
  shows "op_ok ok s [] s'"
  using c frame_migrations_ok [OF inv expire_migrations_ok [OF ledger_invD(8) [OF inv], of t]] expire_eq [of t s]
  by (simp add: get_schema_migration_lock_def Let_def)

lemma release_op_ok:
  assumes inv: "ledger_inv ok s" and c: "release_schema_migration_lock i leader t s = Inr (m, s')"
  shows "op_ok ok s [] s'"
proof -
  obtain m0 k where m: "hm_get (schema_migrations (expire_schema_migration_locks t s)) i = Some m0"
    "m_migration_lock m0 = Some k" using release_Inr_lock [OF c] .
  have "s' = s\<lparr>schema_migrations := schema_migrations s'\<rparr>"
    using c unfolding release_eq_Inr [OF m] by (auto simp: expire_schema_migration_locks_def split: if_splits)
  then show ?thesis
    using frame_migrations_ok [OF inv release_migrations_ok [OF ledger_invD(8) [OF inv] c]] by simp
qed

lemma insert_idempotency_eq_Inr:
  "insert_submit_job_idempotency_locked s key r = Inr s' \<longleftrightarrow>
     validate_submit_job_idempotency_record s key r = Inr () \<and>
     (hm_get (idempotent_submit_jobs s) key = Some r \<and> s' = s \<or>
      hm_get (idempotent_submit_jobs s) key = None \<and>
      s' = s\<lparr>idempotent_submit_jobs := hm_insert key r (idempotent_submit_jobs s)\<rparr>)"
  by (auto simp: insert_submit_job_idempotency_locked_def split: option.splits if_splits)

lemma frame_receipts_ok:
  "ledger_inv ok s \<Longrightarrow> hm_wf rs \<Longrightarrow> op_ok ok s [] (s\<lparr>idempotent_submit_jobs := rs\<rparr>)"
  using frame_ok [of ok s "schema_migrations s" rs "extension_registry_snapshot s"]
  by (simp add: ledger_inv_def)

lemma op_ok_refl: "ledger_inv ok s \<Longrightarrow> op_ok ok s [] s"
  by (simp add: op_ok_def)

lemma insert_idempotency_ok:
  assumes inv: "ledger_inv ok s" and c: "insert_submit_job_idempotency_locked s key r = Inr s'"
  shows "op_ok ok s [] s'"
  using c op_ok_refl [OF inv] frame_receipts_ok [OF inv hm.wf_put] ledger_invD(1) [OF inv]
  by (auto simp: insert_idempotency_eq_Inr keyed_def)

lemma frame_extension_ok:
  assumes "ledger_inv ok s" shows "op_ok ok s [] (s\<lparr>extension_registry_snapshot := x\<rparr>)"
  using frame_ok [OF assms ledger_invD(8) [OF assms], of "idempotent_submit_jobs s" x] ledger_invD(1) [OF assms]
  by (simp add: keyed_def)

lemma record_submit_job_idempotency_ok:
  "ledger_inv ok s \<Longrightarrow> record_submit_job_idempotency key r s = Inr (u, s') \<Longrightarrow> op_ok ok s [] s'"
  by (auto simp: record_submit_job_idempotency_def intro: insert_idempotency_ok)

section \<open>Operations that append events\<close>

lemma immutable_field_eq_Inr [simp, ok_simps]: "ensure_immutable_job_field f i n a b = Inr u \<longleftrightarrow> a = b"
  by (simp add: ensure_immutable_job_field_def)

lemma sibling_ids_eq_Inr [simp, ok_simps]:
  "validate_sibling_event_ids_are_unique a b = Inr u \<longleftrightarrow> e_id a \<noteq> e_id b"
  by (simp add: validate_sibling_event_ids_are_unique_def)

lemma validate_job_update_againstD:
  assumes "validate_job_update_against j0 j e = Inr u"
  shows "j_repository_id j = j_repository_id j0" "rf_job_id (e_refs e) = Some (j_id j)"
    "rf_repository_id (e_refs e) = Some (j_repository_id j)" "j_created_at j = j_created_at j0"
    "validate_job_lifecycle_update j0 j e = Inr ()" "validate_job_cancellation_update j0 j e = Inr ()"
  using assms by (auto simp: validate_job_update_against_def)

lemma validate_job_updateD:
  assumes "validate_job_update s j e = Inr u"
  obtains j0 where "bt_get (jobs s) (j_id j) = Some j0" "j_latest_event_id j = j_latest_event_id j0"
    "validate_job_update_against j0 j e = Inr ()"
  using assms by (auto simp: validate_job_update_def)

lemma extends_pendingI:
  assumes "extends s None None None s'"
    and "\<And>j. pj = Some j \<Longrightarrow> \<exists>j'. bt_get (jobs s') (j_id j) = Some j' \<and> j_id j' = j_id j \<and>
          j_repository_id j' = j_repository_id j"
    and "\<And>r. pr = Some r \<Longrightarrow> hm_get (tool_results s') (r_id r) = Some r"
    and "\<And>a. pa = Some a \<Longrightarrow> hm_get (audit_records s') (a_id a) = Some a"
  shows "extends s pj pr pa s'"
  using assms(2-4) extendsD [OF assms(1), simplified]
  unfolding extends_def by (auto simp: or_else_eq_Some)

text \<open>Appending a fresh, valid event.\<close>

lemma append_event_ok:
  assumes inv: "ledger_inv ok s" and a: "append_event_locked e s = Inr (e', s')"
    and fresh: "hm_get (job_events_by_id s) (e_id e) = None" and v: "event_valid ok s e"
  shows "op_ok ok s [e'] s'"
proof -
  note I = ledger_invD [OF inv] and f = append_event_locked_frame [OF a]
  have g: "grows s s'" using f fresh by (auto simp: grows_def extends_def)
  have k: "keyed s'" using I(1) f by (simp add: keyed_def)
  have "records_valid s'" by (rule records_valid_grows [OF I(4) g]) (use f in simp_all)
  moreover have "event_valid ok s' e'"
    using event_valid_mono [OF v _ I(1) k] g f(11) by (simp add: grows_def)
  moreover have "repositories_ok s'" using I(5) f by (simp add: repositories_ok_def)
  ultimately show ?thesis
    using inv g k I f log_rep_append [OF I(2) fresh a] by (intro op_okI) simp_all
qed

text \<open>Replacing a job by one of the same repository whose latest event is in the log.\<close>

lemma put_job_ok:
  assumes inv: "ledger_inv ok s" and j0: "bt_get (jobs s) (j_id j) = Some j0"
    and "j_repository_id j = j_repository_id j0"
    and "j_latest_event_id j = Some i" "hm_get (job_events_by_id s) i = Some e"
    and "rf_job_id (e_refs e) = Some (j_id j)"
  shows "op_ok ok s [] (put_job j s)"
proof -
  note I = ledger_invD [OF inv]
  let ?s = "put_job j s"
  have "j_id j0 = j_id j" using keyed_ids(1) [OF I(1) j0] .
  then have g: "grows s ?s" using j0 assms(3) by (auto simp: grows_def extends_def put_job_def)
  have "job_valid s j0" using I(4) j0 unfolding records_valid_def by blast
  then have "job_valid ?s j" using assms by (auto simp: job_valid_def put_job_def)
  then have "records_valid ?s"
    by (intro records_valid_grows [OF I(4) g]) (auto simp: put_job_def split: if_splits)
  moreover have "keyed ?s" using I(1) by (auto simp: keyed_def put_job_def intro: bt.wf_put)
  moreover have "repositories_ok ?s" using I(5) by (simp add: repositories_ok_def put_job_def)
  moreover have "log_rep ?s (event_log s @ [])" using I(2) by (simp add: log_rep_def put_job_def)
  ultimately show ?thesis using inv g I by (intro op_okI) (simp_all add: put_job_def)
qed

lemma append_put_ok:
  assumes inv: "ledger_inv ok s" and a: "append_event_locked e s = Inr (e', s')"
    and fresh: "hm_get (job_events_by_id s) (e_id e) = None" and v: "event_valid ok s e"
    and j0: "bt_get (jobs s) (j_id j) = Some j0" "j_repository_id j = j_repository_id j0"
    and j: "j_latest_event_id j = Some (e_id e)" "rf_job_id (e_refs e) = Some (j_id j)"
  shows "op_ok ok s [e'] (put_job j s')"
proof -
  note f = append_event_locked_frame [OF a]
  note o1 = append_event_ok [OF inv a fresh v]
  then have "ledger_inv ok s'" by (simp add: op_ok_def)
  then have "op_ok ok s' [] (put_job j s')"
    using j0 j f by (intro put_job_ok [where i = "e_id e" and e = e']) simp_all
  from op_ok_trans [OF o1 this] show ?thesis by simp
qed

lemma grows_jobsI:
  assumes "\<And>i v. bt_get (jobs s) i = Some v \<Longrightarrow>
      \<exists>v'. bt_get (jobs s') i = Some v' \<and> j_id v' = j_id v \<and> j_repository_id v' = j_repository_id v"
    and "\<And>i v. hm_get (job_events_by_id s) i = Some v \<Longrightarrow> hm_get (job_events_by_id s') i = Some v"
    and "repositories s' = repositories s" "policy_decisions s' = policy_decisions s"
    "lock_decisions s' = lock_decisions s" "tool_invocations s' = tool_invocations s"
    "tool_results s' = tool_results s" "audit_records s' = audit_records s"
  shows "grows s s'"
  unfolding grows_def extends_def assms(3-8) using assms(1,2) by simp

lemma create_job_eq_Inr:
  "create_job_with_initial_event ok j e s = Inr ((e', es), s') \<longleftrightarrow>
     hm_get (repositories s) (j_repository_id j) \<noteq> None \<and> bt_get (jobs s) (j_id j) = None \<and>
     validate_initial_event_for_job j e = Inr () \<and>
     validate_new_job_event_with_pending_records ok s e (Some j) None None = Inr () \<and>
     append_event_locked e
       (s\<lparr>jobs := bt_insert (j_id j) (j\<lparr>j_latest_event_id := Some (e_id e)\<rparr>) (jobs s)\<rparr>) = Inr (e', s') \<and>
     es = [e']"
  unfolding create_job_with_initial_event_def validate_job_refs_def validate_new_job_event_def
    append_event_locked_eq_Inr Let_def
  by (simp, safe; simp)

lemma create_job_ok:
  assumes inv: "ledger_inv ok s" and c: "create_job_with_initial_event ok j e s = Inr ((e', es), s')"
  shows "op_ok ok s es s'"
proof -
  note I = ledger_invD [OF inv]
  define s1 where "s1 = s\<lparr>jobs := bt_insert (j_id j) (j\<lparr>j_latest_event_id := Some (e_id e)\<rparr>) (jobs s)\<rparr>"
  have reg: "hm_get (repositories s) (j_repository_id j) \<noteq> None" and new: "bt_get (jobs s) (j_id j) = None"
    and ref: "rf_job_id (e_refs e) = Some (j_id j)"
    and v: "validate_new_job_event_with_pending_records ok s e (Some j) None None = Inr ()"
    and a: "append_event_locked e s1 = Inr (e', s')" and es: "es = [e']"
    using c [unfolded create_job_eq_Inr, folded s1_def] by (simp_all add: validate_initial_event_for_job_def)
  have fresh: "hm_get (job_events_by_id s) (e_id e) = None" using validate_pending_fresh [OF v] .
  note f = append_event_locked_frame [OF a]
  have g: "grows s s'"
  proof (rule grows_jobsI)
    fix i v assume v: "bt_get (jobs s) i = Some v"
    with new have "i \<noteq> j_id j" by auto
    with v show "\<exists>v'. bt_get (jobs s') i = Some v' \<and> j_id v' = j_id v \<and> j_repository_id v' = j_repository_id v"
      by (simp add: f(2) s1_def)
  next
    fix i v assume v: "hm_get (job_events_by_id s) i = Some v"
    with fresh have "i \<noteq> e_id e" by auto
    with v show "hm_get (job_events_by_id s') i = Some v" by (simp add: f(13) s1_def)
  qed (simp_all add: f s1_def)
  have k: "keyed s'" using I(1) f by (auto simp: keyed_def s1_def intro: bt.wf_put)
  have ext: "extends s (Some j) None None s'"
    by (rule extends_pendingI) (use g in \<open>simp_all add: grows_def f(2) s1_def\<close>)
  have "event_valid ok s' e'" using validate_pending_event_valid [OF v ext I(1) k] f(11) by simp
  moreover have "job_valid s' (j\<lparr>j_latest_event_id := Some (e_id e)\<rparr>)"
    using f reg ref by (simp add: job_valid_def s1_def)
  then have "records_valid s'"
    by (intro records_valid_grows [OF I(4) g]) (use f in \<open>auto simp: s1_def split: if_splits\<close>)
  moreover have "log_rep s1 (event_log s)" using I(2) by (simp add: log_rep_def s1_def)
  then have "log_rep s' (event_log s @ [e'])"
    using log_rep_append [OF _ _ a] fresh by (simp add: s1_def)
  moreover have "repositories_ok s'" using I(5) f by (simp add: repositories_ok_def s1_def)
  ultimately show ?thesis using inv g k I f es by (intro op_okI) (simp_all add: s1_def)
qed

lemma append_job_event_ok:
  assumes inv: "ledger_inv ok s" and c: "append_job_event ok e s = Inr ((e', es), s')"
  shows "op_ok ok s es s'"
  using c append_event_ok [OF inv] by (auto simp: append_job_event_def validate_new_job_event_iff)

lemma append_job_event_and_update_job_ok:
  assumes inv: "ledger_inv ok s" and c: "append_job_event_and_update_job ok j e s = Inr ((e', es), s')"
  shows "op_ok ok s es s'"
proof -
  from c obtain s1 where u: "validate_job_update s j e = Inr ()"
    and v: "validate_new_job_event ok s e None = Inr ()"
    and a: "append_event_locked e s = Inr (e', s1)"
    and s': "s' = put_job (j\<lparr>j_latest_event_id := Some (e_id e')\<rparr>) s1" and es: "es = [e']"
    by (auto simp: append_job_event_and_update_job_def)
  obtain j0 where "bt_get (jobs s) (j_id j) = Some j0" "validate_job_update_against j0 j e = Inr ()"
    using validate_job_updateD [OF u] by blast
  with append_put_ok [OF inv a] v validate_job_update_againstD [of j0 j e] append_event_locked_frame(11) [OF a]
  show ?thesis unfolding s' es by (auto simp: validate_new_job_event_iff)
qed

lemma op_ok_inv: "op_ok ok s es s' \<Longrightarrow> ledger_inv ok s'"
  by (simp add: op_ok_def)

lemma op_ok_event_valid:
  assumes "ledger_inv ok s" "op_ok ok s es s'" "event_valid ok s e"
  shows "event_valid ok s' e"
  by (rule event_valid_mono [OF assms(3)])
     (use assms(1,2) in \<open>simp_all add: op_ok_def grows_def ledger_inv_def\<close>)

lemma append_with_idempotency_ok:
  assumes inv: "ledger_inv ok s"
    and c: "append_job_event_and_update_job_with_submit_job_idempotency ok j e key r s = Inr ((e', es), s')"
  shows "op_ok ok s es s'"
proof -
  from c obtain s1 r' where a: "append_job_event_and_update_job ok j e s = Inr ((e', es), s1)"
    and i: "insert_submit_job_idempotency_locked s1 key r' = Inr s'"
    by (auto simp: append_job_event_and_update_job_with_submit_job_idempotency_def
        append_job_event_and_update_job_def Let_def)
  note o1 = append_job_event_and_update_job_ok [OF inv a]
  from op_ok_trans [OF o1 insert_idempotency_ok [OF op_ok_inv [OF o1] i]] show ?thesis by simp
qed

lemma append_job_events_and_update_job_ok:
  assumes inv: "ledger_inv ok s"
    and c: "append_job_events_and_update_job ok j1 e1 j2 e2 s = Inr (r, s')"
  shows "op_ok ok s (snd r) s'"
proof -
  from c obtain e1' e2' s1 s2 where ids: "e_id e1 \<noteq> e_id e2" "j_id j1 = j_id j2"
    and u1: "validate_job_update s j1 e1 = Inr ()"
    and u2: "validate_job_update_against (j1\<lparr>j_latest_event_id := Some (e_id e1)\<rparr>) j2 e2 = Inr ()"
    and v1: "validate_new_job_event ok s e1 None = Inr ()"
    and v2: "validate_new_job_event ok s e2 None = Inr ()"
    and a1: "append_event_locked e1 s = Inr (e1', s1)"
    and a2: "append_event_locked e2 s1 = Inr (e2', s2)"
    and s': "s' = put_job (j2\<lparr>j_latest_event_id := Some (e_id e2')\<rparr>) s2" "snd r = [e1', e2']"
    by (auto simp: append_job_events_and_update_job_def validate_two_stage_job_update_identity_def Let_def
        simp del: ensure_event_sequence_capacity_eq_Inr)
  note f1 = append_event_locked_frame [OF a1] and f2 = append_event_locked_frame [OF a2]
  note w1 = v1 [unfolded validate_new_job_event_iff] and w2 = v2 [unfolded validate_new_job_event_iff]
  obtain j0 where j0: "bt_get (jobs s) (j_id j1) = Some j0" "validate_job_update_against j0 j1 e1 = Inr ()"
    using validate_job_updateD [OF u1] by blast
  note o1 = append_event_ok [OF inv a1 conjunct1 [OF w1] conjunct2 [OF w1]]
  have "event_valid ok s1 e2" using op_ok_event_valid [OF inv o1 conjunct2 [OF w2]] .
  from append_put_ok [OF op_ok_inv [OF o1] a2 _ this, of "j2\<lparr>j_latest_event_id := Some (e_id e2')\<rparr>" j0]
  have "op_ok ok s1 [e2'] s'" unfolding s'(1)
    using w2 f1 f2 ids j0 validate_job_update_againstD [OF u2] validate_job_update_againstD(1) [OF j0(2)]
    by simp
  from op_ok_trans [OF o1 this] show ?thesis by (simp add: s')
qed

text \<open>The writes of a finished tool call, as four steps that each keep the invariant.\<close>

lemma write_tool_result_and_audit_ok:
  assumes inv: "ledger_inv ok s"
    and ck: "check_tool_result_and_audit ok j r e1 a e2 s = Inr ()" and ids: "e_id e1 \<noteq> e_id e2"
    and w: "write_tool_result_and_audit j r e1 a e2 s = Inr ((e1', e2'), s')"
  shows "op_ok ok s [e1', e2'] s'" "hm_get (tool_results s') (r_id r) = Some r"
    "hm_get (audit_records s') (a_id a) = Some a"
    "bt_get (jobs s') (j_id j) = Some (j\<lparr>j_latest_event_id := Some (e_id e2)\<rparr>)"
    "job_events_by_id s' = hm_insert (e_id e2) e2' (hm_insert (e_id e1) e1' (job_events_by_id s))"
proof -
  from ck have u1: "validate_job_update s j e1 = Inr ()" and u2: "validate_job_update s j e2 = Inr ()"
    and r: "validate_tool_result_refs s r = Inr ()"
    and av: "validate_audit_record_refs_with_pending_tool_result s a (Some r) = Inr ()"
    and v1: "validate_new_job_event_with_pending_records ok s e1 None (Some r) None = Inr ()"
    and v2: "validate_new_job_event_with_pending_records ok s e2 None (Some r) (Some a) = Inr ()"
    and fr: "hm_get (tool_results s) (r_id r) = None" "hm_get (audit_records s) (a_id a) = None"
    by (simp_all add: check_tool_result_and_audit_def)
  obtain j0 where j0: "bt_get (jobs s) (j_id j) = Some j0" "validate_job_update_against j0 j e1 = Inr ()"
    using validate_job_updateD [OF u1] by blast
  note d1 = validate_job_update_againstD [OF j0(2)]
  have d2: "rf_job_id (e_refs e2) = Some (j_id j)"
    using validate_job_updateD [OF u2] validate_job_update_againstD(2) by metis
  note fe1 = validate_pending_fresh [OF v1] and fe2 = validate_pending_fresh [OF v2]
  define sa where "sa = s\<lparr>tool_results := hm_insert (r_id r) r (tool_results s)\<rparr>"
  from w obtain sb sd where
    ab: "append_event_locked e1 sa = Inr (e1', sb)"
    and ad: "append_event_locked e2 ((put_job (j\<lparr>j_latest_event_id := Some (e_id e1')\<rparr>) sb)
        \<lparr>audit_records := hm_insert (a_id a) a (audit_records sb)\<rparr>) = Inr (e2', sd)"
    and s': "s' = put_job (j\<lparr>j_latest_event_id := Some (e_id e2')\<rparr>) sd"
    unfolding write_tool_result_and_audit_def sa_def by (auto simp: Let_def put_job_def)
  define sb' where "sb' = put_job (j\<lparr>j_latest_event_id := Some (e_id e1')\<rparr>) sb"
  define sc where "sc = sb'\<lparr>audit_records := hm_insert (a_id a) a (audit_records sb')\<rparr>"
  have ad: "append_event_locked e2 sc = Inr (e2', sd)" using ad by (simp add: sc_def sb'_def put_job_def)
  note fb = append_event_locked_frame [OF ab] and fd = append_event_locked_frame [OF ad]
  have o1: "op_ok ok s [] sa"
    by (rule create_tool_result_ok [OF inv, where r = r]) (simp add: create_tool_result_def r sa_def fr)
  note ka = ledger_invD(1) [OF op_ok_inv [OF o1]]
  have "extends s None (Some r) None sa"
    by (rule extends_pendingI) (use o1 in \<open>simp_all add: op_ok_def grows_def sa_def\<close>)
  then have "event_valid ok sa e1" using validate_pending_event_valid [OF v1 _ ledger_invD(1) [OF inv] ka] by blast
  from append_put_ok [OF op_ok_inv [OF o1] ab _ this, of "j\<lparr>j_latest_event_id := Some (e_id e1')\<rparr>" j0]
  have o2: "op_ok ok sa [e1'] sb'" unfolding sb'_def
    using fe1 j0 d1 fb by (simp add: sa_def)
  note o12 = op_ok_trans [OF o1 o2]
  have "validate_audit_record_refs sb' a = Inr ()"
    using audit_valid_grows [OF _ audit_pending_valid [OF av]] o12 by (simp add: op_ok_def)
  then have o3: "op_ok ok sb' [] sc"
    by (intro create_audit_record_ok [OF op_ok_inv [OF o2], where a = a])
       (simp add: create_audit_record_def sc_def sb'_def put_job_def fb sa_def fr)
  note o123 = op_ok_trans [OF o12 o3]
  note kc = ledger_invD(1) [OF op_ok_inv [OF o3]]
  have "extends s None (Some r) (Some a) sc"
    by (rule extends_pendingI)
       (use o123 in \<open>simp_all add: op_ok_def grows_def sc_def sb'_def put_job_def fb sa_def\<close>)
  then have "event_valid ok sc e2" using validate_pending_event_valid [OF v2 _ ledger_invD(1) [OF inv] kc] by blast
  from append_put_ok [OF op_ok_inv [OF o3] ad _ this, of "j\<lparr>j_latest_event_id := Some (e_id e2')\<rparr>"
      "j\<lparr>j_latest_event_id := Some (e_id e1)\<rparr>"]
  have o4: "op_ok ok sc [e2'] s'" unfolding s'
    using fe2 d2 fb fd ids by (simp add: sc_def sb'_def put_job_def sa_def)
  from op_ok_trans [OF o123 o4] show "op_ok ok s [e1', e2'] s'" by simp
  show "hm_get (tool_results s') (r_id r) = Some r" "hm_get (audit_records s') (a_id a) = Some a"
    "bt_get (jobs s') (j_id j) = Some (j\<lparr>j_latest_event_id := Some (e_id e2)\<rparr>)"
    "job_events_by_id s' = hm_insert (e_id e2) e2' (hm_insert (e_id e1) e1' (job_events_by_id s))"
    by (simp_all add: s' put_job_def fd fb sc_def sb'_def sa_def)
qed

lemma record_tool_result_and_audit_ok:
  assumes inv: "ledger_inv ok s"
    and c: "record_tool_result_and_audit_with_events ok j r e1 a e2 s = Inr (x, s')"
  shows "op_ok ok s (snd x) s'"
proof -
  from c obtain e1' e2' where "e_id e1 \<noteq> e_id e2" "check_tool_result_and_audit ok j r e1 a e2 s = Inr ()"
    "write_tool_result_and_audit j r e1 a e2 s = Inr ((e1', e2'), s')" "snd x = [e1', e2']"
    by (auto simp: record_tool_result_and_audit_with_events_def)
  with write_tool_result_and_audit_ok(1) [OF inv] show ?thesis by simp
qed

lemma transition_status_frame:
  "transition_status j n t = Inr j' \<Longrightarrow> j_id j' = j_id j \<and> j_repository_id j' = j_repository_id j"
  by (simp add: transition_status_eq_Inr)

lemma terminal_eq_Inr:
  assumes "record_tool_result_audit_terminal_with_submit_job_idempotency ok q s = Inr (x, s')"
  obtains j r e1 a e2 e3 jf e1' e2' s1 e3' s2 where
    "j = tq_record q" "r = tq_tool_result q" "e1 = tq_tool_result_event q" "a = tq_audit_record q"
    "e2 = tq_audit_event q" "e3 = tq_terminal_event q"
    "e_id e1 \<noteq> e_id e2" "e_id e1 \<noteq> e_id e3" "e_id e2 \<noteq> e_id e3"
    "check_tool_result_and_audit ok j r e1 a e2 s = Inr ()"
    "transition_status j (terminal_status_of (r_status r)) (e_created_at e3) = Inr jf"
    "validate_job_update_against j jf e3 = Inr ()"
    "validate_new_job_event_with_pending_records ok s e3 (Some jf) (Some r) (Some a) = Inr ()"
    "write_tool_result_and_audit j r e1 a e2 s = Inr ((e1', e2'), s1)"
    "append_event_locked e3 s1 = Inr (e3', s2)"
    "snd x = [e1', e2', e3']" "fst x = (e1', e2', e3')"
    "case tq_idempotency q of None \<Rightarrow> s' = put_job (jf\<lparr>j_latest_event_id := Some (e_id e3')\<rparr>) s2
     | Some (key, rc) \<Rightarrow> insert_submit_job_idempotency_locked (put_job (jf\<lparr>j_latest_event_id := Some (e_id e3')\<rparr>) s2) key
         (commit_receipt e1' e2' e3' (jf\<lparr>j_latest_event_id := Some (e_id e3')\<rparr>) rc) = Inr s'"
  using assms unfolding record_tool_result_audit_terminal_with_submit_job_idempotency_def Let_def andthen_eq_Inr
    sibling_ids_eq_Inr map_err_eq_Inr
  by (elim exE conjE) (auto split: option.splits prod.splits)

lemma record_terminal_ok:
  assumes inv: "ledger_inv ok s"
    and c: "record_tool_result_audit_terminal_with_submit_job_idempotency ok q s = Inr (x, s')"
  shows "op_ok ok s (snd x) s'"
proof -
  from terminal_eq_Inr [OF c] obtain j r e1 a e2 e3 jf e1' e2' s1 e3' s2 where
    ids: "e_id e1 \<noteq> e_id e2" "e_id e1 \<noteq> e_id e3" "e_id e2 \<noteq> e_id e3"
    and ck: "check_tool_result_and_audit ok j r e1 a e2 s = Inr ()"
    and tr: "transition_status j (terminal_status_of (r_status r)) (e_created_at e3) = Inr jf"
    and u: "validate_job_update_against j jf e3 = Inr ()"
    and v: "validate_new_job_event_with_pending_records ok s e3 (Some jf) (Some r) (Some a) = Inr ()"
    and w: "write_tool_result_and_audit j r e1 a e2 s = Inr ((e1', e2'), s1)"
    and ap: "append_event_locked e3 s1 = Inr (e3', s2)" and es: "snd x = [e1', e2', e3']"
    and fin: "case tq_idempotency q of None \<Rightarrow> s' = put_job (jf\<lparr>j_latest_event_id := Some (e_id e3')\<rparr>) s2
     | Some (key, rc) \<Rightarrow> insert_submit_job_idempotency_locked (put_job (jf\<lparr>j_latest_event_id := Some (e_id e3')\<rparr>) s2) key
         (commit_receipt e1' e2' e3' (jf\<lparr>j_latest_event_id := Some (e_id e3')\<rparr>) rc) = Inr s'"
    by metis
  note W = write_tool_result_and_audit_ok [OF inv ck ids(1) w]
  note inv1 = op_ok_inv [OF W(1)] and fr = transition_status_frame [OF tr]
  have "extends s (Some jf) (Some r) (Some a) s1"
    by (rule extends_pendingI) (use W fr in \<open>simp_all add: op_ok_def grows_def\<close>)
  then have "event_valid ok s1 e3"
    using validate_pending_event_valid [OF v _ ledger_invD(1) [OF inv] ledger_invD(1) [OF inv1]] by blast
  from append_put_ok [OF inv1 ap _ this, of "jf\<lparr>j_latest_event_id := Some (e_id e3')\<rparr>"]
  have "op_ok ok s1 [e3'] (put_job (jf\<lparr>j_latest_event_id := Some (e_id e3')\<rparr>) s2)"
    using W(4,5) ids validate_pending_fresh [OF v] validate_job_update_againstD [OF u] fr
      append_event_locked_frame(11) [OF ap] by simp
  note o = op_ok_trans [OF W(1) this]
  show ?thesis
  proof (cases "tq_idempotency q")
    case None
    then show ?thesis using fin o es by simp
  next
    case (Some p)
    with fin insert_idempotency_ok [OF op_ok_inv [OF o]] have
      "op_ok ok (put_job (jf\<lparr>j_latest_event_id := Some (e_id e3')\<rparr>) s2) [] s'" by (cases p) auto
    from op_ok_trans [OF o this] show ?thesis using es by simp
  qed
qed

end
