(* ===== verification/Steps.thy ===== *)
theory Steps
  imports Preservation
begin

text \<open>
  The store as a transition system: one constructor per operation of \<open>SecretaryStore\<close> that
  changes the ledger, the function that runs it, and the ledgers reachable from the empty one.
\<close>

datatype 'x ledger_op =
    CreateRepository RepositoryRecord
  | CreateJob JobRecord JobEvent
  | AppendEvent JobEvent
  | UpdateJob JobRecord JobEvent
  | UpdateJobWithReceipt JobRecord JobEvent string SubmitJobIdempotencyRecord
  | UpdateJobTwice JobRecord JobEvent JobRecord JobEvent
  | CreatePolicyDecision PolicyDecision
  | CreateLockDecision LockDecision
  | CreateSchemaMigration SchemaMigrationRecord
  | AcquireMigrationLock string string bool nat LedgerTimestamp
  | GetMigrationLock LedgerTimestamp
  | ReleaseMigrationLock SchemaMigrationId string LedgerTimestamp
  | CreateToolInvocation ToolInvocation
  | CreateToolResult ToolResult
  | RecordReceipt string SubmitJobIdempotencyRecord
  | CreateAuditRecord AuditRecord
  | RecordToolResultAndAudit JobRecord ToolResult JobEvent AuditRecord JobEvent
  | RecordTerminal ToolResultAuditTerminalRequest
  | SetExtensionRegistry 'x

text \<open>The result of an operation is dropped, except for the events it publishes.\<close>

definition no_events :: "('r \<times> 'x InMemoryInner) StoreResult \<Rightarrow> (JobEvent list \<times> 'x InMemoryInner) StoreResult" where
  "no_events m = andthen m (\<lambda>(_, s). Inr ([], s))"

definition with_events ::
    "(('r \<times> JobEvent list) \<times> 'x InMemoryInner) StoreResult \<Rightarrow> (JobEvent list \<times> 'x InMemoryInner) StoreResult" where
  "with_events m = andthen m (\<lambda>((_, es), s). Inr (es, s))"

fun apply_op ::
    "(string \<Rightarrow> bool) \<Rightarrow> ('x \<Rightarrow> message + unit) \<Rightarrow> 'x ledger_op \<Rightarrow> 'x InMemoryInner
     \<Rightarrow> (JobEvent list \<times> 'x InMemoryInner) StoreResult" where
  "apply_op ok ext (CreateRepository r) s = no_events (create_repository r s)"
| "apply_op ok ext (CreateJob j e) s = with_events (create_job_with_initial_event ok j e s)"
| "apply_op ok ext (AppendEvent e) s = with_events (append_job_event ok e s)"
| "apply_op ok ext (UpdateJob j e) s = with_events (append_job_event_and_update_job ok j e s)"
| "apply_op ok ext (UpdateJobWithReceipt j e key r) s =
     with_events (append_job_event_and_update_job_with_submit_job_idempotency ok j e key r s)"
| "apply_op ok ext (UpdateJobTwice j1 e1 j2 e2) s =
     with_events (append_job_events_and_update_job ok j1 e1 j2 e2 s)"
| "apply_op ok ext (CreatePolicyDecision d) s = no_events (create_policy_decision d s)"
| "apply_op ok ext (CreateLockDecision l) s = no_events (create_lock_decision l s)"
| "apply_op ok ext (CreateSchemaMigration m) s = no_events (create_schema_migration m s)"
| "apply_op ok ext (AcquireMigrationLock uuid leader safe timeout t) s =
     no_events (acquire_schema_migration_lock uuid leader safe timeout t s)"
| "apply_op ok ext (GetMigrationLock t) s = no_events (get_schema_migration_lock t s)"
| "apply_op ok ext (ReleaseMigrationLock i leader t) s =
     no_events (release_schema_migration_lock i leader t s)"
| "apply_op ok ext (CreateToolInvocation t) s = no_events (create_tool_invocation t s)"
| "apply_op ok ext (CreateToolResult r) s = no_events (create_tool_result r s)"
| "apply_op ok ext (RecordReceipt key r) s = no_events (record_submit_job_idempotency key r s)"
| "apply_op ok ext (CreateAuditRecord a) s = no_events (create_audit_record a s)"
| "apply_op ok ext (RecordToolResultAndAudit j r e1 a e2) s =
     with_events (record_tool_result_and_audit_with_events ok j r e1 a e2 s)"
| "apply_op ok ext (RecordTerminal q) s =
     with_events (record_tool_result_audit_terminal_with_submit_job_idempotency ok q s)"
| "apply_op ok ext (SetExtensionRegistry x) s = no_events (set_extension_registry_snapshot ext x s)"

lemma no_events_eq_Inr [simp, ok_simps]: "no_events m = Inr (es, s') \<longleftrightarrow> es = [] \<and> (\<exists>r. m = Inr (r, s'))"
  by (auto simp: no_events_def)

lemma with_events_eq_Inr [simp, ok_simps]: "with_events m = Inr (es, s') \<longleftrightarrow> (\<exists>r. m = Inr ((r, es), s'))"
  by (auto simp: with_events_def)

text \<open>Every operation keeps the invariant, grows the ledger and appends its events to the log.\<close>

lemma apply_op_ok:
  assumes inv: "ledger_inv ok s" and c: "apply_op ok ext opr s = Inr (es, s')"
  shows "op_ok ok s es s'"
proof (cases opr)
  case (UpdateJobTwice j1 e1 j2 e2)
  with c append_job_events_and_update_job_ok [OF inv] show ?thesis by fastforce
next
  case (RecordToolResultAndAudit j r e1 a e2)
  with c record_tool_result_and_audit_ok [OF inv] show ?thesis by fastforce
next
  case (RecordTerminal q)
  with c record_terminal_ok [OF inv] show ?thesis by fastforce
qed (use c inv in \<open>auto simp: set_extension_registry_snapshot_def
      intro: create_repository_ok create_job_ok append_job_event_ok append_job_event_and_update_job_ok
        append_with_idempotency_ok create_policy_decision_ok create_lock_decision_ok
        create_schema_migration_op_ok acquire_op_ok get_lock_op_ok release_op_ok create_tool_invocation_ok
        create_tool_result_ok record_submit_job_idempotency_ok create_audit_record_ok frame_extension_ok\<close>)

section \<open>Reachable ledgers\<close>

text \<open>Runs of operations that succeed, with the events they append, from the empty ledger.\<close>

inductive ledger_steps ::
    "(string \<Rightarrow> bool) \<Rightarrow> ('x \<Rightarrow> message + unit) \<Rightarrow> 'x InMemoryInner \<Rightarrow> JobEvent list \<Rightarrow> 'x InMemoryInner \<Rightarrow> bool"
  for ok ext where
  stay: "ledger_steps ok ext s [] s"
| step: "ledger_steps ok ext s es s' \<Longrightarrow> apply_op ok ext opr s' = Inr (es', s'') \<Longrightarrow>
           ledger_steps ok ext s (es @ es') s''"

definition reachable :: "(string \<Rightarrow> bool) \<Rightarrow> ('x \<Rightarrow> message + unit) \<Rightarrow> 'x InMemoryInner \<Rightarrow> bool" where
  "reachable ok ext s \<longleftrightarrow> (\<exists>x es. ledger_steps ok ext (InMemoryInner_default x) es s)"

lemma ledger_steps_ok:
  "ledger_steps ok ext s es s' \<Longrightarrow> ledger_inv ok s \<Longrightarrow> op_ok ok s es s'"
proof (induction rule: ledger_steps.induct)
  case (stay s)
  then show ?case by (rule op_ok_refl)
next
  case (step s es s' opr es' s'')
  then show ?case using apply_op_ok op_ok_trans op_ok_inv by blast
qed

lemma reachable_inv: "reachable ok ext s \<Longrightarrow> ledger_inv ok s"
  using ledger_steps_ok ledger_inv_default by (fastforce simp: reachable_def op_ok_def)

lemma reachable_step:
  "reachable ok ext s \<Longrightarrow> apply_op ok ext opr s = Inr (es, s') \<Longrightarrow> reachable ok ext s'"
  unfolding reachable_def using ledger_steps.step by blast

text \<open>The executable run of a list of operations, for concrete scenarios.\<close>

fun run_ops ::
    "(string \<Rightarrow> bool) \<Rightarrow> ('x \<Rightarrow> message + unit) \<Rightarrow> 'x ledger_op list \<Rightarrow> 'x InMemoryInner
     \<Rightarrow> (JobEvent list \<times> 'x InMemoryInner) StoreResult" where
  "run_ops ok ext [] s = Inr ([], s)"
| "run_ops ok ext (opr # ops) s =
     andthen (apply_op ok ext opr s) (\<lambda>(es, s').
     andthen (run_ops ok ext ops s') (\<lambda>(es', s''). Inr (es @ es', s'')))"

lemma ledger_steps_trans:
  "ledger_steps ok ext s' es' s'' \<Longrightarrow> ledger_steps ok ext s es s' \<Longrightarrow> ledger_steps ok ext s (es @ es') s''"
  by (induction rule: ledger_steps.induct) (auto simp flip: append_assoc intro: ledger_steps.step)

lemma run_ops_steps: "run_ops ok ext ops s = Inr (es, s') \<Longrightarrow> ledger_steps ok ext s es s'"
proof (induction ops arbitrary: s es)
  case Nil
  then show ?case by (auto intro: ledger_steps.stay)
next
  case (Cons opr ops)
  then obtain es1 s1 es2 where "apply_op ok ext opr s = Inr (es1, s1)"
    "run_ops ok ext ops s1 = Inr (es2, s')" "es = es1 @ es2" by auto
  with Cons.IH show ?case
    using ledger_steps_trans ledger_steps.step [OF ledger_steps.stay] by fastforce
qed

lemma run_ops_reachable: "run_ops ok ext ops (InMemoryInner_default x) = Inr (es, s) \<Longrightarrow> reachable ok ext s"
  using run_ops_steps reachable_def by blast

end
