(* ===== verification/JobLife.thy ===== *)
theory JobLife
  imports Steps
begin

text \<open>
  The life of a job in the ledger. A stored job changes only by steps that keep its identity,
  never move its clock back, follow the status machine and set the lifecycle timestamps as
  \<open>transition_status\<close> does; so terminal jobs stay as they are and a job created with a proper
  timeline keeps one.
\<close>

section \<open>Steps of a job\<close>

definition job_moves :: "JobRecord \<Rightarrow> JobRecord \<Rightarrow> bool" where
  "job_moves j j' \<longleftrightarrow>
     j_id j' = j_id j \<and> j_repository_id j' = j_repository_id j \<and> j_schema_version j' = j_schema_version j \<and>
     j_created_at j' = j_created_at j \<and> j_requester j' = j_requester j \<and> j_kind j' = j_kind j \<and>
     j_goal j' = j_goal j \<and> j_updated_at j \<le> j_updated_at j' \<and>
     (if j_status j' = j_status j
      then j_started_at j' = j_started_at j \<and> j_completed_at j' = j_completed_at j
      else \<exists>x. transition_status j (j_status j') (j_updated_at j') = Inr x \<and>
             j_started_at j' = j_started_at x \<and> j_completed_at j' = j_completed_at x) \<and>
     (j_cancellation_state j' = j_cancellation_state j \<or>
      j_cancellation_state j = NotRequested \<and> j_cancellation_state j' = Requested)"

lemma latest_timestamp_latest [simp]: "latest_timestamp (j\<lparr>j_latest_event_id := i\<rparr>) = latest_timestamp j"
  by (simp add: latest_timestamp_def)

lemma job_moves_latest [simp]:
  "job_moves j (j'\<lparr>j_latest_event_id := i\<rparr>) = job_moves j j'"
  "job_moves (j\<lparr>j_latest_event_id := i\<rparr>) j' = job_moves j j'"
  by (simp_all add: job_moves_def transition_status_eq_Inr cong: if_cong)

lemma validate_update_moves:
  assumes "validate_job_update_against j j' e = Inr ()" "j_id j' = j_id j"
  shows "job_moves j j'"
  using assms
  by (auto simp: validate_job_update_against_def validate_job_lifecycle_update_def
      validate_job_cancellation_update_def job_moves_def split: if_splits)

lemma job_moves_wf:
  assumes "job_wf j" "job_moves j j'"
  shows "job_wf j'"
proof (cases "j_status j' = j_status j")
  case True
  then show ?thesis using assms by (auto simp: job_wf_def job_moves_def split: option.splits)
next
  case False
  then obtain x where x: "transition_status j (j_status j') (j_updated_at j') = Inr x"
    "j_started_at j' = j_started_at x" "j_completed_at j' = j_completed_at x"
    "j_created_at j' = j_created_at j"
    using assms(2) by (auto simp: job_moves_def)
  have "job_wf x" using job_wf_transition [OF assms(1) x(1)] .
  moreover have "j_created_at x = j_created_at j" "j_status x = j_status j'" "j_updated_at x = j_updated_at j'"
    using x(1) by (simp_all add: transition_status_eq_Inr)
  ultimately show ?thesis using x by (auto simp: job_wf_def split: option.splits)
qed

lemma job_moves_status: "job_moves j j' \<Longrightarrow> can_transition_to (j_status j) (j_status j')"
  by (cases "j_status j' = j_status j") (auto simp: job_moves_def transition_status_eq_Inr)

lemma two_moves: "job_moves j j1 \<Longrightarrow> job_moves j1 j2 \<Longrightarrow> job_moves\<^sup>*\<^sup>* j j2"
  by (rule rtranclp.rtrancl_into_rtrancl [OF r_into_rtranclp])

lemma moves_frame:
  "job_moves\<^sup>*\<^sup>* j j' \<Longrightarrow>
     j_id j' = j_id j \<and> j_repository_id j' = j_repository_id j \<and> j_created_at j' = j_created_at j \<and>
     j_requester j' = j_requester j \<and> j_kind j' = j_kind j \<and> j_goal j' = j_goal j \<and>
     j_updated_at j \<le> j_updated_at j'"
  by (induction rule: rtranclp_induct) (auto simp: job_moves_def)

lemma moves_status: "job_moves\<^sup>*\<^sup>* j j' \<Longrightarrow> can_transition_to\<^sup>*\<^sup>* (j_status j) (j_status j')"
  by (induction rule: rtranclp_induct) (auto dest: job_moves_status intro: rtranclp.rtrancl_into_rtrancl)

lemma moves_wf: "job_moves\<^sup>*\<^sup>* j j' \<Longrightarrow> job_wf j \<Longrightarrow> job_wf j'"
  by (induction rule: rtranclp_induct) (auto intro: job_moves_wf)

lemma moves_terminal:
  "job_moves\<^sup>*\<^sup>* j j' \<Longrightarrow> is_terminal (j_status j) \<Longrightarrow>
     j_status j' = j_status j \<and> j_started_at j' = j_started_at j \<and> j_completed_at j' = j_completed_at j"
proof (induction rule: rtranclp_induct)
  case (step k l)
  then have "j_status l = j_status k"
    using job_moves_status [OF step.hyps(2)] can_transition_from_terminal by auto
  with step show ?case by (auto simp: job_moves_def)
qed simp

lemma moves_write_once:
  "job_moves\<^sup>*\<^sup>* j j' \<Longrightarrow>
     (j_started_at j \<noteq> None \<longrightarrow> j_started_at j' = j_started_at j) \<and>
     (j_completed_at j \<noteq> None \<longrightarrow> j_completed_at j' = j_completed_at j)"
  by (induction rule: rtranclp_induct)
     (auto simp: job_moves_def transition_status_eq_Inr split: if_splits)

section \<open>What the operations do to the jobs\<close>

definition jobs_move :: "'x InMemoryInner \<Rightarrow> 'x InMemoryInner \<Rightarrow> bool" where
  "jobs_move s s' \<longleftrightarrow>
     (\<forall>i j. bt_get (jobs s) i = Some j \<longrightarrow> (\<exists>j'. bt_get (jobs s') i = Some j' \<and> job_moves\<^sup>*\<^sup>* j j'))"

lemma jobs_move_refl: "jobs s' = jobs s \<Longrightarrow> jobs_move s s'"
  by (auto simp: jobs_move_def)

lemma jobs_move_put:
  assumes "bt_get (jobs s) (j_id j) = Some j0" "job_moves\<^sup>*\<^sup>* j0 j" "jobs s' = bt_insert (j_id j) j (jobs s)"
  shows "jobs_move s s'"
  using assms by (auto simp: jobs_move_def)

lemma update_moves:
  assumes "keyed s" "validate_job_update s j e = Inr u"
  obtains j0 where "bt_get (jobs s) (j_id j) = Some j0" "job_moves j0 j"
proof -
  obtain j0 where j0: "bt_get (jobs s) (j_id j) = Some j0" "validate_job_update_against j0 j e = Inr ()"
    using validate_job_updateD [OF assms(2)] by blast
  with validate_update_moves [OF j0(2)] keyed_ids(1) [OF assms(1)] that show ?thesis by simp
qed

lemma append_event_jobs: "append_event_locked e s = Inr (e', s') \<Longrightarrow> jobs s' = jobs s"
  using append_event_locked_frame(2) .

lemma insert_idempotency_jobs: "insert_submit_job_idempotency_locked s key r = Inr s' \<Longrightarrow> jobs s' = jobs s"
  by (auto simp: insert_idempotency_eq_Inr)

lemma create_job_moves:
  assumes "create_job_with_initial_event ok j e s = Inr (r, s')"
  shows "jobs_move s s'" "bt_get (jobs s) (j_id j) = None"
    "jobs s' = bt_insert (j_id j) (j\<lparr>j_latest_event_id := Some (e_id e)\<rparr>) (jobs s)"
proof -
  obtain e' es where r: "r = (e', es)" by fastforce
  note c = assms [unfolded r create_job_eq_Inr]
  then show new: "bt_get (jobs s) (j_id j) = None" by blast
  show jobs': "jobs s' = bt_insert (j_id j) (j\<lparr>j_latest_event_id := Some (e_id e)\<rparr>) (jobs s)"
    using c append_event_jobs by fastforce
  with new show "jobs_move s s'" by (auto simp: jobs_move_def)
qed

lemma update_job_moves:
  assumes k: "keyed s" and c: "append_job_event_and_update_job ok j e s = Inr (r, s')"
  shows "jobs_move s s'" "\<exists>j0 j1. bt_get (jobs s) (j_id j) = Some j0 \<and> job_moves\<^sup>*\<^sup>* j0 j1 \<and>
    j_id j1 = j_id j \<and> jobs s' = bt_insert (j_id j1) j1 (jobs s)"
proof -
  from c obtain e' s1 where u: "validate_job_update s j e = Inr ()" and a: "append_event_locked e s = Inr (e', s1)"
    and s': "s' = put_job (j\<lparr>j_latest_event_id := Some (e_id e')\<rparr>) s1"
    by (auto simp: append_job_event_and_update_job_def)
  obtain j0 where "bt_get (jobs s) (j_id j) = Some j0" "job_moves j0 j" using update_moves [OF k u] .
  then show ex: "\<exists>j0 j1. bt_get (jobs s) (j_id j) = Some j0 \<and> job_moves\<^sup>*\<^sup>* j0 j1 \<and>
    j_id j1 = j_id j \<and> jobs s' = bt_insert (j_id j1) j1 (jobs s)"
    using s' append_event_jobs [OF a]
    by (intro exI [of _ j0] exI [of _ "j\<lparr>j_latest_event_id := Some (e_id e')\<rparr>"]) (auto simp: put_job_def)
  then show "jobs_move s s'" using jobs_move_put by metis
qed

lemma update_job_with_receipt_moves:
  assumes k: "keyed s"
    and c: "append_job_event_and_update_job_with_submit_job_idempotency ok j e key rec s = Inr (r, s')"
  shows "jobs_move s s'" "\<exists>j0 j1. bt_get (jobs s) (j_id j) = Some j0 \<and> job_moves\<^sup>*\<^sup>* j0 j1 \<and>
    j_id j1 = j_id j \<and> jobs s' = bt_insert (j_id j1) j1 (jobs s)"
proof -
  from c obtain s1 rec' where a: "append_job_event_and_update_job ok j e s = Inr (r, s1)"
    and i: "insert_submit_job_idempotency_locked s1 key rec' = Inr s'"
    by (auto simp: append_job_event_and_update_job_with_submit_job_idempotency_def
        append_job_event_and_update_job_def Let_def)
  then show "jobs_move s s'" "\<exists>j0 j1. bt_get (jobs s) (j_id j) = Some j0 \<and> job_moves\<^sup>*\<^sup>* j0 j1 \<and>
    j_id j1 = j_id j \<and> jobs s' = bt_insert (j_id j1) j1 (jobs s)"
    using update_job_moves [OF k a] insert_idempotency_jobs [OF i] by (simp_all add: jobs_move_def)
qed

lemma bt_insert_twice [simp]: "bt_insert k v (bt_insert k v' m) = bt_insert k v m"
  by (induction k v' m rule: bt_insert.induct) auto

lemma update_twice_moves:
  assumes k: "keyed s" and c: "append_job_events_and_update_job ok j1 e1 j2 e2 s = Inr (r, s')"
  shows "jobs_move s s'" "\<exists>j0 j. bt_get (jobs s) (j_id j2) = Some j0 \<and> job_moves\<^sup>*\<^sup>* j0 j \<and>
    j_id j = j_id j2 \<and> jobs s' = bt_insert (j_id j) j (jobs s)"
proof -
  from c obtain e1' e2' s1 s2 where ids: "j_id j1 = j_id j2"
    and u1: "validate_job_update s j1 e1 = Inr ()"
    and u2: "validate_job_update_against (j1\<lparr>j_latest_event_id := Some (e_id e1)\<rparr>) j2 e2 = Inr ()"
    and a1: "append_event_locked e1 s = Inr (e1', s1)"
    and a2: "append_event_locked e2 s1 = Inr (e2', s2)"
    and s': "s' = put_job (j2\<lparr>j_latest_event_id := Some (e_id e2')\<rparr>) s2"
    by (auto simp: append_job_events_and_update_job_def validate_two_stage_job_update_identity_def Let_def
        simp del: ensure_event_sequence_capacity_eq_Inr)
  obtain j0 where j0: "bt_get (jobs s) (j_id j1) = Some j0" "job_moves j0 j1" using update_moves [OF k u1] .
  have "job_moves j1 j2" using validate_update_moves [OF u2] ids by simp
  then have "job_moves j1 (j2\<lparr>j_latest_event_id := Some (e_id e2')\<rparr>)" by simp
  from two_moves [OF j0(2) this] show ex: "\<exists>j0 j. bt_get (jobs s) (j_id j2) = Some j0 \<and> job_moves\<^sup>*\<^sup>* j0 j \<and>
    j_id j = j_id j2 \<and> jobs s' = bt_insert (j_id j) j (jobs s)"
    using s' append_event_jobs [OF a1] append_event_jobs [OF a2] j0(1) ids
    by (intro exI [of _ j0] exI [of _ "j2\<lparr>j_latest_event_id := Some (e_id e2')\<rparr>"]) (simp add: put_job_def)
  then show "jobs_move s s'" using jobs_move_put by metis
qed

lemma write_tool_result_jobs:
  assumes "write_tool_result_and_audit j r e1 a e2 s = Inr (x, s')"
  shows "jobs s' = bt_insert (j_id j) (j\<lparr>j_latest_event_id := Some (e_id e2)\<rparr>) (jobs s)"
proof -
  from assms obtain e1' e2' sb sd where
    ab: "append_event_locked e1 (s\<lparr>tool_results := hm_insert (r_id r) r (tool_results s)\<rparr>) = Inr (e1', sb)"
    and ad: "append_event_locked e2 ((put_job (j\<lparr>j_latest_event_id := Some (e_id e1')\<rparr>) sb)
        \<lparr>audit_records := hm_insert (a_id a) a (audit_records sb)\<rparr>) = Inr (e2', sd)"
    and s': "s' = put_job (j\<lparr>j_latest_event_id := Some (e_id e2')\<rparr>) sd"
    unfolding write_tool_result_and_audit_def by (auto simp: Let_def put_job_def)
  from append_event_locked_frame(2,11) [OF ad] append_event_locked_frame(2) [OF ab] show ?thesis
    by (simp add: s' put_job_def)
qed

lemma check_tool_result_update:
  "check_tool_result_and_audit ok j r e1 a e2 s = Inr u \<Longrightarrow> validate_job_update s j e1 = Inr ()"
  by (simp add: check_tool_result_and_audit_def)

lemma record_tool_result_moves:
  assumes k: "keyed s" and c: "record_tool_result_and_audit_with_events ok j r e1 a e2 s = Inr (x, s')"
  shows "jobs_move s s'" "\<exists>j0 j1. bt_get (jobs s) (j_id j) = Some j0 \<and> job_moves\<^sup>*\<^sup>* j0 j1 \<and>
    j_id j1 = j_id j \<and> jobs s' = bt_insert (j_id j1) j1 (jobs s)"
proof -
  from c obtain y where "check_tool_result_and_audit ok j r e1 a e2 s = Inr ()"
    and w: "write_tool_result_and_audit j r e1 a e2 s = Inr (y, s')"
    by (auto simp: record_tool_result_and_audit_with_events_def)
  with update_moves [OF k check_tool_result_update] obtain j0
    where "bt_get (jobs s) (j_id j) = Some j0" "job_moves j0 j" by metis
  then show ex: "\<exists>j0 j1. bt_get (jobs s) (j_id j) = Some j0 \<and> job_moves\<^sup>*\<^sup>* j0 j1 \<and>
    j_id j1 = j_id j \<and> jobs s' = bt_insert (j_id j1) j1 (jobs s)"
    using write_tool_result_jobs [OF w]
    by (intro exI [of _ j0] exI [of _ "j\<lparr>j_latest_event_id := Some (e_id e2)\<rparr>"]) auto
  then show "jobs_move s s'" using jobs_move_put by metis
qed

lemma terminal_moves:
  assumes k: "keyed s" and c: "record_tool_result_audit_terminal_with_submit_job_idempotency ok q s = Inr (x, s')"
  shows "jobs_move s s'" "\<exists>j0 j1. bt_get (jobs s) (j_id (tq_record q)) = Some j0 \<and> job_moves\<^sup>*\<^sup>* j0 j1 \<and>
    j_id j1 = j_id (tq_record q) \<and> jobs s' = bt_insert (j_id j1) j1 (jobs s)"
proof -
  from terminal_eq_Inr [OF c] obtain j r e1 a e2 e3 jf e1' e2' s1 e3' s2 where j: "j = tq_record q"
    and ck: "check_tool_result_and_audit ok j r e1 a e2 s = Inr ()"
    and tr: "transition_status j (terminal_status_of (r_status r)) (e_created_at e3) = Inr jf"
    and u: "validate_job_update_against j jf e3 = Inr ()"
    and w: "write_tool_result_and_audit j r e1 a e2 s = Inr ((e1', e2'), s1)"
    and ap: "append_event_locked e3 s1 = Inr (e3', s2)"
    and fin: "case tq_idempotency q of None \<Rightarrow> s' = put_job (jf\<lparr>j_latest_event_id := Some (e_id e3')\<rparr>) s2
     | Some (key, rc) \<Rightarrow> insert_submit_job_idempotency_locked (put_job (jf\<lparr>j_latest_event_id := Some (e_id e3')\<rparr>) s2) key
         (commit_receipt e1' e2' e3' (jf\<lparr>j_latest_event_id := Some (e_id e3')\<rparr>) rc) = Inr s'"
    by metis
  define j1 where "j1 = jf\<lparr>j_latest_event_id := Some (e_id e3')\<rparr>"
  obtain j0 where j0: "bt_get (jobs s) (j_id j) = Some j0" "job_moves j0 j"
    using update_moves [OF k check_tool_result_update [OF ck]] .
  have id: "j_id jf = j_id j" using transition_status_frame [OF tr] by simp
  have "job_moves j jf" using validate_update_moves [OF u id] .
  then have "job_moves j j1" by (simp add: j1_def)
  from two_moves [OF j0(2) this] have mv: "job_moves\<^sup>*\<^sup>* j0 j1" .
  have "jobs s' = jobs (put_job j1 s2)"
    using fin insert_idempotency_jobs by (fastforce simp: j1_def split: option.splits)
  then have "jobs s' = bt_insert (j_id j1) j1 (jobs s)"
    using append_event_jobs [OF ap] write_tool_result_jobs [OF w] id by (simp add: put_job_def j1_def)
  with mv j0 id show ex: "\<exists>j0 j1. bt_get (jobs s) (j_id (tq_record q)) = Some j0 \<and> job_moves\<^sup>*\<^sup>* j0 j1 \<and>
    j_id j1 = j_id (tq_record q) \<and> jobs s' = bt_insert (j_id j1) j1 (jobs s)"
    unfolding j [symmetric] by (intro exI [of _ j0] exI [of _ j1]) (simp add: j1_def)
  then show "jobs_move s s'" using jobs_move_put by metis
qed

section \<open>Jobs along a run\<close>

text \<open>Operations that leave the jobs alone.\<close>

lemma migration_ops_jobs:
  "create_schema_migration m s = Inr (u, s') \<Longrightarrow> jobs s' = jobs s"
  "acquire_schema_migration_lock uuid leader safe n t s = Inr (x, s') \<Longrightarrow> jobs s' = jobs s"
  "get_schema_migration_lock t s = Inr (y, s') \<Longrightarrow> jobs s' = jobs s"
  "release_schema_migration_lock i leader t s = Inr (z, s') \<Longrightarrow> jobs s' = jobs s"
proof -
  have e: "jobs (expire_schema_migration_locks t s) = jobs s" for t
    by (simp add: expire_schema_migration_locks_def)
  show "create_schema_migration m s = Inr (u, s') \<Longrightarrow> jobs s' = jobs s"
    by (auto simp: create_schema_migration_eq_Inr Let_def e)
  show "acquire_schema_migration_lock uuid leader safe n t s = Inr (x, s') \<Longrightarrow> jobs s' = jobs s"
    by (auto simp: acquire_eq_Inr e)
  show "get_schema_migration_lock t s = Inr (y, s') \<Longrightarrow> jobs s' = jobs s"
    by (auto simp: get_schema_migration_lock_def Let_def e)
  assume r: "release_schema_migration_lock i leader t s = Inr (z, s')"
  obtain m0 k where "hm_get (schema_migrations (expire_schema_migration_locks t s)) i = Some m0"
    "m_migration_lock m0 = Some k" using release_Inr_lock [OF r] .
  with r show "jobs s' = jobs s" by (auto simp: release_eq_Inr e split: if_splits)
qed

lemmas quiet_ops = create_repository_eq_Inr create_policy_decision_def create_lock_decision_eq_Inr
  create_tool_invocation_def create_tool_result_def create_audit_record_def
  record_submit_job_idempotency_def set_extension_registry_snapshot_def append_job_event_def

fun creates_job :: "'x ledger_op \<Rightarrow> JobRecord option" where
  "creates_job (CreateJob j e) = Some (j\<lparr>j_latest_event_id := Some (e_id e)\<rparr>)"
| "creates_job _ = None"

text \<open>A job after an operation is one from before, moved on, or the one the operation created.\<close>

definition jobs_from :: "'x InMemoryInner \<Rightarrow> JobRecord option \<Rightarrow> 'x InMemoryInner \<Rightarrow> bool" where
  "jobs_from s new s' \<longleftrightarrow>
     (\<forall>i j'. bt_get (jobs s') i = Some j' \<longrightarrow>
        (\<exists>j. bt_get (jobs s) i = Some j \<and> job_moves\<^sup>*\<^sup>* j j') \<or> new = Some j' \<and> bt_get (jobs s) i = None)"

lemma jobs_from_same: "jobs s' = jobs s \<Longrightarrow> jobs_from s new s'"
  by (auto simp: jobs_from_def)

lemma jobs_from_put:
  assumes "\<exists>j0 j1. bt_get (jobs s) i = Some j0 \<and> job_moves\<^sup>*\<^sup>* j0 j1 \<and>
    j_id j1 = i \<and> jobs s' = bt_insert (j_id j1) j1 (jobs s)"
  shows "jobs_from s new s'"
proof -
  from assms obtain j0 j1 where "bt_get (jobs s) i = Some j0" "job_moves\<^sup>*\<^sup>* j0 j1" "j_id j1 = i"
    "jobs s' = bt_insert (j_id j1) j1 (jobs s)" by blast
  then show ?thesis by (auto simp: jobs_from_def split: if_splits)
qed

lemma apply_op_jobs:
  assumes inv: "ledger_inv ok s" and c: "apply_op ok ext opr s = Inr (es, s')"
  shows "jobs_move s s' \<and> jobs_from s (creates_job opr) s'"
proof -
  have k: "keyed s" using ledger_invD(1) [OF inv] .
  have same: ?thesis if "jobs s' = jobs s" using that jobs_move_refl jobs_from_same by blast
  show ?thesis
  proof (cases opr)
    case (CreateJob j e)
    then obtain r where "create_job_with_initial_event ok j e s = Inr (r, s')" using c by auto
    from create_job_moves [OF this] show ?thesis by (auto simp: CreateJob jobs_from_def split: if_splits)
  next
    case (UpdateJob j e)
    then obtain r where "append_job_event_and_update_job ok j e s = Inr (r, s')" using c by auto
    from update_job_moves [OF k this] jobs_from_put show ?thesis by blast
  next
    case (UpdateJobWithReceipt j e key rc)
    then obtain r where "append_job_event_and_update_job_with_submit_job_idempotency ok j e key rc s = Inr (r, s')"
      using c by auto
    from update_job_with_receipt_moves [OF k this] jobs_from_put show ?thesis by blast
  next
    case (UpdateJobTwice j1 e1 j2 e2)
    then obtain r where "append_job_events_and_update_job ok j1 e1 j2 e2 s = Inr (r, s')" using c by auto
    from update_twice_moves [OF k this] jobs_from_put show ?thesis by blast
  next
    case (RecordToolResultAndAudit j r e1 a e2)
    then obtain x where "record_tool_result_and_audit_with_events ok j r e1 a e2 s = Inr (x, s')" using c by auto
    from record_tool_result_moves [OF k this] jobs_from_put show ?thesis by blast
  next
    case (RecordTerminal q)
    then obtain x where "record_tool_result_audit_terminal_with_submit_job_idempotency ok q s = Inr (x, s')"
      using c by auto
    from terminal_moves [OF k this] jobs_from_put show ?thesis by blast
  qed ((rule same, use c in \<open>auto simp: quiet_ops dest: migration_ops_jobs append_event_jobs
      insert_idempotency_jobs\<close>) [1])+
qed

lemma jobs_move_trans: "jobs_move s s' \<Longrightarrow> jobs_move s' s'' \<Longrightarrow> jobs_move s s''"
  unfolding jobs_move_def by (meson rtranclp_trans)

lemma steps_jobs_move: "ledger_steps ok ext s es s' \<Longrightarrow> ledger_inv ok s \<Longrightarrow> jobs_move s s'"
proof (induction rule: ledger_steps.induct)
  case (stay s)
  then show ?case by (simp add: jobs_move_refl)
next
  case (step s es s' opr es' s'')
  moreover have "ledger_inv ok s'" using ledger_steps_ok [OF step.hyps(1) step.prems] op_ok_inv by blast
  ultimately show ?case using apply_op_jobs jobs_move_trans by blast
qed

end
