(* ===== verification/Loading.thy ===== *)
theory Loading
  imports JobLife
begin

text \<open>
  What the store checks when it loads a snapshot (\<open>store.rs\<close>, \<open>validate_loaded_store\<close> and the
  functions it calls). \<open>validate_ext\<close> is the check of the extension registry under the default
  policy.
\<close>

section \<open>Loops with a set of keys seen so far\<close>

text \<open>\<open>for x in xs { check(x)?; if !seen.insert(key(x)) { return Err(dup(x)) } }\<close>\<close>

fun for_each_unique ::
    "('a \<Rightarrow> 'e + unit) \<Rightarrow> ('a \<Rightarrow> 'k) \<Rightarrow> ('a \<Rightarrow> 'e) \<Rightarrow> 'a list \<Rightarrow> 'k list \<Rightarrow> 'e + unit" where
  "for_each_unique check key dup [] seen = Inr ()"
| "for_each_unique check key dup (x # xs) seen =
     andthen (check x) (\<lambda>_.
     if key x \<in> set seen then Inl (dup x)
     else for_each_unique check key dup xs (key x # seen))"

text \<open>A check of every element with each later one.\<close>

fun for_each_pair :: "('a \<Rightarrow> 'a \<Rightarrow> 'e + unit) \<Rightarrow> 'a list \<Rightarrow> 'e + unit" where
  "for_each_pair f [] = Inr ()"
| "for_each_pair f (x # xs) = andthen (for_each (f x) xs) (\<lambda>_. for_each_pair f xs)"

lemma for_each_unique_eq_Inr [simp, ok_simps]:
  "for_each_unique check key dup xs seen = Inr u \<longleftrightarrow>
     (\<forall>x \<in> set xs. check x = Inr ()) \<and> distinct (map key xs) \<and> key ` set xs \<inter> set seen = {}"
  by (induction xs arbitrary: seen) auto

lemma for_each_pair_eq_Inr [simp, ok_simps]:
  "for_each_pair f xs = Inr u \<longleftrightarrow> sorted_wrt (\<lambda>x y. f x y = Inr ()) xs"
  by (induction xs) auto

section \<open>The checks\<close>

definition blocked_root_conflict :: "RepositoryRecord \<Rightarrow> RepositoryRecord \<Rightarrow> unit StoreResult" where
  "blocked_root_conflict repository conflicting_repository =
     require (\<not> (repository_roots_strictly_overlap (rp_root_path repository) (rp_root_path conflicting_repository) \<and>
           (rp_trust_state repository = RepositoryTrustState.Blocked \<or>
            rp_trust_state conflicting_repository = RepositoryTrustState.Blocked)))
       (InvalidRecord ''repositories''
         (Msg ''blocked root_path {} conflicts with repository root_path {}''
           [FStr (rp_root_path repository), FStr (rp_root_path conflicting_repository)]))"

definition validate_loaded_repositories :: "'x InMemoryInner \<Rightarrow> unit StoreResult" where
  "validate_loaded_repositories s =
     (let repositories = hm_values (repositories s) in
      andthen (for_each_unique validate_repository_record rp_root_path
        (\<lambda>repository. InvalidRecord ''repositories''
          (Msg ''duplicate root_path {}'' [FStr (rp_root_path repository)])) repositories []) (\<lambda>_.
      for_each_pair blocked_root_conflict repositories))"

definition validate_loaded_policy_root :: "'x InMemoryInner \<Rightarrow> PolicyDecision \<Rightarrow> unit StoreResult" where
  "validate_loaded_policy_root s policy_decision =
     (if \<not> is_root_scoped_repository_block policy_decision then Inr ()
      else
        andthen (ok_or (hm_get (repositories s) (p_repository_id policy_decision))
          (missing_policy_repository policy_decision)) (\<lambda>repository.
        for_each (\<lambda>conflicting_repository.
            require (\<not> (rp_id conflicting_repository \<noteq> rp_id repository \<and>
                repository_roots_strictly_overlap (rp_root_path repository) (rp_root_path conflicting_repository)))
              (InvalidRecord ''policy_decisions''
                (Msg ''policy_decision root_path {} conflicts with repository root_path {}''
                  [FStr (rp_root_path repository), FStr (rp_root_path conflicting_repository)])))
          (hm_values (repositories s))))"

definition invalid_job :: "string \<Rightarrow> StoreError" where
  "invalid_job reason = InvalidRecord ''jobs'' (Msg reason [])"

definition validate_loaded_job_record :: "'x InMemoryInner \<Rightarrow> JobRecord \<Rightarrow> unit StoreResult" where
  "validate_loaded_job_record s job =
     andthen (ensure_ref_exists (contains_key (repositories s) (j_repository_id job)) ''repositories''
       (id_debug ''RepositoryId'' (j_repository_id job)) ''jobs.repository_id'') (\<lambda>_.
     andthen (require (\<not> j_updated_at job < j_created_at job)
       (invalid_job ''updated_at must not be earlier than created_at'')) (\<lambda>_.
     andthen (case j_started_at job of
         None \<Rightarrow> Inr ()
       | Some started_at \<Rightarrow>
           require (\<not> started_at < j_created_at job)
             (invalid_job ''started_at must not be earlier than created_at'')) (\<lambda>_.
     andthen (case j_completed_at job of
         None \<Rightarrow> Inr ()
       | Some completed_at \<Rightarrow>
           require (\<not> completed_at < j_created_at job)
             (invalid_job ''completed_at must not be earlier than created_at'')) (\<lambda>_.
     andthen
       (if j_status job = Running \<and> j_started_at job = None
        then Inl (invalid_job ''running jobs must have started_at'')
        else if is_terminal (j_status job) \<and> j_completed_at job = None
        then Inl (invalid_job ''terminal jobs must have completed_at'')
        else if \<not> is_terminal (j_status job) \<and> j_completed_at job \<noteq> None
        then Inl (invalid_job ''non-terminal jobs must not have completed_at'')
        else Inr ()) (\<lambda>_.
     case j_latest_event_id job of
       None \<Rightarrow> Inr ()
     | Some latest_event_id \<Rightarrow>
         andthen (ok_or (hm_get (job_events_by_id s) latest_event_id)
           (NotFound ''job_events'' (Msg ''{} (jobs.latest_event_id)''
             [id_debug ''JobEventId'' latest_event_id]))) (\<lambda>event.
         require (\<not> (rf_job_id (e_refs event) \<noteq> Some (j_id job) \<and>
               s_subject_id (e_subject event) \<noteq> as_str (j_id job)))
           (InvalidReference ''jobs''
             (Msg ''latest_event_id {} does not point at an event for job {}''
               [id_debug ''JobEventId'' latest_event_id, id_debug ''JobId'' (j_id job)]))))))))"

definition validate_loaded_lock_decision :: "'x InMemoryInner \<Rightarrow> LockDecision \<Rightarrow> unit StoreResult" where
  "validate_loaded_lock_decision s lock_decision =
     andthen (validate_lock_decision_timing lock_decision) (\<lambda>_.
     andthen (ensure_ref_exists (contains_key (repositories s) (l_repository_id lock_decision)) ''repositories''
       (id_debug ''RepositoryId'' (l_repository_id lock_decision)) ''lock_decisions.repository_id'') (\<lambda>_.
     andthen (ok_or (hm_get (policy_decisions s) (l_policy_decision_id lock_decision))
       (NotFound ''policy_decisions''
         (Msg ''{}'' [id_debug ''PolicyDecisionId'' (l_policy_decision_id lock_decision)]))) (\<lambda>policy_decision.
     andthen (ensure_same_repository ''lock_decisions'' ''lock_decision.policy_decision_id''
       (l_repository_id lock_decision) (p_repository_id policy_decision)) (\<lambda>_.
     validate_lock_owner s lock_decision))))"

definition validate_loaded_active_locks :: "'x InMemoryInner \<Rightarrow> unit StoreResult" where
  "validate_loaded_active_locks s =
     for_each_unique (\<lambda>_. Inr ())
       (\<lambda>lock_decision. (as_str (l_repository_id lock_decision), locked_scope_debug (l_locked_scope lock_decision)))
       (\<lambda>_. Conflict ''lock_decisions''
         (Msg ''multiple active lock decisions cover the same repository/scope'' []))
       (filter (\<lambda>lock. is_active_lock_status (l_status lock)) (hm_values (lock_decisions s))) []"

definition validate_loaded_tool_result_record :: "'x InMemoryInner \<Rightarrow> ToolResult \<Rightarrow> unit StoreResult" where
  "validate_loaded_tool_result_record s record =
     andthen (ok_or (hm_get (tool_invocations s) (r_invocation_id record))
       (tool_result_invocation_missing record)) (\<lambda>invocation.
     require (t_tool_id invocation = r_tool_id record) (tool_result_tool_mismatch record invocation))"

text \<open>\<open>HashMap::remove\<close> and \<open>BTreeMap::remove\<close>.\<close>

definition map_remove :: "'k \<Rightarrow> ('k \<times> 'v) list \<Rightarrow> ('k \<times> 'v) list" where
  "map_remove k m = filter (\<lambda>(k', _). k' \<noteq> k) m"

text \<open>
  The loop over the sequence index. \<open>validated\<close> is the copy of the ledger from which the events
  checked so far are removed, so that the check for new events accepts them.
\<close>

fun loaded_event_loop ::
    "(string \<Rightarrow> bool) \<Rightarrow> 'x InMemoryInner \<Rightarrow> (nat \<times> JobEventId) list \<Rightarrow> nat \<Rightarrow> JobEventId list
     \<Rightarrow> 'x InMemoryInner \<Rightarrow> (nat \<times> JobEventId list) StoreResult" where
  "loaded_event_loop uuid_ok s [] expected_sequence seen_event_ids validated =
     Inr (expected_sequence, seen_event_ids)"
| "loaded_event_loop uuid_ok s ((sequence_number, event_id) # rest) expected_sequence seen_event_ids validated =
     andthen (require (sequence_number = expected_sequence)
       (InvalidRecord ''job_events'' (Msg ''sequence ledger has gap: expected {}, found {}''
         [FNat expected_sequence, FNat sequence_number]))) (\<lambda>_.
     andthen (require (event_id \<notin> set seen_event_ids)
       (Conflict ''job_events'' (Msg ''sequence index references duplicate event id {}''
         [id_debug ''JobEventId'' event_id]))) (\<lambda>_.
     andthen (ok_or (hm_get (job_events_by_id s) event_id) (missing_sequence_id event_id)) (\<lambda>event.
     andthen (require (e_sequence_number event = sequence_number)
       (InvalidRecord ''job_events'' (Msg ''event {} stores sequence {} but ledger index says {}''
         [id_debug ''JobEventId'' event_id, FNat (e_sequence_number event), FNat sequence_number]))) (\<lambda>_.
     let validated' = validated\<lparr>job_events_by_id := map_remove event_id (job_events_by_id validated),
           job_events_by_sequence := map_remove sequence_number (job_events_by_sequence validated)\<rparr>
     in andthen (validate_new_job_event uuid_ok validated' event None) (\<lambda>_.
        loaded_event_loop uuid_ok s rest (saturating_add expected_sequence 1) (event_id # seen_event_ids)
          validated')))))"

definition validate_loaded_job_event_sequence ::
    "(string \<Rightarrow> bool) \<Rightarrow> 'x InMemoryInner \<Rightarrow> unit StoreResult" where
  "validate_loaded_job_event_sequence uuid_ok s =
     andthen (loaded_event_loop uuid_ok s (job_events_by_sequence s) 1 [] s)
       (\<lambda>(expected_sequence, seen_event_ids).
     andthen (require (expected_sequence - 1 = next_event_sequence s)
       (InvalidRecord ''job_events''
         (Msg ''next_event_sequence {} does not match retained sequence {}''
           [FNat (next_event_sequence s), FNat (expected_sequence - 1)]))) (\<lambda>_.
     require (length seen_event_ids = length (job_events_by_id s))
       (InvalidRecord ''job_events''
         (Msg ''sequence index and id index disagree on event count'' []))))"

definition validate_loaded_store ::
    "(string \<Rightarrow> bool) \<Rightarrow> ('x \<Rightarrow> message + unit) \<Rightarrow> 'x InMemoryInner \<Rightarrow> unit StoreResult" where
  "validate_loaded_store uuid_ok validate_ext s =
     andthen (validate_loaded_repositories s) (\<lambda>_.
     andthen (for_each (validate_loaded_policy_root s) (hm_values (policy_decisions s))) (\<lambda>_.
     andthen (for_each (validate_loaded_job_record s) (bt_values (jobs s))) (\<lambda>_.
     andthen (for_each (\<lambda>policy_decision.
         ensure_ref_exists (contains_key (repositories s) (p_repository_id policy_decision)) ''repositories''
           (id_debug ''RepositoryId'' (p_repository_id policy_decision)) ''policy_decisions.repository_id'')
       (hm_values (policy_decisions s))) (\<lambda>_.
     andthen (for_each (validate_loaded_lock_decision s) (hm_values (lock_decisions s))) (\<lambda>_.
     andthen (validate_loaded_active_locks s) (\<lambda>_.
     andthen (for_each validate_schema_migration_record (hm_values (schema_migrations s))) (\<lambda>_.
     andthen (for_each (validate_tool_invocation_refs s) (hm_values (tool_invocations s))) (\<lambda>_.
     andthen (for_each_unique (validate_loaded_tool_result_record s) r_invocation_id
         (\<lambda>tool_result. Conflict ''tool_results''
           (Msg ''multiple tool_results reference invocation {}''
             [id_debug ''ToolInvocationId'' (r_invocation_id tool_result)]))
         (hm_values (tool_results s)) []) (\<lambda>_.
     andthen (for_each (validate_audit_record_refs s) (hm_values (audit_records s))) (\<lambda>_.
     andthen (for_each (\<lambda>(idempotency_key, submission).
         validate_submit_job_idempotency_record s idempotency_key submission)
       (idempotent_submit_jobs s)) (\<lambda>_.
     andthen (map_err (InvalidRecord ''extension_registry'')
       (validate_ext (extension_registry_snapshot s))) (\<lambda>_.
     validate_loaded_job_event_sequence uuid_ok s))))))))))))"

end
