(* ===== verification/Reload.thy ===== *)
theory Reload
  imports Loading
begin

text \<open>
  The load check against the ledger invariant. On a ledger with the invariant the check succeeds
  exactly when the job timelines, the receipts and the extension registry are in order; and a
  snapshot that passes the check has the invariant, up to three conditions the check leaves out.
\<close>

section \<open>Values of a map\<close>

lemma hm_values_distinct:
  assumes "hm_wf m" and "\<And>i v i' v'. \<lbrakk>hm_get m i = Some v; hm_get m i' = Some v'; f v = f v'\<rbrakk> \<Longrightarrow> i = i'"
  shows "distinct (map f (hm_values m))"
  using assms
proof (induction m)
  case (Cons p m)
  obtain k v where p: "p = (k, v)" by (cases p)
  have wf: "hm_wf m" "k \<notin> fst ` set m" using Cons.prems(1) p by (auto simp: hm_wf_def)
  have inj: "i = i'" if "hm_get m i = Some w" "hm_get m i' = Some w'" "f w = f w'" for i w i' w'
  proof -
    have "i \<noteq> k" "i' \<noteq> k" using that wf(2) by (metis domI dom_map_of_conv_image_fst)+
    then show ?thesis using Cons.prems(2) [of i w i' w'] that p by simp
  qed
  have "f v \<noteq> f w" if "w \<in> set (hm_values m)" for w
  proof
    assume eq: "f v = f w"
    from that obtain i where i: "hm_get m i = Some w" using hm.vals_get [OF wf(1)] by auto
    then have "i \<noteq> k" using wf(2) by (metis domI dom_map_of_conv_image_fst)
    then show False using Cons.prems(2) [of k v i w] i eq p by simp
  qed
  with Cons.IH [OF wf(1) inj] p show ?case by (auto simp: hm_values_def)
qed (simp add: hm_values_def)

lemma hm_values_pairs:
  assumes "hm_wf m" and "\<And>i v i' v'. \<lbrakk>hm_get m i = Some v; hm_get m i' = Some v'; i \<noteq> i'\<rbrakk> \<Longrightarrow> P v v'"
  shows "sorted_wrt P (hm_values m)"
  using assms
proof (induction m)
  case (Cons p m)
  obtain k v where p: "p = (k, v)" by (cases p)
  have wf: "hm_wf m" "k \<notin> fst ` set m" using Cons.prems(1) p by (auto simp: hm_wf_def)
  have ne: "i \<noteq> k" if "hm_get m i = Some w" for i w
    using that wf(2) by (metis domI dom_map_of_conv_image_fst)
  have "P w w'" if "hm_get m i = Some w" "hm_get m i' = Some w'" "i \<noteq> i'" for i w i' w'
    using Cons.prems(2) [of i w i' w'] ne that p by auto
  moreover have "P v w" if w: "w \<in> set (hm_values m)" for w
  proof -
    from w obtain i where "hm_get m i = Some w" using hm.vals_get [OF wf(1)] by auto
    then show ?thesis using Cons.prems(2) [of k v i w] ne [of i w] p by simp
  qed
  ultimately show ?case using Cons.IH [OF wf(1)] p by (simp add: hm_values_def)
qed (simp add: hm_values_def)

lemma hm_values_distinctD:
  assumes "distinct (map f (hm_values m))" "hm_get m i = Some v" "hm_get m i' = Some v'" "f v = f v'"
  shows "i = i'"
  using assms
proof (induction m)
  case (Cons p m)
  obtain k w where p: "p = (k, w)" by (cases p)
  have notin: "f w \<noteq> f u" if "hm_get m l = Some u" for l u
    using that Cons.prems(1) p by (force simp: hm_values_def dest!: map_of_SomeD)
  show ?case using Cons p notin [of i' v'] notin [of i v] by (auto simp: hm_values_def split: if_splits)
qed simp

lemma hm_values_pairsD:
  assumes "sorted_wrt P (hm_values m)" "hm_get m i = Some v" "hm_get m i' = Some v'" "i \<noteq> i'"
  shows "P v v' \<or> P v' v"
  using assms
proof (induction m)
  case (Cons p m)
  obtain k w where p: "p = (k, w)" by (cases p)
  have "P w u" if "hm_get m l = Some u" for l u
    using that Cons.prems(1) p by (auto simp: hm_values_def dest!: map_of_SomeD)
  then show ?case using Cons p by (auto simp: hm_values_def split: if_splits)
qed simp

section \<open>The records\<close>

text \<open>The timeline a loaded job has to have.\<close>

definition job_timeline :: "JobRecord \<Rightarrow> bool" where
  "job_timeline j \<longleftrightarrow>
     j_created_at j \<le> j_updated_at j \<and>
     (case j_started_at j of None \<Rightarrow> True | Some t \<Rightarrow> j_created_at j \<le> t) \<and>
     (case j_completed_at j of None \<Rightarrow> True | Some t \<Rightarrow> j_created_at j \<le> t) \<and>
     (j_status j = Running \<longrightarrow> j_started_at j \<noteq> None) \<and>
     (is_terminal (j_status j) \<longleftrightarrow> j_completed_at j \<noteq> None)"

lemma job_wf_timeline: "job_wf j \<Longrightarrow> job_timeline j"
  by (auto simp: job_wf_def job_timeline_def split: option.splits)

lemma loaded_job_record_iff:
  "validate_loaded_job_record s j = Inr () \<longleftrightarrow>
     hm_get (repositories s) (j_repository_id j) \<noteq> None \<and> job_timeline j \<and>
     (\<forall>i. j_latest_event_id j = Some i \<longrightarrow>
        (\<exists>e. hm_get (job_events_by_id s) i = Some e \<and>
           (rf_job_id (e_refs e) = Some (j_id j) \<or> s_subject_id (e_subject e) = as_str (j_id j))))"
  by (cases "j_started_at j"; cases "j_completed_at j"; cases "j_latest_event_id j")
     (auto simp: validate_loaded_job_record_def job_timeline_def ensure_ref_exists_def split: if_splits)

lemma loaded_lock_iff: "validate_loaded_lock_decision s l = Inr () \<longleftrightarrow> lock_valid s l"
  by (auto simp: validate_loaded_lock_decision_def lock_valid_def ensure_ref_exists_def split: if_splits)

lemma loaded_result_iff: "validate_loaded_tool_result_record s r = Inr () \<longleftrightarrow> result_valid s r"
  by (auto simp: validate_loaded_tool_result_record_def result_valid_def)

lemma locked_scope_debug_inject: "locked_scope_debug a = locked_scope_debug b \<longleftrightarrow> a = b"
  by (cases a; cases b) (auto simp: str_debug_def)

section \<open>The event log\<close>

text \<open>The working copy of the loop, when the events of \<open>ids\<close> and the numbers \<open>ns\<close> are removed.\<close>

definition strip_events :: "'x InMemoryInner \<Rightarrow> JobEventId set \<Rightarrow> nat set \<Rightarrow> 'x InMemoryInner" where
  "strip_events s ids ns =
     s\<lparr>job_events_by_id := filter (\<lambda>(k, _). k \<notin> ids) (job_events_by_id s),
       job_events_by_sequence := filter (\<lambda>(k, _). k \<notin> ns) (job_events_by_sequence s)\<rparr>"

lemma strip_events_step:
  "(strip_events s ids ns)\<lparr>job_events_by_id := map_remove i (job_events_by_id (strip_events s ids ns)),
     job_events_by_sequence := map_remove n (job_events_by_sequence (strip_events s ids ns))\<rparr> =
   strip_events s (insert i ids) (insert n ns)"
  by (simp add: strip_events_def map_remove_def case_prod_beta' conj_commute)

lemma strip_events_get:
  "i \<in> ids \<Longrightarrow> hm_get (job_events_by_id (strip_events s ids ns)) i = None"
  by (auto simp: strip_events_def map_of_eq_None_iff)

lemma strip_events_valid:
  assumes "keyed s"
  shows "event_valid ok (strip_events s ids ns) e = event_valid ok s e"
proof -
  have k: "keyed (strip_events s ids ns)" using assms by (simp add: keyed_def strip_events_def)
  have "extends s None None None (strip_events s ids ns)" "extends (strip_events s ids ns) None None None s"
    by (simp_all add: extends_def strip_events_def)
  with event_valid_mono [of ok s e "strip_events s ids ns"] event_valid_mono [of ok "strip_events s ids ns" e s]
    assms k show ?thesis by blast
qed

lemma loaded_event_loop_eq_Inr:
  assumes k: "keyed s" and ids: "\<And>i e. hm_get (job_events_by_id s) i = Some e \<Longrightarrow> e_id e = i"
    and n: "n + length xs \<le> u64_max"
  shows "loaded_event_loop ok s xs n seen (strip_events s (set seen) ns) = Inr r \<longleftrightarrow>
     map fst xs = [n..<n + length xs] \<and> distinct (map snd xs) \<and> snd ` set xs \<inter> set seen = {} \<and>
     (\<forall>(m, i) \<in> set xs. \<exists>e. hm_get (job_events_by_id s) i = Some e \<and> e_sequence_number e = m \<and> event_valid ok s e) \<and>
     r = (n + length xs, rev (map snd xs) @ seen)"
  using n
proof (induction xs arbitrary: n seen ns)
  case (Cons x xs)
  obtain m i where x: "x = (m, i)" by (cases x)
  have u: "[n..<n + length (x # xs)] = n # [Suc n..<Suc n + length xs]" by (simp add: upt_rec)
  have sat: "saturating_add n (Suc 0) = Suc n" using Cons.prems by (simp add: saturating_add_def)
  have new: "validate_new_job_event ok (strip_events s (insert i (set seen)) (insert m ns)) e None = Inr () \<longleftrightarrow>
      event_valid ok s e" if "hm_get (job_events_by_id s) i = Some e" for e
    using ids [OF that] strip_events_get [of i "insert i (set seen)" s "insert m ns"]
    by (simp add: validate_new_job_event_iff strip_events_valid [OF k])
  have "Suc n + length xs \<le> u64_max" using Cons.prems by simp
  note IH = Cons.IH [OF this, of "i # seen" "insert m ns"]
  have "loaded_event_loop ok s (x # xs) n seen (strip_events s (set seen) ns) = Inr r \<longleftrightarrow>
      m = n \<and> i \<notin> set seen \<and> (\<exists>e. hm_get (job_events_by_id s) i = Some e \<and> e_sequence_number e = m \<and>
        event_valid ok s e) \<and>
      loaded_event_loop ok s xs (Suc n) (i # seen) (strip_events s (set (i # seen)) (insert m ns)) = Inr r"
    using new sat by (auto simp: x Let_def strip_events_step)
  then show ?case unfolding IH u by (auto simp: x)
qed auto

lemma strip_events_nothing: "strip_events s (set []) {} = s"
  by (simp add: strip_events_def case_prod_beta')

lemma event_sequence_iff:
  assumes k: "keyed s" and ids: "\<And>i e. hm_get (job_events_by_id s) i = Some e \<Longrightarrow> e_id e = i"
    and n: "length (job_events_by_sequence s) < u64_max"
  shows "validate_loaded_job_event_sequence ok s = Inr () \<longleftrightarrow>
     (let xs = job_events_by_sequence s in
      map fst xs = [1..<Suc (length xs)] \<and> distinct (map snd xs) \<and>
      (\<forall>(m, i) \<in> set xs. \<exists>e. hm_get (job_events_by_id s) i = Some e \<and> e_sequence_number e = m \<and> event_valid ok s e) \<and>
      next_event_sequence s = length xs \<and> length (job_events_by_id s) = length xs)"
proof -
  define xs where "xs = job_events_by_sequence s"
  have "1 + length xs \<le> u64_max" using n by (simp add: xs_def)
  from loaded_event_loop_eq_Inr [OF k ids this, of ok "[]" "{}"]
  have L: "loaded_event_loop ok s xs (Suc 0) [] s = Inr r \<longleftrightarrow>
      map fst xs = [Suc 0..<Suc (length xs)] \<and> distinct (map snd xs) \<and>
      (\<forall>(m, i) \<in> set xs. \<exists>e. hm_get (job_events_by_id s) i = Some e \<and> e_sequence_number e = m \<and> event_valid ok s e) \<and>
      r = (Suc (length xs), rev (map snd xs))" for r
    unfolding strip_events_nothing by (simp del: upt_Suc)
  have "validate_loaded_job_event_sequence ok s = Inr () \<longleftrightarrow>
      (\<exists>m seen. loaded_event_loop ok s xs (Suc 0) [] s = Inr (m, seen) \<and> m - 1 = next_event_sequence s \<and>
        length seen = length (job_events_by_id s))"
    by (auto simp: validate_loaded_job_event_sequence_def xs_def)
  then show ?thesis unfolding L Let_def xs_def [symmetric] by (auto simp del: upt_Suc)
qed

text \<open>Two maps of the same size, one included in the other, have the same entries.\<close>

lemma map_of_same_size:
  assumes "distinct (map fst m)" "distinct is" "length m = length is" "\<And>i. i \<in> set is \<Longrightarrow> map_of m i \<noteq> None"
  shows "map_of m i \<noteq> None \<longleftrightarrow> i \<in> set is"
proof -
  have "set is \<subseteq> fst ` set m" using assms(4) by (auto simp: map_of_eq_None_iff)
  moreover have "card (fst ` set m) = card (set is)"
    using assms(1-3) distinct_card [of "map fst m"] distinct_card [of "is"] by simp
  ultimately have "set is = fst ` set m" by (metis List.finite_set card_subset_eq finite_imageI)
  then show ?thesis by (auto simp: map_of_eq_None_iff)
qed

lemma event_sequence_log_rep:
  assumes "hm_wf (job_events_by_id s)"
    and ids: "\<And>i e. hm_get (job_events_by_id s) i = Some e \<Longrightarrow> e_id e = i"
    and xs: "xs = job_events_by_sequence s" "length xs \<le> u64_max"
    and seq: "map fst xs = [1..<Suc (length xs)]" "distinct (map snd xs)"
      "\<And>m i. (m, i) \<in> set xs \<Longrightarrow> \<exists>e. hm_get (job_events_by_id s) i = Some e \<and> e_sequence_number e = m"
      "next_event_sequence s = length xs" "length (job_events_by_id s) = length xs"
  shows "log_rep s (map (\<lambda>(_, i). the (hm_get (job_events_by_id s) i)) xs)" (is "log_rep s ?es")
proof -
  have e: "hm_get (job_events_by_id s) i = Some (the (hm_get (job_events_by_id s) i))"
    "e_id (the (hm_get (job_events_by_id s) i)) = i"
    "e_sequence_number (the (hm_get (job_events_by_id s) i)) = m" if "(m, i) \<in> set xs" for m i
    using seq(3) [OF that] ids by auto
  have "map e_id ?es = map snd xs" using e(2) by auto
  moreover have "map e_sequence_number ?es = map fst xs" using e(3) by auto
  moreover have "zip [1..<Suc (length xs)] (map snd xs) = xs"
    unfolding seq(1) [symmetric] by (rule zip_map_fst_snd)
  moreover have "hm_get (job_events_by_id s) i = find (\<lambda>e. e_id e = i) ?es" for i
  proof (cases "i \<in> set (map snd xs)")
    case True
    then obtain m where m: "(m, i) \<in> set xs" by auto
    then have "the (hm_get (job_events_by_id s) i) \<in> set ?es" by force
    moreover have "distinct (map e_id ?es)" using seq(2) \<open>map e_id ?es = map snd xs\<close> by (simp only:)
    ultimately show ?thesis using find_distinct_id e(1,2) [OF m] by metis
  next
    case False
    have "map_of (job_events_by_id s) i \<noteq> None \<longleftrightarrow> i \<in> set (map snd xs)"
    proof (rule map_of_same_size)
      fix i assume "i \<in> set (map snd xs)"
      then obtain m where "(m, i) \<in> set xs" by auto
      from e(1) [OF this] show "map_of (job_events_by_id s) i \<noteq> None" by (metis option.distinct(1))
    qed (use assms(1) seq(2,5) in \<open>simp_all add: hm_wf_def\<close>)
    then have "hm_get (job_events_by_id s) i = None" using False by auto
    moreover have "find (\<lambda>e. e_id e = i) ?es = None"
      unfolding find_id_None \<open>map e_id ?es = map snd xs\<close> using False .
    ultimately show ?thesis by simp
  qed
  moreover have "length ?es = length xs" by simp
  moreover define es where "es = ?es"
  ultimately show ?thesis
    unfolding log_rep_def es_def [symmetric] using seq(1,2,4) assms(1) xs
    by (intro conjI allI) (simp_all only: length_map)
qed

lemma log_rep_event_sequence:
  assumes inv: "ledger_inv ok s" and n: "length (event_log s) < u64_max"
  shows "validate_loaded_job_event_sequence ok s = Inr ()"
proof -
  note I = ledger_invD [OF inv] and R = ledger_invD(2) [OF inv]
  define es where "es = event_log s"
  have xs: "job_events_by_sequence s = zip [1..<Suc (length es)] (map e_id es)"
    and es: "map e_sequence_number es = [1..<Suc (length es)]" "distinct (map e_id es)"
    "hm_wf (job_events_by_id s)" "next_event_sequence s = length es"
    using R unfolding log_rep_def es_def by blast+
  have get: "hm_get (job_events_by_id s) i = Some e \<longleftrightarrow> e \<in> set es \<and> e_id e = i" for i e
    using log_rep_get_id [OF R] by (simp add: es_def)
  have len: "length (job_events_by_sequence s) = length es" by (simp add: xs del: upt_Suc)
  have "\<exists>e. hm_get (job_events_by_id s) i = Some e \<and> e_sequence_number e = m \<and> event_valid ok s e"
    if "(m, i) \<in> set (job_events_by_sequence s)" for m i
  proof -
    from that obtain k where k: "k < length es" "m = Suc k" "i = e_id (es ! k)"
      by (auto simp: xs in_set_zip simp del: upt_Suc)
    then have "es ! k \<in> set (event_log s)" by (simp add: es_def)
    with k get log_rep_nth [OF R, of k] I(3) show ?thesis
      by (intro exI [of _ "es ! k"]) (simp add: es_def)
  qed
  moreover have "length (job_events_by_id s) = length es"
  proof -
    have "set (map fst (job_events_by_id s)) = set (map e_id es)"
      using get by (force simp: dom_map_of_conv_image_fst [symmetric] dom_def)
    then have "card (set (map fst (job_events_by_id s))) = card (set (map e_id es))" by simp
    then show ?thesis using es(2,3) distinct_card [of "map fst (job_events_by_id s)"]
        distinct_card [of "map e_id es"] by (simp add: hm_wf_def)
  qed
  moreover have "map fst (job_events_by_sequence s) = [1..<Suc (length es)]"
    "distinct (map snd (job_events_by_sequence s))" using es(2) by (simp_all add: xs del: upt_Suc)
  ultimately show ?thesis
    using event_sequence_iff [OF I(1), of ok] get n es(4) len
    by (auto simp: Let_def es_def [symmetric] simp del: upt_Suc)
qed

section \<open>The whole check\<close>

lemma loaded_repositories_inv:
  assumes "ledger_inv ok s"
  shows "validate_loaded_repositories s = Inr ()"
proof -
  note I = ledger_invD [OF assms] and R = ledger_invD(5) [OF assms, unfolded repositories_ok_def]
  have wf: "hm_wf (repositories s)" using I(1) by (simp add: keyed_def)
  have "distinct (map rp_root_path (hm_values (repositories s)))"
    using R by (intro hm_values_distinct [OF wf]) blast
  moreover have "sorted_wrt (\<lambda>x y. blocked_root_conflict x y = Inr ()) (hm_values (repositories s))"
    by (rule hm_values_pairs [OF wf]) (use R roots_overlap_sym in \<open>auto simp: blocked_root_conflict_def\<close>)
  moreover have "validate_repository_record r = Inr ()" if "r \<in> set (hm_values (repositories s))" for r
    using R that hm.vals_get [OF wf] by auto
  ultimately show ?thesis by (simp add: validate_loaded_repositories_def Let_def)
qed

lemma loaded_policy_root_inv:
  assumes "ledger_inv ok s" "d \<in> set (hm_values (policy_decisions s))"
  shows "validate_loaded_policy_root s d = Inr ()"
proof -
  note I = ledger_invD [OF assms(1)] and R = ledger_invD(5) [OF assms(1), unfolded repositories_ok_def]
  have wf: "hm_wf (repositories s)" "hm_wf (policy_decisions s)" using I(1) by (simp_all add: keyed_def)
  obtain k where k: "hm_get (policy_decisions s) k = Some d" using assms(2) hm.vals_get [OF wf(2)] by blast
  then obtain r where r: "hm_get (repositories s) (p_repository_id d) = Some r"
    using I(4) by (fastforce simp: records_valid_def policy_valid_def)
  show ?thesis using R k r hm.vals_get [OF wf(1)] by (auto simp: validate_loaded_policy_root_def)
qed

lemma loaded_locks_inv:
  assumes "ledger_inv ok s"
  shows "validate_loaded_active_locks s = Inr ()"
proof -
  note I = ledger_invD [OF assms] and L = ledger_invD(6) [OF assms, unfolded locks_ok_def]
  have wf: "hm_wf (lock_decisions s)" using I(1) by (simp add: keyed_def)
  define f where "f = (\<lambda>l :: LockDecision. if is_active_lock_status (l_status l)
    then Inl (as_str (l_repository_id l), locked_scope_debug (l_locked_scope l)) else Inr (l_id l))"
  have "distinct (map f (hm_values (lock_decisions s)))"
  proof (rule hm_values_distinct [OF wf])
    fix i v i' v'
    assume "hm_get (lock_decisions s) i = Some v" "hm_get (lock_decisions s) i' = Some v'" "f v = f v'"
    then show "i = i'" using L keyed_ids(3) [OF I(1)]
      by (auto simp: f_def locked_scope_debug_inject split: if_splits)
  qed
  then have "distinct (map f (filter (\<lambda>l. is_active_lock_status (l_status l)) (hm_values (lock_decisions s))))"
    by (rule distinct_map_filter)
  then show ?thesis
    by (simp add: validate_loaded_active_locks_def distinct_map f_def inj_on_def)
qed

lemma load_check_iff:
  assumes inv: "ledger_inv ok s" and n: "length (event_log s) < u64_max"
  shows "validate_loaded_store ok ext s = Inr () \<longleftrightarrow>
     (\<forall>i j. bt_get (jobs s) i = Some j \<longrightarrow> job_timeline j) \<and>
     (\<forall>key r. hm_get (idempotent_submit_jobs s) key = Some r \<longrightarrow>
        validate_submit_job_idempotency_record s key r = Inr ()) \<and>
     ext (extension_registry_snapshot s) = Inr ()"
proof -
  note I = ledger_invD [OF inv] and V = ledger_invD(4) [OF inv, unfolded records_valid_def]
  have wf: "hm_wf (policy_decisions s)" "hm_wf (lock_decisions s)" "hm_wf (schema_migrations s)"
    "hm_wf (tool_invocations s)" "hm_wf (tool_results s)" "hm_wf (audit_records s)" "bt_wf (jobs s)"
    "hm_wf (idempotent_submit_jobs s)" using I(1) by (simp_all add: keyed_def)
  have job: "validate_loaded_job_record s j = Inr () \<longleftrightarrow> job_timeline j" if "bt_get (jobs s) i = Some j" for i j
    using V that unfolding loaded_job_record_iff by (fastforce simp: job_valid_def)
  have jobs: "(\<forall>j \<in> set (bt_values (jobs s)). validate_loaded_job_record s j = Inr ()) \<longleftrightarrow>
      (\<forall>i j. bt_get (jobs s) i = Some j \<longrightarrow> job_timeline j)"
    using job bt.vals_get [OF wf(7)] by auto
  have receipts: "(\<forall>p \<in> set (idempotent_submit_jobs s). (case p of (key, r) \<Rightarrow>
        validate_submit_job_idempotency_record s key r) = Inr ()) \<longleftrightarrow>
      (\<forall>key r. hm_get (idempotent_submit_jobs s) key = Some r \<longrightarrow>
        validate_submit_job_idempotency_record s key r = Inr ())"
    using wf(8) by (auto simp: hm_wf_def map_of_eq_Some_iff)
  have "\<forall>d \<in> set (hm_values (policy_decisions s)). hm_get (repositories s) (p_repository_id d) \<noteq> None"
    using V hm.vals_get [OF wf(1)] by (auto simp: policy_valid_def)
  moreover have "\<forall>l \<in> set (hm_values (lock_decisions s)). validate_loaded_lock_decision s l = Inr ()"
    using V hm.vals_get [OF wf(2)] by (auto simp: loaded_lock_iff)
  moreover have "\<forall>m \<in> set (hm_values (schema_migrations s)). validate_schema_migration_record m = Inr ()"
    using I(8) hm.vals_get [OF wf(3)] by (auto simp: migrations_ok_def)
  moreover have "\<forall>t \<in> set (hm_values (tool_invocations s)). validate_tool_invocation_refs s t = Inr ()"
    using V hm.vals_get [OF wf(4)] by auto
  moreover have "\<forall>r \<in> set (hm_values (tool_results s)). validate_loaded_tool_result_record s r = Inr ()"
    using V hm.vals_get [OF wf(5)] by (auto simp: loaded_result_iff)
  moreover have "distinct (map r_invocation_id (hm_values (tool_results s)))"
    using I(7) by (intro hm_values_distinct [OF wf(5)]) (simp add: results_ok_def)
  moreover have "\<forall>a \<in> set (hm_values (audit_records s)). validate_audit_record_refs s a = Inr ()"
    using V hm.vals_get [OF wf(6)] by auto
  ultimately show ?thesis
    using loaded_repositories_inv [OF inv] loaded_policy_root_inv [OF inv] loaded_locks_inv [OF inv]
      log_rep_event_sequence [OF inv n] jobs receipts
    unfolding validate_loaded_store_def by (simp add: ensure_ref_exists_def)
qed

text \<open>
  The conditions the check leaves out: every record is stored under its own id, every job points
  at its latest event, and at most one migration lock is held.
\<close>

definition well_keyed :: "'x InMemoryInner \<Rightarrow> bool" where
  "well_keyed s \<longleftrightarrow>
     keyed s \<and> hm_wf (job_events_by_id s) \<and> (\<forall>i e. hm_get (job_events_by_id s) i = Some e \<longrightarrow> e_id e = i)"

definition jobs_point_at_events :: "'x InMemoryInner \<Rightarrow> bool" where
  "jobs_point_at_events s \<longleftrightarrow>
     (\<forall>i j. bt_get (jobs s) i = Some j \<longrightarrow>
        (\<exists>l e. j_latest_event_id j = Some l \<and> hm_get (job_events_by_id s) l = Some e \<and>
               rf_job_id (e_refs e) = Some (j_id j)))"

definition one_held_migration_lock :: "'x InMemoryInner \<Rightarrow> bool" where
  "one_held_migration_lock s \<longleftrightarrow>
     (\<forall>i m i' m'. hm_get (schema_migrations s) i = Some m \<longrightarrow> hm_get (schema_migrations s) i' = Some m' \<longrightarrow>
        held m \<longrightarrow> held m' \<longrightarrow> i = i')"

lemma loaded_repositories_ok:
  assumes k: "keyed s" and r: "validate_loaded_repositories s = Inr ()"
    and p: "\<And>d. d \<in> set (hm_values (policy_decisions s)) \<Longrightarrow> validate_loaded_policy_root s d = Inr ()"
  shows "repositories_ok s"
  unfolding repositories_ok_def
proof (intro conjI allI impI)
  have wf: "hm_wf (repositories s)" "hm_wf (policy_decisions s)" using k by (simp_all add: keyed_def)
  have v: "\<forall>x \<in> set (hm_values (repositories s)). validate_repository_record x = Inr ()"
    and d: "distinct (map rp_root_path (hm_values (repositories s)))"
    and b: "sorted_wrt (\<lambda>x y. blocked_root_conflict x y = Inr ()) (hm_values (repositories s))"
    using r by (simp_all add: validate_loaded_repositories_def Let_def)
  {
    fix i x assume "hm_get (repositories s) i = Some x"
    then show "validate_repository_record x = Inr ()" using v hm.vals_get [OF wf(1)] by auto
  next
    fix i x i' x' assume "hm_get (repositories s) i = Some x" "hm_get (repositories s) i' = Some x'" "i \<noteq> i'"
    then show "rp_root_path x \<noteq> rp_root_path x'" using hm_values_distinctD [OF d] by blast
  next
    fix i x i' x' assume "hm_get (repositories s) i = Some x" "hm_get (repositories s) i' = Some x'" "i \<noteq> i'"
      and "repository_roots_strictly_overlap (rp_root_path x) (rp_root_path x')"
    then show "rp_trust_state x \<noteq> RepositoryTrustState.Blocked"
      using hm_values_pairsD [OF b, of i x i' x'] roots_overlap_sym by (auto simp: blocked_root_conflict_def)
  next
    fix l q x i' x' assume q: "hm_get (policy_decisions s) l = Some q" "is_root_scoped_repository_block q"
      "hm_get (repositories s) (p_repository_id q) = Some x" "hm_get (repositories s) i' = Some x'"
    then have "validate_loaded_policy_root s q = Inr ()" using p hm.vals_get [OF wf(2)] by auto
    moreover have "x' \<in> set (hm_values (repositories s))" using q(4) hm.vals_get [OF wf(1)] by auto
    ultimately have "rp_id x' = rp_id x \<or> \<not> repository_roots_strictly_overlap (rp_root_path x) (rp_root_path x')"
      using q by (auto simp: validate_loaded_policy_root_def)
    moreover have "x' = x" if "rp_id x' = rp_id x"
      using that q keyed_ids(7) [OF k, of _ x] keyed_ids(7) [OF k, of _ x'] by auto
    ultimately show "\<not> repository_roots_strictly_overlap (rp_root_path x) (rp_root_path x')"
      by (auto simp: repository_roots_strictly_overlap_def)
  }
qed

lemma loaded_locks_ok:
  assumes "validate_loaded_active_locks s = Inr ()" and wf: "hm_wf (lock_decisions s)"
  shows "locks_ok (lock_decisions s)"
  unfolding locks_ok_def
proof (intro allI impI)
  fix i l i' l'
  assume g: "hm_get (lock_decisions s) i = Some l" "hm_get (lock_decisions s) i' = Some l'"
    and h: "l_status l = LockStatus.Held" "l_status l' = LockStatus.Held"
      "l_repository_id l = l_repository_id l'" "l_locked_scope l = l_locked_scope l'"
  define m where "m = filter (\<lambda>(_, l). l_status l = LockStatus.Held) (lock_decisions s)"
  have "hm_values m = filter (\<lambda>l. is_active_lock_status (l_status l)) (hm_values (lock_decisions s))"
    by (simp add: m_def hm_values_def filter_map comp_def case_prod_beta')
  then have "distinct (map (\<lambda>l. (as_str (l_repository_id l), locked_scope_debug (l_locked_scope l))) (hm_values m))"
    using assms(1) by (simp add: validate_loaded_active_locks_def)
  moreover have "hm_get m j = Some x" if "hm_get (lock_decisions s) j = Some x" "l_status x = LockStatus.Held" for j x
  proof -
    have "distinct (map fst m)" using wf by (simp add: m_def hm_wf_def distinct_map_filter)
    moreover have "(j, x) \<in> set m" using that by (auto simp: m_def dest: map_of_SomeD)
    ultimately show ?thesis by simp
  qed
  ultimately show "i = i'" using hm_values_distinctD g h by (metis (lifting))
qed

lemma load_check_inv:
  assumes c: "validate_loaded_store ok ext s = Inr ()"
    and w: "well_keyed s" "jobs_point_at_events s" "one_held_migration_lock s"
    and n: "length (job_events_by_sequence s) < u64_max"
  shows "ledger_inv ok s"
proof -
  have k: "keyed s" and ew: "hm_wf (job_events_by_id s)"
    and ids: "\<And>i e. hm_get (job_events_by_id s) i = Some e \<Longrightarrow> e_id e = i"
    using w(1) by (simp_all add: well_keyed_def)
  have wf: "hm_wf (policy_decisions s)" "hm_wf (lock_decisions s)" "hm_wf (schema_migrations s)"
    "hm_wf (tool_invocations s)" "hm_wf (tool_results s)" "hm_wf (audit_records s)" "bt_wf (jobs s)"
    using k by (simp_all add: keyed_def)
  note C = c [unfolded validate_loaded_store_def, simplified]
  have "repositories_ok s" using loaded_repositories_ok [OF k] C by blast
  moreover have "locks_ok (lock_decisions s)" using loaded_locks_ok [OF _ wf(2)] C by blast
  moreover have "results_ok (tool_results s)"
    unfolding results_ok_def using C hm_values_distinctD [of r_invocation_id "tool_results s"] by blast
  moreover have "migrations_ok (schema_migrations s)"
    using C w(3) wf(3) hm.vals_get [OF wf(3)] keyed_ids(8) [OF k]
    by (auto simp: migrations_ok_def one_held_migration_lock_def)
  moreover have "records_valid s"
    unfolding records_valid_def
    using C w(2) bt.vals_get [OF wf(7)] hm.vals_get [OF wf(1)] hm.vals_get [OF wf(2)] hm.vals_get [OF wf(4)]
      hm.vals_get [OF wf(5)] hm.vals_get [OF wf(6)]
    by (auto simp: loaded_job_record_iff loaded_lock_iff loaded_result_iff job_valid_def policy_valid_def
        jobs_point_at_events_def ensure_ref_exists_def split: if_splits)
  moreover have "let xs = job_events_by_sequence s in
      map fst xs = [1..<Suc (length xs)] \<and> distinct (map snd xs) \<and>
      (\<forall>(m, i) \<in> set xs. \<exists>e. hm_get (job_events_by_id s) i = Some e \<and> e_sequence_number e = m \<and> event_valid ok s e) \<and>
      next_event_sequence s = length xs \<and> length (job_events_by_id s) = length xs"
    by (rule event_sequence_iff [THEN iffD1, OF k ids n]) (use C in blast)+
  note S = this [unfolded Let_def]
  have rep: "log_rep s (map (\<lambda>(_, i). the (hm_get (job_events_by_id s) i)) (job_events_by_sequence s))"
    by (rule event_sequence_log_rep [OF ew ids refl]) (use S n in \<open>auto simp del: upt_Suc\<close>)
  moreover have "event_valid ok s e" if e: "e \<in> set (event_log s)" for e
    using e S unfolding log_rep_event_log [OF rep] by fastforce
  ultimately show ?thesis
    unfolding ledger_inv_def using k log_rep_event_log [OF rep] by simp
qed

end
