(* ===== verification/Durable.thy ===== *)
theory Durable
  imports Reload
begin

text \<open>
  The store around the ledger (\<open>store.rs\<close>, \<open>InMemoryStore\<close>): transactions on a draft, the durable
  snapshot file written through a temporary file and a rename, loading it, and publishing events
  on the broadcast channels. File-system calls succeed or fail as \<open>io\<close> says; the snapshot encoding
  (\<open>serde_json\<close>) and the repair and check of the extension registry are parameters. A broadcast
  channel is the list of events sent on it.
\<close>

section \<open>Files\<close>

type_synonym file_path = "string \<times> string"

type_synonym files = "(file_path, string) hmap"

datatype IoError = AlreadyExists | OsError string

datatype io_call = CreateDir | OpenTemp | WriteAll | Flush | SyncAll | Rename | RemoveTemp | SyncDir | ReadFile

text \<open>
  One call into the file system: which step fails, how many bytes \<open>write_all\<close> wrote when it is the
  one, and the value of the process-wide write counter.
\<close>

record io_env =
  io_fail :: "io_call \<Rightarrow> IoError option"
  io_written :: nat
  io_counter :: nat

definition temp_path :: "nat \<Rightarrow> nat \<Rightarrow> file_path \<Rightarrow> file_path" where
  "temp_path pid counter path =
     (fst path, ''.'' @ snd path @ ''.tmp-'' @ show_nat pid @ ''-'' @ show_nat counter)"

definition path_text :: "file_path \<Rightarrow> fmt_arg" where
  "path_text path = FStr (fst path @ ''/'' @ snd path)"

text \<open>
  The states of the files a crash can leave behind, in order, the last one being the state at the
  end, and the result of the call. While \<open>write_all\<close> runs the temporary file holds a prefix.
\<close>

definition write_bytes_atomically ::
    "io_env \<Rightarrow> nat \<Rightarrow> file_path \<Rightarrow> string \<Rightarrow> files \<Rightarrow> files list \<times> (IoError + unit)" where
  "write_bytes_atomically io pid path bytes fs =
     (let temp = temp_path pid (io_counter io) path;
          writing = (\<lambda>n. fs # map (\<lambda>k. hm_insert temp (take k bytes) fs) [0..<Suc n]);
          full = writing (length bytes);
          renamed = hm_insert path bytes (map_remove temp (last full))
      in
      if contains_key fs temp then ([fs], Inl AlreadyExists)
      else case io_fail io OpenTemp of Some e \<Rightarrow> ([fs], Inl e) | None \<Rightarrow>
      (case io_fail io WriteAll of Some e \<Rightarrow> (writing (min (io_written io) (length bytes)), Inl e) | None \<Rightarrow>
      (case io_fail io Flush of Some e \<Rightarrow> (full, Inl e) | None \<Rightarrow>
      (case io_fail io SyncAll of Some e \<Rightarrow> (full, Inl e) | None \<Rightarrow>
      (case io_fail io Rename of
         Some e \<Rightarrow>
           (if io_fail io RemoveTemp = None then full @ [map_remove temp (last full)] else full, Inl e)
       | None \<Rightarrow>
           (full @ [renamed], case io_fail io SyncDir of Some e \<Rightarrow> Inl e | None \<Rightarrow> Inr ()))))))"

section \<open>The snapshot file\<close>

definition DURABLE_STORE_SCHEMA_VERSION :: nat where
  "DURABLE_STORE_SCHEMA_VERSION = 2"

definition DURABLE_STORE_LEGACY_SCHEMA_VERSION :: nat where
  "DURABLE_STORE_LEGACY_SCHEMA_VERSION = 1"

definition DURABLE_STORE_FILE_NAME :: string where
  "DURABLE_STORE_FILE_NAME = ''ledger.json''"

record 'x DurableStoreSnapshot =
  ds_schema_version :: nat
  ds_inner :: "'x InMemoryInner"

fun io_error_text :: "IoError \<Rightarrow> fmt_arg" where
  "io_error_text AlreadyExists = FStr ''File exists''"
| "io_error_text (OsError text) = FStr text"

definition store_conflict :: "string \<Rightarrow> fmt_arg list \<Rightarrow> StoreError" where
  "store_conflict reason args = Conflict ''store'' (Msg reason args)"

text \<open>What the parameters of the store are: the process id, the snapshot codec and the checks of
  the extension registry.\<close>

record 'x store_env =
  env_pid :: nat
  env_encode :: "'x DurableStoreSnapshot \<Rightarrow> string + string"
  env_decode :: "string \<Rightarrow> string + 'x DurableStoreSnapshot"
  env_uuid_ok :: "string \<Rightarrow> bool"
  env_validate_ext :: "'x \<Rightarrow> message + unit"
  env_repair_ext :: "'x \<Rightarrow> 'x \<times> bool"
  env_default_ext :: 'x

definition persist_durable_snapshot ::
    "'x store_env \<Rightarrow> io_env \<Rightarrow> file_path \<Rightarrow> 'x InMemoryInner \<Rightarrow> files
     \<Rightarrow> files list \<times> unit StoreResult" where
  "persist_durable_snapshot env io path inner fs =
     (case io_fail io CreateDir of
        Some e \<Rightarrow>
          ([fs], Inl (store_conflict ''failed to create durable snapshot directory {}: {error}''
            [FStr (fst path), io_error_text e]))
      | None \<Rightarrow>
          (case env_encode env \<lparr>ds_schema_version = DURABLE_STORE_SCHEMA_VERSION, ds_inner = inner\<rparr> of
             Inl e \<Rightarrow>
               ([fs], Inl (store_conflict ''failed to serialize durable snapshot {}: {error}''
                 [path_text path, FStr e]))
           | Inr bytes \<Rightarrow>
               let (trace, result) = write_bytes_atomically io (env_pid env) path bytes fs
               in (trace, map_err (\<lambda>e. store_conflict ''failed to write durable snapshot {}: {error}''
                    [path_text path, io_error_text e]) result)))"

definition invalid_snapshot :: "string \<Rightarrow> fmt_arg list \<Rightarrow> StoreError" where
  "invalid_snapshot reason args = InvalidRecord ''store'' (Msg reason args)"

definition load_durable_snapshot ::
    "'x store_env \<Rightarrow> io_env \<Rightarrow> file_path \<Rightarrow> string \<Rightarrow> 'x InMemoryInner StoreResult" where
  "load_durable_snapshot env io path raw =
     andthen (case io_fail io ReadFile of
         Some e \<Rightarrow> Inl (invalid_snapshot ''failed to read durable snapshot {}: {error}''
           [path_text path, io_error_text e])
       | None \<Rightarrow> Inr raw) (\<lambda>raw.
     andthen (map_err (\<lambda>e. invalid_snapshot ''failed to parse durable snapshot {}: {error}''
         [path_text path, FStr e]) (env_decode env raw)) (\<lambda>snapshot.
     andthen (require (DURABLE_STORE_LEGACY_SCHEMA_VERSION \<le> ds_schema_version snapshot \<and>
           ds_schema_version snapshot \<le> DURABLE_STORE_SCHEMA_VERSION)
         (invalid_snapshot ''durable snapshot {} has unsupported schema_version {}''
           [path_text path, FNat (ds_schema_version snapshot)])) (\<lambda>_.
     Inr (ds_inner snapshot))))"

section \<open>Channels\<close>

record broadcasts =
  event_broadcaster :: "JobEvent list"
  repository_event_broadcasters :: "(RepositoryId, JobEvent list) hmap"

definition new_broadcasts :: broadcasts where
  "new_broadcasts = \<lparr>event_broadcaster = [], repository_event_broadcasters = []\<rparr>"

text \<open>\<open>entry(..).or_insert_with(new_event_broadcaster)\<close>.\<close>

definition repository_event_broadcaster_for_existing :: "RepositoryId \<Rightarrow> broadcasts \<Rightarrow> broadcasts" where
  "repository_event_broadcaster_for_existing repository_id b =
     (if contains_key (repository_event_broadcasters b) repository_id then b
      else b\<lparr>repository_event_broadcasters :=
               hm_insert repository_id [] (repository_event_broadcasters b)\<rparr>)"

fun prepare_job_event_publish ::
    "'x InMemoryInner \<Rightarrow> JobEvent list \<Rightarrow> broadcasts
     \<Rightarrow> broadcasts \<times> (JobEvent \<times> RepositoryId option) list StoreResult" where
  "prepare_job_event_publish inner [] b = (b, Inr [])"
| "prepare_job_event_publish inner (event # events) b =
     (case event_repository_id inner event of
        Inl e \<Rightarrow> (b, Inl e)
      | Inr None \<Rightarrow>
          (let (b', targets) = prepare_job_event_publish inner events b
           in (b', andthen targets (\<lambda>ts. Inr ((event, None) # ts))))
      | Inr (Some repository_id) \<Rightarrow>
          (case get_record (repositories inner) repository_id ''repositories''
                  (id_debug ''RepositoryId'' repository_id) of
             Inl e \<Rightarrow> (b, Inl e)
           | Inr _ \<Rightarrow>
               (let b1 = repository_event_broadcaster_for_existing repository_id b;
                    (b', targets) = prepare_job_event_publish inner events b1
                in (b', andthen targets (\<lambda>ts. Inr ((event, Some repository_id) # ts))))))"

definition send_to_repository :: "RepositoryId \<Rightarrow> JobEvent \<Rightarrow> broadcasts \<Rightarrow> broadcasts" where
  "send_to_repository repository_id event b =
     (case hm_get (repository_event_broadcasters b) repository_id of
        None \<Rightarrow> b
      | Some sent \<Rightarrow> b\<lparr>repository_event_broadcasters :=
          hm_insert repository_id (sent @ [event]) (repository_event_broadcasters b)\<rparr>)"

fun publish_job_events :: "(JobEvent \<times> RepositoryId option) list \<Rightarrow> broadcasts \<Rightarrow> broadcasts" where
  "publish_job_events [] b = b"
| "publish_job_events ((event, repository_broadcaster) # targets) b =
     (let b1 = b\<lparr>event_broadcaster := event_broadcaster b @ [event]\<rparr>;
          b2 = (case repository_broadcaster of
                  None \<Rightarrow> b1
                | Some repository_id \<Rightarrow> send_to_repository repository_id event b1)
      in publish_job_events targets b2)"

section \<open>Transactions\<close>

record 'x InMemoryStore =
  st_inner :: "'x InMemoryInner"
  st_durable_snapshot_path :: "file_path option"
  st_broadcasts :: broadcasts
  st_files :: files

definition InMemoryStore_default :: "'x store_env \<Rightarrow> files \<Rightarrow> 'x InMemoryStore" where
  "InMemoryStore_default env fs =
     \<lparr>st_inner = InMemoryInner_default (env_default_ext env), st_durable_snapshot_path = None,
      st_broadcasts = new_broadcasts, st_files = fs\<rparr>"

text \<open>Persisting a draft, when the store is durable.\<close>

definition persist_draft ::
    "'x store_env \<Rightarrow> io_env \<Rightarrow> 'x InMemoryInner \<Rightarrow> 'x InMemoryStore \<Rightarrow> 'x InMemoryStore \<times> unit StoreResult" where
  "persist_draft env io draft st =
     (case st_durable_snapshot_path st of
        None \<Rightarrow> (st, Inr ())
      | Some path \<Rightarrow>
          let (trace, result) = persist_durable_snapshot env io path draft (st_files st)
          in (st\<lparr>st_files := last trace\<rparr>, result))"

definition mutate ::
    "'x store_env \<Rightarrow> io_env \<Rightarrow> ('x, 'r) mutator \<Rightarrow> 'x InMemoryStore \<Rightarrow> 'x InMemoryStore \<times> 'r StoreResult" where
  "mutate env io mutator st =
     (case mutator (st_inner st) of
        Inl e \<Rightarrow> (st, Inl e)
      | Inr (result, draft) \<Rightarrow>
          (case persist_draft env io draft st of
             (st', Inl e) \<Rightarrow> (st', Inl e)
           | (st', Inr _) \<Rightarrow> (st'\<lparr>st_inner := draft\<rparr>, Inr result)))"

definition mutate_with_published_events ::
    "'x store_env \<Rightarrow> io_env \<Rightarrow> ('x, 'r \<times> JobEvent list) mutator \<Rightarrow> 'x InMemoryStore
     \<Rightarrow> 'x InMemoryStore \<times> 'r StoreResult" where
  "mutate_with_published_events env io mutator st =
     (case mutator (st_inner st) of
        Inl e \<Rightarrow> (st, Inl e)
      | Inr ((result, events), draft) \<Rightarrow>
          (case prepare_job_event_publish draft events (st_broadcasts st) of
             (b, Inl e) \<Rightarrow> (st\<lparr>st_broadcasts := b\<rparr>, Inl e)
           | (b, Inr publish_targets) \<Rightarrow>
               (case persist_draft env io draft (st\<lparr>st_broadcasts := b\<rparr>) of
                  (st', Inl e) \<Rightarrow> (st', Inl e)
                | (st', Inr _) \<Rightarrow>
                    (st'\<lparr>st_inner := draft,
                         st_broadcasts := publish_job_events publish_targets (st_broadcasts st')\<rparr>,
                     Inr result))))"

section \<open>Opening a store\<close>

definition with_durable_snapshot_path ::
    "'x store_env \<Rightarrow> io_env \<Rightarrow> file_path \<Rightarrow> files \<Rightarrow> files list \<times> 'x InMemoryStore StoreResult" where
  "with_durable_snapshot_path env io snapshot_path fs =
     (case (case hm_get fs snapshot_path of
              Some raw \<Rightarrow> load_durable_snapshot env io snapshot_path raw
            | None \<Rightarrow> Inr (InMemoryInner_default (env_default_ext env))) of
        Inl e \<Rightarrow> ([fs], Inl e)
      | Inr inner \<Rightarrow>
          let (ext, repaired) = env_repair_ext env (extension_registry_snapshot inner);
              inner' = inner\<lparr>extension_registry_snapshot := ext\<rparr>
          in case validate_loaded_store (env_uuid_ok env) (env_validate_ext env) inner' of
               Inl e \<Rightarrow> ([fs], Inl e)
             | Inr _ \<Rightarrow>
                 let (trace, result) =
                       (if contains_key fs snapshot_path \<and> repaired
                        then persist_durable_snapshot env io snapshot_path inner' fs
                        else ([fs], Inr ()))
                 in (trace, andthen result (\<lambda>_.
                      Inr \<lparr>st_inner = inner', st_durable_snapshot_path = Some snapshot_path,
                           st_broadcasts = new_broadcasts, st_files = last trace\<rparr>)))"

end
