(* ===== verification/Recovery.thy ===== *)
theory Recovery
  imports Durable
begin

text \<open>
  Transactions are atomic in memory, on disk and on the channels: a failed one leaves the ledger
  and the messages as they were, a crash leaves the old or the new snapshot, and opening the
  store again gives back the ledger that was persisted.
\<close>

section \<open>The file\<close>

lemma temp_path_ne [simp]: "temp_path pid n path \<noteq> path" "path \<noteq> temp_path pid n path"
proof -
  have "length (snd (temp_path pid n path)) > length (snd path)" by (simp add: temp_path_def)
  then show "temp_path pid n path \<noteq> path" "path \<noteq> temp_path pid n path" by auto
qed

lemma map_remove_get [simp]: "map_of (map_remove k m) k' = (if k' = k then None else map_of m k')"
  by (induction m) (auto simp: map_remove_def)

lemma hm_get_prefixes:
  "q \<noteq> t \<Longrightarrow> x \<in> set (fs # map (\<lambda>k. hm_insert t (take k b) fs) ks) \<Longrightarrow> hm_get x q = hm_get fs q"
  by auto

text \<open>Before the rename the file is the old one, after it the new one; nothing else changes.\<close>

lemma write_bytes_atomically_files:
  assumes "write_bytes_atomically io pid path bytes fs = (trace, result)"
  shows "x \<in> set trace \<Longrightarrow> hm_get x path = hm_get fs path \<or> hm_get x path = Some bytes"
    and "result = Inr () \<Longrightarrow> hm_get (last trace) path = Some bytes"
    and "result = Inl e \<Longrightarrow> hm_get (last trace) path = hm_get fs path \<or> io_fail io SyncDir = Some e"
    and "x \<in> set trace \<Longrightarrow> q \<noteq> path \<Longrightarrow> q \<noteq> temp_path pid (io_counter io) path \<Longrightarrow> hm_get x q = hm_get fs q"
    and "trace \<noteq> []"
proof -
  define temp where "temp = temp_path pid (io_counter io) path"
  define writing where "writing n = fs # map (\<lambda>k. hm_insert temp (take k bytes) fs) [0..<Suc n]" for n
  have W: "y \<in> set (writing n) \<Longrightarrow> q \<noteq> temp \<Longrightarrow> hm_get y q = hm_get fs q" for y n q
    unfolding writing_def by (rule hm_get_prefixes)
  have ne: "temp \<noteq> path" "writing n \<noteq> []" for n by (simp_all add: temp_def writing_def)
  have L: "q \<noteq> temp \<Longrightarrow> hm_get (last (writing n)) q = hm_get fs q" for n q
    using W last_in_set [OF ne(2)] by blast
  note defn = assms [unfolded write_bytes_atomically_def Let_def, folded temp_def, folded writing_def]
  show "x \<in> set trace \<Longrightarrow> hm_get x path = hm_get fs path \<or> hm_get x path = Some bytes"
    using defn ne(1) W [of x _ path] L [of path] by (auto split: if_splits option.splits)
  show "result = Inr () \<Longrightarrow> hm_get (last trace) path = Some bytes"
    using defn by (auto split: if_splits option.splits)
  show "result = Inl e \<Longrightarrow> hm_get (last trace) path = hm_get fs path \<or> io_fail io SyncDir = Some e"
    using defn ne(1) L [of path] by (auto split: if_splits option.splits)
  show "x \<in> set trace \<Longrightarrow> q \<noteq> path \<Longrightarrow> q \<noteq> temp_path pid (io_counter io) path \<Longrightarrow> hm_get x q = hm_get fs q"
    using defn W [of x _ q] L [of q] by (auto simp: temp_def [symmetric] split: if_splits option.splits)
  show "trace \<noteq> []" using defn ne(2) by (auto split: if_splits option.splits)
qed

definition snapshot_v2 :: "'x InMemoryInner \<Rightarrow> 'x DurableStoreSnapshot" where
  "snapshot_v2 inner = \<lparr>ds_schema_version = DURABLE_STORE_SCHEMA_VERSION, ds_inner = inner\<rparr>"

lemma persist_files:
  assumes "persist_durable_snapshot env io path inner fs = (trace, result)"
  shows "x \<in> set trace \<Longrightarrow> hm_get x path = hm_get fs path \<or>
      (\<exists>bytes. env_encode env (snapshot_v2 inner) = Inr bytes \<and> hm_get x path = Some bytes)"
    and "result = Inr () \<Longrightarrow>
      \<exists>bytes. env_encode env (snapshot_v2 inner) = Inr bytes \<and> hm_get (last trace) path = Some bytes"
    and "result = Inl e \<Longrightarrow> hm_get (last trace) path = hm_get fs path \<or> io_fail io SyncDir \<noteq> None"
    and "trace \<noteq> []"
proof -
  have "(x \<in> set trace \<longrightarrow> hm_get x path = hm_get fs path \<or>
      (\<exists>bytes. env_encode env (snapshot_v2 inner) = Inr bytes \<and> hm_get x path = Some bytes)) \<and>
    (result = Inr () \<longrightarrow>
      (\<exists>bytes. env_encode env (snapshot_v2 inner) = Inr bytes \<and> hm_get (last trace) path = Some bytes)) \<and>
    (result = Inl e \<longrightarrow> hm_get (last trace) path = hm_get fs path \<or> io_fail io SyncDir \<noteq> None) \<and> trace \<noteq> []"
  proof (cases "\<exists>bytes. io_fail io CreateDir = None \<and> env_encode env (snapshot_v2 inner) = Inr bytes")
    case True
    then obtain bytes where c: "io_fail io CreateDir = None" "env_encode env (snapshot_v2 inner) = Inr bytes" by blast
    obtain tr res where w: "write_bytes_atomically io (env_pid env) path bytes fs = (tr, res)" by fastforce
    have "trace = tr" and r: "result = map_err (\<lambda>e. store_conflict ''failed to write durable snapshot {}: {error}''
        [path_text path, io_error_text e]) res"
      using assms c w by (simp_all add: persist_durable_snapshot_def snapshot_v2_def)
    with c(2) write_bytes_atomically_files [OF w] show ?thesis by (cases res) auto
  next
    case False
    then show ?thesis
      using assms by (auto simp: persist_durable_snapshot_def snapshot_v2_def split: option.splits sum.splits)
  qed
  then show "x \<in> set trace \<Longrightarrow> hm_get x path = hm_get fs path \<or>
      (\<exists>bytes. env_encode env (snapshot_v2 inner) = Inr bytes \<and> hm_get x path = Some bytes)"
    "result = Inr () \<Longrightarrow>
      \<exists>bytes. env_encode env (snapshot_v2 inner) = Inr bytes \<and> hm_get (last trace) path = Some bytes"
    "result = Inl e \<Longrightarrow> hm_get (last trace) path = hm_get fs path \<or> io_fail io SyncDir \<noteq> None"
    "trace \<noteq> []" by blast+
qed

section \<open>Channels\<close>

definition channel :: "broadcasts \<Rightarrow> RepositoryId \<Rightarrow> JobEvent list" where
  "channel b r = (case hm_get (repository_event_broadcasters b) r of None \<Rightarrow> [] | Some sent \<Rightarrow> sent)"

definition has_channel :: "broadcasts \<Rightarrow> RepositoryId \<Rightarrow> bool" where
  "has_channel b r = contains_key (repository_event_broadcasters b) r"

lemma broadcaster_for_existing:
  "event_broadcaster (repository_event_broadcaster_for_existing r b) = event_broadcaster b"
  "channel (repository_event_broadcaster_for_existing r b) r' = channel b r'"
  "has_channel (repository_event_broadcaster_for_existing r b) r"
  "has_channel b r' \<Longrightarrow>
     has_channel (repository_event_broadcaster_for_existing r b) r'"
  by (auto simp: repository_event_broadcaster_for_existing_def channel_def has_channel_def)

lemma prepare_channels:
  assumes "prepare_job_event_publish inner es b = (b', res)"
  shows "event_broadcaster b' = event_broadcaster b \<and> (\<forall>r. channel b' r = channel b r) \<and>
    (\<forall>r. has_channel b r \<longrightarrow> has_channel b' r) \<and>
    (\<forall>ts. res = Inr ts \<longrightarrow> map fst ts = es \<and>
       (\<forall>p \<in> set ts. event_repository_id inner (fst p) = Inr (snd p) \<and>
          (\<forall>r. snd p = Some r \<longrightarrow> has_channel b' r)))"
  using assms
proof (induction es arbitrary: b b' res)
  case (Cons e es)
  show ?case
  proof (cases "event_repository_id inner e")
    case (Inl x)
    then show ?thesis using Cons.prems by auto
  next
    case (Inr t)
    show ?thesis
    proof (cases t)
      case None
      obtain b1 ts where p: "prepare_job_event_publish inner es b = (b1, ts)" by fastforce
      then have "b' = b1" "res = andthen ts (\<lambda>ts. Inr ((e, None) # ts))" using Cons.prems Inr None by simp_all
      with Cons.IH [OF p] Inr None show ?thesis by (cases ts) simp_all
    next
      case (Some r)
      define b0 where "b0 = repository_event_broadcaster_for_existing r b"
      obtain b1 ts where p: "prepare_job_event_publish inner es b0 = (b1, ts)" by fastforce
      note B = broadcaster_for_existing [where r = r and b = b, folded b0_def]
      show ?thesis
      proof (cases "get_record (repositories inner) r ''repositories'' (id_debug ''RepositoryId'' r)")
        case (Inl x)
        then show ?thesis using Cons.prems Inr Some by auto
      next
        case (Inr x)
        then have "b' = b1" "res = andthen ts (\<lambda>ts. Inr ((e, Some r) # ts))"
          using Cons.prems \<open>event_repository_id inner e = Inr t\<close> Some p by (simp_all add: b0_def Let_def get_record_def)
        with Cons.IH [OF p] B \<open>event_repository_id inner e = Inr t\<close> Some show ?thesis by (cases ts) simp_all
      qed
    qed
  qed
qed simp

lemma send_to_repository:
  assumes "has_channel b r"
  shows "event_broadcaster (send_to_repository r e b) = event_broadcaster b"
    "channel (send_to_repository r e b) r' = channel b r' @ (if r' = r then [e] else [])"
    "has_channel b r' \<Longrightarrow>
       has_channel (send_to_repository r e b) r'"
  using assms by (auto simp: send_to_repository_def channel_def has_channel_def split: option.splits)

lemma publish_channels:
  assumes "\<forall>p \<in> set ts. \<forall>r. snd p = Some r \<longrightarrow> has_channel b r"
  shows "event_broadcaster (publish_job_events ts b) = event_broadcaster b @ map fst ts \<and>
    channel (publish_job_events ts b) r = channel b r @ map fst (filter (\<lambda>(_, t). t = Some r) ts)"
  using assms
proof (induction ts arbitrary: b)
  case (Cons p ts)
  obtain e t where p: "p = (e, t)" by (cases p)
  define b1 where "b1 = b\<lparr>event_broadcaster := event_broadcaster b @ [e]\<rparr>"
  have b1: "channel b1 q = channel b q" "has_channel b1 q = has_channel b q" for q
    by (simp_all add: b1_def channel_def has_channel_def)
  show ?case
  proof (cases t)
    case None
    with Cons.IH [of b1] Cons.prems p b1 show ?thesis by (simp add: Let_def b1_def [symmetric]) (simp add: b1_def)
  next
    case (Some q)
    then have c: "has_channel b1 q" using Cons.prems p b1 by simp
    note S = send_to_repository [OF c, where e = e]
    have "\<forall>p \<in> set ts. \<forall>r. snd p = Some r \<longrightarrow> has_channel (send_to_repository q e b1) r"
      using Cons.prems S(3) p b1 by auto
    from Cons.IH [OF this] show ?thesis
      using S(1,2) Some p b1(1) by (auto simp: Let_def b1_def [symmetric]) (auto simp: b1_def)
  qed
qed simp

section \<open>Transactions\<close>

lemma persist_draft_frame:
  assumes "persist_draft env io draft st = (st', res)"
  shows "st_inner st' = st_inner st" "st_broadcasts st' = st_broadcasts st"
    "st_durable_snapshot_path st' = st_durable_snapshot_path st"
  using assms by (auto simp: persist_draft_def split: option.splits prod.splits)

text \<open>What a durable store has on disk.\<close>

definition stored :: "'x store_env \<Rightarrow> 'x InMemoryStore \<Rightarrow> 'x InMemoryInner \<Rightarrow> bool" where
  "stored env st inner \<longleftrightarrow>
     (\<forall>path. st_durable_snapshot_path st = Some path \<longrightarrow>
        (\<exists>bytes. env_encode env (snapshot_v2 inner) = Inr bytes \<and> hm_get (st_files st) path = Some bytes))"

definition snapshot_file :: "'x InMemoryStore \<Rightarrow> string option" where
  "snapshot_file st = Option.bind (st_durable_snapshot_path st) (hm_get (st_files st))"

lemma persist_draft_stored:
  assumes "persist_draft env io draft st = (st', Inr u)"
  shows "stored env st' draft"
proof (cases "st_durable_snapshot_path st")
  case (Some path)
  then obtain trace where p: "persist_durable_snapshot env io path draft (st_files st) = (trace, Inr ())"
    "st' = st\<lparr>st_files := last trace\<rparr>"
    using assms by (auto simp: persist_draft_def split: prod.splits)
  from persist_files(2) [OF p(1)] Some p(2) show ?thesis by (auto simp: stored_def)
qed (use assms in \<open>auto simp: persist_draft_def stored_def\<close>)

lemma persist_draft_error:
  assumes "persist_draft env io draft st = (st', Inl e)"
  shows "snapshot_file st' = snapshot_file st \<or> io_fail io SyncDir \<noteq> None"
proof (cases "st_durable_snapshot_path st")
  case (Some path)
  then obtain trace where p: "persist_durable_snapshot env io path draft (st_files st) = (trace, Inl e)"
    "st' = st\<lparr>st_files := last trace\<rparr>"
    using assms by (auto simp: persist_draft_def split: prod.splits)
  from persist_files(3) [OF p(1)] Some p(2) show ?thesis by (auto simp: snapshot_file_def)
qed (use assms in \<open>auto simp: persist_draft_def\<close>)

text \<open>A failed transaction leaves the ledger, the messages and, but for a failed directory sync
  after the rename, the snapshot as they were.\<close>

lemma mutate_published_error:
  assumes "mutate_with_published_events env io f st = (st', Inl e)"
  shows "st_inner st' = st_inner st" "event_broadcaster (st_broadcasts st') = event_broadcaster (st_broadcasts st)"
    "channel (st_broadcasts st') r = channel (st_broadcasts st) r"
    "snapshot_file st' = snapshot_file st \<or> io_fail io SyncDir \<noteq> None"
proof -
  have "st_inner st' = st_inner st \<and> event_broadcaster (st_broadcasts st') = event_broadcaster (st_broadcasts st) \<and>
    channel (st_broadcasts st') r = channel (st_broadcasts st) r \<and>
    (snapshot_file st' = snapshot_file st \<or> io_fail io SyncDir \<noteq> None)"
  proof (cases "f (st_inner st)")
    case (Inl x)
    then show ?thesis using assms by (simp add: mutate_with_published_events_def)
  next
    case (Inr y)
    obtain res es draft where y: "y = ((res, es), draft)" by (metis surj_pair)
    obtain b ts where b: "prepare_job_event_publish draft es (st_broadcasts st) = (b, ts)" by fastforce
    note P = prepare_channels [OF b]
    show ?thesis
    proof (cases ts)
      case (Inl x)
      then show ?thesis using assms Inr y b P by (auto simp: mutate_with_published_events_def snapshot_file_def)
    next
      case (Inr ts')
      obtain st1 r1 where d: "persist_draft env io draft (st\<lparr>st_broadcasts := b\<rparr>) = (st1, r1)" by fastforce
      then have "r1 = Inl e" "st' = st1"
        using assms \<open>f (st_inner st) = Inr y\<close> y b Inr by (cases r1; simp add: mutate_with_published_events_def)+
      with d persist_draft_frame [OF d] persist_draft_error [of env io draft "st\<lparr>st_broadcasts := b\<rparr>" st1 e] P
      show ?thesis by (simp add: snapshot_file_def)
    qed
  qed
  then show "st_inner st' = st_inner st" "event_broadcaster (st_broadcasts st') = event_broadcaster (st_broadcasts st)"
    "channel (st_broadcasts st') r = channel (st_broadcasts st) r"
    "snapshot_file st' = snapshot_file st \<or> io_fail io SyncDir \<noteq> None" by blast+
qed

lemma mutate_published_ok:
  assumes "mutate_with_published_events env io f st = (st', Inr res)"
  obtains es where "f (st_inner st) = Inr ((res, es), st_inner st')" "stored env st' (st_inner st')"
    "st_durable_snapshot_path st' = st_durable_snapshot_path st"
    "event_broadcaster (st_broadcasts st') = event_broadcaster (st_broadcasts st) @ es"
    "\<And>r. channel (st_broadcasts st') r = channel (st_broadcasts st) r @
       filter (\<lambda>e. event_repository_id (st_inner st') e = Inr (Some r)) es"
proof -
  obtain res' es draft where f: "f (st_inner st) = Inr ((res', es), draft)"
    using assms by (auto simp: mutate_with_published_events_def split: sum.splits)
  obtain b tsr where b: "prepare_job_event_publish draft es (st_broadcasts st) = (b, tsr)" by fastforce
  note P = prepare_channels [OF b]
  obtain ts where ts: "tsr = Inr ts" using assms f b by (cases tsr) (auto simp: mutate_with_published_events_def)
  obtain st1 r1 where d: "persist_draft env io draft (st\<lparr>st_broadcasts := b\<rparr>) = (st1, r1)" by fastforce
  obtain u where r1: "r1 = Inr u" using assms f b ts d by (cases r1) (auto simp: mutate_with_published_events_def)
  have st': "st' = st1\<lparr>st_inner := draft, st_broadcasts := publish_job_events ts (st_broadcasts st1)\<rparr>"
    and res: "res' = res" using assms f b ts d r1 by (simp_all add: mutate_with_published_events_def)
  note F = persist_draft_frame [OF d]
  have "stored env st1 draft" using persist_draft_stored d r1 by blast
  then have stored: "stored env st' (st_inner st')" by (simp add: st' stored_def)
  have T: "\<forall>p \<in> set ts. event_repository_id draft (fst p) = Inr (snd p) \<and>
      (\<forall>r. snd p = Some r \<longrightarrow> has_channel b r)" "map fst ts = es"
    using P ts by auto
  have C: "event_broadcaster (publish_job_events ts b) = event_broadcaster b @ es \<and>
      channel (publish_job_events ts b) r = channel b r @ map fst (filter (\<lambda>(_, t). t = Some r) ts)" for r
    using publish_channels [of ts b r] T by simp
  have "map fst (filter (\<lambda>(_, t). t = Some r) ts) = filter (\<lambda>e. event_repository_id draft e = Inr (Some r)) es" for r
  proof -
    have "filter (\<lambda>(_, t). t = Some r) ts = filter (\<lambda>p. event_repository_id draft (fst p) = Inr (Some r)) ts"
      using T(1) by (intro filter_cong) auto
    then show ?thesis using T(2) by (simp add: filter_map comp_def flip: T(2))
  qed
  with C P F show ?thesis using that [of es] f stored by (simp add: st' res)
qed

section \<open>Opening the store again\<close>

text \<open>The snapshot codec reads back what it wrote for this ledger.\<close>

definition codec_at :: "'x store_env \<Rightarrow> 'x InMemoryInner \<Rightarrow> bool" where
  "codec_at env inner \<longleftrightarrow>
     (\<forall>bytes. env_encode env (snapshot_v2 inner) = Inr bytes \<longrightarrow> env_decode env bytes = Inr (snapshot_v2 inner))"

text \<open>A ledger the load check accepts, with a registry that needs no repair.\<close>

definition loadable :: "'x store_env \<Rightarrow> 'x InMemoryInner \<Rightarrow> bool" where
  "loadable env inner \<longleftrightarrow>
     validate_loaded_store (env_uuid_ok env) (env_validate_ext env) inner = Inr () \<and>
     env_repair_ext env (extension_registry_snapshot inner) = (extension_registry_snapshot inner, False)"

definition opened_store :: "file_path \<Rightarrow> files \<Rightarrow> 'x InMemoryInner \<Rightarrow> 'x InMemoryStore" where
  "opened_store path fs inner =
     \<lparr>st_inner = inner, st_durable_snapshot_path = Some path, st_broadcasts = new_broadcasts, st_files = fs\<rparr>"

lemma load_snapshot_v2:
  assumes "env_decode env bytes = Inr (snapshot_v2 inner)" "io_fail io ReadFile = None"
  shows "load_durable_snapshot env io path bytes = Inr inner"
  using assms
  by (simp add: load_durable_snapshot_def snapshot_v2_def DURABLE_STORE_SCHEMA_VERSION_def
      DURABLE_STORE_LEGACY_SCHEMA_VERSION_def)

lemma reopen:
  assumes f: "hm_get fs path = Some bytes" and d: "env_decode env bytes = Inr (snapshot_v2 inner)"
    and l: "loadable env inner" and io: "io_fail io ReadFile = None"
  shows "with_durable_snapshot_path env io path fs = ([fs], Inr (opened_store path fs inner))"
proof -
  have "inner\<lparr>extension_registry_snapshot := extension_registry_snapshot inner\<rparr> = inner" by simp
  then show ?thesis
    unfolding with_durable_snapshot_path_def f option.case load_snapshot_v2 [OF d io] sum.case
    using l by (simp add: loadable_def opened_store_def)
qed

lemma reopen_stored:
  assumes "stored env st inner" "st_durable_snapshot_path st = Some path" "codec_at env inner"
    and "loadable env inner" "io_fail io ReadFile = None"
  shows "with_durable_snapshot_path env io path (st_files st) =
     ([st_files st], Inr (opened_store path (st_files st) inner))"
proof -
  obtain bytes where "env_encode env (snapshot_v2 inner) = Inr bytes" "hm_get (st_files st) path = Some bytes"
    using assms(1,2) unfolding stored_def by auto
  then show ?thesis using assms(3-5) by (intro reopen [of _ _ bytes]) (simp_all add: codec_at_def)
qed

lemma crash_during_persist:
  assumes p: "persist_durable_snapshot env io path new fs = (trace, result)" and x: "x \<in> set trace"
    and old: "hm_get fs path = Some bytes" "env_decode env bytes = Inr (snapshot_v2 old)"
    and l: "loadable env old" "loadable env new" and c: "codec_at env new" and io: "io_fail io' ReadFile = None"
  shows "\<exists>inner \<in> {old, new}.
     with_durable_snapshot_path env io' path x = ([x], Inr (opened_store path x inner))"
  using persist_files(1) [OF p x]
proof
  assume "hm_get x path = hm_get fs path"
  then have "with_durable_snapshot_path env io' path x = ([x], Inr (opened_store path x old))"
    using old l io by (intro reopen [of _ _ bytes]) simp_all
  then show ?thesis by blast
next
  assume "\<exists>bytes. env_encode env (snapshot_v2 new) = Inr bytes \<and> hm_get x path = Some bytes"
  then obtain b where "env_encode env (snapshot_v2 new) = Inr b" "hm_get x path = Some b" by blast
  then have "with_durable_snapshot_path env io' path x = ([x], Inr (opened_store path x new))"
    using l c io by (intro reopen [of _ _ b]) (simp_all add: codec_at_def)
  then show ?thesis by blast
qed

end
