(* ===== verification/Queries.thy ===== *)
theory Queries
  imports Steps "HOL-Library.Product_Lexorder"
begin

text \<open>
  Reading the ledger (\<open>store.rs\<close>): listing and paging jobs, replaying and querying the event
  log from a cursor, the snapshot and the live filter of a watch, and the status snapshot of a
  repository.
\<close>

section \<open>Pages\<close>

definition usize_max :: nat where
  "usize_max = u64_max"

definition page_start :: "string option \<Rightarrow> string \<Rightarrow> nat StoreResult" where
  "page_start page_token collection =
     (case page_token of
        Some token \<Rightarrow>
          if token \<noteq> [] then
            ok_or (parse_u64 token)
              (InvalidCursor (Msg ''{collection} page token is not a numeric offset'' [FStr collection]))
          else Inr 0
      | None \<Rightarrow> Inr 0)"

text \<open>The loop of \<open>page_records\<close>; its state is the number of skipped records and the page.\<close>

fun page_loop :: "nat \<Rightarrow> nat \<Rightarrow> 'a list \<Rightarrow> nat \<Rightarrow> 'a list \<Rightarrow> 'a list \<times> bool" where
  "page_loop start page_size [] skipped retained = (retained, False)"
| "page_loop start page_size (record # records) skipped retained =
     (if skipped < start then page_loop start page_size records (skipped + 1) retained
      else if length retained = page_size then (retained, True)
      else page_loop start page_size records skipped (retained @ [record]))"

definition page_records :: "'a list \<Rightarrow> nat \<Rightarrow> nat \<Rightarrow> 'a list \<times> string option" where
  "page_records records start page_size =
     (if page_size = 0 then ([], None)
      else
        let (retained, has_next) = page_loop start page_size records 0 []
        in (retained, if has_next then Some (show_nat (start + length retained)) else None))"

record JobQuery =
  jq_repository_id :: "RepositoryId option"
  jq_status :: "JobStatus option"
  jq_requester :: "Actor option"
  jq_page_size :: "nat option"
  jq_page_token :: "string option"

record JobPage =
  jp_jobs :: "JobRecord list"
  jp_next_page_token :: "string option"

definition unwrap_or :: "'a option \<Rightarrow> 'a \<Rightarrow> 'a" where
  "unwrap_or a d = (case a of None \<Rightarrow> d | Some v \<Rightarrow> v)"

definition query_jobs :: "'x InMemoryInner \<Rightarrow> JobQuery \<Rightarrow> JobPage StoreResult" where
  "query_jobs s query =
     andthen (page_start (jq_page_token query) ''jobs'') (\<lambda>start.
     let page_size = unwrap_or (jq_page_size query) usize_max;
         filtered =
           filter (\<lambda>job. case jq_requester query of None \<Rightarrow> True | Some requester \<Rightarrow> j_requester job = requester)
          (filter (\<lambda>job. case jq_status query of None \<Rightarrow> True | Some status \<Rightarrow> j_status job = status)
          (filter (\<lambda>job. case jq_repository_id query of None \<Rightarrow> True
                         | Some repository_id \<Rightarrow> j_repository_id job = repository_id)
            (bt_values (jobs s))));
         (jobs, next_page_token) = page_records filtered start page_size
     in Inr \<lparr>jp_jobs = jobs, jp_next_page_token = next_page_token\<rparr>)"

definition list_jobs :: "'x InMemoryInner \<Rightarrow> JobRecord list" where
  "list_jobs s = list_records_btree (jobs s)"

definition get_job :: "'x InMemoryInner \<Rightarrow> JobId \<Rightarrow> JobRecord StoreResult" where
  "get_job s i = get_record_btree (jobs s) i ''jobs'' (id_debug ''JobId'' i)"

definition get_job_event :: "'x InMemoryInner \<Rightarrow> JobEventId \<Rightarrow> JobEvent StoreResult" where
  "get_job_event s i = get_record (job_events_by_id s) i ''job_events'' (id_debug ''JobEventId'' i)"

definition list_schema_migrations :: "'x InMemoryInner \<Rightarrow> SchemaMigrationRecord list" where
  "list_schema_migrations s =
     sort_key (\<lambda>m. (m_migration_version m, m_created_at m, m_id m)) (hm_values (schema_migrations s))"

definition get_submit_job_idempotency :: "'x InMemoryInner \<Rightarrow> string \<Rightarrow> SubmitJobIdempotencyRecord option" where
  "get_submit_job_idempotency s idempotency_key = hm_get (idempotent_submit_jobs s) idempotency_key"

section \<open>Cursors\<close>

datatype EventCursor = Beginning | AfterSequence nat | AfterEventId JobEventId

record EventQuery =
  eq_repository_id :: "RepositoryId option"
  eq_cursor :: EventCursor
  eq_subject_ids :: "string list"
  eq_job_ids :: "JobId list"
  eq_min_severity :: "EventSeverity option"
  eq_page_size :: "nat option"
  eq_page_token :: "string option"

definition EventQuery_default :: EventQuery where
  "EventQuery_default =
     \<lparr>eq_repository_id = None, eq_cursor = Beginning, eq_subject_ids = [], eq_job_ids = [],
      eq_min_severity = None, eq_page_size = None, eq_page_token = None\<rparr>"

definition event_cursor_sequence :: "'x InMemoryInner \<Rightarrow> EventCursor \<Rightarrow> nat StoreResult" where
  "event_cursor_sequence s cursor =
     (case cursor of
        Beginning \<Rightarrow> Inr 0
      | AfterSequence sequence \<Rightarrow> Inr sequence
      | AfterEventId i \<Rightarrow>
          andthen (ok_or (hm_get (job_events_by_id s) i)
            (InvalidCursor (Msg ''unknown event id: {}'' [id_debug ''JobEventId'' i]))) (\<lambda>event.
          Inr (e_sequence_number event)))"

definition resolve_event_cursor_sequence :: "'x InMemoryInner \<Rightarrow> EventCursor \<Rightarrow> nat option StoreResult" where
  "resolve_event_cursor_sequence s cursor =
     (case cursor of
        Beginning \<Rightarrow> Inr None
      | AfterSequence sequence \<Rightarrow> Inr (Some sequence)
      | AfterEventId i \<Rightarrow> andthen (event_cursor_sequence s (AfterEventId i)) (\<lambda>n. Inr (Some n)))"

definition cursor_expired_live_event_id :: "JobEventId \<Rightarrow> StoreError" where
  "cursor_expired_live_event_id i =
     CursorExpired
       (Msg ''live watch event cursor {} is no longer retained; refresh status before opening a live watch''
         [id_debug ''JobEventId'' i])"

definition resolve_live_event_cursor_sequence ::
    "'x InMemoryInner \<Rightarrow> EventCursor \<Rightarrow> nat option StoreResult" where
  "resolve_live_event_cursor_sequence s cursor =
     (case cursor of
        AfterEventId i \<Rightarrow>
          ok_or (map_option (\<lambda>event. Some (e_sequence_number event)) (hm_get (job_events_by_id s) i))
            (cursor_expired_live_event_id i)
      | c \<Rightarrow> resolve_event_cursor_sequence s c)"

text \<open>Looking up the events of a list of ids, in a loop that stops at the first missing one.\<close>

fun lookup_events :: "'x InMemoryInner \<Rightarrow> JobEventId list \<Rightarrow> JobEvent list StoreResult" where
  "lookup_events s [] = Inr []"
| "lookup_events s (i # is) =
     andthen (ok_or (hm_get (job_events_by_id s) i) (missing_sequence_id i)) (\<lambda>event.
     andthen (lookup_events s is) (\<lambda>events.
     Inr (event # events)))"

definition replay_job_events ::
    "'x InMemoryInner \<Rightarrow> EventCursor \<Rightarrow> nat option \<Rightarrow> JobEvent list StoreResult" where
  "replay_job_events s cursor limit =
     andthen (event_cursor_sequence s cursor) (\<lambda>after_sequence.
     case checked_add after_sequence 1 of
       None \<Rightarrow> Inr []
     | Some start_sequence \<Rightarrow>
         lookup_events s
           (map snd (take (unwrap_or limit usize_max)
             (bt_range_from start_sequence (job_events_by_sequence s)))))"

section \<open>Filters\<close>

fun severity_rank :: "EventSeverity \<Rightarrow> nat" where
  "severity_rank Debug = 0"
| "severity_rank Info = 1"
| "severity_rank Warning = 2"
| "severity_rank EventSeverity.Error = 3"

definition matches_event_query ::
    "JobEvent \<Rightarrow> EventQuery \<Rightarrow> (RepositoryId \<times> RepositoryId option) option \<Rightarrow> bool" where
  "matches_event_query event query repository_ids =
     (let repository_matches =
            (case repository_ids of None \<Rightarrow> True
             | Some (requested_repository_id, event_repository) \<Rightarrow>
                 event_repository = Some requested_repository_id);
          subject_matches =
            (eq_subject_ids query = [] \<or> s_subject_id (e_subject event) \<in> set (eq_subject_ids query));
          job_matches =
            (eq_job_ids query = [] \<or>
             (case rf_job_id (e_refs event) of
                None \<Rightarrow> s_subject_type (e_subject event) = EventSubjectType.Job \<and>
                  list_ex (\<lambda>job_id. as_str job_id = s_subject_id (e_subject event)) (eq_job_ids query)
              | Some job_id \<Rightarrow> job_id \<in> set (eq_job_ids query)));
          severity_matches =
            (case eq_min_severity query of None \<Rightarrow> True
             | Some min_severity \<Rightarrow> severity_rank (e_severity event) \<ge> severity_rank min_severity)
      in repository_matches \<and> subject_matches \<and> job_matches \<and> severity_matches)"

definition event_matches_query :: "'x InMemoryInner \<Rightarrow> JobEvent \<Rightarrow> EventQuery \<Rightarrow> bool StoreResult" where
  "event_matches_query s event query =
     andthen (case eq_repository_id query of
         None \<Rightarrow> Inr None
       | Some repository_id \<Rightarrow>
           andthen (event_repository_id s event) (\<lambda>event_repository.
           Inr (Some (repository_id, event_repository)))) (\<lambda>repository_ids.
     Inr (matches_event_query event query repository_ids))"

record EventQueryCandidate =
  ec_event :: JobEvent
  ec_repository_id :: "RepositoryId option"

definition event_candidate_matches_query :: "EventQueryCandidate \<Rightarrow> EventQuery \<Rightarrow> bool" where
  "event_candidate_matches_query candidate query =
     matches_event_query (ec_event candidate) query
       (map_option (\<lambda>repository_id. (repository_id, ec_repository_id candidate)) (eq_repository_id query))"

section \<open>Event pages\<close>

record EventPage =
  ep_events :: "JobEvent list"
  ep_next_page_token :: "string option"
  ep_resolved_cursor_sequence :: "nat option"

fun collect_loop ::
    "'x InMemoryInner \<Rightarrow> EventQuery \<Rightarrow> nat \<Rightarrow> nat \<Rightarrow> JobEventId list \<Rightarrow> nat \<Rightarrow> JobEvent list
     \<Rightarrow> (JobEvent list \<times> bool) StoreResult" where
  "collect_loop s query start page_size [] skipped retained = Inr (retained, False)"
| "collect_loop s query start page_size (i # is) skipped retained =
     andthen (ok_or (hm_get (job_events_by_id s) i) (missing_sequence_id i)) (\<lambda>event.
     andthen (event_matches_query s event query) (\<lambda>matches.
     if matches then
       if skipped < start then collect_loop s query start page_size is (skipped + 1) retained
       else if length retained = page_size then Inr (retained, True)
       else collect_loop s query start page_size is skipped (retained @ [event])
     else collect_loop s query start page_size is skipped retained))"

definition collect_paginated_filtered_job_events ::
    "'x InMemoryInner \<Rightarrow> EventQuery \<Rightarrow> nat \<Rightarrow> nat \<Rightarrow> (JobEvent list \<times> string option) StoreResult" where
  "collect_paginated_filtered_job_events s query start page_size =
     andthen (event_cursor_sequence s (eq_cursor query)) (\<lambda>after_sequence.
     if page_size = 0 then Inr ([], None)
     else
       andthen (case checked_add after_sequence 1 of
           None \<Rightarrow> Inr ([], False)
         | Some start_sequence \<Rightarrow>
             collect_loop s query start page_size
               (map snd (bt_range_from start_sequence (job_events_by_sequence s))) 0 []) (\<lambda>(retained, has_next).
       Inr (retained, if has_next then Some (show_nat (start + length retained)) else None)))"

definition query_job_events :: "'x InMemoryInner \<Rightarrow> EventQuery \<Rightarrow> EventPage StoreResult" where
  "query_job_events s query =
     andthen (page_start (eq_page_token query) ''job_events'') (\<lambda>start.
     let page_size = unwrap_or (eq_page_size query) usize_max in
     andthen (resolve_event_cursor_sequence s (eq_cursor query)) (\<lambda>resolved_cursor_sequence.
     andthen (collect_paginated_filtered_job_events s query start page_size) (\<lambda>(events, next_page_token).
     Inr \<lparr>ep_events = events, ep_next_page_token = next_page_token,
          ep_resolved_cursor_sequence = resolved_cursor_sequence\<rparr>)))"

section \<open>The status of a repository\<close>

fun latest_event_scan ::
    "'x InMemoryInner \<Rightarrow> RepositoryId \<Rightarrow> JobEventId list \<Rightarrow> JobEvent option StoreResult" where
  "latest_event_scan s repository_id [] = Inr None"
| "latest_event_scan s repository_id (i # is) =
     andthen (ok_or (hm_get (job_events_by_id s) i)
       (Conflict ''job_events'' (Msg ''sequence index references missing event {}''
         [id_debug ''JobEventId'' i]))) (\<lambda>event.
     andthen (event_repository_id s event) (\<lambda>event_repository.
     if event_repository = Some repository_id then Inr (Some event)
     else latest_event_scan s repository_id is))"

definition latest_job_event_for_repository_with_inner ::
    "'x InMemoryInner \<Rightarrow> RepositoryId \<Rightarrow> JobEvent option StoreResult" where
  "latest_job_event_for_repository_with_inner s repository_id =
     latest_event_scan s repository_id (rev (bt_values (job_events_by_sequence s)))"

record ProjectStatusSnapshot =
  ss_recent_jobs :: "JobRecord list"
  ss_recent_policy_decisions :: "PolicyDecision list"
  ss_latest_event :: "JobEvent option"

text \<open>\<open>sort_by\<close> with the reversed comparison of a (timestamp, id) key; ids are unique, so the
  order is the reverse of the ascending one.\<close>

definition project_status_snapshot ::
    "'x InMemoryInner \<Rightarrow> RepositoryId \<Rightarrow> nat \<Rightarrow> nat \<Rightarrow> ProjectStatusSnapshot StoreResult" where
  "project_status_snapshot s repository_id recent_job_limit recent_policy_decision_limit =
     (let recent_jobs = take recent_job_limit
            (rev (sort_key (\<lambda>job. (j_updated_at job, j_id job))
              (filter (\<lambda>job. j_repository_id job = repository_id) (bt_values (jobs s)))));
          recent_policy_decisions = take recent_policy_decision_limit
            (rev (sort_key (\<lambda>decision. (p_created_at decision, p_id decision))
              (filter (\<lambda>decision. p_repository_id decision = repository_id) (hm_values (policy_decisions s)))))
      in
      andthen (latest_job_event_for_repository_with_inner s repository_id) (\<lambda>latest_event.
      Inr \<lparr>ss_recent_jobs = recent_jobs, ss_recent_policy_decisions = recent_policy_decisions,
           ss_latest_event = latest_event\<rparr>))"

end
