(* ===== verification/Reads.thy ===== *)
theory Reads
  imports Queries
begin

text \<open>
  What reads return on a well-formed ledger, in terms of the abstract log: a page is a segment
  of the filtered records; a replay is a
  segment of the log; an event query is a page of the filtered log. None of the reads can hit
  one of the store's internal inconsistency errors.
\<close>

section \<open>Pages\<close>

lemma page_loop_eq:
  assumes "length retained \<le> page_size" "skipped \<le> start" "retained \<noteq> [] \<longrightarrow> skipped = start"
  shows "page_loop start page_size xs skipped retained =
     (retained @ take (page_size - length retained) (drop (start - skipped) xs),
      page_size < length retained + (length xs - (start - skipped)))"
  using assms
proof (induction start page_size xs skipped retained rule: page_loop.induct)
  case (2 start page_size x xs skipped retained)
  consider "skipped < start" | "skipped = start" "length retained = page_size"
    | "skipped = start" "length retained < page_size" using "2.prems" by linarith
  then show ?case
  proof cases
    case 1
    then have "start - skipped = Suc (start - (skipped + 1))" by simp
    with 1 2 show ?thesis by auto
  next
    case 2
    then show ?thesis by simp
  next
    case 3
    then have "page_size - length retained = Suc (page_size - length (retained @ [x]))" by simp
    with 3 2 show ?thesis by auto
  qed
qed simp

lemma page_records_eq:
  assumes "0 < page_size"
  shows "page_records xs start page_size =
     (take page_size (drop start xs),
      if start + page_size < length xs then Some (show_nat (start + page_size)) else None)"
  using assms page_loop_eq [of "[]" page_size 0 start xs]
  by (auto simp: page_records_def)

lemma page_start_show: "n \<le> u64_max \<Longrightarrow> page_start (Some (show_nat n)) c = Inr n"
  using show_nat_digits [of n] by (simp add: page_start_def parse_show_nat)

section \<open>The log behind the indexes\<close>

lemma range_zip:
  "map snd (filter (\<lambda>(n, _). Suc k \<le> n) (zip [Suc a..<Suc (a + length is)] is)) = drop (k - a) is"
proof (induction "is" arbitrary: a)
  case (Cons i "is")
  have u: "[Suc a..<Suc (a + length (i # is))] = Suc a # [Suc (Suc a)..<Suc (Suc a + length is)]"
    by (simp add: upt_rec)
  show ?case
  proof (cases "k \<le> a")
    case True
    then have "map snd (filter (\<lambda>(n, _). Suc k \<le> n) (zip [Suc (Suc a)..<Suc (Suc a + length is)] is)) = is"
      using Cons [of "Suc a"] by simp
    with True show ?thesis unfolding u by (simp del: upt_Suc)
  next
    case False
    then obtain m where m: "k - a = Suc m" by (cases "k - a") auto
    then have "k - Suc a = m" by simp
    with m False Cons [of "Suc a"] show ?thesis unfolding u by (simp del: upt_Suc)
  qed
qed simp

lemma log_rep_range:
  assumes "log_rep s es"
  shows "map snd (bt_range_from (Suc k) (job_events_by_sequence s)) = map e_id (drop k es)"
  using assms range_zip [of k 0 "map e_id es"]
  by (simp add: log_rep_def bt_range_from_def drop_map del: upt_Suc)

lemma lookup_events_log:
  assumes "log_rep s es" "set xs \<subseteq> set es"
  shows "lookup_events s (map e_id xs) = Inr xs"
  using assms(2) log_rep_get_id [OF assms(1)] by (induction xs) auto

section \<open>Replay\<close>

lemma drop_overflow: "log_rep s es \<Longrightarrow> \<not> n + 1 \<le> u64_max \<Longrightarrow> drop n es = []"
  by (simp add: log_rep_def)

lemma replay_log:
  assumes rep: "log_rep s es" and c: "event_cursor_sequence s cursor = Inr n"
  shows "replay_job_events s cursor limit =
     Inr (case limit of None \<Rightarrow> drop n es | Some l \<Rightarrow> take l (drop n es))"
proof (cases "n + 1 \<le> u64_max")
  case True
  have "lookup_events s (map snd (take m (bt_range_from (n + 1) (job_events_by_sequence s)))) =
      Inr (take m (drop n es))" for m
  proof -
    have "map snd (take m (bt_range_from (n + 1) (job_events_by_sequence s))) = map e_id (take m (drop n es))"
      using log_rep_range [OF rep, of n] by (simp add: take_map [symmetric])
    moreover have "set (take m (drop n es)) \<subseteq> set es" by (meson set_drop_subset set_take_subset subset_trans)
    ultimately show ?thesis using lookup_events_log [OF rep] by simp
  qed
  moreover have "take usize_max (drop n es) = drop n es"
    using rep by (auto simp: log_rep_def usize_max_def)
  ultimately show ?thesis using True c
    by (cases limit) (simp_all add: replay_job_events_def checked_add_def unwrap_or_def)
next
  case False
  with drop_overflow [OF rep False] c show ?thesis
    by (cases limit) (simp_all add: replay_job_events_def checked_add_def)
qed

lemma cursor_after_event:
  assumes "log_rep s es" "k < length es"
  shows "event_cursor_sequence s (AfterEventId (e_id (es ! k))) = Inr (Suc k)"
proof -
  have "hm_get (job_events_by_id s) (e_id (es ! k)) = Some (es ! k)"
    using log_rep_get_id [OF assms(1)] assms(2) by simp
  then show ?thesis using log_rep_nth [OF assms] by (simp add: event_cursor_sequence_def)
qed

section \<open>Filters\<close>

text \<open>On a well-formed ledger the filter always has an answer: \<open>selected\<close>.\<close>

definition selected :: "'x InMemoryInner \<Rightarrow> EventQuery \<Rightarrow> JobEvent \<Rightarrow> bool" where
  "selected s query e \<longleftrightarrow> event_matches_query s e query = Inr True"

lemma event_repository_total:
  assumes "ledger_inv ok s" "e \<in> set (event_log s)"
  obtains r where "event_repository_id s e = Inr (Some r)" "hm_get (repositories s) r \<noteq> None"
  using event_valid_repository [OF ledger_invD(3) [OF assms(1) assms(2)] ledger_invD(1,9) [OF assms(1)]] .

lemma event_matches_total:
  assumes "ledger_inv ok s" "e \<in> set (event_log s)"
  shows "event_matches_query s e query = Inr (selected s query e)"
proof -
  obtain r where "event_repository_id s e = Inr (Some r)" using event_repository_total [OF assms] .
  then show ?thesis
    by (cases "eq_repository_id query") (simp_all add: selected_def event_matches_query_def)
qed

lemma collect_loop_log:
  assumes inv: "ledger_inv ok s" and "set xs \<subseteq> set (event_log s)"
  shows "collect_loop s query start page_size (map e_id xs) skipped retained =
     Inr (page_loop start page_size (filter (selected s query) xs) skipped retained)"
  using assms(2)
proof (induction xs arbitrary: skipped retained)
  case (Cons x xs)
  then have "hm_get (job_events_by_id s) (e_id x) = Some x"
    using log_rep_get_id [OF ledger_invD(2) [OF inv]] by simp
  with Cons event_matches_total [OF inv, of x query] show ?case by simp
qed simp

lemma collect_log:
  assumes inv: "ledger_inv ok s" and c: "event_cursor_sequence s (eq_cursor query) = Inr n"
  shows "collect_paginated_filtered_job_events s query start page_size =
     Inr (page_records (filter (selected s query) (drop n (event_log s))) start page_size)"
proof (cases "n + 1 \<le> u64_max")
  case True
  have "map snd (bt_range_from (n + 1) (job_events_by_sequence s)) = map e_id (drop n (event_log s))"
    using log_rep_range [OF ledger_invD(2) [OF inv], of n] by simp
  with True c collect_loop_log [OF inv set_drop_subset] show ?thesis
    by (simp add: collect_paginated_filtered_job_events_def page_records_def checked_add_def Let_def
        split: prod.split)
next
  case False
  with drop_overflow [OF ledger_invD(2) [OF inv] False] c show ?thesis
    by (simp add: collect_paginated_filtered_job_events_def page_records_def checked_add_def)
qed

lemma resolve_cursor_total:
  "event_cursor_sequence s cursor = Inr n \<Longrightarrow>
     resolve_event_cursor_sequence s cursor = Inr (if cursor = Beginning then None else Some n)"
  by (cases cursor) (auto simp: resolve_event_cursor_sequence_def event_cursor_sequence_def)

section \<open>The latest event of a repository\<close>

text \<open>The scan from the end finds the last event of the log that belongs to the repository.\<close>

lemma latest_event_scan_log:
  assumes inv: "ledger_inv ok s" and "set xs \<subseteq> set (event_log s)"
  shows "latest_event_scan s r (map e_id xs) =
     Inr (find (\<lambda>e. event_repository_id s e = Inr (Some r)) xs)"
  using assms(2)
proof (induction xs)
  case (Cons x xs)
  then have "hm_get (job_events_by_id s) (e_id x) = Some x"
    using log_rep_get_id [OF ledger_invD(2) [OF inv]] by simp
  moreover obtain r' where "event_repository_id s x = Inr (Some r')"
    using event_repository_total [OF inv, of x] Cons.prems by auto
  ultimately show ?case using Cons by simp
qed simp

lemma latest_event_log:
  assumes "ledger_inv ok s"
  shows "latest_job_event_for_repository_with_inner s r =
     Inr (find (\<lambda>e. event_repository_id s e = Inr (Some r)) (rev (event_log s)))"
  using latest_event_scan_log [OF assms, of "rev (event_log s)" r] log_rep_values [OF ledger_invD(2) [OF assms]]
  by (simp add: latest_job_event_for_repository_with_inner_def rev_map)

end
