(* ===== verification/Watch.thy ===== *)
theory Watch
  imports Reads
begin

text \<open>
  Live watches (\<open>store.rs\<close>, \<open>watch_job_events_live\<close> and \<open>forward_filtered_job_events\<close>). A watch
  subscribes to the broadcast channel, reads the cutoff, scans the log up to the cutoff in
  batches of 256, releasing the store's lock between batches, and then forwards broadcast events
  past the cutoff. The interleaving with writers is explicit: \<open>st k\<close> is the ledger at the
  \<open>k\<close>-th time the lock is taken.
\<close>

section \<open>The snapshot\<close>

definition MAX_LIVE_WATCH_SNAPSHOT :: nat where
  "MAX_LIVE_WATCH_SNAPSHOT = 1000"

definition LIVE_WATCH_SNAPSHOT_SCAN_BATCH :: nat where
  "LIVE_WATCH_SNAPSHOT_SCAN_BATCH = 256"

definition cursor_expired_live_snapshot :: StoreError where
  "cursor_expired_live_snapshot =
     CursorExpired
       (Msg ''live watch snapshot exceeds {MAX_LIVE_WATCH_SNAPSHOT} retained events; use replay before opening a live watch''
         [FNat MAX_LIVE_WATCH_SNAPSHOT])"

fun build_candidates ::
    "'x InMemoryInner \<Rightarrow> bool \<Rightarrow> (nat \<times> JobEventId) list \<Rightarrow> EventQueryCandidate list StoreResult" where
  "build_candidates s needs_repository_resolution [] = Inr []"
| "build_candidates s needs_repository_resolution ((_, i) # batch) =
     andthen (ok_or (hm_get (job_events_by_id s) i) (missing_sequence_id i)) (\<lambda>event.
     andthen (if needs_repository_resolution then event_repository_id s event else Inr None) (\<lambda>repository_id.
     andthen (build_candidates s needs_repository_resolution batch) (\<lambda>candidates.
     Inr (\<lparr>ec_event = event, ec_repository_id = repository_id\<rparr> # candidates))))"

fun retain_matching ::
    "EventQuery \<Rightarrow> EventQueryCandidate list \<Rightarrow> JobEvent list \<Rightarrow> JobEvent list StoreResult" where
  "retain_matching query [] events = Inr events"
| "retain_matching query (candidate # candidates) events =
     (if event_candidate_matches_query candidate query then
        let events' = events @ [ec_event candidate] in
        andthen (require (\<not> length events' > MAX_LIVE_WATCH_SNAPSHOT) cursor_expired_live_snapshot) (\<lambda>_.
        retain_matching query candidates events')
      else retain_matching query candidates events)"

definition scan_batch :: "'x InMemoryInner \<Rightarrow> nat \<Rightarrow> nat \<Rightarrow> (nat \<times> JobEventId) list" where
  "scan_batch s start_sequence live_cutoff_sequence =
     take LIVE_WATCH_SNAPSHOT_SCAN_BATCH
       (filter (\<lambda>(n, _). n \<le> live_cutoff_sequence) (bt_range_from start_sequence (job_events_by_sequence s)))"

lemma scan_batch_last: "scan_batch s a c \<noteq> [] \<Longrightarrow> a \<le> fst (last (scan_batch s a c))"
proof -
  assume "scan_batch s a c \<noteq> []"
  then have "last (scan_batch s a c) \<in> set (scan_batch s a c)" by (rule last_in_set)
  then show ?thesis by (auto simp: scan_batch_def bt_range_from_def dest!: in_set_takeD)
qed

function snapshot_loop ::
    "(nat \<Rightarrow> 'x InMemoryInner) \<Rightarrow> EventQuery \<Rightarrow> nat \<Rightarrow> nat \<Rightarrow> nat \<Rightarrow> JobEvent list \<Rightarrow> JobEvent list StoreResult" where
  "snapshot_loop st query live_cutoff_sequence k start_sequence events =
     (if start_sequence \<le> live_cutoff_sequence then
        let batch = scan_batch (st k) start_sequence live_cutoff_sequence in
        andthen (build_candidates (st k) (eq_repository_id query \<noteq> None) batch) (\<lambda>candidates.
        andthen (retain_matching query candidates events) (\<lambda>events'.
        if batch = [] then Inr events'
        else case checked_add (fst (last batch)) 1 of
               None \<Rightarrow> Inr events'
             | Some sequence \<Rightarrow>
                 if sequence \<le> live_cutoff_sequence
                 then snapshot_loop st query live_cutoff_sequence (Suc k) sequence events'
                 else Inr events'))
      else Inr events)"
  by pat_completeness auto

termination
  by (relation "measure (\<lambda>(_, _, cutoff, _, start, _). Suc cutoff - start)")
     (auto dest: scan_batch_last)

declare snapshot_loop.simps [simp del]

text \<open>The events of the snapshot, the cutoff for the live filter, and the resolved cursor.\<close>

definition watch_job_events_live ::
    "(nat \<Rightarrow> 'x InMemoryInner) \<Rightarrow> EventQuery \<Rightarrow> (JobEvent list \<times> nat \<times> nat option) StoreResult" where
  "watch_job_events_live st query =
     andthen (case eq_repository_id query of
         None \<Rightarrow> Inr ()
       | Some repository_id \<Rightarrow>
           andthen (get_record (repositories (st 0)) repository_id ''repositories''
             (id_debug ''RepositoryId'' repository_id)) (\<lambda>_. Inr ())) (\<lambda>_.
     andthen (resolve_live_event_cursor_sequence (st 1) (eq_cursor query)) (\<lambda>resolved_cursor_sequence.
     let after_sequence = unwrap_or resolved_cursor_sequence 0;
         live_cutoff_sequence =
           (case resolved_cursor_sequence of
              Some resolved \<Rightarrow> max resolved (next_event_sequence (st 1))
            | None \<Rightarrow> next_event_sequence (st 1))
     in
     andthen (case checked_add after_sequence 1 of
         None \<Rightarrow> Inr []
       | Some start_sequence \<Rightarrow> snapshot_loop st query live_cutoff_sequence 2 start_sequence []) (\<lambda>events.
     Inr (events, live_cutoff_sequence, resolved_cursor_sequence))))"

section \<open>The live filter\<close>

datatype broadcast_message = Received JobEvent | Lagged nat | Closed

definition cursor_expired_lagged_live_filter :: "nat \<Rightarrow> StoreError" where
  "cursor_expired_lagged_live_filter skipped =
     CursorExpired (Msg ''watch_events live filter fell behind and missed {skipped} events'' [FNat skipped])"

text \<open>What the task sends to the client, given what it receives; \<open>st k\<close> is the ledger when the
  \<open>k\<close>-th message is filtered.\<close>

fun forward_filtered_job_events ::
    "(nat \<Rightarrow> 'x InMemoryInner) \<Rightarrow> EventQuery \<Rightarrow> nat option \<Rightarrow> nat \<Rightarrow> broadcast_message list
     \<Rightarrow> JobEvent StoreResult list" where
  "forward_filtered_job_events st query live_cutoff_sequence k [] = []"
| "forward_filtered_job_events st query live_cutoff_sequence k (Lagged skipped # msgs) =
     [Inl (cursor_expired_lagged_live_filter skipped)]"
| "forward_filtered_job_events st query live_cutoff_sequence k (Closed # msgs) = []"
| "forward_filtered_job_events st query live_cutoff_sequence k (Received event # msgs) =
     (if (case live_cutoff_sequence of None \<Rightarrow> False | Some sequence \<Rightarrow> e_sequence_number event \<le> sequence)
      then forward_filtered_job_events st query live_cutoff_sequence (Suc k) msgs
      else case event_matches_query (st k) event query of
             Inl error \<Rightarrow> [Inl error]
           | Inr should_forward \<Rightarrow>
               (if should_forward then [Inr event] else []) @
               forward_filtered_job_events st query live_cutoff_sequence (Suc k) msgs)"

section \<open>Stability of the filter\<close>

text \<open>An event keeps its repository, so a query selects it in every later ledger or in none.\<close>

lemma event_repository_id_grows:
  assumes inv: "ledger_inv ok s" "ledger_inv ok s'" and g: "grows s s'" and e: "e \<in> set (event_log s)"
  shows "event_repository_id s' e = event_repository_id s e"
proof (cases "rf_repository_id (e_refs e)")
  case (Some r)
  then show ?thesis by (simp add: event_repository_id_def)
next
  case None
  have v: "event_valid ok s e" using ledger_invD(3) [OF inv(1) e] .
  have v': "event_valid ok s' e"
    using event_valid_mono [OF v _ ledger_invD(1) [OF inv(1)] ledger_invD(1) [OF inv(2)]] g
    by (simp add: grows_def)
  from v obtain r where r: "subject_repository_id s e None None None = Inr r"
    "validate_event_refs s e None None None r = Inr ()"
    by (auto simp: event_valid_def validate_event_subject_def)
  from subject_repository_registered [OF ledger_invD(1,9) [OF inv(1)] r(1)] obtain i where i: "r = Some i" by blast
  have r': "subject_repository_id s' e None None None = Inr r"
    using subject_repository_id_mono [OF _ ledger_invD(1) [OF inv(1)] ledger_invD(1) [OF inv(2)] r(1)] g
    by (simp add: grows_def)
  with v' have "validate_event_refs s' e None None None r = Inr ()"
    by (auto simp: event_valid_def validate_event_subject_def)
  with r r' i None validate_event_refs_derive [of s e i] validate_event_refs_derive [of s' e i]
  show ?thesis by (simp add: event_repository_id_def)
qed

lemma selected_grows:
  assumes "ledger_inv ok s" "ledger_inv ok s'" "grows s s'" "e \<in> set (event_log s)"
  shows "selected s' query e = selected s query e"
  using event_repository_id_grows [OF assms]
  by (simp add: selected_def event_matches_query_def split: option.splits)

section \<open>What the snapshot returns\<close>

text \<open>Ranges of a numbered list.\<close>

definition numbered :: "nat \<Rightarrow> 'a list \<Rightarrow> (nat \<times> 'a) list" where
  "numbered b xs = zip [b..<b + length xs] xs"

lemma numbered_Nil [simp]: "numbered b [] = []"
  and numbered_Cons [simp]: "numbered b (x # xs) = (b, x) # numbered (Suc b) xs"
  by (simp_all add: numbered_def upt_rec)

lemma numbered_from: "filter (\<lambda>(n, _). a \<le> n) (numbered b xs) = numbered (max a b) (drop (a - b) xs)"
proof (induction xs arbitrary: b)
  case (Cons x xs)
  show ?case
  proof (cases "a \<le> b")
    case True
    with Cons [of "Suc b"] show ?thesis by (simp add: max_def)
  next
    case False
    then have "a - b = Suc (a - Suc b)" "max a (Suc b) = max a b" by auto
    with False Cons [of "Suc b"] show ?thesis by simp
  qed
qed simp

lemma numbered_upto: "filter (\<lambda>(n, _). n \<le> c) (numbered b xs) = numbered b (take (Suc c - b) xs)"
proof (induction xs arbitrary: b)
  case (Cons x xs)
  then show ?case by (cases "b \<le> c") (simp_all add: Suc_diff_le)
qed simp

lemma numbered_take: "take k (numbered b xs) = numbered b (take k xs)"
proof (induction xs arbitrary: b k)
  case (Cons x xs)
  then show ?case by (cases k) simp_all
qed simp

lemma numbered_empty [simp]: "numbered b xs = [] \<longleftrightarrow> xs = []"
  by (cases xs) simp_all

lemma numbered_last: "xs \<noteq> [] \<Longrightarrow> fst (last (numbered b xs)) = b + length xs - 1"
  by (induction xs arbitrary: b) auto

lemma build_candidates_log:
  assumes inv: "ledger_inv ok s" and "set xs \<subseteq> set (event_log s)"
  shows "\<exists>cs. build_candidates s (eq_repository_id query \<noteq> None) (numbered a (map e_id xs)) = Inr cs \<and>
     map ec_event cs = xs \<and>
     (\<forall>c \<in> set cs. event_candidate_matches_query c query = selected s query (ec_event c))"
  using assms(2)
proof (induction xs arbitrary: a)
  case (Cons x xs)
  then obtain cs where
    "build_candidates s (eq_repository_id query \<noteq> None) (numbered (Suc a) (map e_id xs)) = Inr cs"
    "map ec_event cs = xs"
    "\<forall>c \<in> set cs. event_candidate_matches_query c query = selected s query (ec_event c)" by force
  moreover have "hm_get (job_events_by_id s) (e_id x) = Some x"
    using log_rep_get_id [OF ledger_invD(2) [OF inv]] Cons.prems by simp
  moreover obtain r where "event_repository_id s x = Inr (Some r)"
    using event_repository_total [OF inv, of x] Cons.prems by auto
  ultimately show ?case
    by (cases "eq_repository_id query")
       (auto simp: event_candidate_matches_query_def selected_def event_matches_query_def)
qed simp

lemma retain_matching_eq:
  assumes "length events \<le> MAX_LIVE_WATCH_SNAPSHOT"
    and "\<And>c. c \<in> set cs \<Longrightarrow> event_candidate_matches_query c query = sel (ec_event c)"
  shows "retain_matching query cs events =
     (if length (events @ filter sel (map ec_event cs)) \<le> MAX_LIVE_WATCH_SNAPSHOT
      then Inr (events @ filter sel (map ec_event cs)) else Inl cursor_expired_live_snapshot)"
  using assms
proof (induction cs arbitrary: events)
  case (Cons c cs)
  then show ?case
    by (cases "length events < MAX_LIVE_WATCH_SNAPSHOT") (auto simp: Let_def not_less filter_map comp_def)
qed simp

text \<open>A batch on a ledger whose log extends \<open>es\<close>, scanned up to the end of \<open>es\<close>.\<close>

lemma scan_batch_log:
  assumes rep: "log_rep s (es @ rest)" and "m \<le> length es"
  shows "scan_batch s (Suc m) (length es) =
     numbered (Suc m) (map e_id (take LIVE_WATCH_SNAPSHOT_SCAN_BATCH (drop m es)))"
proof -
  have "job_events_by_sequence s = numbered 1 (map e_id (es @ rest))"
    using rep by (simp add: log_rep_def numbered_def del: upt_Suc)
  then have "filter (\<lambda>(n, _). n \<le> length es) (bt_range_from (Suc m) (job_events_by_sequence s)) =
      numbered (Suc m) (take (length es - m) (drop m (map e_id (es @ rest))))"
    by (simp add: bt_range_from_def numbered_from numbered_upto)
  also have "take (length es - m) (drop m (map e_id (es @ rest))) = map e_id (drop m es)"
    using assms(2) by (simp add: drop_map)
  finally show ?thesis by (simp add: scan_batch_def numbered_take take_map)
qed

text \<open>
  Every ledger seen while scanning extends the log \<open>es\<close> the scan covers and agrees on which of
  its events the query selects.
\<close>

definition scan_state :: "(string \<Rightarrow> bool) \<Rightarrow> JobEvent list \<Rightarrow> EventQuery \<Rightarrow> (JobEvent \<Rightarrow> bool) \<Rightarrow> 'x InMemoryInner \<Rightarrow> bool" where
  "scan_state ok es query sel s \<longleftrightarrow>
     ledger_inv ok s \<and> (\<exists>rest. event_log s = es @ rest) \<and> (\<forall>e \<in> set es. selected s query e = sel e)"

lemma scan_batch_candidates:
  assumes st: "scan_state ok es query sel s" and m: "m \<le> length es" and ev: "length events \<le> MAX_LIVE_WATCH_SNAPSHOT"
    and b: "b = take LIVE_WATCH_SNAPSHOT_SCAN_BATCH (drop m es)"
  shows "\<exists>cs. build_candidates s (eq_repository_id query \<noteq> None) (scan_batch s (Suc m) (length es)) = Inr cs \<and>
     retain_matching query cs events =
       (if length (events @ filter sel b) \<le> MAX_LIVE_WATCH_SNAPSHOT
        then Inr (events @ filter sel b) else Inl cursor_expired_live_snapshot)"
proof -
  from st obtain rest where inv: "ledger_inv ok s" and log: "event_log s = es @ rest"
    and sel: "\<And>e. e \<in> set es \<Longrightarrow> selected s query e = sel e" by (auto simp: scan_state_def)
  have sub: "set b \<subseteq> set es" unfolding b by (meson set_drop_subset set_take_subset subset_trans)
  have "scan_batch s (Suc m) (length es) = numbered (Suc m) (map e_id b)"
    using scan_batch_log [OF _ m, of s rest] ledger_invD(2) [OF inv] log b by simp
  moreover obtain cs where cs:
    "build_candidates s (eq_repository_id query \<noteq> None) (numbered (Suc m) (map e_id b)) = Inr cs"
    "map ec_event cs = b"
    "\<forall>c \<in> set cs. event_candidate_matches_query c query = selected s query (ec_event c)"
    using build_candidates_log [OF inv, of b query "Suc m"] sub log by auto
  moreover have "ec_event c \<in> set es" if "c \<in> set cs" for c
    using that cs(2) sub by (metis image_eqI image_set subsetD)
  ultimately show ?thesis
    using retain_matching_eq [OF ev, of cs query sel] sel by auto
qed

lemma drop_batch:
  "drop m es = take k (drop m es) @ drop (m + length (take k (drop m es))) es"
proof -
  have "drop (length (take k (drop m es))) (drop m es) = drop k (drop m es)"
    by (metis append_eq_conv_conj append_take_drop_id)
  then show ?thesis by (metis add.commute append_take_drop_id drop_drop)
qed

lemma snapshot_loop_log:
  assumes st: "\<And>k. scan_state ok es query sel (st k)" and u: "length es \<le> u64_max"
    and "m \<le> length es" "length events \<le> MAX_LIVE_WATCH_SNAPSHOT"
  shows "snapshot_loop st query (length es) k (Suc m) events =
     (if length (events @ filter sel (drop m es)) \<le> MAX_LIVE_WATCH_SNAPSHOT
      then Inr (events @ filter sel (drop m es)) else Inl cursor_expired_live_snapshot)"
  using assms(3,4)
proof (induction "length es - m" arbitrary: k m events rule: less_induct)
  case less
  define b where "b = take LIVE_WATCH_SNAPSHOT_SCAN_BATCH (drop m es)"
  define n where "n = m + length b"
  define sb where "sb = scan_batch (st k) (Suc m) (length es)"
  show ?case
  proof (cases "m < length es")
    case True
    then have b: "b \<noteq> []" "m < n" "n \<le> length es"
      by (auto simp: b_def n_def LIVE_WATCH_SNAPSHOT_SCAN_BATCH_def)
    obtain cs where cs: "build_candidates (st k) (eq_repository_id query \<noteq> None) sb = Inr cs"
      "retain_matching query cs events =
         (if length (events @ filter sel b) \<le> MAX_LIVE_WATCH_SNAPSHOT
          then Inr (events @ filter sel b) else Inl cursor_expired_live_snapshot)"
      using scan_batch_candidates [OF st less.prems b_def] unfolding sb_def by blast
    from st [of k] obtain rest where "log_rep (st k) (es @ rest)"
      using ledger_invD(2) by (fastforce simp: scan_state_def)
    from scan_batch_log [OF this less.prems(1), folded b_def sb_def] have l: "sb \<noteq> []" "fst (last sb) = n"
      using b by (simp_all add: numbered_last n_def)
    have split: "filter sel (drop m es) = filter sel b @ filter sel (drop n es)"
      using drop_batch [of m es LIVE_WATCH_SNAPSHOT_SCAN_BATCH, folded b_def n_def] by (metis filter_append)
    have step: "snapshot_loop st query (length es) k (Suc m) events =
        andthen (retain_matching query cs events) (\<lambda>ev.
          if n < length es then snapshot_loop st query (length es) (Suc k) (Suc n) ev else Inr ev)"
    proof (cases "n < length es")
      case True
      then have "Suc n \<le> length es" "Suc n \<le> u64_max" using u by auto
      with \<open>m < length es\<close> cs(1) l True show ?thesis
        by (subst snapshot_loop.simps) (simp add: Let_def sb_def [symmetric] checked_add_def)
    next
      case False
      then have "\<not> Suc n \<le> length es" by simp
      with \<open>m < length es\<close> cs(1) l False show ?thesis
        by (subst snapshot_loop.simps, cases "Suc n \<le> u64_max")
           (simp_all add: Let_def sb_def [symmetric] checked_add_def)
    qed
    show ?thesis
    proof (cases "length (events @ filter sel b) \<le> MAX_LIVE_WATCH_SNAPSHOT")
      case True
      with less.hyps [of n "events @ filter sel b" "Suc k"] b \<open>m < length es\<close>
      have "snapshot_loop st query (length es) (Suc k) (Suc n) (events @ filter sel b) =
        (if length (events @ filter sel (drop m es)) \<le> MAX_LIVE_WATCH_SNAPSHOT
         then Inr (events @ filter sel (drop m es)) else Inl cursor_expired_live_snapshot)"
        by (simp add: split)
      with True cs(2) b(3) show ?thesis unfolding step by (cases "n < length es") (auto simp: split)
    next
      case False
      with cs(2) show ?thesis unfolding step by (simp add: split)
    qed
  next
    case False
    then show ?thesis using less.prems by (simp add: snapshot_loop.simps)
  qed
qed

end
