(* ===== verification/Delivery.thy ===== *)
theory Delivery
  imports Watch
begin

text \<open>
  What a watching client receives: the snapshot followed by the live events is the selected part
  of the log after the cursor, each event once and in order, whatever operations run between the
  steps of the watch.
\<close>

section \<open>Histories\<close>

text \<open>The ledgers seen at successive moments, with any number of operations in between.\<close>

definition history :: "(string \<Rightarrow> bool) \<Rightarrow> ('x \<Rightarrow> message + unit) \<Rightarrow> (nat \<Rightarrow> 'x InMemoryInner) \<Rightarrow> bool" where
  "history ok ext st \<longleftrightarrow>
     reachable ok ext (st 0) \<and> (\<forall>k. \<exists>es. ledger_steps ok ext (st k) es (st (Suc k)))"

lemma history_steps: "history ok ext st \<Longrightarrow> \<exists>es. ledger_steps ok ext (st k) es (st (k + d))"
proof (induction d)
  case 0
  then show ?case using ledger_steps.stay by auto
next
  case (Suc d)
  then obtain es where "ledger_steps ok ext (st k) es (st (k + d))" by blast
  moreover from Suc.prems obtain es' where "ledger_steps ok ext (st (k + d)) es' (st (Suc (k + d)))"
    unfolding history_def by blast
  ultimately show ?case using ledger_steps_trans by (metis add_Suc_right)
qed

lemma history_inv: "history ok ext st \<Longrightarrow> ledger_inv ok (st k)"
proof -
  assume h: "history ok ext st"
  then obtain es where "ledger_steps ok ext (st 0) es (st k)" using history_steps [OF h, of 0 k] by auto
  moreover have "ledger_inv ok (st 0)" using h reachable_inv by (auto simp: history_def)
  ultimately show ?thesis using ledger_steps_ok by (fastforce simp: op_ok_def)
qed

lemma history_later:
  assumes "history ok ext st" "k \<le> n"
  obtains rest where "event_log (st n) = event_log (st k) @ rest" "grows (st k) (st n)"
proof -
  from history_steps [OF assms(1), of k "n - k"] assms(2) obtain es where "ledger_steps ok ext (st k) es (st n)" by auto
  with ledger_steps_ok [OF this history_inv [OF assms(1)]] that show ?thesis by (auto simp: op_ok_def)
qed

lemma history_selected:
  assumes "history ok ext st" "k \<le> n" "e \<in> set (event_log (st k))"
  shows "selected (st n) query e = selected (st k) query e"
proof -
  obtain rest where "grows (st k) (st n)" using history_later [OF assms(1,2)] .
  then show ?thesis using selected_grows history_inv [OF assms(1)] assms(3) by blast
qed

section \<open>The snapshot\<close>

lemma resolve_live_cursor:
  "resolve_live_event_cursor_sequence s cursor = Inr r \<Longrightarrow>
     event_cursor_sequence s cursor = Inr (unwrap_or r 0)"
  by (cases cursor)
     (auto simp: resolve_live_event_cursor_sequence_def resolve_event_cursor_sequence_def
        event_cursor_sequence_def unwrap_or_def)

lemma log_length: "ledger_inv ok s \<Longrightarrow> next_event_sequence s = length (event_log s) \<and> length (event_log s) \<le> u64_max"
  using ledger_invD(2) [of ok s] unfolding log_rep_def by blast

definition watch_snapshot :: "'x InMemoryInner \<Rightarrow> EventQuery \<Rightarrow> nat \<Rightarrow> JobEvent list" where
  "watch_snapshot s query n = filter (selected s query) (drop n (event_log s))"

lemma history_scan_state:
  assumes "history ok ext st"
  shows "scan_state ok (event_log (st 1)) query (selected (st 1) query) (st (Suc k))"
proof -
  have le: "1 \<le> Suc k" by simp
  obtain rest where "event_log (st (Suc k)) = event_log (st 1) @ rest"
    using history_later [OF assms le] .
  then show ?thesis
    using history_inv [OF assms] history_selected [OF assms le] by (auto simp: scan_state_def)
qed

lemma snapshot_loop_shift:
  "snapshot_loop st query c (k + d) start evs = snapshot_loop (\<lambda>i. st (i + d)) query c k start evs"
proof (induction "\<lambda>i. st (i + d)" query c k start evs rule: snapshot_loop.induct)
  case (1 query c k start evs)
  show ?case
    by (subst (1 2) snapshot_loop.simps)
       (intro if_cong refl, simp only: Let_def, intro andthen_cong refl if_cong,
        auto split: option.splits intro!: 1 [simplified])
qed


lemma history_snapshot_loop:
  assumes h: "history ok ext st" and m: "m \<le> length (event_log (st 1))"
  shows "snapshot_loop st query (length (event_log (st 1))) 2 (Suc m) [] =
     (if length (watch_snapshot (st 1) query m) \<le> MAX_LIVE_WATCH_SNAPSHOT
      then Inr (watch_snapshot (st 1) query m) else Inl cursor_expired_live_snapshot)"
proof -
  have "scan_state ok (event_log (st 1)) query (selected (st 1) query) (st (k + 2))" for k
    using history_scan_state [OF h, of query "Suc k"] by simp
  moreover have "snapshot_loop st query (length (event_log (st 1))) 2 (Suc m) [] =
      snapshot_loop (\<lambda>i. st (i + 2)) query (length (event_log (st 1))) 0 (Suc m) []"
    using snapshot_loop_shift [of st query "length (event_log (st 1))" 0 2] by (metis add_0)
  ultimately show ?thesis
    using snapshot_loop_log [of ok "event_log (st 1)" query "selected (st 1) query" "\<lambda>i. st (i + 2)" m "[]" 0]
      m log_length [OF history_inv [OF h, of 1]] by (simp add: watch_snapshot_def)
qed

text \<open>The cutoff of a watch resolved at \<open>s\<close> from a cursor that stands after the first \<open>n\<close> events.\<close>

definition live_cutoff :: "'x InMemoryInner \<Rightarrow> nat \<Rightarrow> nat" where
  "live_cutoff s n = max n (length (event_log s))"

lemma watch_result:
  assumes h: "history ok ext st"
    and repo: "\<And>r. eq_repository_id query = Some r \<Longrightarrow> hm_get (repositories (st 0)) r \<noteq> None"
    and c: "resolve_live_event_cursor_sequence (st 1) (eq_cursor query) = Inr r"
  shows "watch_job_events_live st query =
     (if length (watch_snapshot (st 1) query (unwrap_or r 0)) \<le> MAX_LIVE_WATCH_SNAPSHOT
      then Inr (watch_snapshot (st 1) query (unwrap_or r 0), live_cutoff (st 1) (unwrap_or r 0), r)
      else Inl cursor_expired_live_snapshot)"
proof -
  define n where "n = unwrap_or r 0"
  define s1 where "s1 = st 1"
  have len: "next_event_sequence s1 = length (event_log s1)" "length (event_log s1) \<le> u64_max"
    using log_length [OF history_inv [OF h]] unfolding s1_def by blast+
  have s1 [simp]: "st (Suc 0) = s1" by (simp add: s1_def)
  have cut: "(case r of None \<Rightarrow> next_event_sequence (st 1)
      | Some resolved \<Rightarrow> max resolved (next_event_sequence (st 1))) = live_cutoff s1 n"
    by (cases r) (simp_all add: live_cutoff_def n_def unwrap_or_def len)
  have scan: "(case checked_add n 1 of None \<Rightarrow> Inr []
        | Some start \<Rightarrow> snapshot_loop st query (live_cutoff s1 n) 2 start []) =
      (if length (watch_snapshot s1 query n) \<le> MAX_LIVE_WATCH_SNAPSHOT
       then Inr (watch_snapshot s1 query n) else Inl cursor_expired_live_snapshot)"
  proof (cases "n < length (event_log s1)")
    case True
    then show ?thesis using history_snapshot_loop [OF h, of n query] len
      by (simp add: live_cutoff_def checked_add_def)
  next
    case False
    then have "watch_snapshot s1 query n = []" "live_cutoff s1 n = n"
      by (simp_all add: watch_snapshot_def live_cutoff_def)
    then show ?thesis by (simp add: checked_add_def snapshot_loop.simps)
  qed
  have repo': "(case eq_repository_id query of None \<Rightarrow> Inr ()
      | Some i \<Rightarrow> andthen (get_record (repositories (st 0)) i ''repositories''
          (id_debug ''RepositoryId'' i)) (\<lambda>_. Inr ())) = (Inr () :: unit StoreResult)"
    using repo by (cases "eq_repository_id query") (auto simp: get_record_def)
  have "watch_job_events_live st query =
      andthen (case checked_add n 1 of None \<Rightarrow> Inr []
        | Some start \<Rightarrow> snapshot_loop st query (live_cutoff s1 n) 2 start [])
        (\<lambda>events. Inr (events, live_cutoff s1 n, r))"
    unfolding watch_job_events_live_def repo' c andthen_Inr Let_def n_def [symmetric] cut by (rule refl)
  with scan show ?thesis by (simp add: n_def)
qed

section \<open>The live events\<close>

lemma forward_received:
  assumes "\<And>i. i < length xs \<Longrightarrow> event_matches_query (st (k + i)) (xs ! i) query = Inr (sel (xs ! i))"
  shows "forward_filtered_job_events st query (Some c) k (map Received xs) =
     map Inr (filter (\<lambda>e. c < e_sequence_number e \<and> sel e) xs)"
  using assms
proof (induction xs arbitrary: k)
  case (Cons x xs)
  have "event_matches_query (st (Suc k + i)) (xs ! i) query = Inr (sel (xs ! i))" if "i < length xs" for i
    using Cons.prems [of "Suc i"] that by simp
  with Cons.IH [of "Suc k"] Cons.prems [of 0] show ?case by auto
qed simp

lemma filter_numbered:
  assumes "\<And>i. i < length xs \<Longrightarrow> f (xs ! i) = b + i"
  shows "filter (\<lambda>e. c < f e) xs = drop (Suc c - b) xs"
  using assms
proof (induction xs arbitrary: b)
  case (Cons x xs)
  have "f (xs ! i) = Suc b + i" if "i < length xs" for i using Cons.prems [of "Suc i"] that by simp
  from Cons.IH [OF this] have "filter (\<lambda>e. c < f e) xs = drop (Suc c - Suc b) xs" .
  moreover have "f x = b" using Cons.prems [of 0] by simp
  ultimately show ?case by (cases "b \<le> c") (simp_all add: Suc_diff_le)
qed simp

lemma filter_after:
  assumes "log_rep s es" "p \<le> c"
  shows "filter (\<lambda>e. c < e_sequence_number e) (drop p es) = drop c es"
proof -
  have "e_sequence_number (drop p es ! i) = Suc p + i" if "i < length (drop p es)" for i
    using log_rep_nth [OF assms(1), of "p + i"] that by simp
  from filter_numbered [OF this] show ?thesis using assms(2) by (simp add: add.commute)
qed

text \<open>
  The messages on the channel of a watch: all events, or those of one repository. A receiver
  that has not lagged gets the ones sent since it subscribed, which is when the log had \<open>p\<close>
  events.
\<close>

definition on_channel :: "'x InMemoryInner \<Rightarrow> EventQuery \<Rightarrow> JobEvent \<Rightarrow> bool" where
  "on_channel s query e \<longleftrightarrow>
     (case eq_repository_id query of None \<Rightarrow> True | Some r \<Rightarrow> event_repository_id s e = Inr (Some r))"

definition channel_since :: "'x InMemoryInner \<Rightarrow> EventQuery \<Rightarrow> nat \<Rightarrow> JobEvent list" where
  "channel_since s query p = filter (on_channel s query) (drop p (event_log s))"

lemma selected_on_channel: "selected s query e \<Longrightarrow> on_channel s query e"
  by (auto simp: selected_def on_channel_def event_matches_query_def matches_event_query_def Let_def
      split: option.splits)

lemma live_events:
  assumes inv: "ledger_inv ok s" and p: "p \<le> c"
  shows "filter (\<lambda>e. c < e_sequence_number e \<and> selected s query e) (channel_since s query p) =
     filter (selected s query) (drop c (event_log s))"
proof -
  have "filter (\<lambda>e. c < e_sequence_number e \<and> selected s query e) (channel_since s query p) =
      filter (selected s query) (filter (\<lambda>e. c < e_sequence_number e) (drop p (event_log s)))"
    unfolding channel_since_def filter_filter by (rule filter_cong) (auto dest: selected_on_channel)
  then show ?thesis using filter_after [OF ledger_invD(2) [OF inv] p] by simp
qed

lemma split_at_cutoff:
  assumes "L = L1 @ rest" and "\<And>e. e \<in> set L1 \<Longrightarrow> P' e = P e"
  shows "filter P' (drop n L1) @ filter P (drop (max n (length L1)) L) = filter P (drop n L)"
proof -
  have "filter P' (drop n L1) = filter P (drop n L1)"
    using assms(2) by (intro filter_cong) (auto dest: in_set_dropD)
  moreover have "drop n L = drop n L1 @ drop (max n (length L1)) L"
    using assms(1) by (cases "n \<le> length L1") (simp_all add: max_def)
  ultimately show ?thesis by (metis filter_append)
qed

text \<open>
  The watch started on \<open>st 0\<close>, took its cutoff on \<open>st 1\<close> and filtered its messages on the ledgers
  from \<open>st m\<close> on; a message is filtered after its event was committed.
\<close>

lemma watch_delivers:
  assumes h: "history ok ext st"
    and w: "watch_job_events_live st query = Inr (snapshot, cutoff, resolved)"
    and p: "p \<le> length (event_log (st 1))"
    and msgs: "msgs = channel_since (st n) query p"
    and seen: "\<And>k. k < length msgs \<Longrightarrow> m + k \<le> n \<and> msgs ! k \<in> set (event_log (st (m + k)))"
    and n: "1 \<le> n"
  shows "\<exists>live. forward_filtered_job_events (\<lambda>k. st (m + k)) query (Some cutoff) 0 (map Received msgs) = map Inr live \<and>
    snapshot @ live = filter (selected (st n) query) (drop (unwrap_or resolved 0) (event_log (st n)))"
proof -
  from w obtain r where c: "resolve_live_event_cursor_sequence (st 1) (eq_cursor query) = Inr r"
    by (auto simp: watch_job_events_live_def Let_def)
  from w have "\<And>i. eq_repository_id query = Some i \<Longrightarrow> hm_get (repositories (st 0)) i \<noteq> None"
    by (auto simp: watch_job_events_live_def get_record_def)
  from watch_result [OF h this c] w have snap: "resolved = r"
    "snapshot = watch_snapshot (st 1) query (unwrap_or r 0)" "cutoff = live_cutoff (st 1) (unwrap_or r 0)"
    by (auto split: if_splits)
  have "event_matches_query (st (m + (0 + k))) (msgs ! k) query = Inr (selected (st n) query (msgs ! k))"
    if "k < length msgs" for k
    using event_matches_total [OF history_inv [OF h]] history_selected [OF h, of "m + k" n "msgs ! k"]
      seen [OF that] by simp
  from forward_received [where st = "\<lambda>k. st (m + k)", OF this]
  have "forward_filtered_job_events (\<lambda>k. st (m + k)) query (Some cutoff) 0 (map Received msgs) =
      map Inr (filter (selected (st n) query) (drop cutoff (event_log (st n))))"
    using live_events [OF history_inv [OF h, of n], of p cutoff query] p snap(3) msgs
    by (simp add: live_cutoff_def)
  moreover obtain rest where "event_log (st n) = event_log (st 1) @ rest" using history_later [OF h n] .
  ultimately show ?thesis
    using split_at_cutoff [of "event_log (st n)" "event_log (st 1)" rest "selected (st 1) query"
        "selected (st n) query" "unwrap_or r 0"] history_selected [OF h n] snap
    by (auto simp: watch_snapshot_def live_cutoff_def)
qed

end
