(* ===== verification/StoreRun.thy ===== *)
theory StoreRun
  imports Recovery Delivery
begin

text \<open>
  Runs of the whole store: every ledger operation as a transaction, with failing file-system calls
  anywhere. The ledger stays reachable, publishing cannot fail, and the channels carry exactly the
  events appended since the store was opened.
\<close>

section \<open>Operations as transactions\<close>

definition run_op ::
    "'x store_env \<Rightarrow> io_env \<Rightarrow> 'x ledger_op \<Rightarrow> 'x InMemoryStore \<Rightarrow> 'x InMemoryStore \<times> unit StoreResult" where
  "run_op env io opr =
     mutate_with_published_events env io
       (\<lambda>s. andthen (apply_op (env_uuid_ok env) (env_validate_ext env) opr s) (\<lambda>(es, s'). Inr (((), es), s')))"

text \<open>\<open>mutate\<close> is the transaction that publishes nothing.\<close>

lemma mutate_publishes_nothing:
  "mutate env io f st = mutate_with_published_events env io (\<lambda>s. andthen (f s) (\<lambda>(r, s'). Inr ((r, []), s'))) st"
proof (cases "f (st_inner st)")
  case (Inr p)
  obtain r draft where p: "p = (r, draft)" by fastforce
  obtain st' res where d: "persist_draft env io draft st = (st', res)" by fastforce
  then have "st_broadcasts st' = st_broadcasts st" using persist_draft_frame by blast
  with Inr p d show ?thesis
    by (cases res) (simp_all add: mutate_def mutate_with_published_events_def)
qed (simp add: mutate_def mutate_with_published_events_def)

lemma prepare_total:
  assumes inv: "ledger_inv ok draft" and "set es \<subseteq> set (event_log draft)"
  shows "\<exists>b' ts. prepare_job_event_publish draft es b = (b', Inr ts)"
  using assms(2)
proof (induction es arbitrary: b)
  case (Cons e es)
  obtain r where r: "event_repository_id draft e = Inr (Some r)" "hm_get (repositories draft) r \<noteq> None"
    using event_repository_total [OF inv, of e] Cons.prems by auto
  then obtain x where "get_record (repositories draft) r ''repositories'' (id_debug ''RepositoryId'' r) = Inr x"
    by (auto simp: get_record_def)
  with r(1) Cons.IH [of "repository_event_broadcaster_for_existing r b"] Cons.prems show ?case
    by (auto simp: get_record_def)
qed simp

text \<open>Once the operation itself succeeds, only persisting can fail.\<close>

lemma run_op_memory:
  assumes inv: "ledger_inv (env_uuid_ok env) (st_inner st)" and "st_durable_snapshot_path st = None"
    and c: "apply_op (env_uuid_ok env) (env_validate_ext env) opr (st_inner st) = Inr (es, s')"
  shows "\<exists>st'. run_op env io opr st = (st', Inr ()) \<and> st_inner st' = s'"
proof -
  have "op_ok (env_uuid_ok env) (st_inner st) es s'" using apply_op_ok [OF inv c] .
  then obtain b ts where "prepare_job_event_publish s' es (st_broadcasts st) = (b, Inr ts)"
    using prepare_total [of "env_uuid_ok env" s' es "st_broadcasts st"] by (auto simp: op_ok_def)
  with assms show ?thesis by (simp add: run_op_def mutate_with_published_events_def persist_draft_def)
qed

section \<open>Runs\<close>

text \<open>
  The stores a process reaches from the one it opened, which had \<open>n\<close> events: operations with any
  outcome of the file system.
\<close>

inductive store_runs :: "'x store_env \<Rightarrow> 'x InMemoryStore \<Rightarrow> 'x InMemoryStore \<Rightarrow> bool" for env st0 where
  opened: "store_runs env st0 st0"
| op: "store_runs env st0 st \<Longrightarrow> run_op env io opr st = (st', res) \<Longrightarrow> store_runs env st0 st'"

definition freshly_opened :: "'x store_env \<Rightarrow> 'x InMemoryStore \<Rightarrow> bool" where
  "freshly_opened env st \<longleftrightarrow>
     ledger_inv (env_uuid_ok env) (st_inner st) \<and> st_broadcasts st = new_broadcasts"

definition of_repository :: "'x InMemoryInner \<Rightarrow> RepositoryId \<Rightarrow> JobEvent \<Rightarrow> bool" where
  "of_repository s r e \<longleftrightarrow> event_repository_id s e = Inr (Some r)"

definition mirrors :: "nat \<Rightarrow> 'x InMemoryStore \<Rightarrow> bool" where
  "mirrors n st \<longleftrightarrow>
     event_broadcaster (st_broadcasts st) = drop n (event_log (st_inner st)) \<and>
     (\<forall>r. channel (st_broadcasts st) r = filter (of_repository (st_inner st) r) (drop n (event_log (st_inner st))))"

lemma run_op_cases:
  assumes inv: "ledger_inv (env_uuid_ok env) (st_inner st)" and r: "run_op env io opr st = (st', res)"
  obtains (failed) e where "res = Inl e" "st_inner st' = st_inner st"
      "event_broadcaster (st_broadcasts st') = event_broadcaster (st_broadcasts st)"
      "\<And>q. channel (st_broadcasts st') q = channel (st_broadcasts st) q"
    | (committed) es where "res = Inr ()" "apply_op (env_uuid_ok env) (env_validate_ext env) opr (st_inner st) = Inr (es, st_inner st')"
      "op_ok (env_uuid_ok env) (st_inner st) es (st_inner st')"
      "event_broadcaster (st_broadcasts st') = event_broadcaster (st_broadcasts st) @ es"
      "\<And>q. channel (st_broadcasts st') q = channel (st_broadcasts st) q @ filter (of_repository (st_inner st') q) es"
proof (cases res)
  case (Inl e)
  with mutate_published_error [OF r [unfolded run_op_def Inl]] failed show ?thesis by blast
next
  case (Inr u)
  from mutate_published_ok [OF r [unfolded run_op_def Inr]] obtain es where
    a: "andthen (apply_op (env_uuid_ok env) (env_validate_ext env) opr (st_inner st)) (\<lambda>(es, s'). Inr (((), es), s')) =
        Inr ((u, es), st_inner st')"
    and b: "event_broadcaster (st_broadcasts st') = event_broadcaster (st_broadcasts st) @ es"
      "\<And>q. channel (st_broadcasts st') q = channel (st_broadcasts st) q @
         filter (\<lambda>e. event_repository_id (st_inner st') e = Inr (Some q)) es" by metis
  from a have c: "apply_op (env_uuid_ok env) (env_validate_ext env) opr (st_inner st) = Inr (es, st_inner st')" by auto
  from committed [OF _ c apply_op_ok [OF inv c] b(1)] b(2) Inr show ?thesis
    by (simp add: of_repository_def [abs_def])
qed

lemma mirrors_step:
  assumes "ledger_inv ok s" "op_ok ok s es s'" "n \<le> length (event_log s)"
  shows "drop n (event_log s') = drop n (event_log s) @ es"
    "filter (of_repository s' r) (drop n (event_log s')) =
       filter (of_repository s r) (drop n (event_log s)) @ filter (of_repository s' r) es"
proof -
  show d: "drop n (event_log s') = drop n (event_log s) @ es" using assms(2,3) by (simp add: op_ok_def)
  have "filter (of_repository s' r) (drop n (event_log s)) = filter (of_repository s r) (drop n (event_log s))"
    using event_repository_id_grows [of ok s s'] assms(1,2)
    by (intro filter_cong) (auto simp: of_repository_def op_ok_def dest: in_set_dropD)
  then show "filter (of_repository s' r) (drop n (event_log s')) =
       filter (of_repository s r) (drop n (event_log s)) @ filter (of_repository s' r) es" by (simp add: d)
qed

lemma store_runs_ok:
  assumes "store_runs env st0 st" and o: "freshly_opened env st0"
  shows "(\<exists>es. ledger_steps (env_uuid_ok env) (env_validate_ext env) (st_inner st0) es (st_inner st)) \<and>
    mirrors (length (event_log (st_inner st0))) st"
  using assms(1)
proof (induction rule: store_runs.induct)
  case opened
  then show ?case using o by (auto simp: mirrors_def freshly_opened_def new_broadcasts_def channel_def intro: ledger_steps.stay)
next
  case (op st io opr st' res)
  define n where "n = length (event_log (st_inner st0))"
  from op.IH obtain es where steps: "ledger_steps (env_uuid_ok env) (env_validate_ext env) (st_inner st0) es (st_inner st)"
    and m: "mirrors n st" by (auto simp: n_def)
  have inv0: "ledger_inv (env_uuid_ok env) (st_inner st0)" using o by (simp add: freshly_opened_def)
  have inv: "ledger_inv (env_uuid_ok env) (st_inner st)" and le: "n \<le> length (event_log (st_inner st))"
    using ledger_steps_ok [OF steps inv0] by (simp_all add: op_ok_def n_def)
  have "(\<exists>es. ledger_steps (env_uuid_ok env) (env_validate_ext env) (st_inner st0) es (st_inner st')) \<and> mirrors n st'"
  proof (cases rule: run_op_cases [OF inv op.hyps(2)])
    case (1 e)
    then show ?thesis using steps m by (auto simp: mirrors_def)
  next
    case (2 es')
    have "ledger_steps (env_uuid_ok env) (env_validate_ext env) (st_inner st0) (es @ es') (st_inner st')"
      by (rule ledger_steps.step [OF steps 2(2)])
    moreover have "mirrors n st'"
      using m 2(4,5) mirrors_step [OF inv 2(3) le] by (simp add: mirrors_def)
    ultimately show ?thesis by blast
  qed
  then show ?case by (simp add: n_def)
qed

end
