(* ===== verification/ReceiptLife.thy ===== *)
theory ReceiptLife
  imports Reload JobLife
begin

text \<open>
  Receipts of idempotent submissions over the life of the ledger: a stored receipt stays valid as
  long as its job is left alone, so a ledger grown by operations that create well-formed jobs and
  leave finished submissions alone always passes the load check.
\<close>

section \<open>Receipt checks on a growing ledger\<close>

lemma growsD:
  assumes "grows s s'"
  shows "hm_get (policy_decisions s) a = Some d \<Longrightarrow> hm_get (policy_decisions s') a = Some d"
    "hm_get (tool_invocations s) b = Some t \<Longrightarrow> hm_get (tool_invocations s') b = Some t"
    "hm_get (tool_results s) c = Some r \<Longrightarrow> hm_get (tool_results s') c = Some r"
    "hm_get (audit_records s) f = Some u \<Longrightarrow> hm_get (audit_records s') f = Some u"
    "hm_get (job_events_by_id s) g = Some e \<Longrightarrow> hm_get (job_events_by_id s') g = Some e"
  using assms extendsD [of s None None None s'] by (auto simp: grows_def)

text \<open>A check keeps its result when it succeeded before.\<close>

definition keeps :: "'e + 'a \<Rightarrow> 'e + 'a \<Rightarrow> bool" where
  "keeps m m' \<longleftrightarrow> (\<forall>v. m = Inr v \<longrightarrow> m' = Inr v)"

lemma keepsD: "keeps m m' \<Longrightarrow> m = Inr v \<Longrightarrow> m' = Inr v"
  by (simp add: keeps_def)

lemma keeps_refl: "keeps m m"
  by (simp add: keeps_def)

lemma keeps_andthen:
  "keeps m m' \<Longrightarrow> (\<And>v. m = Inr v \<Longrightarrow> keeps (f v) (g v)) \<Longrightarrow> keeps (andthen m f) (andthen m' g)"
  by (cases m) (simp_all add: keeps_def)

lemma keeps_if: "keeps a a' \<Longrightarrow> keeps b b' \<Longrightarrow> keeps (if c then a else b) (if c then a' else b')"
  by simp

lemma keeps_option:
  "keeps a a' \<Longrightarrow> (\<And>v. x = Some v \<Longrightarrow> keeps (f v) (g v)) \<Longrightarrow>
     keeps (case x of None \<Rightarrow> a | Some v \<Rightarrow> f v) (case x of None \<Rightarrow> a' | Some v \<Rightarrow> g v)"
  by (cases x) simp_all

lemma keeps_get: "(\<And>v. x = Some v \<Longrightarrow> y = Some v) \<Longrightarrow> keeps (ok_or x e) (ok_or y e)"
  by (auto simp: keeps_def)

lemma keeps_for_each: "(\<And>x. x \<in> set xs \<Longrightarrow> keeps (f x) (g x)) \<Longrightarrow> keeps (for_each f xs) (for_each g xs)"
  by (auto simp: keeps_def)

lemmas keeps_intros = keeps_refl keeps_andthen keeps_if keeps_option keeps_get keeps_for_each

lemma belongs_grows:
  assumes "grows s s'"
  shows "keeps (submit_job_receipt_event_belongs_to_job s i e) (submit_job_receipt_event_belongs_to_job s' i e)"
  unfolding submit_job_receipt_event_belongs_to_job_def
  by (intro keeps_intros growsD [OF assms])

lemma expected_events_loop_grows:
  assumes "grows s s'"
  shows "keeps (expected_events_loop s i l ids acc found) (expected_events_loop s' i l ids acc found)"
proof (induction ids arbitrary: acc found)
  case (Cons x ids)
  show ?case unfolding expected_events_loop.simps
    by (intro keeps_intros growsD [OF assms] belongs_grows [OF assms] Cons)
qed (simp add: keeps_refl)

lemma andthen_assoc: "andthen (andthen m f) g = andthen m (\<lambda>x. andthen (f x) g)"
  by (cases m) simp_all

lemma expected_events_loop_append:
  "expected_events_loop s i l (xs @ ys) acc found =
     andthen (expected_events_loop s i l xs acc found) (\<lambda>(acc, found). expected_events_loop s i l ys acc found)"
proof (induction xs arbitrary: acc found)
  case (Cons x xs)
  show ?case by (auto simp: Cons andthen_assoc intro!: andthen_cong)
qed simp

lemma expected_events_loop_foreign:
  assumes "\<And>e. e \<in> set es \<Longrightarrow> hm_get (job_events_by_id s) (e_id e) = Some e \<and>
      submit_job_receipt_event_belongs_to_job s i e = Inr False"
  shows "expected_events_loop s i l (map e_id es) acc found = Inr (acc, found)"
  using assms by (induction es) auto

text \<open>An operation leaves a job alone: its record stays, and no event it appends belongs to it.\<close>

definition untouched :: "'x InMemoryInner \<Rightarrow> JobEvent list \<Rightarrow> 'x InMemoryInner \<Rightarrow> JobId \<Rightarrow> bool" where
  "untouched s es s' i \<longleftrightarrow>
     bt_get (jobs s') i = bt_get (jobs s) i \<and>
     (\<forall>e \<in> set es. submit_job_receipt_event_belongs_to_job s' i e = Inr False)"

lemma expected_events_kept:
  assumes inv: "ledger_inv ok s" and op: "op_ok ok s es s'" and u: "untouched s es s' (j_id (rc_job rc))"
    and x: "expected_submit_job_receipt_events s rc = Inr xs"
  shows "expected_submit_job_receipt_events s' rc = Inr xs"
proof -
  have g: "grows s s'" and log: "event_log s' = event_log s @ es" and inv': "ledger_inv ok s'"
    using op by (simp_all add: op_ok_def)
  note rep = ledger_invD(2) [OF inv] and rep' = ledger_invD(2) [OF inv']
  have "hm_get (job_events_by_id s') (e_id e) = Some e" if "e \<in> set es" for e
    using log_rep_get_id [OF rep', of "e_id e" e] log that by simp
  then have f: "expected_events_loop s' (j_id (rc_job rc)) l (map e_id es) acc found = Inr (acc, found)" for l acc found
    using u by (intro expected_events_loop_foreign) (simp add: untouched_def)
  have "keeps (expected_events_loop s (j_id (rc_job rc)) l (map e_id (event_log s)) [] False)
      (expected_events_loop s' (j_id (rc_job rc)) l (map e_id (event_log s')) [] False)" for l
    using expected_events_loop_grows [OF g, of "j_id (rc_job rc)" l "map e_id (event_log s)" "[]" False]
    by (auto simp: keeps_def log expected_events_loop_append f)
  then have "keeps (expected_submit_job_receipt_events s rc) (expected_submit_job_receipt_events s' rc)"
    unfolding expected_submit_job_receipt_events_def Let_def log_rep_values [OF rep] log_rep_values [OF rep']
    by (intro keeps_andthen keeps_refl) (auto intro!: keeps_andthen keeps_refl)
  from this x show ?thesis by (rule keepsD)
qed

lemma receipt_tool_records_grows:
  assumes "grows s s'"
  shows "keeps (validate_receipt_tool_records s t r a) (validate_receipt_tool_records s' t r a)"
  unfolding validate_receipt_tool_records_def by (intro keeps_intros growsD [OF assms])

lemma receipt_lineage_grows:
  assumes "grows s s'"
  shows "keeps (validate_loaded_submit_job_receipt_lineage s rc) (validate_loaded_submit_job_receipt_lineage s' rc)"
  unfolding validate_loaded_submit_job_receipt_lineage_def validate_submit_job_receipt_event_lineage_def Let_def
  by (intro keeps_intros belongs_grows [OF assms])

lemma receipt_kept:
  assumes inv: "ledger_inv ok s" and op: "op_ok ok s es s'" and u: "untouched s es s' (j_id (rc_job rc))"
    and v: "validate_loaded_submit_job_receipt s rc = Inr ()"
  shows "validate_loaded_submit_job_receipt s' rc = Inr ()"
proof -
  have g: "grows s s'" using op by (simp add: op_ok_def)
  have "bt_get (jobs s') (j_id (rc_job rc)) = bt_get (jobs s) (j_id (rc_job rc))" using u by (simp add: untouched_def)
  moreover have "keeps (validate_loaded_submit_job_receipt_event_chain s rc) (validate_loaded_submit_job_receipt_event_chain s' rc)"
    unfolding validate_loaded_submit_job_receipt_event_chain_def
    using expected_events_kept [OF inv op u] by (intro keeps_andthen keeps_refl) (simp_all add: keeps_def)
  ultimately have "keeps (validate_loaded_submit_job_receipt s rc) (validate_loaded_submit_job_receipt s' rc)"
    unfolding validate_loaded_submit_job_receipt_def check_stored_event_def
    by (intro keeps_intros growsD [OF g] receipt_lineage_grows [OF g])
      (auto split: option.split intro!: keeps_refl receipt_tool_records_grows [OF g])
  from this v show ?thesis by (rule keepsD)
qed

section \<open>Ledgers that load\<close>

lemma receipt_record_receipts:
  assumes "validate_submit_job_idempotency_record s key r = Inr ()"
  shows "validate_submit_job_idempotency_record (s\<lparr>idempotent_submit_jobs := m\<rparr>) key r = Inr ()"
proof -
  define s' where "s' = s\<lparr>idempotent_submit_jobs := m\<rparr>"
  have g: "grows s s'" and same: "jobs s' = jobs s" "job_events_by_sequence s' = job_events_by_sequence s"
    by (auto simp: s'_def grows_def extends_def or_else_def opt_filter_def split: option.splits)
  have "keeps (validate_loaded_submit_job_receipt_event_chain s rc) (validate_loaded_submit_job_receipt_event_chain s' rc)" for rc
    unfolding validate_loaded_submit_job_receipt_event_chain_def expected_submit_job_receipt_events_def Let_def same
    by (intro keeps_intros expected_events_loop_grows [OF g]) (simp split: prod.split add: keeps_refl)
  then have "keeps (validate_submit_job_idempotency_record s key r) (validate_submit_job_idempotency_record s' key r)"
    unfolding validate_submit_job_idempotency_record_def validate_loaded_submit_job_receipt_def check_stored_event_def same
    by (intro keeps_intros growsD [OF g] receipt_lineage_grows [OF g])
      (auto split: option.split intro!: keeps_refl receipt_tool_records_grows [OF g])
  from this assms show ?thesis unfolding s'_def by (rule keepsD)
qed

text \<open>What an operation does to the receipts and to the registry.\<close>

definition receipts_from :: "('x \<Rightarrow> message + unit) \<Rightarrow> 'x InMemoryInner \<Rightarrow> 'x InMemoryInner \<Rightarrow> bool" where
  "receipts_from ext s s' \<longleftrightarrow>
     (\<forall>key r. hm_get (idempotent_submit_jobs s') key = Some r \<longrightarrow>
        hm_get (idempotent_submit_jobs s) key = Some r \<or> validate_submit_job_idempotency_record s' key r = Inr ()) \<and>
     (\<forall>key r. hm_get (idempotent_submit_jobs s) key = Some r \<longrightarrow> hm_get (idempotent_submit_jobs s') key = Some r) \<and>
     (extension_registry_snapshot s' = extension_registry_snapshot s \<or> ext (extension_registry_snapshot s') = Inr ())"

definition quiet :: "'x InMemoryInner \<Rightarrow> 'x InMemoryInner \<Rightarrow> bool" where
  "quiet s s' \<longleftrightarrow>
     idempotent_submit_jobs s' = idempotent_submit_jobs s \<and>
     extension_registry_snapshot s' = extension_registry_snapshot s"

lemma quiet_trans: "quiet s s' \<Longrightarrow> quiet s' s'' \<Longrightarrow> quiet s s''"
  by (simp add: quiet_def)

lemma receipts_from_quiet: "quiet s s' \<Longrightarrow> receipts_from ext s s'"
  by (simp add: receipts_from_def quiet_def)

lemma quiet_append: "append_event_locked e s = Inr (e', s') \<Longrightarrow> quiet s s'"
  by (simp add: quiet_def append_event_locked_frame(9,10))

lemma quiet_put_job [simp]: "quiet s (put_job j s') = quiet s s'"
  by (simp add: quiet_def put_job_def)

lemma insert_receipt_from:
  assumes "insert_submit_job_idempotency_locked s1 key r = Inr s'" "quiet s s1"
  shows "receipts_from ext s s'"
  using assms receipt_record_receipts [of s1 key r]
  by (auto simp: insert_submit_job_idempotency_locked_def receipts_from_def quiet_def split: option.splits if_splits)

lemma quiet_write_tool_result:
  assumes "write_tool_result_and_audit j r e1 a e2 s = Inr (x, s')"
  shows "quiet s s'"
proof -
  from assms obtain e1' e2' sb sd where
    ab: "append_event_locked e1 (s\<lparr>tool_results := hm_insert (r_id r) r (tool_results s)\<rparr>) = Inr (e1', sb)"
    and ad: "append_event_locked e2 ((put_job (j\<lparr>j_latest_event_id := Some (e_id e1')\<rparr>) sb)
        \<lparr>audit_records := hm_insert (a_id a) a (audit_records sb)\<rparr>) = Inr (e2', sd)"
    and s': "s' = put_job (j\<lparr>j_latest_event_id := Some (e_id e2')\<rparr>) sd"
    unfolding write_tool_result_and_audit_def by (auto simp: Let_def put_job_def)
  from quiet_append [OF ad] quiet_append [OF ab] show ?thesis
    by (simp add: s' quiet_def put_job_def)
qed

lemma quiet_migration_ops:
  "create_schema_migration m s = Inr (u, s') \<Longrightarrow> quiet s s'"
  "acquire_schema_migration_lock uuid leader safe n t s = Inr (x, s') \<Longrightarrow> quiet s s'"
  "get_schema_migration_lock t s = Inr (y, s') \<Longrightarrow> quiet s s'"
  "release_schema_migration_lock i leader t s = Inr (z, s') \<Longrightarrow> quiet s s'"
proof -
  have e: "quiet s ((expire_schema_migration_locks t s)\<lparr>schema_migrations := ms\<rparr>)"
    "quiet s (expire_schema_migration_locks t s)" for t ms
    by (simp_all add: expire_schema_migration_locks_def quiet_def)
  show "create_schema_migration m s = Inr (u, s') \<Longrightarrow> quiet s s'"
    by (auto simp: create_schema_migration_eq_Inr Let_def e)
  show "acquire_schema_migration_lock uuid leader safe n t s = Inr (x, s') \<Longrightarrow> quiet s s'"
    by (auto simp: acquire_eq_Inr e)
  show "get_schema_migration_lock t s = Inr (y, s') \<Longrightarrow> quiet s s'"
    by (auto simp: get_schema_migration_lock_def Let_def e)
  assume r: "release_schema_migration_lock i leader t s = Inr (z, s')"
  obtain m0 k where "hm_get (schema_migrations (expire_schema_migration_locks t s)) i = Some m0"
    "m_migration_lock m0 = Some k" using release_Inr_lock [OF r] .
  with r show "quiet s s'" by (auto simp: release_eq_Inr e split: if_splits)
qed

lemma quiet_update_twice:
  assumes "append_job_events_and_update_job ok j1 e1 j2 e2 s = Inr (r, s')"
  shows "quiet s s'"
proof -
  obtain a sa b sb j where "append_event_locked e1 s = Inr (a, sa)" "append_event_locked e2 sa = Inr (b, sb)"
    "s' = put_job j sb" using assms by (auto simp: append_job_events_and_update_job_def Let_def)
  then show ?thesis using quiet_append quiet_trans by (metis quiet_put_job)
qed

lemma receipt_ops:
  "append_job_event_and_update_job_with_submit_job_idempotency ok j e key rc s = Inr (r, s') \<Longrightarrow> receipts_from ext s s'"
  "record_submit_job_idempotency key rc s = Inr (u, s') \<Longrightarrow> receipts_from ext s s'"
  "record_tool_result_audit_terminal_with_submit_job_idempotency ok q s = Inr (x, s') \<Longrightarrow> receipts_from ext s s'"
proof -
  assume "append_job_event_and_update_job_with_submit_job_idempotency ok j e key rc s = Inr (r, s')"
  then obtain e' s1 j' rc' where "append_event_locked e s = Inr (e', s1)"
    "insert_submit_job_idempotency_locked (put_job j' s1) key rc' = Inr s'"
    by (auto simp: append_job_event_and_update_job_with_submit_job_idempotency_def Let_def)
  then show "receipts_from ext s s'" using quiet_append insert_receipt_from by (metis quiet_put_job)
next
  assume "record_submit_job_idempotency key rc s = Inr (u, s')"
  then show "receipts_from ext s s'"
    using insert_receipt_from [of s key rc s' s] by (simp add: record_submit_job_idempotency_def quiet_def)
next
  assume c: "record_tool_result_audit_terminal_with_submit_job_idempotency ok q s = Inr (x, s')"
  from terminal_eq_Inr [OF c] obtain j r e1 a e2 e3 jf e1' e2' s1 e3' s2 where
    w: "write_tool_result_and_audit j r e1 a e2 s = Inr ((e1', e2'), s1)"
    and ap: "append_event_locked e3 s1 = Inr (e3', s2)"
    and fin: "case tq_idempotency q of None \<Rightarrow> s' = put_job (jf\<lparr>j_latest_event_id := Some (e_id e3')\<rparr>) s2
     | Some (key, rc) \<Rightarrow> insert_submit_job_idempotency_locked (put_job (jf\<lparr>j_latest_event_id := Some (e_id e3')\<rparr>) s2) key
         (commit_receipt e1' e2' e3' (jf\<lparr>j_latest_event_id := Some (e_id e3')\<rparr>) rc) = Inr s'"
    by metis
  have "quiet s s2" using quiet_trans [OF quiet_write_tool_result [OF w] quiet_append [OF ap]] .
  with fin show "receipts_from ext s s'"
    by (cases "tq_idempotency q") (auto intro: receipts_from_quiet insert_receipt_from)
qed

lemma apply_op_receipts:
  assumes c: "apply_op ok ext opr s = Inr (es, s')"
  shows "receipts_from ext s s'"
proof (cases opr)
  case (UpdateJobWithReceipt j e key rc)
  then show ?thesis using c receipt_ops(1) by auto
next
  case (RecordReceipt key rc)
  then show ?thesis using c receipt_ops(2) by auto
next
  case (RecordTerminal q)
  then show ?thesis using c receipt_ops(3) by auto
next
  case (UpdateJobTwice j1 e1 j2 e2)
  then show ?thesis using c by (auto intro: receipts_from_quiet quiet_update_twice)
next
  case (RecordToolResultAndAudit j r e1 a e2)
  then show ?thesis using c
    by (auto simp: record_tool_result_and_audit_with_events_def intro: receipts_from_quiet quiet_write_tool_result)
next
  case (SetExtensionRegistry x)
  then show ?thesis using c by (auto simp: set_extension_registry_snapshot_def receipts_from_def)
next
  case (UpdateJob j e)
  then show ?thesis using c
    by (auto simp: append_job_event_and_update_job_def intro!: receipts_from_quiet dest: quiet_append)
next
  case (CreateJob j e)
  then show ?thesis using c
    by (auto simp: create_job_with_initial_event_def Let_def quiet_def intro!: receipts_from_quiet)
qed (use c in \<open>auto simp: quiet_ops quiet_def intro!: receipts_from_quiet
  dest: quiet_migration_ops [unfolded quiet_def] quiet_append [unfolded quiet_def]\<close>)

text \<open>
  An operation is disciplined when a job it creates is well formed, and it leaves the jobs of
  stored receipts alone.
\<close>

definition disciplined :: "'x ledger_op \<Rightarrow> 'x InMemoryInner \<Rightarrow> JobEvent list \<Rightarrow> 'x InMemoryInner \<Rightarrow> bool" where
  "disciplined opr s es s' \<longleftrightarrow>
     (\<forall>j. creates_job opr = Some j \<longrightarrow> job_wf j) \<and>
     (\<forall>key r. hm_get (idempotent_submit_jobs s) key = Some r \<longrightarrow> untouched s es s' (j_id (rc_job (sj_receipt r))))"

definition reload_ready :: "('x \<Rightarrow> message + unit) \<Rightarrow> 'x InMemoryInner \<Rightarrow> bool" where
  "reload_ready ext s \<longleftrightarrow>
     (\<forall>i j. bt_get (jobs s) i = Some j \<longrightarrow> job_wf j) \<and>
     (\<forall>key r. hm_get (idempotent_submit_jobs s) key = Some r \<longrightarrow>
        validate_submit_job_idempotency_record s key r = Inr ()) \<and>
     ext (extension_registry_snapshot s) = Inr ()"

lemma reload_ready_loads:
  assumes "ledger_inv ok s" "length (event_log s) < u64_max" "reload_ready ext s"
  shows "validate_loaded_store ok ext s = Inr ()"
  using assms by (simp add: load_check_iff reload_ready_def job_wf_timeline)

lemma reload_ready_step:
  assumes inv: "ledger_inv ok s" and c: "apply_op ok ext opr s = Inr (es, s')"
    and d: "disciplined opr s es s'" and r: "reload_ready ext s"
  shows "reload_ready ext s'"
proof -
  note op = apply_op_ok [OF inv c]
  have "job_wf j'" if "bt_get (jobs s') i = Some j'" for i j'
    using that apply_op_jobs [OF inv c] d r moves_wf unfolding jobs_from_def disciplined_def reload_ready_def by metis
  moreover have "validate_submit_job_idempotency_record s' key rec = Inr ()"
    if k: "hm_get (idempotent_submit_jobs s') key = Some rec" for key rec
  proof (cases "hm_get (idempotent_submit_jobs s) key = Some rec")
    case True
    then have "validate_submit_job_idempotency_record s key rec = Inr ()"
      "untouched s es s' (j_id (rc_job (sj_receipt rec)))" using r d by (auto simp: reload_ready_def disciplined_def)
    then show ?thesis using receipt_kept [OF inv op] by (simp add: validate_submit_job_idempotency_record_def)
  next
    case False
    then show ?thesis using k apply_op_receipts [OF c] by (auto simp: receipts_from_def)
  qed
  moreover have "ext (extension_registry_snapshot s') = Inr ()"
    using apply_op_receipts [OF c] r by (auto simp: receipts_from_def reload_ready_def)
  ultimately show ?thesis by (simp add: reload_ready_def)
qed

inductive disciplined_steps ::
    "(string \<Rightarrow> bool) \<Rightarrow> ('x \<Rightarrow> message + unit) \<Rightarrow> 'x InMemoryInner \<Rightarrow> 'x InMemoryInner \<Rightarrow> bool"
  for ok ext where
  stay: "disciplined_steps ok ext s s"
| step: "disciplined_steps ok ext s s' \<Longrightarrow> apply_op ok ext opr s' = Inr (es, s'') \<Longrightarrow>
    disciplined opr s' es s'' \<Longrightarrow> disciplined_steps ok ext s s''"

lemma disciplined_ok:
  assumes "disciplined_steps ok ext s s'" "ledger_inv ok s" "reload_ready ext s"
  shows "ledger_inv ok s' \<and> reload_ready ext s'"
  using assms
proof (induction rule: disciplined_steps.induct)
  case (step s s' opr es s'')
  then have i: "ledger_inv ok s'" "reload_ready ext s'" by auto
  from apply_op_ok [OF i(1) step.hyps(2)] reload_ready_step [OF i(1) step.hyps(2,3) i(2)] show ?case
    by (simp add: op_ok_def)
qed simp

lemma reload_ready_default: "ext x = Inr () \<Longrightarrow> reload_ready ext (InMemoryInner_default x)"
  by (simp add: reload_ready_def InMemoryInner_default_def)

text \<open>A key that was bound to a receipt stays bound to it.\<close>

lemma steps_receipts:
  "ledger_steps ok ext s es s' \<Longrightarrow> hm_get (idempotent_submit_jobs s) key = Some r \<Longrightarrow>
     hm_get (idempotent_submit_jobs s') key = Some r"
  by (induction rule: ledger_steps.induct) (auto dest: apply_op_receipts simp: receipts_from_def)

end
