(* ===== verification/Scenario.thy ===== *)
theory Scenario
  imports StoreRun ReceiptLife "HOL-Library.Code_Target_Nat"
begin

text \<open>
  A concrete run of the store, for the witnesses of the properties: a repository is registered, a
  job is submitted and started. Ids carry a one-letter text where the code has a UUID.
\<close>

definition any_uuid :: "string \<Rightarrow> bool" where
  "any_uuid u \<longleftrightarrow> u \<noteq> []"

definition any_registry :: "unit \<Rightarrow> message + unit" where
  "any_registry x = Inr ()"

definition repo_a :: RepositoryRecord where
  "repo_a = RepositoryRecord_new ''a'' ''demo'' ''/srv/demo'' Trusted 10"

definition job_a :: JobRecord where
  "job_a = JobRecord_new ''a'' (Actor.User ''u'' None) (rp_id repo_a) JobKind.Read (Some ''look'') 20"

definition sample_event :: "string \<Rightarrow> LedgerTimestamp \<Rightarrow> JobEventKind \<Rightarrow> JobEvent" where
  "sample_event uuid t kind =
     \<lparr>e_id = opaque_new ''evt_'' uuid, e_schema_version = DOMAIN_SCHEMA_VERSION, e_sequence_number = 0,
      e_created_at = t, e_subject = EventSubject_job (j_id job_a), e_kind = kind, e_severity = Info,
      e_public_message = ''m'',
      e_refs = EventRefs_default\<lparr>rf_repository_id := Some (rp_id repo_a), rf_job_id := Some (j_id job_a)\<rparr>,
      e_redactions = []\<rparr>"

definition submitted_a :: JobEvent where
  "submitted_a = sample_event ''a'' 20 JobSubmitted"

definition started_a :: JobEvent where
  "started_a = sample_event ''b'' 30 (JobStatusChanged Queued Running)"

definition running_job_a :: JobRecord where
  "running_job_a = job_a\<lparr>j_status := Running, j_updated_at := 30, j_started_at := Some 30,
     j_latest_event_id := Some (e_id submitted_a)\<rparr>"

definition sample_ops :: "unit ledger_op list" where
  "sample_ops = [CreateRepository repo_a, CreateJob job_a submitted_a]"

definition start_op :: "unit ledger_op" where
  "start_op = UpdateJob running_job_a started_a"

text \<open>The ledger after \<open>sample_ops\<close>, and after the job was started.\<close>

definition ledger_a :: "unit InMemoryInner" where
  "ledger_a = snd (projr (run_ops any_uuid any_registry sample_ops (InMemoryInner_default ())))"

definition ledger_b :: "unit InMemoryInner" where
  "ledger_b = snd (projr (apply_op any_uuid any_registry start_op ledger_a))"

lemma run_sample:
  "run_ops any_uuid any_registry sample_ops (InMemoryInner_default ()) =
     Inr ([submitted_a\<lparr>e_sequence_number := 1\<rparr>], ledger_a)"
  by code_simp

lemma run_start:
  "apply_op any_uuid any_registry start_op ledger_a = Inr ([started_a\<lparr>e_sequence_number := 2\<rparr>], ledger_b)"
  by code_simp

lemma reachable_a: "reachable any_uuid any_registry ledger_a"
  using run_ops_reachable [OF run_sample] .

lemma reachable_b: "reachable any_uuid any_registry ledger_b"
  using reachable_step [OF reachable_a run_start] .

lemma log_a: "event_log ledger_a = [submitted_a\<lparr>e_sequence_number := 1\<rparr>]"
  by code_simp

lemma log_b: "event_log ledger_b = [submitted_a\<lparr>e_sequence_number := 1\<rparr>, started_a\<lparr>e_sequence_number := 2\<rparr>]"
  by code_simp

text \<open>A watch that reads the first ledger twice and the second one from then on.\<close>

definition sample_history :: "nat \<Rightarrow> unit InMemoryInner" where
  "sample_history k = (if k < 2 then ledger_a else ledger_b)"

lemma sample_history_ok: "history any_uuid any_registry sample_history"
proof -
  have a: "ledger_steps any_uuid any_registry s [] s" for s :: "unit InMemoryInner" by (rule ledger_steps.stay)
  have b: "ledger_steps any_uuid any_registry ledger_a [started_a\<lparr>e_sequence_number := 2\<rparr>] ledger_b"
    using ledger_steps.step [OF a run_start] by simp
  have "\<exists>es. ledger_steps any_uuid any_registry (sample_history k) es (sample_history (Suc k))" for k
    using a b by (auto simp: sample_history_def)
  then show ?thesis using reachable_a by (simp add: history_def sample_history_def)
qed

lemma run_create: "\<exists>s. apply_op any_uuid any_registry (CreateRepository repo_a) (InMemoryInner_default ()) = Inr ([], s) \<and>
    apply_op any_uuid any_registry (CreateJob job_a submitted_a) s = Inr ([submitted_a\<lparr>e_sequence_number := 1\<rparr>], ledger_a) \<and>
    idempotent_submit_jobs s = []"
  by (intro exI [of _ "snd (projr (apply_op any_uuid any_registry (CreateRepository repo_a) (InMemoryInner_default ())))"] conjI;
    code_simp)

lemma disciplined_b: "disciplined_steps any_uuid any_registry (InMemoryInner_default ()) ledger_b"
proof -
  obtain s where s: "apply_op any_uuid any_registry (CreateRepository repo_a) (InMemoryInner_default ()) = Inr ([], s)"
    "apply_op any_uuid any_registry (CreateJob job_a submitted_a) s = Inr ([submitted_a\<lparr>e_sequence_number := 1\<rparr>], ledger_a)"
    "idempotent_submit_jobs s = []" using run_create by blast
  have e: "idempotent_submit_jobs ledger_a = []" by code_simp
  have w: "job_wf (job_a\<lparr>j_latest_event_id := Some (e_id submitted_a)\<rparr>)" by code_simp
  show ?thesis
    by (rule disciplined_steps.step [OF disciplined_steps.step [OF disciplined_steps.step [OF disciplined_steps.stay s(1)] s(2)]
          run_start])
      (simp_all add: disciplined_def InMemoryInner_default_def s(3) e w start_op_def)
qed

section \<open>A durable store\<close>

text \<open>
  A store whose codec names the two ledgers by the number of their events, on a file system where
  nothing fails.
\<close>

definition sample_encode :: "unit DurableStoreSnapshot \<Rightarrow> string + string" where
  "sample_encode snap = Inr (show_nat (length (event_log (ds_inner snap))))"

definition sample_decode :: "string \<Rightarrow> string + unit DurableStoreSnapshot" where
  "sample_decode raw =
     (if raw = ''1'' then Inr (snapshot_v2 ledger_a)
      else if raw = ''2'' then Inr (snapshot_v2 ledger_b)
      else Inl ''no snapshot'')"

definition sample_env :: "unit store_env" where
  "sample_env =
     \<lparr>env_pid = 7, env_encode = sample_encode, env_decode = sample_decode, env_uuid_ok = any_uuid,
      env_validate_ext = any_registry, env_repair_ext = (\<lambda>x. (x, False)), env_default_ext = ()\<rparr>"

definition no_failures :: io_env where
  "no_failures = \<lparr>io_fail = (\<lambda>_. None), io_written = 0, io_counter = 1\<rparr>"

definition full_disk :: io_env where
  "full_disk = no_failures\<lparr>io_fail := (\<lambda>c. if c = WriteAll then Some (OsError ''no space'') else None)\<rparr>"

definition sample_path :: file_path where
  "sample_path = (''/var'', DURABLE_STORE_FILE_NAME)"

definition sample_files :: files where
  "sample_files = [(sample_path, ''1'')]"

definition store_a :: "unit InMemoryStore" where
  "store_a = opened_store sample_path sample_files ledger_a"

definition store_b :: "unit InMemoryStore" where
  "store_b = fst (run_op sample_env no_failures start_op store_a)"

lemma loadable_a: "loadable sample_env ledger_a"
  unfolding loadable_def by (rule conjI; code_simp)

lemma loadable_b: "loadable sample_env ledger_b"
  unfolding loadable_def by (rule conjI; code_simp)

lemma codec_b: "codec_at sample_env ledger_b"
proof -
  have "env_encode sample_env (snapshot_v2 ledger_b) = Inr ''2''" by code_simp
  then show ?thesis by (simp add: codec_at_def sample_env_def sample_decode_def)
qed

lemma run_store: "run_op sample_env no_failures start_op store_a = (store_b, Inr ())"
  by code_simp

lemma run_full_disk: "\<exists>st e. run_op sample_env full_disk start_op store_a = (st, Inl e)"
proof -
  have "isl (snd (run_op sample_env full_disk start_op store_a))" by code_simp
  then show ?thesis by (metis prod.collapse sum.collapse(1))
qed

lemma store_b_eq: "st_inner store_b = ledger_b" "st_durable_snapshot_path store_b = Some sample_path"
  "st_durable_snapshot_path store_a = Some sample_path"
  by code_simp+

lemma opened_a: "freshly_opened sample_env store_a"
  using reachable_inv [OF reachable_a]
  by (simp add: freshly_opened_def store_a_def opened_store_def sample_env_def)

end
