(* ===== verification/ScenarioReceipt.thy ===== *)
theory ScenarioReceipt
  imports Scenario
begin

text \<open>
  The sample run to its end: the policy decision is recorded and the job succeeds together with the
  receipt of its idempotent submission.
\<close>

definition policy_a :: PolicyDecision where
  "policy_a = evaluate ''a'' 21 (PolicyInput_new (Actor.User ''u'' None) (rp_id repo_a) ''fs.read''
     \<lparr>sc_kind = ''repository'', sc_value = ''.''\<rparr> ''read'' Trusted True DEFAULT_POLICY_VERSION)"

definition finished_a :: JobEvent where
  "finished_a = sample_event ''c'' 40 (JobStatusChanged Running JobStatus.Succeeded)"

definition finished_job_a :: JobRecord where
  "finished_job_a = running_job_a\<lparr>j_status := JobStatus.Succeeded, j_updated_at := 40, j_completed_at := Some 40,
     j_latest_event_id := Some (e_id started_a)\<rparr>"

definition receipt_a :: SubmitJobIdempotencyRecord where
  "receipt_a =
     \<lparr>sj_signature = ''sig'',
      sj_receipt = \<lparr>rc_job = finished_job_a, rc_policy_decision = policy_a, rc_tool_invocation = None,
        rc_tool_result = None, rc_rendered_output = None, rc_audit_record = None,
        rc_events = [submitted_a\<lparr>e_sequence_number := 1\<rparr>, started_a\<lparr>e_sequence_number := 2\<rparr>, finished_a]\<rparr>\<rparr>"

definition committed_receipt_a :: SubmitJobIdempotencyRecord where
  "committed_receipt_a =
     \<lparr>sj_signature = ''sig'',
      sj_receipt = \<lparr>rc_job = finished_job_a\<lparr>j_latest_event_id := Some (e_id finished_a)\<rparr>, rc_policy_decision = policy_a,
        rc_tool_invocation = None, rc_tool_result = None, rc_rendered_output = None, rc_audit_record = None,
        rc_events = [submitted_a\<lparr>e_sequence_number := 1\<rparr>, started_a\<lparr>e_sequence_number := 2\<rparr>,
          finished_a\<lparr>e_sequence_number := 3\<rparr>]\<rparr>\<rparr>"

definition finish_ops :: "unit ledger_op list" where
  "finish_ops = [CreatePolicyDecision policy_a, UpdateJobWithReceipt finished_job_a finished_a ''key'' receipt_a]"

definition ledger_c :: "unit InMemoryInner" where
  "ledger_c = snd (projr (run_ops any_uuid any_registry finish_ops ledger_b))"

lemma run_finish:
  "run_ops any_uuid any_registry finish_ops ledger_b = Inr ([finished_a\<lparr>e_sequence_number := 3\<rparr>], ledger_c)"
  by code_simp

lemma reachable_c: "reachable any_uuid any_registry ledger_c"
  using reachable_b ledger_steps_trans [OF run_ops_steps [OF run_finish]] unfolding reachable_def by blast

lemma receipt_c: "hm_get (idempotent_submit_jobs ledger_c) ''key'' = Some committed_receipt_a"
  by code_simp

end
