(* ===== verification/Paging.thy ===== *)
theory Paging
  imports Reads
begin

text \<open>
  Clients that page through a query: following the page tokens visits every selected record once
  and ends, for job queries and for event queries alike.
\<close>

section \<open>Following page tokens\<close>

text \<open>A client that follows the tokens, for at most \<open>fuel\<close> pages; \<open>None\<close> when it gave up.\<close>

fun walk :: "(string option \<Rightarrow> ('a list \<times> string option) StoreResult) \<Rightarrow> nat \<Rightarrow> string option
    \<Rightarrow> 'a list option StoreResult" where
  "walk page 0 token = Inr None"
| "walk page (Suc fuel) token =
     andthen (page token) (\<lambda>(xs, next).
     case next of
       None \<Rightarrow> Inr (Some xs)
     | Some _ \<Rightarrow> andthen (walk page fuel next) (\<lambda>rest. Inr (map_option (\<lambda>ys. xs @ ys) rest)))"

text \<open>What a paged query promises: pages of one list, addressed by the offset in the token.\<close>

locale paged_query =
  fixes page :: "string option \<Rightarrow> ('a list \<times> string option) StoreResult"
    and records :: "'a list" and page_size :: nat and collection :: string
  assumes page_eq: "page token = andthen (page_start token collection) (\<lambda>start. Inr (page_records records start page_size))"
begin

lemma walk_from:
  assumes "0 < page_size" "length records \<le> u64_max" "start \<le> length records"
    and "length records - start < fuel * page_size \<or> length records = start \<and> 0 < fuel"
    and "page_start token collection = Inr start"
  shows "walk page fuel token = Inr (Some (drop start records))"
  using assms
proof (induction fuel arbitrary: start token)
  case (Suc fuel)
  show ?case
  proof (cases "start + page_size < length records")
    case True
    let ?n = "start + page_size"
    have "page_start (Some (show_nat ?n)) collection = Inr ?n"
      using True Suc.prems(2) by (intro page_start_show) simp
    moreover have "length records - ?n < fuel * page_size" using Suc.prems(4) True by auto
    ultimately have "walk page fuel (Some (show_nat ?n)) = Inr (Some (drop ?n records))"
      using Suc.IH [of ?n] Suc.prems True by simp
    moreover have "take page_size (drop start records) @ drop ?n records = drop start records"
      by (metis append_take_drop_id drop_drop add.commute)
    ultimately show ?thesis using Suc.prems True by (simp add: page_eq [of token] page_records_eq)
  next
    case False
    then show ?thesis using Suc.prems by (simp add: page_eq [of token] page_records_eq)
  qed
qed auto

lemma walk_all:
  assumes "0 < page_size" "length records \<le> u64_max" "length records < fuel * page_size"
  shows "walk page fuel None = Inr (Some records)"
  using walk_from [of 0 fuel None] assms by (simp add: page_start_def)

end

section \<open>Job queries\<close>

definition job_page :: "'x InMemoryInner \<Rightarrow> JobQuery \<Rightarrow> string option \<Rightarrow> (JobRecord list \<times> string option) StoreResult" where
  "job_page s query token =
     andthen (query_jobs s (query\<lparr>jq_page_token := token\<rparr>)) (\<lambda>page. Inr (jp_jobs page, jp_next_page_token page))"

definition job_selected :: "JobQuery \<Rightarrow> JobRecord \<Rightarrow> bool" where
  "job_selected query job \<longleftrightarrow>
     (\<forall>r. jq_repository_id query = Some r \<longrightarrow> j_repository_id job = r) \<and>
     (\<forall>st. jq_status query = Some st \<longrightarrow> j_status job = st) \<and>
     (\<forall>a. jq_requester query = Some a \<longrightarrow> j_requester job = a)"

lemma option_filter: "(case a of None \<Rightarrow> True | Some v \<Rightarrow> x = v) \<longleftrightarrow> (\<forall>v. a = Some v \<longrightarrow> x = v)"
  by (cases a) auto

lemma query_jobs_filter:
  "filter (\<lambda>job. case jq_requester query of None \<Rightarrow> True | Some requester \<Rightarrow> j_requester job = requester)
     (filter (\<lambda>job. case jq_status query of None \<Rightarrow> True | Some status \<Rightarrow> j_status job = status)
     (filter (\<lambda>job. case jq_repository_id query of None \<Rightarrow> True
                   | Some repository_id \<Rightarrow> j_repository_id job = repository_id) xs)) =
   filter (job_selected query) xs"
  unfolding filter_filter option_filter job_selected_def by (rule arg_cong [of _ _ "\<lambda>P. filter P xs"]) auto

interpretation job_pages: paged_query "job_page s query" "filter (job_selected query) (list_jobs s)"
    "unwrap_or (jq_page_size query) usize_max" "''jobs''" for s query
proof
  fix token
  have "filter (job_selected (query\<lparr>jq_page_token := token\<rparr>)) xs = filter (job_selected query) xs" for xs
    by (simp add: job_selected_def [abs_def])
  then show "job_page s query token =
      andthen (page_start token ''jobs'') (\<lambda>start. Inr (page_records (filter (job_selected query) (list_jobs s)) start
        (unwrap_or (jq_page_size query) usize_max)))"
    unfolding job_page_def query_jobs_def query_jobs_filter Let_def
    by (cases "page_start token ''jobs''")
      (simp_all add: list_jobs_def list_records_btree_def split: prod.split)
qed

section \<open>Event queries\<close>

definition event_page :: "'x InMemoryInner \<Rightarrow> EventQuery \<Rightarrow> string option \<Rightarrow> (JobEvent list \<times> string option) StoreResult" where
  "event_page s query token =
     andthen (query_job_events s (query\<lparr>eq_page_token := token\<rparr>)) (\<lambda>page. Inr (ep_events page, ep_next_page_token page))"

lemma selected_token [simp]: "selected s (query\<lparr>eq_page_token := token\<rparr>) e = selected s query e"
  by (simp add: selected_def event_matches_query_def matches_event_query_def cong: option.case_cong)

lemma event_pages:
  assumes inv: "ledger_inv ok s" and c: "event_cursor_sequence s (eq_cursor query) = Inr n"
  shows "paged_query (event_page s query) (filter (selected s query) (drop n (event_log s)))
    (unwrap_or (eq_page_size query) usize_max) ''job_events''"
proof
  fix token
  let ?q = "query\<lparr>eq_page_token := token\<rparr>"
  have c': "event_cursor_sequence s (eq_cursor ?q) = Inr n" using c by simp
  have "filter (selected s ?q) xs = filter (selected s query) xs" for xs
    by (rule filter_cong) simp_all
  with collect_log [OF inv c'] resolve_cursor_total [OF c'] show "event_page s query token =
      andthen (page_start token ''job_events'') (\<lambda>start. Inr (page_records
        (filter (selected s query) (drop n (event_log s))) start (unwrap_or (eq_page_size query) usize_max)))"
    unfolding event_page_def query_job_events_def
    by (cases "page_start token ''job_events''") (simp_all split: prod.split)
qed

section \<open>The most recent records\<close>

text \<open>Taking the first \<open>n\<close> of the reversed sorted list: \<open>n\<close> records with the largest keys, largest first.\<close>

lemma top_n:
  fixes f :: "'a \<Rightarrow> 'k::linorder" and xs :: "'a list" and n :: nat
  defines "ys \<equiv> take n (rev (sort_key f xs))"
  shows "set ys \<subseteq> set xs" "length ys = min n (length xs)" "sorted_wrt (\<lambda>a b. f b \<le> f a) ys"
    "x \<in> set xs \<Longrightarrow> x \<notin> set ys \<Longrightarrow> y \<in> set ys \<Longrightarrow> f x \<le> f y"
proof -
  let ?zs = "rev (sort_key f xs)"
  have s: "sorted_wrt (\<lambda>a b. f b \<le> f a) ?zs"
    using sorted_sort_key [of f xs] by (simp add: sorted_wrt_rev sorted_map)
  show "set ys \<subseteq> set xs" unfolding ys_def using set_take_subset [of n ?zs] by simp
  show "length ys = min n (length xs)" by (simp add: ys_def min.commute)
  have split: "?zs = ys @ drop n ?zs" by (simp add: ys_def)
  from s have s': "sorted_wrt (\<lambda>a b. f b \<le> f a) (ys @ drop n ?zs)" using split by simp
  then show "sorted_wrt (\<lambda>a b. f b \<le> f a) ys" by (simp add: sorted_wrt_append)
  assume x: "x \<in> set xs" "x \<notin> set ys" and y: "y \<in> set ys"
  have "x \<in> set ?zs" using x by simp
  then have "x \<in> set (drop n ?zs)" using x(2) split by (metis Un_iff set_append)
  with s' y show "f x \<le> f y" by (simp add: sorted_wrt_append)
qed

end
