(* ===== verification/Text.thy ===== *)
theory Text
  imports Prelude
begin

text \<open>
  What the renderers use of \<open>str\<close> and \<open>String\<close>: character boundaries and characters of UTF-8
  text, joining, counting lines and the grammar of floating-point literals.
\<close>

section \<open>Characters\<close>

definition is_continuation :: "char \<Rightarrow> bool" where
  "is_continuation c \<longleftrightarrow> CHR 0x80 \<le> c \<and> c \<le> CHR 0xBF"

definition is_char_boundary :: "string \<Rightarrow> nat \<Rightarrow> bool" where
  "is_char_boundary s i \<longleftrightarrow> i = 0 \<or> i = length s \<or> i < length s \<and> \<not> is_continuation (s ! i)"

text \<open>\<open>chars()\<close>: the encodings of the characters, one after the other.\<close>

function chars :: "string \<Rightarrow> string list" where
  "chars [] = []"
| "chars (c # cs) = (c # takeWhile is_continuation cs) # chars (dropWhile is_continuation cs)"
  by pat_completeness auto
termination by (relation "measure length") (simp_all add: le_imp_less_Suc length_dropWhile_le)

lemma concat_chars [simp]: "concat (chars s) = s"
  by (induction s rule: chars.induct) simp_all

lemma chars_nonempty: "x \<in> set (chars s) \<Longrightarrow> x \<noteq> []"
  by (induction s rule: chars.induct) auto

text \<open>Text that starts a character, as every \<open>str\<close> does.\<close>

definition starts_char :: "string \<Rightarrow> bool" where
  "starts_char s \<longleftrightarrow> s = [] \<or> \<not> is_continuation (hd s)"

lemma starts_char_dropWhile [simp]: "starts_char (dropWhile is_continuation s)"
  using hd_dropWhile [of is_continuation s] by (auto simp: starts_char_def)

text \<open>Searching downwards for a boundary, as the truncation loops do.\<close>

fun floor_char_boundary :: "string \<Rightarrow> nat \<Rightarrow> nat" where
  "floor_char_boundary s 0 = 0"
| "floor_char_boundary s (Suc n) = (if is_char_boundary s (Suc n) then Suc n else floor_char_boundary s n)"

lemma floor_char_boundary_le: "floor_char_boundary s n \<le> n"
  by (induction n) auto

lemma floor_char_boundary_boundary: "is_char_boundary s (floor_char_boundary s n)"
  by (induction n) (auto simp: is_char_boundary_def)

lemma floor_char_boundary_greatest: "is_char_boundary s i \<Longrightarrow> i \<le> n \<Longrightarrow> i \<le> floor_char_boundary s n"
  by (induction n) (auto simp: le_Suc_eq)

text \<open>Boundaries are the ends of whole characters.\<close>

lemma boundary_chars:
  assumes "is_char_boundary s i" "i \<le> length s"
  shows "\<exists>k. take i s = concat (take k (chars s))"
  using assms
proof (induction s arbitrary: i rule: chars.induct)
  case (2 c cs)
  let ?t = "takeWhile is_continuation cs" and ?d = "dropWhile is_continuation cs"
  have cs: "cs = ?t @ ?d" by simp
  show ?case
  proof (cases "i = 0")
    case True
    then show ?thesis by (intro exI [of _ 0]) simp
  next
    case False
    have "length ?t < i"
    proof (rule ccontr)
      assume "\<not> length ?t < i"
      then have i: "i - 1 < length ?t \<and> i < length (c # cs)" using False cs
        by (metis One_nat_def Suc_pred length_Cons length_append less_Suc_eq_le neq0_conv not_less trans_le_add1 le_less_trans Suc_le_eq)
      then have "(c # cs) ! i \<in> set ?t"
        by (metis False cs gr0_conv_Suc diff_Suc_1 neq0_conv nth_Cons_Suc nth_append nth_mem)
      then have "is_continuation ((c # cs) ! i)" using set_takeWhileD by metis
      with 2(2) False i show False by (auto simp: is_char_boundary_def)
    qed
    define j where "j = i - Suc (length ?t)"
    have i: "i = Suc (length ?t) + j" using \<open>length ?t < i\<close> by (simp add: j_def)
    have len: "length (c # cs) = Suc (length ?t) + length ?d" by (metis cs length_Cons length_append add_Suc)
    have j: "j \<le> length ?d" using 2(3) i len by simp
    have nth: "(c # cs) ! i = ?d ! j" using i by (metis cs add_Suc nth_Cons_Suc nth_append_length_plus)
    have "is_char_boundary ?d j" using 2(2) i j len nth by (auto simp: is_char_boundary_def)
    from 2(1) [OF this j] obtain k where "take j ?d = concat (take k (chars ?d))" by blast
    then have "take i (c # cs) = concat (take (Suc k) (chars (c # cs)))"
      using i by (simp, metis cs append_same_eq take_append take_all_iff diff_add_inverse le_add1)
    then show ?thesis by blast
  qed
qed simp

lemma boundary_append:
  assumes "is_char_boundary d j" "starts_char d"
  shows "is_char_boundary (u @ d) (length u + j)"
  using assms by (cases "j = 0"; cases d) (auto simp: is_char_boundary_def starts_char_def nth_append)

lemma boundary_chars_length:
  assumes "starts_char s"
  shows "is_char_boundary s (length (concat (take k (chars s))))"
  using assms
proof (induction s arbitrary: k rule: chars.induct)
  case (2 c cs)
  let ?t = "takeWhile is_continuation cs" and ?d = "dropWhile is_continuation cs"
  show ?case
  proof (cases k)
    case 0
    then show ?thesis by (simp add: is_char_boundary_def)
  next
    case (Suc m)
    have "is_char_boundary ((c # ?t) @ ?d) (length (c # ?t) + length (concat (take m (chars ?d))))"
      using 2(1) by (intro boundary_append) simp_all
    with Suc show ?thesis by simp
  qed
qed (simp add: is_char_boundary_def)

section \<open>Joining and counting\<close>

fun join :: "string \<Rightarrow> string list \<Rightarrow> string" where
  "join sep [] = []"
| "join sep [x] = x"
| "join sep (x # y # ys) = x @ sep @ join sep (y # ys)"

lemma join_Cons: "join sep (x # xs) = (if xs = [] then x else x @ sep @ join sep xs)"
  by (cases xs) simp_all

lemma length_join:
  "xs \<noteq> [] \<Longrightarrow> length (join sep xs) = sum_list (map length xs) + (length xs - 1) * length sep"
  by (induction xs rule: join.induct) simp_all

definition newline :: char where
  "newline = CHR 0x0A"

text \<open>\<open>lines().count()\<close>: a final line without a terminator counts, an empty rest does not.\<close>

definition line_count :: "string \<Rightarrow> nat" where
  "line_count s =
     length (filter (\<lambda>c. c = newline) s) + (if s = [] \<or> last s = newline then 0 else 1)"

lemma line_count_join:
  assumes "\<And>x. x \<in> set xs \<Longrightarrow> newline \<notin> set x"
  shows "line_count (join [newline] xs) \<le> length xs"
proof -
  have "filter (\<lambda>c. c = newline) x = []" if "x \<in> set xs" for x
    using assms [OF that] by (auto simp: filter_empty_conv)
  then have "length (filter (\<lambda>c. c = newline) (join [newline] xs)) = length xs - 1"
  proof (induction xs)
    case (Cons x xs)
    then show ?case by (cases xs) (simp_all add: join_Cons)
  qed simp
  then show ?thesis by (cases xs) (auto simp: line_count_def)
qed

section \<open>Numbers as text\<close>

definition show_int :: "int \<Rightarrow> string" where
  "show_int i = (if i < 0 then CHR ''-'' # show_nat (nat (- i)) else show_nat (nat i))"

definition is_digits :: "string \<Rightarrow> bool" where
  "is_digits s \<longleftrightarrow> s \<noteq> [] \<and> list_all is_digit s"

definition strip_sign :: "string \<Rightarrow> string" where
  "strip_sign s = (case s of [] \<Rightarrow> [] | c # cs \<Rightarrow> if c \<in> {CHR ''+'', CHR ''-''} then cs else s)"

text \<open>\<open>str::parse::<i64>().is_ok()\<close>.\<close>

definition parses_i64 :: "string \<Rightarrow> bool" where
  "parses_i64 s \<longleftrightarrow>
     is_digits (strip_sign s) \<and>
     (let v = int (digits_val (strip_sign s)) in if hd s = CHR ''-'' then v \<le> i64_max + 1 else v \<le> i64_max)"

text \<open>
  \<open>str::parse::<f64>().is_ok()\<close>: an optional sign, then \<open>inf\<close>, \<open>infinity\<close> or \<open>nan\<close> in any case, or
  digits with at most one point (at least one digit) and an optional exponent.
\<close>

definition is_mantissa :: "string \<Rightarrow> bool" where
  "is_mantissa s \<longleftrightarrow>
     (let whole = takeWhile is_digit s; rest = dropWhile is_digit s in
      case rest of
        [] \<Rightarrow> whole \<noteq> []
      | p # fraction \<Rightarrow> p = CHR ''.'' \<and> list_all is_digit fraction \<and> (whole \<noteq> [] \<or> fraction \<noteq> []))"

definition is_exponent_mark :: "char \<Rightarrow> bool" where
  "is_exponent_mark c \<longleftrightarrow> c = CHR ''e'' \<or> c = CHR ''E''"

definition parses_f64 :: "string \<Rightarrow> bool" where
  "parses_f64 s \<longleftrightarrow>
     (let t = strip_sign s in
      to_ascii_lowercase t \<in> set [''inf'', ''infinity'', ''nan''] \<or>
      (let mantissa = takeWhile (\<lambda>c. \<not> is_exponent_mark c) t; exponent = dropWhile (\<lambda>c. \<not> is_exponent_mark c) t in
       is_mantissa mantissa \<and> (case exponent of [] \<Rightarrow> True | _ # e \<Rightarrow> is_digits (strip_sign e))))"

end
