(* ===== verification/ToolOutput.thy ===== *)
theory ToolOutput
  imports Ledger Text
begin

text \<open>
  Rendering of canonical tool results (\<open>tool_output.rs\<close>): the toon, text and JSON renderers, the
  field filter, the byte and line budgets and the quoting of values. The JSON text of a result
  comes from \<open>serde_json\<close> and is a parameter, pretty and compact.
\<close>

section \<open>Options and policies\<close>

definition TOOL_RESULT_SCHEMA_NAME :: string where
  "TOOL_RESULT_SCHEMA_NAME = ''tool_result''"

fun format_as_str :: "OutputFormat \<Rightarrow> string" where
  "format_as_str Toon = ''toon''"
| "format_as_str Json = ''json''"
| "format_as_str OutputFormat.Text = ''text''"

record RenderOptions =
  rn_format :: OutputFormat
  rn_include_policy :: bool
  rn_include_diagnostics :: bool
  rn_include_cost :: bool

definition RenderOptions_default :: RenderOptions where
  "RenderOptions_default =
     \<lparr>rn_format = Toon, rn_include_policy = False, rn_include_diagnostics = False, rn_include_cost = False\<rparr>"

definition RenderOptions_new :: "OutputFormat \<Rightarrow> RenderOptions" where
  "RenderOptions_new format = RenderOptions_default\<lparr>rn_format := format\<rparr>"

datatype OversizeOutputPolicy = TruncateWithMetadata | SpillToArtifactRef | RejectOversize

record ToolOutputRenderPolicy =
  pl_render_options :: RenderOptions
  pl_max_fields :: "nat option"
  pl_max_inline_lines :: "nat option"
  pl_max_inline_bytes :: "nat option"
  pl_oversize_policy :: OversizeOutputPolicy
  pl_include_evidence_refs :: bool
  pl_include_output_refs :: bool
  pl_include_redactions :: bool

definition from_render_options :: "RenderOptions \<Rightarrow> ToolOutputRenderPolicy" where
  "from_render_options render_options =
     \<lparr>pl_render_options = render_options, pl_max_fields = None, pl_max_inline_lines = None,
      pl_max_inline_bytes = None, pl_oversize_policy = TruncateWithMetadata,
      pl_include_evidence_refs = True, pl_include_output_refs = True, pl_include_redactions = True\<rparr>"

datatype ToolOutputRenderError =
    UnsupportedFormat OutputFormat
  | JsonSerialize string
  | OversizeOutput string

text \<open>\<open>serde_json::to_string_pretty\<close> and \<open>to_string\<close> of a result.\<close>

record json_codec =
  json_pretty :: "ToolResult \<Rightarrow> string + string"
  json_compact :: "ToolResult \<Rightarrow> string + string"

section \<open>Values\<close>

definition quote_mark :: char where
  "quote_mark = CHR 0x22"

definition backslash :: char where
  "backslash = CHR 0x5C"

text \<open>\<open>char::is_control\<close> on the encoding of a character, and its code point.\<close>

definition is_control :: "string \<Rightarrow> bool" where
  "is_control ch \<longleftrightarrow>
     (case ch of
        [b] \<Rightarrow> b < CHR 0x20 \<or> b = CHR 0x7F
      | [a, b] \<Rightarrow> a = CHR 0xC2 \<and> CHR 0x80 \<le> b \<and> b \<le> CHR 0x9F
      | _ \<Rightarrow> False)"

definition control_code :: "string \<Rightarrow> nat" where
  "control_code ch = of_char (last ch)"

definition hex_digit :: "nat \<Rightarrow> char" where
  "hex_digit d = (if d < 10 then char_of (48 + d) else char_of (87 + d))"

definition show_hex :: "nat \<Rightarrow> string" where
  "show_hex n = (if n < 16 then [hex_digit n] else [hex_digit (n div 16), hex_digit (n mod 16)])"

definition needs_quotes :: "string \<Rightarrow> bool" where
  "needs_quotes ch \<longleftrightarrow>
     is_control ch \<or> ch \<in> set white_space \<or>
     ch \<in> set [[CHR '',''], [CHR ''[''], [CHR '']''], [CHR ''{''], [CHR ''}''], [quote_mark], [CHR 0x27],
               [CHR ''#''], [CHR '':''], [backslash]]"

definition quote_char :: "string \<Rightarrow> string" where
  "quote_char ch =
     (if ch = [backslash] then [backslash, backslash]
      else if ch = [quote_mark] then [backslash, quote_mark]
      else if ch = [newline] then [backslash, CHR ''n'']
      else if ch = [CHR 0x0D] then [backslash, CHR ''r'']
      else if ch = [CHR 0x09] then [backslash, CHR ''t'']
      else if is_control ch then [backslash, CHR ''u'', CHR ''{''] @ show_hex (control_code ch) @ [CHR ''}'']
      else ch)"

definition quote_string :: "string \<Rightarrow> string" where
  "quote_string value = [quote_mark] @ concat (map quote_char (chars value)) @ [quote_mark]"

definition is_toon_literal :: "string \<Rightarrow> bool" where
  "is_toon_literal value \<longleftrightarrow>
     value \<in> set [''null'', ''true'', ''false''] \<or> parses_i64 value \<or> parses_f64 value"

definition render_toon_value :: "string \<Rightarrow> string" where
  "render_toon_value value =
     (if value = [] \<or> is_toon_literal value \<or> list_ex needs_quotes (chars value) then quote_string value
      else value)"

definition render_optional_string :: "string option \<Rightarrow> string" where
  "render_optional_string value = (case value of None \<Rightarrow> ''null'' | Some v \<Rightarrow> render_toon_value v)"

fun render_structured_value :: "StructuredValue \<Rightarrow> string" where
  "render_structured_value Null = ''null''"
| "render_structured_value (Bool b) = (if b then ''true'' else ''false'')"
| "render_structured_value (Integer i) = show_int i"
| "render_structured_value (String s) = render_toon_value s"
| "render_structured_value (StringList vs) = ''['' @ join '','' (map render_toon_value vs) @ '']''"

fun normalize_chars :: "string \<Rightarrow> string" where
  "normalize_chars [] = []"
| "normalize_chars [c] = [if c = CHR 0x0D \<or> c = newline then CHR '' '' else c]"
| "normalize_chars (c # d # ds) =
     (if c = CHR 0x0D then CHR '' '' # (if d = newline then normalize_chars ds else normalize_chars (d # ds))
      else (if c = newline then CHR '' '' else c) # normalize_chars (d # ds))"

definition normalize_text_output_value :: "string \<Rightarrow> string" where
  "normalize_text_output_value value =
     (if \<not> list_ex (\<lambda>c. c = CHR 0x0D \<or> c = newline) value then value else normalize_chars value)"

fun status_name :: "ToolResultStatus \<Rightarrow> string" where
  "status_name ToolResultStatus.Succeeded = ''succeeded''"
| "status_name ToolResultStatus.Failed = ''failed''"
| "status_name ToolResultStatus.Canceled = ''canceled''"
| "status_name TimedOut = ''timeout''"

definition schema_version :: "ToolResult \<Rightarrow> string" where
  "schema_version result = TOOL_RESULT_SCHEMA_NAME @ ''.v'' @ show_nat (r_schema_version result)"

fun field_summary :: "ToolResultField \<Rightarrow> string option" where
  "field_summary field =
     (if fd_key field = ''summary'' then (case fd_value field of String value \<Rightarrow> Some value | _ \<Rightarrow> None) else None)"

definition summary_field :: "ToolResult \<Rightarrow> string option" where
  "summary_field result =
     (case List.map_filter field_summary (r_fields result) of [] \<Rightarrow> None | value # _ \<Rightarrow> Some value)"

section \<open>Which fields are rendered\<close>

datatype OptionalFieldChannel = PolicyChannel | DiagnosticsChannel | CostChannel

definition optional_field_channel :: "string \<Rightarrow> OptionalFieldChannel option" where
  "optional_field_channel key =
     (let normalized = replace_chars [CHR ''-'', CHR ''.'', CHR '' ''] CHR ''_'' (to_ascii_lowercase (trim key)) in
      if normalized = ''policy'' \<or> prefix ''policy_'' normalized \<or>
         normalized \<in> set [''needs_approval'', ''blocked_reason''] then Some PolicyChannel
      else if normalized = ''diagnostic'' \<or> normalized = ''diagnostics'' \<or> prefix ''diagnostic_'' normalized \<or>
         prefix ''diagnostics_'' normalized \<or>
         normalized \<in> set [''retry_hint'', ''parser_failure''] then Some DiagnosticsChannel
      else if normalized = ''cost'' \<or> prefix ''cost_'' normalized \<or> suffix ''_tokens'' normalized \<or>
         normalized \<in> set [''duration_ms'', ''elapsed_ms''] then Some CostChannel
      else None)"

definition should_render_field :: "string \<Rightarrow> RenderOptions \<Rightarrow> bool" where
  "should_render_field key options =
     (case optional_field_channel key of
        Some PolicyChannel \<Rightarrow> rn_include_policy options
      | Some DiagnosticsChannel \<Rightarrow> rn_include_diagnostics options
      | Some CostChannel \<Rightarrow> rn_include_cost options
      | None \<Rightarrow> True)"

definition prioritize_renderable_fields :: "ToolResultField list \<Rightarrow> ToolResultField list" where
  "prioritize_renderable_fields flds = sort_key (\<lambda>field. fd_key field \<noteq> ''summary'') flds"

section \<open>The byte budget\<close>

definition max_inline_bytes_as_usize :: "nat \<Rightarrow> nat" where
  "max_inline_bytes_as_usize n = (if n \<le> u64_max then n else u64_max)"

definition joined_len :: "string list \<Rightarrow> nat" where
  "joined_len values = (if values = [] then 0 else sum_list (map length values) + (length values - 1))"

definition oversized_field_bytes :: "ToolResultField \<Rightarrow> nat \<Rightarrow> nat option" where
  "oversized_field_bytes field max_inline_bytes =
     (case (case fd_value field of
              String value \<Rightarrow> Some (length value)
            | StringList values \<Rightarrow> Some (joined_len values)
            | _ \<Rightarrow> None) of
        None \<Rightarrow> None
      | Some bytes \<Rightarrow> if bytes > max_inline_bytes then Some bytes else None)"

definition truncate_string_value :: "string \<Rightarrow> nat \<Rightarrow> string option" where
  "truncate_string_value value max_inline_bytes =
     (if length value \<le> max_inline_bytes then None
      else Some (take (floor_char_boundary value max_inline_bytes) value))"

fun truncate_list_loop :: "nat \<Rightarrow> string list \<Rightarrow> string list \<Rightarrow> nat \<Rightarrow> string list \<times> nat" where
  "truncate_list_loop max_inline_bytes [] kept kept_bytes = (kept, kept_bytes)"
| "truncate_list_loop max_inline_bytes (value # values) kept kept_bytes =
     (let separator = (if kept = [] then 0 else 1);
          remaining = max_inline_bytes - saturating_add kept_bytes separator
      in if remaining = 0 then (kept, kept_bytes)
         else
           let truncated = (case truncate_string_value value remaining of None \<Rightarrow> value | Some t \<Rightarrow> t)
           in if truncated = [] then truncate_list_loop max_inline_bytes values kept kept_bytes
              else truncate_list_loop max_inline_bytes values (kept @ [truncated])
                     (saturating_add kept_bytes (separator + length truncated)))"

definition truncate_string_list :: "string list \<Rightarrow> nat \<Rightarrow> string list \<times> nat" where
  "truncate_string_list values max_inline_bytes = truncate_list_loop max_inline_bytes values [] 0"

text \<open>What the loop over the fields does to one oversized field, and the bytes it keeps.\<close>

definition truncate_field :: "nat \<Rightarrow> ToolResultField \<Rightarrow> ToolResultField \<times> nat" where
  "truncate_field max_inline_bytes field =
     (case fd_value field of
        String value \<Rightarrow>
          (case truncate_string_value value max_inline_bytes of
             Some truncated \<Rightarrow> (field\<lparr>fd_value := String truncated\<rparr>, length truncated)
           | None \<Rightarrow> (field, 0))
      | StringList values \<Rightarrow>
          (let (truncated, retained) = truncate_string_list values max_inline_bytes
           in (field\<lparr>fd_value := StringList truncated\<rparr>, retained))
      | _ \<Rightarrow> (field, 0))"

fun budget_loop ::
    "nat \<Rightarrow> ToolResultField list \<Rightarrow> ToolResultField list \<Rightarrow> nat \<Rightarrow> nat \<Rightarrow> nat
     \<Rightarrow> ToolResultField list \<times> nat \<times> nat \<times> nat" where
  "budget_loop max_inline_bytes [] done omitted original retained = (done, omitted, original, retained)"
| "budget_loop max_inline_bytes (field # flds) done omitted original retained =
     (case oversized_field_bytes field max_inline_bytes of
        None \<Rightarrow> budget_loop max_inline_bytes flds (done @ [field]) omitted original retained
      | Some bytes \<Rightarrow>
          (let (field', kept) = truncate_field max_inline_bytes field
           in budget_loop max_inline_bytes flds (done @ [field']) (omitted + 1)
                (saturating_add original bytes) (saturating_add retained kept)))"

definition oversized_details :: "(string \<times> nat) list \<Rightarrow> string" where
  "oversized_details flds =
     join '', '' (map (\<lambda>(key, size). key @ '' ('' @ show_nat size @ '' bytes)'') flds)"

definition oversized_fields :: "nat \<Rightarrow> ToolResultField list \<Rightarrow> (string \<times> nat) list" where
  "oversized_fields max_inline_bytes flds =
     List.map_filter (\<lambda>field. map_option (\<lambda>bytes. (fd_key field, bytes)) (oversized_field_bytes field max_inline_bytes)) flds"

definition apply_render_byte_budget ::
    "ToolResult \<Rightarrow> nat \<Rightarrow> OversizeOutputPolicy \<Rightarrow> ToolOutputRenderError + ToolResult \<times> string option" where
  "apply_render_byte_budget result max_bytes oversize_policy =
     (let max_inline_bytes = max_inline_bytes_as_usize max_bytes;
          oversized = oversized_fields max_inline_bytes (r_fields result);
          details = oversized_details oversized;
          limit = show_nat max_inline_bytes
      in
      if oversized = [] then Inr (result, None)
      else if oversize_policy = RejectOversize then
        Inl (OversizeOutput (''tool output field(s) exceed max_inline_bytes='' @ limit @
          '' with configured policy reject_oversize: '' @ details))
      else
        let (flds, omitted, original, retained) = budget_loop max_inline_bytes (r_fields result) [] 0 0 0
        in if omitted = 0 then Inr (result\<lparr>r_fields := flds\<rparr>, None)
           else
             let rendered = \<lparr>tm_original_bytes = original, tm_retained_bytes = retained,
                   tm_reason = ''rendering truncated oversized tool output to max_inline_bytes='' @ limit\<rparr>;
                 truncation = (case r_truncation result of
                     Some existing \<Rightarrow>
                       \<lparr>tm_original_bytes = saturating_add (tm_original_bytes existing) original,
                        tm_retained_bytes = saturating_add (tm_retained_bytes existing) retained,
                        tm_reason = tm_reason existing @ ''; '' @ tm_reason rendered\<rparr>
                   | None \<Rightarrow> rendered)
             in Inr (result\<lparr>r_fields := flds, r_truncation := Some truncation\<rparr>,
                     Some (''rendering truncated oversized output to max_inline_bytes='' @ limit @
                       ''; omitted fields='' @ show_nat omitted @ '', details='' @ details)))"

section \<open>The rendered part of a result\<close>

definition combine_fallback_reasons :: "string option \<Rightarrow> string option \<Rightarrow> string option" where
  "combine_fallback_reasons policy_reason truncation_reason =
     (case (policy_reason, truncation_reason) of
        (None, None) \<Rightarrow> None
      | (Some reason, None) \<Rightarrow> Some reason
      | (None, Some reason) \<Rightarrow> Some reason
      | (Some a, Some b) \<Rightarrow> Some (a @ ''; '' @ b))"

definition renderable_result ::
    "ToolResult \<Rightarrow> ToolOutputRenderPolicy \<Rightarrow> ToolOutputRenderError + ToolResult \<times> string option" where
  "renderable_result result policy =
     (let shown = filter (\<lambda>field. should_render_field (fd_key field) (pl_render_options policy)) (r_fields result);
          flds = (case pl_max_fields policy of
              Some max_fields \<Rightarrow> take max_fields (prioritize_renderable_fields shown)
            | None \<Rightarrow> shown);
          result1 = result\<lparr>r_fields := flds,
            r_evidence_refs := (if pl_include_evidence_refs policy then r_evidence_refs result else []),
            r_output_refs := (if pl_include_output_refs policy then r_output_refs result else []),
            r_redactions := (if pl_include_redactions policy then r_redactions result else [])\<rparr>
      in case pl_max_inline_bytes policy of
           None \<Rightarrow> Inr (result1, None)
         | Some max_inline_bytes \<Rightarrow>
             andthen (apply_render_byte_budget result1 max_inline_bytes (pl_oversize_policy policy))
               (\<lambda>(result2, byte_budget_reason).
             Inr (result2, combine_fallback_reasons None byte_budget_reason)))"

definition render_policy_fallback_reason :: "ToolResult \<Rightarrow> ToolResult \<Rightarrow> string option" where
  "render_policy_fallback_reason original rendered =
     (let omitted_fields = length (r_fields original) - length (r_fields rendered);
          omitted_evidence_refs = length (r_evidence_refs original) - length (r_evidence_refs rendered);
          omitted_output_refs = length (r_output_refs original) - length (r_output_refs rendered);
          omitted_redactions = length (r_redactions original) - length (r_redactions rendered)
      in
      if omitted_fields > 0 \<or> omitted_evidence_refs > 0 \<or> omitted_output_refs > 0 \<or> omitted_redactions > 0
      then Some (''render policy compacted output; omitted fields='' @ show_nat omitted_fields @
             '', evidence_refs='' @ show_nat omitted_evidence_refs @ '', output_refs='' @ show_nat omitted_output_refs @
             '', redactions='' @ show_nat omitted_redactions)
      else None)"

section \<open>Toon\<close>

record ToonSection =
  ts_label :: string
  ts_count :: nat
  ts_lines :: "string list"

definition build_fields_section :: "ToolResultField list \<Rightarrow> string list" where
  "build_fields_section flds =
     (if flds = [] then []
      else (''fields['' @ show_nat (length flds) @ '']{key,value}'') #
        map (\<lambda>field. ''  '' @ render_toon_value (fd_key field) @ '','' @ render_structured_value (fd_value field)) flds)"

definition build_artifact_refs_section :: "string \<Rightarrow> ArtifactRef list \<Rightarrow> string list" where
  "build_artifact_refs_section label refs =
     (if refs = [] then []
      else (label @ ''['' @ show_nat (length refs) @ '']{id,uri,media_type,label,digest}'') #
        map (\<lambda>r. ''  '' @ as_str (ar_id r) @ '','' @ render_toon_value (ar_uri r) @ '','' @
               render_toon_value (ar_media_type r) @ '','' @ render_optional_string (ar_label r) @ '','' @
               render_optional_string (ar_digest r)) refs)"

definition build_output_refs_section :: "OutputRef list \<Rightarrow> string list" where
  "build_output_refs_section refs =
     (if refs = [] then []
      else (''output_refs['' @ show_nat (length refs) @ '']{id,uri,media_type,label,digest}'') #
        map (\<lambda>r. ''  '' @ as_str (or_id r) @ '','' @ render_toon_value (or_uri r) @ '','' @
               render_toon_value (or_media_type r) @ '','' @ render_optional_string (or_label r) @ '','' @
               render_optional_string (or_digest r)) refs)"

definition build_truncation_section :: "TruncationMetadata \<Rightarrow> string list" where
  "build_truncation_section truncation =
     [''truncation'', ''  truncated true'',
      ''  original_bytes '' @ show_nat (tm_original_bytes truncation),
      ''  retained_bytes '' @ show_nat (tm_retained_bytes truncation),
      ''  reason '' @ render_toon_value (tm_reason truncation)]"

definition build_redactions_section :: "RedactionMarker list \<Rightarrow> string list" where
  "build_redactions_section redactions =
     (if redactions = [] then []
      else (''redactions['' @ show_nat (length redactions) @ '']{field_path,reason,redacted_at_ms}'') #
        map (\<lambda>m. ''  '' @ render_toon_value (rd_field_path m) @ '','' @ render_toon_value (rd_reason m) @ '','' @
               show_int (rd_redacted_at m)) redactions)"

definition toon_sections :: "ToolResult \<Rightarrow> ToonSection list" where
  "toon_sections result =
     [\<lparr>ts_label = ''fields'', ts_count = length (r_fields result), ts_lines = build_fields_section (r_fields result)\<rparr>,
      \<lparr>ts_label = ''evidence_refs'', ts_count = length (r_evidence_refs result),
       ts_lines = build_artifact_refs_section ''evidence_refs'' (r_evidence_refs result)\<rparr>,
      \<lparr>ts_label = ''output_refs'', ts_count = length (r_output_refs result),
       ts_lines = build_output_refs_section (r_output_refs result)\<rparr>] @
     (case r_truncation result of
        None \<Rightarrow> []
      | Some truncation \<Rightarrow>
          [\<lparr>ts_label = ''truncation'', ts_count = 1, ts_lines = build_truncation_section truncation\<rparr>]) @
     [\<lparr>ts_label = ''redactions'', ts_count = length (r_redactions result),
       ts_lines = build_redactions_section (r_redactions result)\<rparr>]"

definition section_count :: "string \<Rightarrow> ToonSection list \<Rightarrow> nat" where
  "section_count label sections = sum_list (map ts_count (filter (\<lambda>section. ts_label section = label) sections))"

definition format_omitted_section_counts :: "ToonSection list \<Rightarrow> string" where
  "format_omitted_section_counts sections =
     ''fields='' @ show_nat (section_count ''fields'' sections) @
     '', evidence_refs='' @ show_nat (section_count ''evidence_refs'' sections) @
     '', output_refs='' @ show_nat (section_count ''output_refs'' sections) @
     '', truncation='' @ show_nat (section_count ''truncation'' sections) @
     '', redactions='' @ show_nat (section_count ''redactions'' sections)"

definition rendering_truncation_reason ::
    "ToonSection list \<Rightarrow> nat option \<Rightarrow> string \<Rightarrow> nat option \<Rightarrow> string" where
  "rendering_truncation_reason omitted_sections max_inline_lines omitted_section prelude_lines_omitted =
     ''toon rendering truncated to max_inline_lines='' @
     (case max_inline_lines of None \<Rightarrow> ''unbounded'' | Some n \<Rightarrow> show_nat n) @ '' before '' @ omitted_section @
     (case prelude_lines_omitted of None \<Rightarrow> [] | Some n \<Rightarrow> ''; prelude_lines_omitted='' @ show_nat n) @
     ''; omitted '' @ format_omitted_section_counts omitted_sections"

definition build_rendering_truncation_notice :: "string \<Rightarrow> nat \<Rightarrow> string list" where
  "build_rendering_truncation_notice reason remaining_lines =
     (if remaining_lines \<le> 1 then
        [''rendering_truncated true; rendering_truncation_reason '' @ render_toon_value reason]
      else
        [''rendering_truncated true'', ''rendering_truncation_reason '' @ render_toon_value reason])"

text \<open>The loop over the sections: lines so far, and the reason once a section does not fit.\<close>

fun section_loop :: "nat option \<Rightarrow> ToonSection list \<Rightarrow> string list \<Rightarrow> string list \<times> string option" where
  "section_loop max_inline_lines [] lines = (lines, None)"
| "section_loop max_inline_lines (section # sections) lines =
     (if ts_lines section = [] then section_loop max_inline_lines sections lines
      else if (case max_inline_lines of None \<Rightarrow> False | Some n \<Rightarrow> length lines + length (ts_lines section) > n) then
        (lines, Some (rendering_truncation_reason (section # sections) max_inline_lines (ts_label section) None))
      else section_loop max_inline_lines sections (lines @ ts_lines section))"

definition toon_prelude :: "ToolResult \<Rightarrow> string option \<Rightarrow> string list" where
  "toon_prelude result fallback_reason =
     [''status '' @ status_name (r_status result), ''schema_version '' @ schema_version result,
      ''format '' @ format_as_str Toon] @
     (case fallback_reason of
        None \<Rightarrow> []
      | Some reason \<Rightarrow>
          [''requested_format '' @ render_toon_value (format_as_str Json),
           ''format_fallback_reason '' @ render_toon_value reason]) @
     [''tool_id '' @ render_toon_value (r_tool_id result), ''result_id '' @ as_str (r_id result),
      ''invocation_id '' @ as_str (r_invocation_id result)] @
     (case r_schema_ref result of None \<Rightarrow> [] | Some ref \<Rightarrow> [''schema_ref '' @ render_toon_value ref])"

text \<open>The lines of the body, and why some were left out: a notice replaces the last lines kept.\<close>

definition toon_body :: "nat option \<Rightarrow> ToonSection list \<Rightarrow> string list \<Rightarrow> string list \<times> string option" where
  "toon_body max_lines sections prelude =
     (let (lines, truncation_reason) =
        (if (case max_lines of None \<Rightarrow> False | Some n \<Rightarrow> length prelude > n) then
           (prelude, Some (rendering_truncation_reason sections max_lines ''tool output prelude''
              (map_option (\<lambda>n. length prelude - n) max_lines)))
         else section_loop max_lines sections prelude)
      in case truncation_reason of
           Some reason \<Rightarrow>
             (let max_inline_lines = (case max_lines of None \<Rightarrow> u64_max | Some n \<Rightarrow> n);
                  remaining_lines = max_inline_lines - length lines;
                  notice_lines = build_rendering_truncation_notice reason remaining_lines
              in (take (max_inline_lines - length notice_lines) lines @ notice_lines, Some reason))
         | None \<Rightarrow> (lines, None))"

type_synonym rendering = "string \<times> string option \<times> TruncationMetadata option"

definition render_toon ::
    "ToolResult \<Rightarrow> ToolOutputRenderPolicy \<Rightarrow> string option \<Rightarrow> ToolOutputRenderError + rendering" where
  "render_toon result policy fallback_reason =
     andthen (renderable_result result policy) (\<lambda>(rendered_result, byte_reason).
     let truncation = r_truncation rendered_result;
         policy_fallback_reason = combine_fallback_reasons byte_reason
           (render_policy_fallback_reason result rendered_result);
         (lines, truncation_reason) = toon_body (pl_max_inline_lines policy) (toon_sections rendered_result)
           (toon_prelude rendered_result fallback_reason)
     in Inr (join [newline] lines,
             (case truncation_reason of
                Some reason \<Rightarrow> combine_fallback_reasons policy_fallback_reason (Some reason)
              | None \<Rightarrow> policy_fallback_reason),
             truncation))"

section \<open>Text and JSON\<close>

definition text_redaction :: "RedactionMarker \<Rightarrow> string" where
  "text_redaction m =
     normalize_text_output_value (rd_field_path m) @ '' ('' @ normalize_text_output_value (rd_reason m) @
     '', redacted_at_ms '' @ show_int (rd_redacted_at m) @ '')''"

definition text_parts :: "ToolResult \<Rightarrow> string list" where
  "text_parts result =
     [normalize_text_output_value (r_tool_id result) @ '' '' @ status_name (r_status result) @ '': '' @
        (case summary_field result of None \<Rightarrow> ''no summary'' | Some s \<Rightarrow> normalize_text_output_value s)] @
     (if r_fields result = [] then [] else [show_nat (length (r_fields result)) @ '' field(s)'']) @
     (if r_evidence_refs result = [] then [] else [show_nat (length (r_evidence_refs result)) @ '' evidence ref(s)'']) @
     (if r_output_refs result = [] then [] else [show_nat (length (r_output_refs result)) @ '' output ref(s)'']) @
     (case r_truncation result of
        None \<Rightarrow> []
      | Some t \<Rightarrow> [''truncated '' @ show_nat (tm_retained_bytes t) @ ''/'' @ show_nat (tm_original_bytes t) @
                    '' bytes: '' @ normalize_text_output_value (tm_reason t)]) @
     (if r_redactions result = [] then []
      else [show_nat (length (r_redactions result)) @ '' redaction(s): '' @ join '', '' (map text_redaction (r_redactions result))])"

definition render_text :: "ToolResult \<Rightarrow> ToolOutputRenderPolicy \<Rightarrow> ToolOutputRenderError + rendering" where
  "render_text result policy =
     andthen (renderable_result result policy) (\<lambda>(rendered_result, byte_reason).
     Inr (join ''; '' (text_parts rendered_result),
          combine_fallback_reasons byte_reason (render_policy_fallback_reason result rendered_result),
          r_truncation rendered_result))"

definition fits_lines :: "nat option \<Rightarrow> string \<Rightarrow> bool" where
  "fits_lines max_inline_lines body = (case max_inline_lines of None \<Rightarrow> True | Some n \<Rightarrow> line_count body \<le> n)"

definition truncate_json_rendering ::
    "json_codec \<Rightarrow> ToolResult \<Rightarrow> nat \<Rightarrow> ToolResult \<times> string option" where
  "truncate_json_rendering json result max_inline_lines =
     (let fits = (\<lambda>r. case json_compact json r of Inl _ \<Rightarrow> False | Inr body \<Rightarrow> line_count body \<le> max_inline_lines) in
      if fits result then (result, None)
      else
        let omitted_fields = length (r_fields result) - max_inline_lines;
            flds = take max_inline_lines (r_fields result);
            remaining = max_inline_lines - length flds;
            keep_evidence = min remaining (length (r_evidence_refs result));
            remaining1 = remaining - keep_evidence;
            keep_output = min remaining1 (length (r_output_refs result));
            remaining2 = remaining1 - keep_output;
            keep_redactions = min remaining2 (length (r_redactions result));
            omitted_evidence_refs = length (r_evidence_refs result) - keep_evidence;
            omitted_output_refs = length (r_output_refs result) - keep_output;
            omitted_redactions = length (r_redactions result) - keep_redactions;
            result' = result\<lparr>r_fields := flds, r_evidence_refs := take keep_evidence (r_evidence_refs result),
              r_output_refs := take keep_output (r_output_refs result),
              r_redactions := take keep_redactions (r_redactions result)\<rparr>
        in
        (result',
         if omitted_fields = 0 \<and> omitted_evidence_refs = 0 \<and> omitted_output_refs = 0 \<and> omitted_redactions = 0 \<or>
            fits result' then None
         else Some (''json rendering truncated to max_inline_lines='' @ show_nat max_inline_lines @
           ''; omitted fields='' @ show_nat omitted_fields @ '', evidence_refs='' @ show_nat omitted_evidence_refs @
           '', output_refs='' @ show_nat omitted_output_refs @ '', redactions='' @ show_nat omitted_redactions)))"

definition render_json ::
    "json_codec \<Rightarrow> ToolResult \<Rightarrow> ToolOutputRenderPolicy \<Rightarrow> ToolOutputRenderError + rendering" where
  "render_json json result policy =
     andthen (renderable_result result policy) (\<lambda>(rendered_result, byte_reason).
     let truncation = r_truncation rendered_result;
         policy_fallback_reason = combine_fallback_reasons byte_reason
           (render_policy_fallback_reason result rendered_result);
         max_lines = pl_max_inline_lines policy
     in
     andthen (map_err JsonSerialize (json_pretty json rendered_result)) (\<lambda>pretty_body.
     if fits_lines max_lines pretty_body then Inr (pretty_body, policy_fallback_reason, truncation)
     else
       let compact_fallback_reason = map_option (\<lambda>n.
             ''json rendering switched from pretty to compact to fit max_inline_lines='' @ show_nat n) max_lines
       in
       andthen (map_err JsonSerialize (json_compact json rendered_result)) (\<lambda>compact_body.
       if fits_lines max_lines compact_body
       then Inr (compact_body, combine_fallback_reasons policy_fallback_reason compact_fallback_reason, truncation)
       else
         let (result', reason) = (case max_lines of
               None \<Rightarrow> (rendered_result, None)
             | Some n \<Rightarrow> truncate_json_rendering json rendered_result n)
         in
         andthen (map_err JsonSerialize (json_compact json result')) (\<lambda>body.
         Inr (body,
              combine_fallback_reasons (combine_fallback_reasons policy_fallback_reason compact_fallback_reason) reason,
              truncation)))))"

section \<open>The renderer\<close>

definition rendered_output :: "ToolResult \<Rightarrow> OutputFormat \<Rightarrow> rendering \<Rightarrow> RenderedToolOutput" where
  "rendered_output result format r =
     (case r of (body, fallback_reason, truncation) \<Rightarrow>
        \<lparr>ro_format = format, ro_schema_version = schema_version result, ro_body = body,
         ro_fallback_reason = fallback_reason, ro_truncation = truncation\<rparr>)"

definition render_tool_result_with_policy ::
    "json_codec \<Rightarrow> ToolResult \<Rightarrow> ToolOutputRenderPolicy \<Rightarrow> ToolOutputRenderError + RenderedToolOutput" where
  "render_tool_result_with_policy json result policy =
     (case rn_format (pl_render_options policy) of
        Toon \<Rightarrow> andthen (render_toon result policy None) (\<lambda>r. Inr (rendered_output result Toon r))
      | OutputFormat.Text \<Rightarrow> andthen (render_text result policy) (\<lambda>r. Inr (rendered_output result OutputFormat.Text r))
      | Json \<Rightarrow> andthen (render_json json result policy) (\<lambda>r. Inr (rendered_output result Json r)))"

definition render_tool_result ::
    "json_codec \<Rightarrow> ToolResult \<Rightarrow> RenderOptions \<Rightarrow> ToolOutputRenderError + RenderedToolOutput" where
  "render_tool_result json result options =
     render_tool_result_with_policy json result (from_render_options options)"

end
