(* ===== verification/Settings.thy ===== *)
theory Settings
  imports ToolOutput
begin

text \<open>
  Tool output settings (\<open>settings.rs\<close>): layered defaults per scope, their updates with an audit
  record per change, the resolution chain, the migration of legacy records and the render policy
  that the resolved defaults give.
\<close>

section \<open>Bounds\<close>

definition TOOL_OUTPUT_SETTINGS_SCHEMA_VERSION :: nat where "TOOL_OUTPUT_SETTINGS_SCHEMA_VERSION = 1"
definition DEFAULT_MAX_INLINE_BYTES :: nat where "DEFAULT_MAX_INLINE_BYTES = 16 * 1024"
definition MIN_MAX_INLINE_BYTES :: nat where "MIN_MAX_INLINE_BYTES = 256"
definition MAX_MAX_INLINE_BYTES :: nat where "MAX_MAX_INLINE_BYTES = 1024 * 1024"
definition DEFAULT_MAX_INLINE_LINES :: nat where "DEFAULT_MAX_INLINE_LINES = 200"
definition MIN_MAX_INLINE_LINES :: nat where "MIN_MAX_INLINE_LINES = 1"
definition MAX_MAX_INLINE_LINES :: nat where "MAX_MAX_INLINE_LINES = 10000"

lemmas settings_bounds =
  DEFAULT_MAX_INLINE_BYTES_def MIN_MAX_INLINE_BYTES_def MAX_MAX_INLINE_BYTES_def
  DEFAULT_MAX_INLINE_LINES_def MIN_MAX_INLINE_LINES_def MAX_MAX_INLINE_LINES_def

section \<open>Scopes\<close>

text \<open>\<open>ProjectId(Uuid)\<close>, by the text of its uuid.\<close>

datatype ProjectId = ProjectId string

datatype ToolOutputSettingsLevel =
    WorkspaceLevel
  | RepositoryLevel RepositoryId
  | ProjectLevel ProjectId
  | SessionLevel string
  | AgentProfileLevel string

record ToolOutputSettingsScope =
  sl_level :: ToolOutputSettingsLevel
  sl_tool_id :: "string option"

definition workspace_scope :: ToolOutputSettingsScope where
  "workspace_scope = \<lparr>sl_level = WorkspaceLevel, sl_tool_id = None\<rparr>"

definition repository_scope :: "RepositoryId \<Rightarrow> ToolOutputSettingsScope" where
  "repository_scope repository_id = \<lparr>sl_level = RepositoryLevel repository_id, sl_tool_id = None\<rparr>"

definition project_scope :: "ProjectId \<Rightarrow> ToolOutputSettingsScope" where
  "project_scope project_id = \<lparr>sl_level = ProjectLevel project_id, sl_tool_id = None\<rparr>"

definition session_scope :: "string \<Rightarrow> ToolOutputSettingsScope" where
  "session_scope session_id = \<lparr>sl_level = SessionLevel session_id, sl_tool_id = None\<rparr>"

definition agent_profile_scope :: "string \<Rightarrow> ToolOutputSettingsScope" where
  "agent_profile_scope agent_id = \<lparr>sl_level = AgentProfileLevel agent_id, sl_tool_id = None\<rparr>"

definition for_tool :: "ToolOutputSettingsScope \<Rightarrow> string \<Rightarrow> ToolOutputSettingsScope" where
  "for_tool scope tool_id = scope\<lparr>sl_tool_id := Some tool_id\<rparr>"

definition push_unique :: "ToolOutputSettingsScope list \<Rightarrow> ToolOutputSettingsScope \<Rightarrow> ToolOutputSettingsScope list" where
  "push_unique chain scope = (if scope \<in> set chain then chain else chain @ [scope])"

definition resolution_chain :: "ToolOutputSettingsScope \<Rightarrow> ToolOutputSettingsScope list" where
  "resolution_chain scope =
     (let chain = push_unique [] workspace_scope;
          chain = push_unique chain \<lparr>sl_level = sl_level scope, sl_tool_id = None\<rparr>;
          chain = (case sl_tool_id scope of
              Some tool_id \<Rightarrow> push_unique chain (for_tool workspace_scope tool_id)
            | None \<Rightarrow> chain)
      in if sl_tool_id scope \<noteq> None then push_unique chain scope else chain)"

definition scope_migration_depth :: "ToolOutputSettingsScope \<Rightarrow> nat" where
  "scope_migration_depth scope = (if sl_tool_id scope \<noteq> None then 1 else 0) + 1"

section \<open>Defaults and overrides\<close>

datatype ToolOutputVerbosity = Minimal | Normal | Expanded | Debug

datatype ToolOutputGranularity = SummaryOnly | KeyFields | Full

record ToolOutputDefaults =
  td_render_options :: RenderOptions
  td_max_inline_bytes :: nat
  td_max_inline_lines :: nat
  td_verbosity :: ToolOutputVerbosity
  td_granularity :: ToolOutputGranularity
  td_oversize_policy :: OversizeOutputPolicy

definition ToolOutputDefaults_default :: ToolOutputDefaults where
  "ToolOutputDefaults_default =
     \<lparr>td_render_options = RenderOptions_default, td_max_inline_bytes = DEFAULT_MAX_INLINE_BYTES,
      td_max_inline_lines = DEFAULT_MAX_INLINE_LINES, td_verbosity = Normal, td_granularity = KeyFields,
      td_oversize_policy = TruncateWithMetadata\<rparr>"

datatype ToolOutputSettingsError =
    DuplicateScope ToolOutputSettingsScope
  | EmptyUpdate
  | MissingReason
  | MaxInlineBytesOutOfRange nat nat nat
  | MaxInlineLinesOutOfRange nat nat nat

definition validate_inline_bytes :: "nat \<Rightarrow> ToolOutputSettingsError + unit" where
  "validate_inline_bytes value =
     (if MIN_MAX_INLINE_BYTES \<le> value \<and> value \<le> MAX_MAX_INLINE_BYTES then Inr ()
      else Inl (MaxInlineBytesOutOfRange value MIN_MAX_INLINE_BYTES MAX_MAX_INLINE_BYTES))"

definition validate_inline_lines :: "nat \<Rightarrow> ToolOutputSettingsError + unit" where
  "validate_inline_lines value =
     (if MIN_MAX_INLINE_LINES \<le> value \<and> value \<le> MAX_MAX_INLINE_LINES then Inr ()
      else Inl (MaxInlineLinesOutOfRange value MIN_MAX_INLINE_LINES MAX_MAX_INLINE_LINES))"

definition validate_defaults :: "ToolOutputDefaults \<Rightarrow> ToolOutputSettingsError + unit" where
  "validate_defaults defaults =
     andthen (validate_inline_bytes (td_max_inline_bytes defaults)) (\<lambda>_.
     andthen (validate_inline_lines (td_max_inline_lines defaults)) (\<lambda>_. Inr ()))"

definition defaults_try_from :: "ToolOutputDefaults \<Rightarrow> ToolOutputSettingsError + ToolOutputDefaults" where
  "defaults_try_from value = andthen (validate_defaults value) (\<lambda>_. Inr value)"

record ToolOutputOverrides =
  ov_format :: "OutputFormat option"
  ov_include_policy :: "bool option"
  ov_include_diagnostics :: "bool option"
  ov_include_cost :: "bool option"
  ov_max_inline_bytes :: "nat option"
  ov_max_inline_lines :: "nat option"
  ov_verbosity :: "ToolOutputVerbosity option"
  ov_granularity :: "ToolOutputGranularity option"
  ov_oversize_policy :: "OversizeOutputPolicy option"

definition ToolOutputOverrides_default :: ToolOutputOverrides where
  "ToolOutputOverrides_default =
     \<lparr>ov_format = None, ov_include_policy = None, ov_include_diagnostics = None, ov_include_cost = None,
      ov_max_inline_bytes = None, ov_max_inline_lines = None, ov_verbosity = None, ov_granularity = None,
      ov_oversize_policy = None\<rparr>"

definition overrides_try_from :: "ToolOutputOverrides \<Rightarrow> ToolOutputSettingsError + ToolOutputOverrides" where
  "overrides_try_from value =
     andthen (case ov_max_inline_bytes value of Some n \<Rightarrow> validate_inline_bytes n | None \<Rightarrow> Inr ()) (\<lambda>_.
     andthen (case ov_max_inline_lines value of Some n \<Rightarrow> validate_inline_lines n | None \<Rightarrow> Inr ()) (\<lambda>_.
     Inr value))"

definition overrides_is_empty :: "ToolOutputOverrides \<Rightarrow> bool" where
  "overrides_is_empty ov \<longleftrightarrow>
     ov_format ov = None \<and> ov_include_policy ov = None \<and> ov_include_diagnostics ov = None \<and>
     ov_include_cost ov = None \<and> ov_max_inline_bytes ov = None \<and> ov_max_inline_lines ov = None \<and>
     ov_verbosity ov = None \<and> ov_granularity ov = None \<and> ov_oversize_policy ov = None"

text \<open>\<open>(a != b).then_some(a)\<close>.\<close>

definition if_differs :: "'a \<Rightarrow> 'a \<Rightarrow> 'a option" where
  "if_differs a b = (if a \<noteq> b then Some a else None)"

definition from_defaults_with_parent :: "ToolOutputDefaults \<Rightarrow> ToolOutputDefaults \<Rightarrow> ToolOutputOverrides" where
  "from_defaults_with_parent base inherited =
     (let b = td_render_options base; i = td_render_options inherited in
     \<lparr>ov_format = if_differs (rn_format b) (rn_format i),
      ov_include_policy = if_differs (rn_include_policy b) (rn_include_policy i),
      ov_include_diagnostics = if_differs (rn_include_diagnostics b) (rn_include_diagnostics i),
      ov_include_cost = if_differs (rn_include_cost b) (rn_include_cost i),
      ov_max_inline_bytes = if_differs (td_max_inline_bytes base) (td_max_inline_bytes inherited),
      ov_max_inline_lines = if_differs (td_max_inline_lines base) (td_max_inline_lines inherited),
      ov_verbosity = if_differs (td_verbosity base) (td_verbosity inherited),
      ov_granularity = if_differs (td_granularity base) (td_granularity inherited),
      ov_oversize_policy = if_differs (td_oversize_policy base) (td_oversize_policy inherited)\<rparr>)"

definition from_defaults :: "ToolOutputDefaults \<Rightarrow> ToolOutputOverrides" where
  "from_defaults base = from_defaults_with_parent base ToolOutputDefaults_default"

fun option_or :: "'a option \<Rightarrow> 'a option \<Rightarrow> 'a option" where
  "option_or (Some x) y = Some x"
| "option_or None y = y"

definition merge_overrides :: "ToolOutputOverrides \<Rightarrow> ToolOutputOverrides \<Rightarrow> ToolOutputOverrides" where
  "merge_overrides self update =
     \<lparr>ov_format = option_or (ov_format update) (ov_format self),
      ov_include_policy = option_or (ov_include_policy update) (ov_include_policy self),
      ov_include_diagnostics = option_or (ov_include_diagnostics update) (ov_include_diagnostics self),
      ov_include_cost = option_or (ov_include_cost update) (ov_include_cost self),
      ov_max_inline_bytes = option_or (ov_max_inline_bytes update) (ov_max_inline_bytes self),
      ov_max_inline_lines = option_or (ov_max_inline_lines update) (ov_max_inline_lines self),
      ov_verbosity = option_or (ov_verbosity update) (ov_verbosity self),
      ov_granularity = option_or (ov_granularity update) (ov_granularity self),
      ov_oversize_policy = option_or (ov_oversize_policy update) (ov_oversize_policy self)\<rparr>"

text \<open>\<open>if let Some(v) = new { field = v }\<close>.\<close>

definition set_if :: "'a option \<Rightarrow> 'a \<Rightarrow> 'a" where
  "set_if new old = (case new of Some v \<Rightarrow> v | None \<Rightarrow> old)"

definition apply_to :: "ToolOutputOverrides \<Rightarrow> ToolOutputDefaults \<Rightarrow> ToolOutputDefaults" where
  "apply_to ov defaults =
     (let options = td_render_options defaults in
     \<lparr>td_render_options =
        \<lparr>rn_format = set_if (ov_format ov) (rn_format options),
         rn_include_policy = set_if (ov_include_policy ov) (rn_include_policy options),
         rn_include_diagnostics = set_if (ov_include_diagnostics ov) (rn_include_diagnostics options),
         rn_include_cost = set_if (ov_include_cost ov) (rn_include_cost options)\<rparr>,
      td_max_inline_bytes = set_if (ov_max_inline_bytes ov) (td_max_inline_bytes defaults),
      td_max_inline_lines = set_if (ov_max_inline_lines ov) (td_max_inline_lines defaults),
      td_verbosity = set_if (ov_verbosity ov) (td_verbosity defaults),
      td_granularity = set_if (ov_granularity ov) (td_granularity defaults),
      td_oversize_policy = set_if (ov_oversize_policy ov) (td_oversize_policy defaults)\<rparr>)"

definition with_overrides :: "ToolOutputDefaults \<Rightarrow> ToolOutputOverrides \<Rightarrow> ToolOutputSettingsError + ToolOutputDefaults" where
  "with_overrides self ov =
     (let defaults = apply_to ov self in andthen (validate_defaults defaults) (\<lambda>_. Inr defaults))"

section \<open>The render policy\<close>

fun apply_verbosity_constraints :: "RenderOptions \<Rightarrow> ToolOutputVerbosity \<Rightarrow> RenderOptions" where
  "apply_verbosity_constraints options Minimal =
     options\<lparr>rn_include_policy := False, rn_include_diagnostics := False, rn_include_cost := False\<rparr>"
| "apply_verbosity_constraints options Normal =
     options\<lparr>rn_include_policy := False, rn_include_diagnostics := False, rn_include_cost := False\<rparr>"
| "apply_verbosity_constraints options Expanded = options\<lparr>rn_include_cost := False\<rparr>"
| "apply_verbosity_constraints options Debug =
     options\<lparr>rn_include_policy := True, rn_include_diagnostics := True, rn_include_cost := True\<rparr>"

definition render_policy_with_render_options ::
    "ToolOutputDefaults \<Rightarrow> RenderOptions option \<Rightarrow> ToolOutputRenderPolicy" where
  "render_policy_with_render_options self requested =
     (let options = (case requested of
            Some r \<Rightarrow> (td_render_options self)\<lparr>rn_format := rn_format r, rn_include_policy := rn_include_policy r,
              rn_include_diagnostics := rn_include_diagnostics r, rn_include_cost := rn_include_cost r\<rparr>
          | None \<Rightarrow> td_render_options self);
          options = apply_verbosity_constraints options (td_verbosity self);
          max_inline_lines = td_max_inline_lines self;
          field_limit = map_option (\<lambda>limit. min limit max_inline_lines)
            (case td_granularity self of SummaryOnly \<Rightarrow> Some 1 | KeyFields \<Rightarrow> Some 3 | Full \<Rightarrow> None);
          more = (td_granularity self \<noteq> SummaryOnly)
      in \<lparr>pl_render_options = options, pl_max_fields = field_limit, pl_max_inline_lines = Some max_inline_lines,
          pl_max_inline_bytes = Some (td_max_inline_bytes self), pl_oversize_policy = td_oversize_policy self,
          pl_include_evidence_refs = more, pl_include_output_refs = more, pl_include_redactions = more\<rparr>)"

definition render_policy :: "ToolOutputDefaults \<Rightarrow> ToolOutputRenderPolicy" where
  "render_policy self = render_policy_with_render_options self None"

section \<open>The settings of a scope\<close>

record ToolOutputSettings =
  tset_schema_version :: nat
  tset_scope :: ToolOutputSettingsScope
  tset_overrides :: ToolOutputOverrides
  tset_updated_at :: LedgerTimestamp
  tset_updated_by :: "Actor option"
  tset_legacy_defaults :: "ToolOutputDefaults option"

record ToolOutputSettingsChange =
  chg_schema_version :: nat
  chg_actor :: Actor
  chg_scope :: ToolOutputSettingsScope
  chg_old_defaults :: ToolOutputDefaults
  chg_new_defaults :: ToolOutputDefaults
  chg_reason :: string
  chg_changed_at :: LedgerTimestamp

definition settings_new :: "ToolOutputSettingsScope \<Rightarrow> LedgerTimestamp \<Rightarrow> ToolOutputSettings" where
  "settings_new scope created_at =
     \<lparr>tset_schema_version = TOOL_OUTPUT_SETTINGS_SCHEMA_VERSION, tset_scope = scope,
      tset_overrides = ToolOutputOverrides_default, tset_updated_at = created_at, tset_updated_by = None,
      tset_legacy_defaults = None\<rparr>"

text \<open>What a serialised record carries: overrides, or defaults in the legacy form.\<close>

datatype settings_payload_error = BothOverridesAndDefaults | MissingOverrides

definition settings_payload ::
    "ToolOutputOverrides option \<Rightarrow> ToolOutputDefaults option
     \<Rightarrow> settings_payload_error + ToolOutputOverrides \<times> ToolOutputDefaults option" where
  "settings_payload raw_overrides raw_defaults =
     (case (raw_overrides, raw_defaults) of
        (Some ov, None) \<Rightarrow> Inr (ov, None)
      | (None, Some defaults) \<Rightarrow> Inr (ToolOutputOverrides_default, Some defaults)
      | (Some _, Some _) \<Rightarrow> Inl BothOverridesAndDefaults
      | (None, None) \<Rightarrow> Inl MissingOverrides)"

definition settings_fields :: "ToolOutputSettings \<Rightarrow> ToolOutputOverrides option \<times> ToolOutputDefaults option" where
  "settings_fields self =
     (case tset_legacy_defaults self of
        Some defaults \<Rightarrow> (None, Some defaults)
      | None \<Rightarrow> (Some (tset_overrides self), None))"

definition resolved_overrides :: "ToolOutputSettings \<Rightarrow> ToolOutputDefaults \<Rightarrow> ToolOutputOverrides" where
  "resolved_overrides self inherited =
     (case tset_legacy_defaults self of
        Some defaults \<Rightarrow> from_defaults_with_parent defaults inherited
      | None \<Rightarrow> tset_overrides self)"

definition apply_legacy_migration :: "ToolOutputSettings \<Rightarrow> ToolOutputDefaults \<Rightarrow> ToolOutputSettings" where
  "apply_legacy_migration self inherited =
     (case tset_legacy_defaults self of
        Some defaults \<Rightarrow> self\<lparr>tset_legacy_defaults := None, tset_overrides := from_defaults_with_parent defaults inherited\<rparr>
      | None \<Rightarrow> self)"

definition settings_apply_update ::
    "ToolOutputSettings \<Rightarrow> Actor \<Rightarrow> ToolOutputOverrides \<Rightarrow> string \<Rightarrow> ToolOutputDefaults \<Rightarrow> LedgerTimestamp
     \<Rightarrow> ToolOutputSettingsError + ToolOutputSettings \<times> ToolOutputSettingsChange" where
  "settings_apply_update self actor update reason inherited_defaults updated_at =
     (if overrides_is_empty update then Inl EmptyUpdate
      else if trim reason = [] then Inl MissingReason
      else
        let resolved = (case tset_legacy_defaults self of
              Some defaults \<Rightarrow> from_defaults_with_parent defaults inherited_defaults
            | None \<Rightarrow> tset_overrides self);
            old_defaults = apply_to resolved inherited_defaults
        in
        andthen (with_overrides old_defaults update) (\<lambda>new_defaults.
        Inr (self\<lparr>tset_overrides := merge_overrides resolved update, tset_legacy_defaults := None,
               tset_updated_by := Some actor, tset_updated_at := updated_at\<rparr>,
             \<lparr>chg_schema_version = TOOL_OUTPUT_SETTINGS_SCHEMA_VERSION, chg_actor = actor,
              chg_scope = tset_scope self, chg_old_defaults = old_defaults, chg_new_defaults = new_defaults,
              chg_reason = reason, chg_changed_at = updated_at\<rparr>)))"

section \<open>The service\<close>

record SettingsService =
  sv_settings :: "ToolOutputSettings list"
  sv_changes :: "ToolOutputSettingsChange list"

text \<open>One step of the resolution: the record of a scope of the chain, if there is one.\<close>

definition find_scope :: "ToolOutputSettings list \<Rightarrow> ToolOutputSettingsScope \<Rightarrow> ToolOutputSettings option" where
  "find_scope settings scope = find (\<lambda>setting. tset_scope setting = scope) settings"

definition resolve_step ::
    "ToolOutputSettings list \<Rightarrow> ToolOutputSettingsScope \<Rightarrow> ToolOutputDefaults \<Rightarrow> ToolOutputDefaults" where
  "resolve_step settings candidate_scope defaults =
     (case find_scope settings candidate_scope of
        Some candidate \<Rightarrow> apply_to (resolved_overrides candidate defaults) defaults
      | None \<Rightarrow> defaults)"

definition resolve_defaults :: "SettingsService \<Rightarrow> ToolOutputSettingsScope \<Rightarrow> ToolOutputDefaults" where
  "resolve_defaults self scope =
     fold (resolve_step (sv_settings self)) (resolution_chain scope) ToolOutputDefaults_default"

fun resolve_until ::
    "ToolOutputSettings list \<Rightarrow> ToolOutputSettingsScope \<Rightarrow> ToolOutputSettingsScope list \<Rightarrow> ToolOutputDefaults
     \<Rightarrow> ToolOutputDefaults" where
  "resolve_until settings scope [] defaults = defaults"
| "resolve_until settings scope (candidate # chain) defaults =
     (if candidate = scope then defaults
      else resolve_until settings scope chain (resolve_step settings candidate defaults))"

definition resolve_parent_defaults_for :: "SettingsService \<Rightarrow> ToolOutputSettingsScope \<Rightarrow> ToolOutputDefaults" where
  "resolve_parent_defaults_for self scope =
     resolve_until (sv_settings self) scope (resolution_chain scope) ToolOutputDefaults_default"

definition resolve_render_options :: "SettingsService \<Rightarrow> ToolOutputSettingsScope \<Rightarrow> RenderOptions" where
  "resolve_render_options self scope = td_render_options (resolve_defaults self scope)"

definition resolve_defaults_with_overrides ::
    "SettingsService \<Rightarrow> ToolOutputSettingsScope \<Rightarrow> ToolOutputOverrides \<Rightarrow> ToolOutputSettingsError + ToolOutputDefaults" where
  "resolve_defaults_with_overrides self scope ov = with_overrides (resolve_defaults self scope) ov"

definition service_new :: "LedgerTimestamp \<Rightarrow> SettingsService" where
  "service_new created_at = \<lparr>sv_settings = [settings_new workspace_scope created_at], sv_changes = []\<rparr>"

definition service_new_with_defaults :: "LedgerTimestamp \<Rightarrow> ToolOutputDefaults \<Rightarrow> SettingsService" where
  "service_new_with_defaults created_at base_defaults =
     \<lparr>sv_settings = [\<lparr>tset_schema_version = TOOL_OUTPUT_SETTINGS_SCHEMA_VERSION, tset_scope = workspace_scope,
        tset_overrides = from_defaults base_defaults, tset_updated_at = created_at, tset_updated_by = None,
        tset_legacy_defaults = None\<rparr>],
      sv_changes = []\<rparr>"

text \<open>The migration visits the records by depth, then by position (the sort is stable).\<close>

definition migration_order :: "ToolOutputSettings list \<Rightarrow> nat list" where
  "migration_order settings =
     sort_key (\<lambda>idx. scope_migration_depth (tset_scope (settings ! idx))) [0..<length settings]"

definition migrate_one :: "nat \<Rightarrow> SettingsService \<Rightarrow> SettingsService" where
  "migrate_one idx self =
     (let setting = sv_settings self ! idx;
          inherited = resolve_parent_defaults_for self (tset_scope setting)
      in self\<lparr>sv_settings := (sv_settings self)[idx := apply_legacy_migration setting inherited]\<rparr>)"

definition migrate_legacy_settings :: "SettingsService \<Rightarrow> SettingsService" where
  "migrate_legacy_settings self = fold migrate_one (migration_order (sv_settings self)) self"

fun duplicate_scope ::
    "ToolOutputSettingsScope list \<Rightarrow> ToolOutputSettings list \<Rightarrow> ToolOutputSettingsScope option" where
  "duplicate_scope scopes [] = None"
| "duplicate_scope scopes (setting # settings) =
     (if tset_scope setting \<in> set scopes then Some (tset_scope setting)
      else duplicate_scope (scopes @ [tset_scope setting]) settings)"

definition service_new_with_settings ::
    "LedgerTimestamp \<Rightarrow> ToolOutputSettings list \<Rightarrow> ToolOutputSettingsError + SettingsService" where
  "service_new_with_settings created_at settings =
     (case duplicate_scope [] settings of
        Some scope \<Rightarrow> Inl (DuplicateScope scope)
      | None \<Rightarrow>
          Inr (migrate_legacy_settings
            \<lparr>sv_settings =
               (if list_ex (\<lambda>setting. tset_scope setting = workspace_scope) settings then settings
                else settings @ [settings_new workspace_scope created_at]),
             sv_changes = []\<rparr>))"

fun position :: "('a \<Rightarrow> bool) \<Rightarrow> 'a list \<Rightarrow> nat option" where
  "position P [] = None"
| "position P (x # xs) = (if P x then Some 0 else map_option Suc (position P xs))"

text \<open>Every failure of an update comes before the first write, so an error leaves the service as it was.\<close>

definition service_apply_update ::
    "SettingsService \<Rightarrow> Actor \<Rightarrow> ToolOutputSettingsScope \<Rightarrow> ToolOutputOverrides \<Rightarrow> string \<Rightarrow> LedgerTimestamp
     \<Rightarrow> ToolOutputSettingsError + SettingsService \<times> ToolOutputSettingsChange" where
  "service_apply_update self actor scope update reason updated_at =
     (let inherited = resolve_parent_defaults_for self scope in
      case position (\<lambda>candidate. tset_scope candidate = scope) (sv_settings self) of
        Some idx \<Rightarrow>
          andthen (settings_apply_update (sv_settings self ! idx) actor update reason inherited updated_at)
            (\<lambda>(setting, change).
          Inr (self\<lparr>sv_settings := (sv_settings self)[idx := setting], sv_changes := sv_changes self @ [change]\<rparr>, change))
      | None \<Rightarrow>
          andthen (settings_apply_update (settings_new scope updated_at) actor update reason inherited updated_at)
            (\<lambda>(setting, change).
          Inr (self\<lparr>sv_settings := sv_settings self @ [setting], sv_changes := sv_changes self @ [change]\<rparr>, change)))"

end
