(* ===== verification/SettingsFacts.thy ===== *)
theory SettingsFacts
  imports Settings
begin

text \<open>
  What the settings promise: updates act on the resolved defaults exactly as their audit record
  says, resolved defaults stay within the supported bounds, and what the migration of legacy
  records preserves.
\<close>

section \<open>Layers\<close>

text \<open>
  A layer is a partial assignment: merging two layers is applying one after the other, an empty
  layer changes nothing, and the difference of two values leads from the second to the first.
\<close>

locale layered =
  fixes app :: "'o \<Rightarrow> 'd \<Rightarrow> 'd" and merge :: "'o \<Rightarrow> 'o \<Rightarrow> 'o" and diff :: "'d \<Rightarrow> 'd \<Rightarrow> 'o" and none :: 'o
  assumes app_merge: "app (merge a b) d = app b (app a d)"
    and app_none: "app none d = d"
    and app_diff: "app (diff x y) y = x"
begin

lemma merge_twice: "app (merge (merge a b) c) d = app (merge a (merge b c)) d"
  by (simp add: app_merge)

lemma fold_merge: "app (foldl merge a bs) d = fold app bs (app a d)"
  by (induction bs arbitrary: a) (simp_all add: app_merge)

lemma update_diff: "app (merge (diff b p) c) p = app c b"
  by (simp add: app_merge app_diff)

end

lemma set_if_option_or [simp]: "set_if (option_or a b) d = set_if a (set_if b d)"
  by (cases a) (simp_all add: set_if_def)

lemma set_if_differs [simp]: "set_if (if_differs a b) b = a"
  by (simp add: if_differs_def set_if_def)

lemma set_if_None [simp]: "set_if None d = d"
  by (simp add: set_if_def)

interpretation overlay: layered apply_to merge_overrides from_defaults_with_parent ToolOutputOverrides_default
  by unfold_locales
    (simp_all add: apply_to_def merge_overrides_def from_defaults_with_parent_def ToolOutputOverrides_default_def Let_def)

lemma apply_resolved:
  "apply_to (resolved_overrides s d) d = (case tset_legacy_defaults s of Some l \<Rightarrow> l | None \<Rightarrow> apply_to (tset_overrides s) d)"
  by (simp add: resolved_overrides_def overlay.app_diff split: option.splits)

section \<open>The chain\<close>

lemma chain_cases:
  "resolution_chain scope =
     (case sl_tool_id scope of
        None \<Rightarrow> (if sl_level scope = WorkspaceLevel then [workspace_scope] else [workspace_scope, scope])
      | Some t \<Rightarrow>
          if sl_level scope = WorkspaceLevel then [workspace_scope, scope]
          else [workspace_scope, scope\<lparr>sl_tool_id := None\<rparr>, for_tool workspace_scope t, scope])"
  by (cases scope; cases "sl_tool_id scope")
    (auto simp: resolution_chain_def push_unique_def Let_def workspace_scope_def for_tool_def)

definition parents :: "ToolOutputSettingsScope \<Rightarrow> ToolOutputSettingsScope list" where
  "parents scope = butlast (resolution_chain scope)"

lemma chain_parents: "resolution_chain scope = parents scope @ [scope]" "scope \<notin> set (parents scope)"
  unfolding parents_def
  by (cases scope; auto simp: chain_cases workspace_scope_def for_tool_def split: option.splits)+

lemma resolve_until_fold: "scope \<notin> set ps \<Longrightarrow> resolve_until ss scope (ps @ scope # qs) d = fold (resolve_step ss) ps d"
  by (induction ps arbitrary: d) auto

lemma resolve_parent_fold:
  "resolve_parent_defaults_for svc scope = fold (resolve_step (sv_settings svc)) (parents scope) ToolOutputDefaults_default"
  unfolding resolve_parent_defaults_for_def chain_parents(1)
  using resolve_until_fold [OF chain_parents(2), of _ scope "[]"] by simp

text \<open>The scope closes its own chain, so its record is applied last, on the parent's defaults.\<close>

lemma resolve_defaults_own:
  "resolve_defaults svc scope = resolve_step (sv_settings svc) scope (resolve_parent_defaults_for svc scope)"
  by (simp add: resolve_defaults_def resolve_parent_fold chain_parents(1))

lemma fold_resolve_cong:
  "\<forall>c \<in> set cs. find_scope ss c = find_scope ss' c \<Longrightarrow> fold (resolve_step ss) cs d = fold (resolve_step ss') cs d"
  by (rule fold_cong) (simp_all add: resolve_step_def fun_eq_iff)

lemma resolve_parent_cong:
  assumes "\<forall>c \<in> set (parents scope). find_scope (sv_settings svc) c = find_scope (sv_settings svc') c"
  shows "resolve_parent_defaults_for svc scope = resolve_parent_defaults_for svc' scope"
  using fold_resolve_cong [OF assms] by (simp add: resolve_parent_fold)

section \<open>Updates\<close>

lemma position_find:
  "position P xs = Some i \<Longrightarrow> i < length xs \<and> find P xs = Some (xs ! i)"
  "position P xs = None \<Longrightarrow> find P xs = None"
  by (induction xs arbitrary: i) (auto split: if_splits)

lemma position_iff: "position P xs = None \<longleftrightarrow> (\<forall>x \<in> set xs. \<not> P x)"
  by (induction xs) auto

lemma find_scope_update:
  assumes "position (\<lambda>s. tset_scope s = scope) ss = Some i" "tset_scope s' = scope"
  shows "find_scope (ss[i := s']) c = (if c = scope then Some s' else find_scope ss c)"
  using assms by (induction ss arbitrary: i) (auto simp: find_scope_def split: if_splits nat.splits)

lemma find_scope_append:
  assumes "position (\<lambda>s. tset_scope s = scope) ss = None" "tset_scope s' = scope"
  shows "find_scope (ss @ [s']) c = (if c = scope then Some s' else find_scope ss c)"
  using assms by (induction ss) (auto simp: find_scope_def)

lemma find_scope_scope: "find_scope ss c = Some s \<Longrightarrow> tset_scope s = c \<and> s \<in> set ss"
  by (auto simp: find_scope_def find_Some_iff in_set_conv_nth)

lemma update_ok:
  assumes "settings_apply_update s actor upd reason inh t = Inr (s', change)"
  shows "tset_legacy_defaults s' = None \<and> tset_scope s' = tset_scope s \<and>
    chg_old_defaults change = apply_to (resolved_overrides s inh) inh \<and>
    chg_new_defaults change = apply_to upd (chg_old_defaults change) \<and>
    apply_to (tset_overrides s') inh = chg_new_defaults change \<and>
    validate_defaults (chg_new_defaults change) = Inr () \<and> chg_scope change = tset_scope s"
  using assms
  by (auto simp: settings_apply_update_def with_overrides_def Let_def overlay.app_merge resolved_overrides_def
      split: if_splits)

lemma service_update_scope:
  assumes "service_apply_update svc actor scope upd reason t = Inr (svc', change)"
  obtains s s' where "find_scope (sv_settings svc) scope = Some s \<or>
      find_scope (sv_settings svc) scope = None \<and> s = settings_new scope t"
    and "settings_apply_update s actor upd reason (resolve_parent_defaults_for svc scope) t = Inr (s', change)"
    and "tset_scope s = scope" and "sv_changes svc' = sv_changes svc @ [change]"
    and "\<forall>c. find_scope (sv_settings svc') c = (if c = scope then Some s' else find_scope (sv_settings svc) c)"
    and "set (sv_settings svc') \<subseteq> insert s' (set (sv_settings svc))"
proof (cases "position (\<lambda>s. tset_scope s = scope) (sv_settings svc)")
  case None
  then obtain s' where s': "settings_apply_update (settings_new scope t) actor upd reason
      (resolve_parent_defaults_for svc scope) t = Inr (s', change)"
    and svc': "svc' = svc\<lparr>sv_settings := sv_settings svc @ [s'], sv_changes := sv_changes svc @ [change]\<rparr>"
    using assms by (auto simp: service_apply_update_def)
  have "tset_scope s' = scope" using update_ok [OF s'] by (simp add: settings_new_def)
  then show ?thesis
    using that [of "settings_new scope t" s'] s' svc' position_find(2) [OF None] find_scope_append [OF None]
    by (auto simp: find_scope_def settings_new_def)
next
  case (Some i)
  define s where "s = sv_settings svc ! i"
  have s: "find_scope (sv_settings svc) scope = Some s" "i < length (sv_settings svc)"
    using position_find(1) [OF Some] by (simp_all add: find_scope_def s_def)
  then have sc: "tset_scope s = scope" using find_scope_scope by blast
  obtain s' where s': "settings_apply_update s actor upd reason (resolve_parent_defaults_for svc scope) t = Inr (s', change)"
    and svc': "svc' = svc\<lparr>sv_settings := (sv_settings svc)[i := s'], sv_changes := sv_changes svc @ [change]\<rparr>"
    using assms Some by (auto simp: service_apply_update_def s_def)
  have "tset_scope s' = scope" using update_ok [OF s'] sc by simp
  then show ?thesis
    using that [of s s'] s s' sc svc' find_scope_update [OF Some] set_update_subset_insert [of "sv_settings svc" i s']
    by auto
qed

lemma service_update_distinct:
  assumes "service_apply_update svc actor scope upd reason t = Inr (svc', change)"
    and "distinct (map tset_scope (sv_settings svc))"
  shows "distinct (map tset_scope (sv_settings svc'))"
proof (cases "position (\<lambda>s. tset_scope s = scope) (sv_settings svc)")
  case None
  then obtain s' where s': "settings_apply_update (settings_new scope t) actor upd reason
      (resolve_parent_defaults_for svc scope) t = Inr (s', change)"
    and "sv_settings svc' = sv_settings svc @ [s']"
    using assms(1) by (auto simp: service_apply_update_def)
  with None assms(2) update_ok [OF s'] show ?thesis by (auto simp: position_iff settings_new_def)
next
  case (Some i)
  obtain s' where s': "settings_apply_update (sv_settings svc ! i) actor upd reason
      (resolve_parent_defaults_for svc scope) t = Inr (s', change)"
    and svc': "sv_settings svc' = (sv_settings svc)[i := s']"
    using assms(1) Some by (auto simp: service_apply_update_def)
  have "map tset_scope (sv_settings svc') = map tset_scope (sv_settings svc)"
    using svc' update_ok [OF s'] position_find(1) [OF Some]
    by (intro nth_equalityI) (auto simp: nth_list_update)
  with assms(2) show ?thesis by simp
qed

lemma service_update_resolves:
  assumes "service_apply_update svc actor scope upd reason t = Inr (svc', change)"
  shows "chg_old_defaults change = resolve_defaults svc scope \<and>
    chg_new_defaults change = apply_to upd (chg_old_defaults change) \<and>
    resolve_defaults svc' scope = chg_new_defaults change \<and>
    validate_defaults (resolve_defaults svc' scope) = Inr () \<and>
    sv_changes svc' = sv_changes svc @ [change]"
proof -
  from assms obtain s s' where s: "find_scope (sv_settings svc) scope = Some s \<or>
      find_scope (sv_settings svc) scope = None \<and> s = settings_new scope t"
    and u: "settings_apply_update s actor upd reason (resolve_parent_defaults_for svc scope) t = Inr (s', change)"
    and ch: "sv_changes svc' = sv_changes svc @ [change]"
    and f: "\<forall>c. find_scope (sv_settings svc') c = (if c = scope then Some s' else find_scope (sv_settings svc) c)"
    by (rule service_update_scope)
  have p: "resolve_parent_defaults_for svc' scope = resolve_parent_defaults_for svc scope"
    using f chain_parents(2) [of scope] by (intro resolve_parent_cong) auto
  have old: "chg_old_defaults change = resolve_defaults svc scope"
    using update_ok [OF u] s by (auto simp: resolve_defaults_own resolve_step_def apply_resolved settings_new_def overlay.app_none)
  have "resolve_defaults svc' scope = chg_new_defaults change"
    using update_ok [OF u] f p by (simp add: resolve_defaults_own resolve_step_def apply_resolved)
  moreover have "chg_new_defaults change = apply_to upd (chg_old_defaults change)"
    "validate_defaults (chg_new_defaults change) = Inr ()" using update_ok [OF u] by blast+
  ultimately show ?thesis using old ch by metis
qed

lemma service_update_frame:
  assumes "service_apply_update svc actor scope upd reason t = Inr (svc', change)" "scope \<notin> set (resolution_chain scope')"
  shows "resolve_defaults svc' scope' = resolve_defaults svc scope'"
proof -
  from assms obtain s' where
    "\<forall>c. find_scope (sv_settings svc') c = (if c = scope then Some s' else find_scope (sv_settings svc) c)"
    by (rule_tac service_update_scope) blast+
  then show ?thesis
    using assms(2) unfolding resolve_defaults_def by (intro fold_resolve_cong) auto
qed

section \<open>Bounds\<close>

definition defaults_ok :: "ToolOutputDefaults \<Rightarrow> bool" where
  "defaults_ok d \<longleftrightarrow> validate_defaults d = Inr ()"

definition overrides_ok :: "ToolOutputOverrides \<Rightarrow> bool" where
  "overrides_ok ov \<longleftrightarrow> overrides_try_from ov = Inr ov"

lemma validate_bytes_ok [simp]:
  "validate_inline_bytes n = Inr () \<longleftrightarrow> MIN_MAX_INLINE_BYTES \<le> n \<and> n \<le> MAX_MAX_INLINE_BYTES"
  by (simp add: validate_inline_bytes_def)

lemma validate_lines_ok [simp]:
  "validate_inline_lines n = Inr () \<longleftrightarrow> MIN_MAX_INLINE_LINES \<le> n \<and> n \<le> MAX_MAX_INLINE_LINES"
  by (simp add: validate_inline_lines_def)

lemma defaults_ok_iff:
  "defaults_ok d \<longleftrightarrow>
     MIN_MAX_INLINE_BYTES \<le> td_max_inline_bytes d \<and> td_max_inline_bytes d \<le> MAX_MAX_INLINE_BYTES \<and>
     MIN_MAX_INLINE_LINES \<le> td_max_inline_lines d \<and> td_max_inline_lines d \<le> MAX_MAX_INLINE_LINES"
  by (auto simp: defaults_ok_def validate_defaults_def)

lemma overrides_ok_iff:
  "overrides_ok ov \<longleftrightarrow>
     pred_option (\<lambda>n. MIN_MAX_INLINE_BYTES \<le> n \<and> n \<le> MAX_MAX_INLINE_BYTES) (ov_max_inline_bytes ov) \<and>
     pred_option (\<lambda>n. MIN_MAX_INLINE_LINES \<le> n \<and> n \<le> MAX_MAX_INLINE_LINES) (ov_max_inline_lines ov)"
  by (auto simp: overrides_ok_def overrides_try_from_def split: option.splits)

lemma defaults_ok_default [simp]: "defaults_ok ToolOutputDefaults_default"
  by (simp add: defaults_ok_iff ToolOutputDefaults_default_def settings_bounds)

lemma overrides_ok_default [simp]: "overrides_ok ToolOutputOverrides_default"
  by (simp add: overrides_ok_iff ToolOutputOverrides_default_def)

lemma apply_to_ok: "overrides_ok ov \<Longrightarrow> defaults_ok d \<Longrightarrow> defaults_ok (apply_to ov d)"
  by (auto simp: defaults_ok_iff overrides_ok_iff apply_to_def set_if_def Let_def split: option.splits)

lemma diff_ok: "defaults_ok d \<Longrightarrow> overrides_ok (from_defaults_with_parent d p)"
  by (simp add: defaults_ok_iff overrides_ok_iff from_defaults_with_parent_def if_differs_def Let_def)

lemma merge_ok:
  "overrides_ok ov \<Longrightarrow> defaults_ok (apply_to upd d) \<Longrightarrow> overrides_ok (merge_overrides ov upd)"
  by (cases "ov_max_inline_bytes upd"; cases "ov_max_inline_lines upd")
    (simp_all add: defaults_ok_iff overrides_ok_iff apply_to_def merge_overrides_def set_if_def Let_def)

definition record_ok :: "ToolOutputSettings \<Rightarrow> bool" where
  "record_ok s \<longleftrightarrow> overrides_ok (tset_overrides s) \<and> pred_option defaults_ok (tset_legacy_defaults s)"

lemma resolved_ok: "record_ok s \<Longrightarrow> defaults_ok d \<Longrightarrow> defaults_ok (apply_to (resolved_overrides s d) d)"
  by (cases "tset_legacy_defaults s") (auto simp: record_ok_def apply_resolved apply_to_ok)

lemma resolve_step_ok: "\<forall>s \<in> set ss. record_ok s \<Longrightarrow> defaults_ok d \<Longrightarrow> defaults_ok (resolve_step ss c d)"
  using find_scope_scope [of ss c] by (auto simp: resolve_step_def resolved_ok split: option.splits)

lemma resolve_fold_ok: "\<forall>s \<in> set ss. record_ok s \<Longrightarrow> defaults_ok d \<Longrightarrow> defaults_ok (fold (resolve_step ss) cs d)"
  by (induction cs arbitrary: d) (simp_all add: resolve_step_ok)

section \<open>Migration\<close>

lemma find_scope_at:
  assumes "distinct (map tset_scope ss)" "i < length ss"
  shows "find_scope ss (tset_scope (ss ! i)) = Some (ss ! i)"
  using assms by (induction ss arbitrary: i) (auto simp: find_scope_def nth_Cons' less_Suc_eq_0_disj)

lemma position_at:
  assumes "distinct (map tset_scope ss)" "i < length ss"
  shows "position (\<lambda>s. tset_scope s = tset_scope (ss ! i)) ss = Some i"
  using assms by (induction ss arbitrary: i) (auto simp: less_Suc_eq_0_disj)

definition migrated :: "ToolOutputSettings \<Rightarrow> bool" where
  "migrated s \<longleftrightarrow> tset_legacy_defaults s = None"

lemma migrate_record [simp]:
  "tset_scope (apply_legacy_migration s inh) = tset_scope s" "migrated (apply_legacy_migration s inh)"
  "migrated s \<Longrightarrow> apply_legacy_migration s inh = s"
  by (auto simp: apply_legacy_migration_def migrated_def split: option.splits)

lemma migrate_record_ok: "record_ok s \<Longrightarrow> record_ok (apply_legacy_migration s inh)"
  by (auto simp: apply_legacy_migration_def record_ok_def diff_ok split: option.splits)

lemma migrate_one_scopes: "map tset_scope (sv_settings (migrate_one i svc)) = map tset_scope (sv_settings svc)"
proof (cases "i < length (sv_settings svc)")
  case True
  then show ?thesis by (intro nth_equalityI) (auto simp: migrate_one_def Let_def nth_list_update)
qed (simp add: migrate_one_def Let_def list_update_beyond)

lemma migrate_one_changes [simp]: "sv_changes (migrate_one i svc) = sv_changes svc"
  by (simp add: migrate_one_def Let_def)

lemma migrate_one_find:
  assumes "distinct (map tset_scope (sv_settings svc))" "i < length (sv_settings svc)"
  shows "find_scope (sv_settings (migrate_one i svc)) c =
    (if c = tset_scope (sv_settings svc ! i)
     then Some (apply_legacy_migration (sv_settings svc ! i) (resolve_parent_defaults_for svc (tset_scope (sv_settings svc ! i))))
     else find_scope (sv_settings svc) c)"
  using find_scope_update [OF position_at [OF assms]] by (simp add: migrate_one_def Let_def)

lemma migrate_one_own:
  assumes "distinct (map tset_scope (sv_settings svc))" "i < length (sv_settings svc)"
  shows "resolve_defaults (migrate_one i svc) (tset_scope (sv_settings svc ! i)) =
    resolve_defaults svc (tset_scope (sv_settings svc ! i))"
proof -
  define s where "s = sv_settings svc ! i"
  define inh where "inh = resolve_parent_defaults_for svc (tset_scope s)"
  note f = migrate_one_find [OF assms, folded s_def, folded inh_def]
  have p: "resolve_parent_defaults_for (migrate_one i svc) (tset_scope s) = inh"
    unfolding inh_def using f chain_parents(2) [of "tset_scope s"] by (intro resolve_parent_cong) auto
  have "find_scope (sv_settings svc) (tset_scope s) = Some s" using find_scope_at [OF assms] by (simp add: s_def)
  then have "resolve_defaults (migrate_one i svc) (tset_scope s) = resolve_defaults svc (tset_scope s)"
    using f p unfolding inh_def
    by (simp add: resolve_defaults_own resolve_step_def apply_resolved apply_legacy_migration_def overlay.app_diff split: option.splits)
  then show ?thesis by (simp add: s_def)
qed

text \<open>How the chain of a scope extends the chain of another.\<close>

lemma resolve_workspace: "resolve_defaults svc workspace_scope = resolve_step (sv_settings svc) workspace_scope ToolOutputDefaults_default"
  by (simp add: resolve_defaults_def chain_cases workspace_scope_def)

lemma resolve_level:
  assumes "c \<noteq> workspace_scope" "sl_tool_id c = None \<or> sl_level c = WorkspaceLevel"
  shows "resolve_defaults svc c = resolve_step (sv_settings svc) c (resolve_defaults svc workspace_scope)"
proof -
  have "resolution_chain c = [workspace_scope, c]"
    using assms by (cases c) (auto simp: chain_cases workspace_scope_def split: option.splits)
  then show ?thesis by (simp add: resolve_workspace) (simp add: resolve_defaults_def)
qed

lemma resolve_tool:
  assumes "sl_tool_id c = Some t" "sl_level c \<noteq> WorkspaceLevel"
  shows "resolve_defaults svc c = resolve_step (sv_settings svc) c
    (resolve_step (sv_settings svc) (for_tool workspace_scope t) (resolve_defaults svc (c\<lparr>sl_tool_id := None\<rparr>)))"
proof -
  have "c\<lparr>sl_tool_id := None\<rparr> \<noteq> workspace_scope" using assms(2) by (cases c) (simp add: workspace_scope_def)
  then have "resolution_chain (c\<lparr>sl_tool_id := None\<rparr>) = [workspace_scope, c\<lparr>sl_tool_id := None\<rparr>]"
    using assms(2) by (simp add: chain_cases)
  with assms show ?thesis by (simp add: resolve_defaults_def chain_cases)
qed

text \<open>
  Scopes whose resolution the migration leaves alone: those of a level or of the workspace, and
  tool scopes of a level whose workspace tool record is not a legacy one.
\<close>

definition stable :: "ToolOutputSettings list \<Rightarrow> ToolOutputSettingsScope \<Rightarrow> bool" where
  "stable ss c \<longleftrightarrow> sl_tool_id c = None \<or> sl_level c = WorkspaceLevel \<or>
     pred_option migrated (find_scope ss (for_tool workspace_scope (the (sl_tool_id c))))"

lemma migrate_one_level:
  assumes "distinct (map tset_scope (sv_settings svc))" "i < length (sv_settings svc)"
    and "sl_tool_id c = None \<or> sl_level c = WorkspaceLevel"
  shows "resolve_defaults (migrate_one i svc) c = resolve_defaults svc c"
proof -
  note f = migrate_one_find [OF assms(1,2)]
  have w: "resolve_defaults (migrate_one i svc) workspace_scope = resolve_defaults svc workspace_scope"
    using migrate_one_own [OF assms(1,2)] f by (cases "tset_scope (sv_settings svc ! i) = workspace_scope")
      (auto simp: resolve_workspace resolve_step_def)
  show ?thesis
  proof (cases "c = workspace_scope \<or> c = tset_scope (sv_settings svc ! i)")
    case False
    then have "resolve_step (sv_settings (migrate_one i svc)) c d = resolve_step (sv_settings svc) c d" for d
      using f by (simp add: resolve_step_def)
    then show ?thesis using False w by (simp add: resolve_level [OF _ assms(3)])
  qed (use w migrate_one_own [OF assms(1,2)] in auto)
qed

lemma migrate_one_resolve:
  assumes "distinct (map tset_scope (sv_settings svc))" "i < length (sv_settings svc)" "stable (sv_settings svc) c"
  shows "resolve_defaults (migrate_one i svc) c = resolve_defaults svc c"
proof (cases "sl_tool_id c = None \<or> sl_level c = WorkspaceLevel")
  case True
  then show ?thesis using migrate_one_level [OF assms(1,2)] by blast
next
  case False
  define s where "s = sv_settings svc ! i"
  obtain t where t: "sl_tool_id c = Some t" using False by auto
  note f = migrate_one_find [OF assms(1,2), folded s_def]
  have l: "resolve_defaults (migrate_one i svc) (c\<lparr>sl_tool_id := None\<rparr>) = resolve_defaults svc (c\<lparr>sl_tool_id := None\<rparr>)"
    using migrate_one_level [OF assms(1,2)] by simp
  consider "tset_scope s = c" | "tset_scope s = for_tool workspace_scope t" "tset_scope s \<noteq> c"
    | "tset_scope s \<noteq> c" "tset_scope s \<noteq> for_tool workspace_scope t" by blast
  then show ?thesis
  proof cases
    case 1
    then show ?thesis using migrate_one_own [OF assms(1,2)] by (simp add: s_def)
  next
    case 2
    have "find_scope (sv_settings svc) (tset_scope s) = Some s" using find_scope_at [OF assms(1,2)] by (simp add: s_def)
    then have "migrated s" using assms(3) False t 2 by (auto simp: stable_def)
    then have "migrate_one i svc = svc" by (simp add: migrate_one_def Let_def s_def)
    then show ?thesis by simp
  next
    case 3
    then have "resolve_step (sv_settings (migrate_one i svc)) c' d = resolve_step (sv_settings svc) c' d"
      if "c' \<in> {c, for_tool workspace_scope t}" for c' d using f that by (auto simp: resolve_step_def)
    then show ?thesis using l False by (simp add: resolve_tool [OF t])
  qed
qed

lemma migrate_one_stable:
  assumes "distinct (map tset_scope (sv_settings svc))" "i < length (sv_settings svc)" "stable (sv_settings svc) c"
  shows "stable (sv_settings (migrate_one i svc)) c"
  using assms(3) by (auto simp: stable_def migrate_one_find [OF assms(1,2)])

lemma migrate_fold_resolve:
  assumes "distinct (map tset_scope (sv_settings svc))" "\<forall>i \<in> set is. i < length (sv_settings svc)" "stable (sv_settings svc) c"
  shows "resolve_defaults (fold migrate_one is svc) c = resolve_defaults svc c"
  using assms
proof (induction "is" arbitrary: svc)
  case (Cons i "is")
  have "length (sv_settings (migrate_one i svc)) = length (sv_settings svc)"
    by (metis length_map migrate_one_scopes)
  then show ?case
    using Cons.prems Cons.IH [of "migrate_one i svc"] migrate_one_stable [of svc i c] migrate_one_resolve [of svc i c]
    by (simp add: migrate_one_scopes)
qed simp

section \<open>Every service keeps its bounds\<close>

definition service_ok :: "SettingsService \<Rightarrow> bool" where
  "service_ok svc \<longleftrightarrow>
     distinct (map tset_scope (sv_settings svc)) \<and> find_scope (sv_settings svc) workspace_scope \<noteq> None \<and>
     (\<forall>s \<in> set (sv_settings svc). overrides_ok (tset_overrides s) \<and> migrated s)"

lemma resolve_defaults_ok: "service_ok svc \<Longrightarrow> defaults_ok (resolve_defaults svc scope)"
  unfolding resolve_defaults_def
  by (rule resolve_fold_ok) (auto simp: service_ok_def record_ok_def migrated_def)

lemma duplicate_scope_None:
  "duplicate_scope seen ss = None \<longleftrightarrow> distinct (map tset_scope ss) \<and> (\<forall>s \<in> set ss. tset_scope s \<notin> set seen)"
proof (induction ss arbitrary: seen)
  case (Cons s ss)
  then show ?case by (auto simp: image_iff)
qed simp

lemma service_new_ok: "service_ok (service_new t)"
  by (simp add: service_ok_def service_new_def settings_new_def find_scope_def migrated_def)

lemma service_new_with_defaults_ok: "defaults_ok d \<Longrightarrow> service_ok (service_new_with_defaults t d)"
  by (simp add: service_ok_def service_new_with_defaults_def find_scope_def migrated_def from_defaults_def diff_ok)

lemma migrate_one_records:
  assumes "\<forall>s \<in> set (sv_settings svc). record_ok s"
  shows "\<forall>s \<in> set (sv_settings (migrate_one i svc)). record_ok s"
proof
  fix s
  assume s: "s \<in> set (sv_settings (migrate_one i svc))"
  show "record_ok s"
  proof (cases "i < length (sv_settings svc)")
    case True
    define s0 where "s0 = sv_settings svc ! i"
    have "record_ok s0" using assms True by (simp add: s0_def)
    moreover have "s \<in> insert (apply_legacy_migration s0 (resolve_parent_defaults_for svc (tset_scope s0))) (set (sv_settings svc))"
      using s set_update_subset_insert [of "sv_settings svc" i] by (auto simp: migrate_one_def Let_def s0_def)
    ultimately show ?thesis using assms migrate_record_ok by blast
  qed (use s assms in \<open>simp add: migrate_one_def Let_def list_update_beyond\<close>)
qed

lemma migrate_fold_records:
  assumes "\<forall>s \<in> set (sv_settings svc). record_ok s"
  shows "(\<forall>s \<in> set (sv_settings (fold migrate_one is svc)). record_ok s) \<and>
    map tset_scope (sv_settings (fold migrate_one is svc)) = map tset_scope (sv_settings svc) \<and>
    sv_changes (fold migrate_one is svc) = sv_changes svc"
  using assms
proof (induction "is" arbitrary: svc)
  case (Cons i "is")
  from Cons.IH [OF migrate_one_records [OF Cons.prems]] show ?case by (simp add: migrate_one_scopes)
qed simp

lemma migrate_one_migrated:
  "j < length (sv_settings svc) \<Longrightarrow> j = i \<or> migrated (sv_settings svc ! j) \<Longrightarrow> migrated (sv_settings (migrate_one i svc) ! j)"
  by (cases "i < length (sv_settings svc)") (auto simp: migrate_one_def Let_def nth_list_update)

lemma migrate_fold_migrated:
  assumes "j < length (sv_settings svc)" "j \<in> set is \<or> migrated (sv_settings svc ! j)"
  shows "migrated (sv_settings (fold migrate_one is svc) ! j)"
  using assms
proof (induction "is" arbitrary: svc)
  case (Cons i "is")
  have "length (sv_settings (migrate_one i svc)) = length (sv_settings svc)" by (metis length_map migrate_one_scopes)
  then show ?case using Cons.prems Cons.IH [of "migrate_one i svc"] migrate_one_migrated [of j svc i] by auto
qed simp

lemma set_migration_order [simp]: "set (migration_order ss) = {..<length ss}"
  by (auto simp: migration_order_def)

text \<open>The service before its migration.\<close>

definition unmigrated :: "LedgerTimestamp \<Rightarrow> ToolOutputSettings list \<Rightarrow> SettingsService" where
  "unmigrated t ss =
     \<lparr>sv_settings = (if list_ex (\<lambda>s. tset_scope s = workspace_scope) ss then ss else ss @ [settings_new workspace_scope t]),
      sv_changes = []\<rparr>"

lemma new_with_settings_ok:
  assumes "service_new_with_settings t ss = Inr svc"
  shows "distinct (map tset_scope (sv_settings (unmigrated t ss)))" "svc = migrate_legacy_settings (unmigrated t ss)"
proof -
  have "distinct (map tset_scope ss)"
    using assms duplicate_scope_None [of "[]" ss] by (auto simp: service_new_with_settings_def split: option.splits)
  then show "distinct (map tset_scope (sv_settings (unmigrated t ss)))"
    by (auto simp: unmigrated_def settings_new_def list_ex_iff)
  show "svc = migrate_legacy_settings (unmigrated t ss)"
    using assms by (auto simp: service_new_with_settings_def unmigrated_def split: option.splits)
qed

lemma find_scope_iff: "find_scope ss c \<noteq> None \<longleftrightarrow> c \<in> tset_scope ` set ss"
  by (auto simp: find_scope_def find_None_iff)

lemma service_new_with_settings_service_ok:
  assumes "service_new_with_settings t ss = Inr svc" "\<forall>s \<in> set ss. record_ok s"
  shows "service_ok svc \<and> sv_changes svc = []"
proof -
  define u where "u = unmigrated t ss"
  have u: "distinct (map tset_scope (sv_settings u))" "svc = fold migrate_one (migration_order (sv_settings u)) u"
    using new_with_settings_ok [OF assms(1)] by (simp_all add: u_def migrate_legacy_settings_def)
  have r: "\<forall>s \<in> set (sv_settings u). record_ok s" "sv_changes u = []" "workspace_scope \<in> set (map tset_scope (sv_settings u))"
    using assms(2) by (auto simp: u_def unmigrated_def settings_new_def record_ok_def list_ex_iff image_iff) metis
  note f = migrate_fold_records [OF r(1), of "migration_order (sv_settings u)", folded u(2)]
  have len: "length (sv_settings svc) = length (sv_settings u)" using f by (metis length_map)
  have "migrated s" if s: "s \<in> set (sv_settings svc)" for s
  proof -
    from s obtain j where "j < length (sv_settings svc)" "s = sv_settings svc ! j" by (auto simp: in_set_conv_nth)
    then show ?thesis using migrate_fold_migrated [of j u "migration_order (sv_settings u)", folded u(2)] len by simp
  qed
  moreover have "find_scope (sv_settings svc) workspace_scope \<noteq> None"
    using f r(3) by (metis find_scope_iff set_map)
  ultimately show ?thesis using f u(1) r(2) by (auto simp: service_ok_def record_ok_def)
qed

lemma update_overrides_ok:
  assumes "settings_apply_update s actor upd reason inh t = Inr (s', change)" "overrides_ok (tset_overrides s)" "migrated s"
  shows "overrides_ok (tset_overrides s') \<and> migrated s'"
  using assms merge_ok [of "tset_overrides s" upd "apply_to (tset_overrides s) inh"]
  by (auto simp: settings_apply_update_def with_overrides_def Let_def migrated_def defaults_ok_def split: if_splits)

lemma service_update_ok:
  assumes "service_apply_update svc actor scope upd reason t = Inr (svc', change)" "service_ok svc"
  shows "service_ok svc'"
proof -
  from assms(1) obtain s s' where s: "find_scope (sv_settings svc) scope = Some s \<or>
      find_scope (sv_settings svc) scope = None \<and> s = settings_new scope t"
    and u: "settings_apply_update s actor upd reason (resolve_parent_defaults_for svc scope) t = Inr (s', change)"
    and f: "\<forall>c. find_scope (sv_settings svc') c = (if c = scope then Some s' else find_scope (sv_settings svc) c)"
    and sub: "set (sv_settings svc') \<subseteq> insert s' (set (sv_settings svc))"
    by (rule service_update_scope)
  have "overrides_ok (tset_overrides s) \<and> migrated s"
    using s assms(2) find_scope_scope [of "sv_settings svc" scope s] by (auto simp: service_ok_def settings_new_def migrated_def)
  then have "overrides_ok (tset_overrides s') \<and> migrated s'" using update_overrides_ok [OF u] by blast
  moreover have "distinct (map tset_scope (sv_settings svc'))" using service_update_distinct [OF assms(1)] assms(2)
    by (simp add: service_ok_def)
  ultimately show ?thesis using f sub assms(2) by (auto simp: service_ok_def)
qed

end
