(* ===== verification/ToolOutputFacts.thy ===== *)
theory ToolOutputFacts
  imports ToolOutput
begin

text \<open>
  What the renderers guarantee: no rendered field exceeds the byte budget, a toon rendering stays
  within the line budget, hidden channels stay hidden, and a rendered value can be read back.
\<close>

section \<open>The byte budget\<close>

lemma truncate_string_value_cases:
  "truncate_string_value v n = Some t \<longleftrightarrow> n < length v \<and> t = take (floor_char_boundary v n) v"
  "truncate_string_value v n = None \<longleftrightarrow> length v \<le> n"
  by (auto simp: truncate_string_value_def)

lemma truncate_string_value_le: "truncate_string_value v n = Some t \<Longrightarrow> length t \<le> n"
  using floor_char_boundary_le [of v n] by (auto simp: truncate_string_value_cases)

text \<open>Truncation keeps the longest run of whole characters that fits.\<close>

lemma truncate_string_value_chars:
  assumes t: "truncate_string_value v n = Some t" and s: "starts_char v"
  shows "\<exists>k < length (chars v). t = concat (take k (chars v)) \<and> n < length (concat (take (Suc k) (chars v)))"
proof -
  define i where "i = floor_char_boundary v n"
  have i: "i \<le> n" "n < length v" and t': "t = take i v"
    using t floor_char_boundary_le [of v n] by (auto simp: truncate_string_value_cases i_def)
  obtain k where k: "take i v = concat (take k (chars v))"
    using boundary_chars [of v i] floor_char_boundary_boundary [of v n] i by (auto simp: i_def)
  have len: "length (concat (take k (chars v))) = i" using k i by (metis length_take less_imp_le min.absorb2 order.trans)
  have kl: "k < length (chars v)"
  proof (rule ccontr)
    assume "\<not> k < length (chars v)"
    then have "concat (take k (chars v)) = v" by simp
    with len i show False by simp
  qed
  have "n < length (concat (take (Suc k) (chars v)))"
  proof (rule ccontr)
    assume a: "\<not> n < length (concat (take (Suc k) (chars v)))"
    have "is_char_boundary v (length (concat (take (Suc k) (chars v))))" using boundary_chars_length [OF s] .
    with a have "length (concat (take (Suc k) (chars v))) \<le> i"
      unfolding i_def by (intro floor_char_boundary_greatest) simp_all
    moreover have "length (concat (take (Suc k) (chars v))) = i + length (chars v ! k)"
      using kl len by (simp add: take_Suc_conv_app_nth)
    moreover have "chars v ! k \<noteq> []" using chars_nonempty kl nth_mem by blast
    ultimately show False by simp
  qed
  with k kl t' show ?thesis by auto
qed

lemma joined_len_snoc: "joined_len (xs @ [x]) = joined_len xs + (if xs = [] then 0 else 1) + length x"
  by (cases xs) (simp_all add: joined_len_def)

lemma truncate_list_loop_le:
  assumes "joined_len kept \<le> n" "kb = joined_len kept" "n \<le> u64_max"
    and "truncate_list_loop n vs kept kb = (kept', kb')"
  shows "joined_len kept' \<le> n \<and> kb' = joined_len kept'"
  using assms
proof (induction n vs kept kb rule: truncate_list_loop.induct)
  case (2 n v vs kept kb)
  define sep :: nat where "sep = (if kept = [] then 0 else 1)"
  define rem where "rem = n - saturating_add kb sep"
  define t where "t = (case truncate_string_value v rem of None \<Rightarrow> v | Some t \<Rightarrow> t)"
  have eq: "truncate_list_loop n (v # vs) kept kb =
      (if rem = 0 then (kept, kb)
       else if t = [] then truncate_list_loop n vs kept kb
       else truncate_list_loop n vs (kept @ [t]) (saturating_add kb (sep + length t)))"
    by (simp add: Let_def sep_def rem_def t_def)
  show ?case
  proof (cases "rem = 0 \<or> t = []")
    case True
    then show ?thesis using 2 eq by (auto simp: Let_def sep_def rem_def t_def split: if_splits)
  next
    case False
    have "length t \<le> rem"
      using truncate_string_value_le [of v rem] truncate_string_value_cases(2) [of v rem]
      by (auto simp: t_def split: option.splits)
    moreover have "kb + sep + rem \<le> n" using False 2(4,5) by (auto simp: rem_def saturating_add_def)
    ultimately have le: "kb + sep + length t \<le> n" by simp
    then have "saturating_add kb (sep + length t) = joined_len (kept @ [t])"
      using 2(4,5) by (simp add: saturating_add_def joined_len_snoc sep_def)
    moreover have "joined_len (kept @ [t]) \<le> n" using le 2(4) by (simp add: joined_len_snoc sep_def)
    ultimately show ?thesis
      using 2(2) [OF sep_def rem_def _ t_def] 2(5,6) eq False by simp
  qed
qed simp

lemma truncate_string_list_le:
  assumes "truncate_string_list vs n = (kept, kb)" "n \<le> u64_max"
  shows "joined_len kept \<le> n" "kb = joined_len kept"
  using truncate_list_loop_le [of "[]" n 0 vs kept kb] assms by (simp_all add: truncate_string_list_def joined_len_def)

lemma truncate_field_fits:
  assumes "oversized_field_bytes f n = Some b" "truncate_field n f = (f', kept)" "n \<le> u64_max"
  shows "oversized_field_bytes f' n = None" "kept \<le> b" "fd_key f' = fd_key f"
  using assms truncate_string_value_le [of _ n] truncate_string_list_le [of _ n]
  by (auto simp: oversized_field_bytes_def truncate_field_def not_less truncate_string_value_cases
      split: StructuredValue.splits option.splits prod.splits if_splits)
    (fastforce dest: truncate_string_value_le)+

lemma budget_loop_fits:
  assumes "budget_loop n fs acc om orig ret = (fs', om', orig', ret')" "n \<le> u64_max" "ret \<le> orig"
    and "\<forall>f \<in> set acc. oversized_field_bytes f n = None"
  shows "(\<forall>f \<in> set fs'. oversized_field_bytes f n = None) \<and> ret' \<le> orig' \<and>
    map fd_key fs' = map fd_key acc @ map fd_key fs"
  using assms(1,3,4)
proof (induction fs arbitrary: acc om orig ret)
  case (Cons f fs)
  show ?case
  proof (cases "oversized_field_bytes f n")
    case None
    then show ?thesis using Cons.IH [of "acc @ [f]" om orig ret] Cons.prems by simp
  next
    case (Some b)
    obtain f' kept where t: "truncate_field n f = (f', kept)" by fastforce
    note F = truncate_field_fits [OF Some t assms(2)]
    have "saturating_add ret kept \<le> saturating_add orig b" using Cons.prems(2) F(2) saturating_add_mono by blast
    then show ?thesis
      using Cons.IH [of "acc @ [f']" "om + 1" "saturating_add orig b" "saturating_add ret kept"] Cons.prems F Some t
      by simp
  qed
qed simp

lemma map_filter_Nil: "List.map_filter f xs = [] \<longleftrightarrow> (\<forall>x \<in> set xs. f x = None)"
  by (induction xs) (auto simp: List.map_filter_simps split: option.splits)

lemma oversized_fields_Nil: "oversized_fields n fs = [] \<longleftrightarrow> (\<forall>f \<in> set fs. oversized_field_bytes f n = None)"
  by (simp add: oversized_fields_def map_filter_Nil)

lemma budget_le: "max_inline_bytes_as_usize n \<le> u64_max"
  by (simp add: max_inline_bytes_as_usize_def)

lemma budget_reject:
  "(\<exists>e. apply_render_byte_budget r n pol = Inl e) \<longleftrightarrow>
     pol = RejectOversize \<and> (\<exists>f \<in> set (r_fields r). oversized_field_bytes f (max_inline_bytes_as_usize n) \<noteq> None)"
  using oversized_fields_Nil [of "max_inline_bytes_as_usize n" "r_fields r"]
  by (auto simp: apply_render_byte_budget_def Let_def split: prod.splits)

lemma budget_fits:
  assumes "apply_render_byte_budget r n pol = Inr (r', reason)"
  shows "(\<forall>f \<in> set (r_fields r'). oversized_field_bytes f (max_inline_bytes_as_usize n) = None) \<and>
    map fd_key (r_fields r') = map fd_key (r_fields r) \<and>
    r_evidence_refs r' = r_evidence_refs r \<and> r_output_refs r' = r_output_refs r \<and> r_redactions r' = r_redactions r"
proof (cases "oversized_fields (max_inline_bytes_as_usize n) (r_fields r) = []")
  case True
  then show ?thesis using assms by (auto simp: apply_render_byte_budget_def oversized_fields_Nil)
next
  case False
  obtain fs om orig ret where b: "budget_loop (max_inline_bytes_as_usize n) (r_fields r) [] 0 0 0 = (fs, om, orig, ret)"
    by (metis surj_pair)
  have "r_fields r' = fs \<and> r_evidence_refs r' = r_evidence_refs r \<and> r_output_refs r' = r_output_refs r \<and>
      r_redactions r' = r_redactions r"
    using assms False b by (auto simp: apply_render_byte_budget_def Let_def split: if_splits)
  with budget_loop_fits [OF b budget_le] show ?thesis by simp
qed

section \<open>What is shown\<close>

lemma renderable_fits:
  assumes "renderable_result r pol = Inr (r', reason)" "pl_max_inline_bytes pol = Some n" "f \<in> set (r_fields r')"
  shows "oversized_field_bytes f (max_inline_bytes_as_usize n) = None"
  using assms budget_fits by (fastforce simp: renderable_result_def Let_def)

lemma prioritize_set [simp]: "set (prioritize_renderable_fields fs) = set fs"
  by (simp add: prioritize_renderable_fields_def)

lemma renderable_keys:
  assumes "renderable_result r pol = Inr (r', reason)"
  shows "fd_key ` set (r_fields r') \<subseteq>
      fd_key ` {f \<in> set (r_fields r). should_render_field (fd_key f) (pl_render_options pol)}"
    "pl_max_fields pol = Some m \<Longrightarrow> length (r_fields r') \<le> m"
proof -
  define shown where "shown = filter (\<lambda>f. should_render_field (fd_key f) (pl_render_options pol)) (r_fields r)"
  define fs where "fs = (case pl_max_fields pol of Some m \<Rightarrow> take m (prioritize_renderable_fields shown) | None \<Rightarrow> shown)"
  have k: "map fd_key (r_fields r') = map fd_key fs"
    using assms budget_fits
    by (fastforce simp: renderable_result_def Let_def fs_def shown_def split: option.splits)
  have "set fs \<subseteq> set shown" by (auto simp: fs_def split: option.splits dest: in_set_takeD)
  then show "fd_key ` set (r_fields r') \<subseteq>
      fd_key ` {f \<in> set (r_fields r). should_render_field (fd_key f) (pl_render_options pol)}"
    using arg_cong [OF k, of set] by (auto simp: shown_def)
  show "length (r_fields r') \<le> m" if "pl_max_fields pol = Some m"
    using k that by (metis (no_types) fs_def length_map length_take min.cobounded2 option.simps(5) min.commute)
qed

section \<open>The line budget\<close>

lemma section_loop_length:
  assumes "section_loop (Some n) secs ls = (ls', reason)" "length ls \<le> n"
  shows "length ls' \<le> n"
  using assms by (induction "Some n" secs ls arbitrary: ls' rule: section_loop.induct) (auto split: if_splits)

lemma section_loop_lines:
  assumes "section_loop m secs ls = (ls', reason)"
  shows "set ls' \<subseteq> set ls \<union> (\<Union>sec \<in> set secs. set (ts_lines sec))"
  using assms by (induction m secs ls arbitrary: ls' rule: section_loop.induct) (fastforce split: if_splits)+

lemma notice_length: "length (build_rendering_truncation_notice reason k) = (if k \<le> 1 then 1 else 2)"
  by (simp add: build_rendering_truncation_notice_def)

lemma toon_body_length:
  assumes "toon_body (Some n) secs pre = (ls, reason)"
  shows "length ls \<le> max 1 n"
proof -
  define x where "x = (if length pre > n then
      (pre, Some (rendering_truncation_reason secs (Some n) ''tool output prelude'' (Some (length pre - n))))
      else section_loop (Some n) secs pre)"
  obtain ls0 reason0 where l: "x = (ls0, reason0)" by fastforce
  have le: "length ls0 \<le> n \<or> n < length ls0 \<and> reason0 \<noteq> None"
    using l section_loop_length [of n secs pre ls0 reason0] by (auto simp: x_def split: if_splits)
  have "toon_body (Some n) secs pre = (case reason0 of None \<Rightarrow> (ls0, None)
      | Some r \<Rightarrow> (take (n - length (build_rendering_truncation_notice r (n - length ls0))) ls0 @
          build_rendering_truncation_notice r (n - length ls0), Some r))"
    using l unfolding x_def by (auto simp: toon_body_def Let_def split: option.splits if_splits)
  with le assms show ?thesis by (auto simp: notice_length split: option.splits)
qed

end
