(* ===== verification/ToonReader.thy ===== *)
theory ToonReader
  imports ToolOutputFacts
begin

text \<open>
  Reading toon values back.  A rendered value has no line break and determines the string it was
  made from, so the lines of a rendering are the lines the renderer counted.
\<close>

section \<open>UTF-8 text\<close>

text \<open>What is used of UTF-8: text starts a character, and an ASCII byte is a character of its own.\<close>

definition utf8 :: "string \<Rightarrow> bool" where
  "utf8 s \<longleftrightarrow> starts_char s \<and> successively (\<lambda>a b. a < CHR 0x80 \<longrightarrow> \<not> is_continuation b) s"

definition valid_char :: "string \<Rightarrow> bool" where
  "valid_char ch \<longleftrightarrow>
     ch \<noteq> [] \<and> \<not> is_continuation (hd ch) \<and> list_all is_continuation (tl ch) \<and> (hd ch < CHR 0x80 \<longrightarrow> tl ch = [])"

lemma utf8_Nil [simp]: "utf8 []"
  by (simp add: utf8_def starts_char_def)

lemma utf8_append [intro]: "utf8 a \<Longrightarrow> utf8 b \<Longrightarrow> utf8 (a @ b)"
  by (cases b) (auto simp: utf8_def starts_char_def successively_append_iff hd_append)

lemma utf8_prefix: "utf8 (a @ b) \<Longrightarrow> utf8 a"
  by (auto simp: utf8_def starts_char_def successively_append_iff hd_append split: if_splits)

lemma utf8_take: "utf8 s \<Longrightarrow> utf8 (take n s)"
  by (metis append_take_drop_id utf8_prefix)

lemma utf8_ascii [intro]: "\<forall>c \<in> set s. c < CHR 0x80 \<Longrightarrow> utf8 s"
proof -
  assume a: "\<forall>c \<in> set s. c < CHR 0x80"
  then have n: "\<not> is_continuation c" if "c \<in> set s" for c
    using that by (auto simp: is_continuation_def not_le)
  have "successively (\<lambda>a b. a < CHR 0x80 \<longrightarrow> \<not> is_continuation b) s"
    using n by (induction s rule: induct_list012) auto
  with n show "utf8 s" by (cases s) (auto simp: utf8_def starts_char_def)
qed

lemma valid_chars: "utf8 s \<Longrightarrow> list_all valid_char (chars s)"
proof (induction s rule: chars.induct)
  case (2 c cs)
  let ?t = "takeWhile is_continuation cs" and ?d = "dropWhile is_continuation cs"
  have "successively (\<lambda>a b. a < CHR 0x80 \<longrightarrow> \<not> is_continuation b) (c # ?t @ ?d)"
    using 2(2) by (simp add: utf8_def)
  then have s: "successively (\<lambda>a b. a < CHR 0x80 \<longrightarrow> \<not> is_continuation b) (c # ?t)"
      "successively (\<lambda>a b. a < CHR 0x80 \<longrightarrow> \<not> is_continuation b) ?d"
    using successively_append_iff [of _ "c # ?t" ?d] by auto
  have t: "list_all is_continuation ?t" by (auto simp: list_all_iff dest: set_takeWhileD)
  have "\<not> is_continuation c" using 2(2) by (simp add: utf8_def starts_char_def)
  with s(1) t have "valid_char (c # ?t)" by (cases ?t) (auto simp: valid_char_def)
  moreover have "utf8 ?d" using s(2) by (simp add: utf8_def)
  ultimately show ?case using 2(1) by simp
qed simp

lemma continuation_ge: "is_continuation c \<Longrightarrow> CHR 0x80 \<le> c"
  by (simp add: is_continuation_def)

lemma valid_char_ascii: "valid_char ch \<Longrightarrow> b \<in> set ch \<Longrightarrow> b < CHR 0x80 \<Longrightarrow> ch = [b]"
  using continuation_ge by (cases ch) (fastforce simp: valid_char_def list_all_iff not_le)+

section \<open>One line\<close>

definition one_line :: "string \<Rightarrow> bool" where
  "one_line s \<longleftrightarrow> newline \<notin> set s"

lemma one_line_append [simp]: "one_line (a @ b) \<longleftrightarrow> one_line a \<and> one_line b"
  by (auto simp: one_line_def)

lemma one_line_Nil [simp]: "one_line []"
  by (simp add: one_line_def)

lemma one_line_Cons [simp]: "one_line (c # cs) \<longleftrightarrow> c \<noteq> newline \<and> one_line cs"
  by (auto simp: one_line_def)

lemma one_line_concat: "one_line (concat xs) \<longleftrightarrow> list_all one_line xs"
  by (induction xs) auto

lemma one_line_join: "one_line sep \<Longrightarrow> list_all one_line xs \<Longrightarrow> one_line (join sep xs)"
  by (induction sep xs rule: join.induct) auto

lemma digit_ascii: "is_digit c \<Longrightarrow> c < CHR 0x80 \<and> c \<noteq> newline"
  unfolding is_digit_def newline_def
  by (auto simp: less_eq_char_def less_char_def)

lemma show_nat_ascii: "c \<in> set (show_nat n) \<Longrightarrow> c < CHR 0x80 \<and> c \<noteq> newline"
  using show_nat_digits [of n] digit_ascii by (auto simp: list_all_iff)

lemma one_line_show_nat [simp]: "one_line (show_nat n)"
  using show_nat_ascii by (auto simp: one_line_def)

lemma utf8_show_nat [simp]: "utf8 (show_nat n)"
  using show_nat_ascii by blast

lemma one_line_show_int [simp]: "one_line (show_int i)"
  by (simp add: show_int_def newline_def)

lemma hex_digit_plain: "d < 16 \<Longrightarrow> hex_digit d \<noteq> newline \<and> hex_digit d \<noteq> CHR ''}''"
proof -
  have "list_all (\<lambda>d. hex_digit d \<noteq> newline \<and> hex_digit d \<noteq> CHR ''}'') [0..<16]" by code_simp
  then show "d < 16 \<Longrightarrow> hex_digit d \<noteq> newline \<and> hex_digit d \<noteq> CHR ''}''" by (simp add: list_all_iff)
qed

lemma one_line_show_hex: "n < 256 \<Longrightarrow> one_line (show_hex n)"
  using hex_digit_plain [of n] hex_digit_plain [of "n div 16"] hex_digit_plain [of "n mod 16"]
  by (auto simp: show_hex_def)

lemma control_code_less: "control_code ch < 256"
  by (simp add: control_code_def)

lemma one_line_valid_char: "valid_char ch \<Longrightarrow> ch \<noteq> [newline] \<Longrightarrow> one_line ch"
  using valid_char_ascii [of ch newline] unfolding one_line_def by (auto simp: newline_def)

lemma one_line_quote_char: "valid_char ch \<Longrightarrow> one_line (quote_char ch)"
  unfolding quote_char_def using one_line_valid_char [of ch] one_line_show_hex [OF control_code_less, of ch]
  by (simp add: backslash_def quote_mark_def newline_def)

lemma one_line_quote_string: "utf8 v \<Longrightarrow> one_line (quote_string v)"
  using valid_chars [of v] one_line_quote_char unfolding quote_string_def
  by (simp add: one_line_concat list_all_iff quote_mark_def newline_def)

lemma needs_quotes_newline: "needs_quotes [newline]"
  by (simp add: needs_quotes_def is_control_def newline_def less_char_def)

lemma one_line_toon [simp]: "utf8 v \<Longrightarrow> one_line (render_toon_value v)"
proof (cases "render_toon_value v = quote_string v")
  case False
  assume u: "utf8 v"
  have v: "render_toon_value v = v" "\<not> list_ex needs_quotes (chars v)"
    using False by (auto simp: render_toon_value_def split: if_splits)
  have "list_all one_line (chars v)"
  proof (simp only: list_all_iff, rule ballI)
    fix ch
    assume ch: "ch \<in> set (chars v)"
    then have "valid_char ch" using valid_chars [OF u] by (simp add: list_all_iff)
    moreover have "ch \<noteq> [newline]"
      using v(2) ch needs_quotes_newline by (auto simp: list_ex_iff)
    ultimately show "one_line ch" by (rule one_line_valid_char)
  qed
  then have "one_line (concat (chars v))" by (simp only: one_line_concat)
  then show ?thesis using v(1) by simp
qed (simp add: one_line_quote_string)

section \<open>A reader\<close>

definition is_hex :: "char \<Rightarrow> bool" where
  "is_hex c \<longleftrightarrow> is_digit c \<or> CHR ''a'' \<le> c \<and> c \<le> CHR ''f''"

definition hex_val :: "char \<Rightarrow> nat" where
  "hex_val c = (if is_digit c then of_char c - 48 else of_char c - 87)"

definition read_hex :: "string \<Rightarrow> nat" where
  "read_hex ds = foldl (\<lambda>n d. 16 * n + hex_val d) 0 ds"

text \<open>The encoding of a code point below 256.\<close>

definition encode :: "nat \<Rightarrow> string" where
  "encode n = (if n < 128 then [char_of n] else [CHR 0xC2, char_of n])"

function unescape :: "string \<Rightarrow> string option" where
  "unescape [] = Some []"
| "unescape (c # cs) =
     (if c \<noteq> backslash then map_option ((#) c) (unescape cs)
      else
        case cs of
          [] \<Rightarrow> None
        | d # ds \<Rightarrow>
            if d = backslash \<or> d = quote_mark then map_option ((#) d) (unescape ds)
            else if d = CHR ''n'' then map_option ((#) newline) (unescape ds)
            else if d = CHR ''r'' then map_option ((#) CHR 0x0D) (unescape ds)
            else if d = CHR ''t'' then map_option ((#) CHR 0x09) (unescape ds)
            else if d = CHR ''u'' \<and> ds \<noteq> [] \<and> hd ds = CHR ''{'' then
              (case dropWhile is_hex (tl ds) of
                 [] \<Rightarrow> None
               | e # es \<Rightarrow> if e = CHR ''}''
                           then map_option (\<lambda>s. encode (read_hex (takeWhile is_hex (tl ds))) @ s) (unescape es)
                           else None)
            else None)"
  by pat_completeness auto
termination
proof (relation "measure length", simp_all, goal_cases)
  case (1 cs d ds e es)
  then show ?case using length_dropWhile_le [of is_hex "tl ds"] by (cases ds) auto
qed

definition read_toon_value :: "string \<Rightarrow> string option" where
  "read_toon_value s =
     (case s of
        [] \<Rightarrow> None
      | c # cs \<Rightarrow>
          if c = quote_mark then (if cs \<noteq> [] \<and> last cs = quote_mark then unescape (butlast cs) else None)
          else if is_toon_literal s \<or> list_ex needs_quotes (chars s) then None
          else Some s)"

lemma unescape_plain: "backslash \<notin> set ch \<Longrightarrow> unescape (ch @ rest) = map_option ((@) ch) (unescape rest)"
proof (induction ch)
  case Nil
  show ?case by (cases "unescape rest") simp_all
next
  case (Cons c ch)
  then have "c \<noteq> backslash" by auto
  with Cons show ?case by (cases "unescape rest") simp_all
qed

lemma hex_digit_roundtrip: "d < 16 \<Longrightarrow> is_hex (hex_digit d) \<and> hex_val (hex_digit d) = d"
proof -
  have "list_all (\<lambda>d. is_hex (hex_digit d) \<and> hex_val (hex_digit d) = d) [0..<16]" by code_simp
  then show "d < 16 \<Longrightarrow> is_hex (hex_digit d) \<and> hex_val (hex_digit d) = d" by (simp add: list_all_iff)
qed

lemma hex_roundtrip:
  assumes "n < 256"
  shows "list_all is_hex (show_hex n) \<and> read_hex (show_hex n) = n"
  using assms hex_digit_roundtrip [of n] hex_digit_roundtrip [of "n div 16"] hex_digit_roundtrip [of "n mod 16"]
  by (auto simp: show_hex_def read_hex_def)

lemma takeWhile_hex:
  assumes "n < 256"
  shows "takeWhile is_hex (show_hex n @ CHR ''}'' # rest) = show_hex n"
    "dropWhile is_hex (show_hex n @ CHR ''}'' # rest) = CHR ''}'' # rest"
proof -
  have "\<not> is_hex CHR ''}''" by code_simp
  with hex_roundtrip [OF assms] show "takeWhile is_hex (show_hex n @ CHR ''}'' # rest) = show_hex n"
    "dropWhile is_hex (show_hex n @ CHR ''}'' # rest) = CHR ''}'' # rest"
    by (simp_all add: list_all_iff takeWhile_append dropWhile_append)
qed

lemma unescape_hex:
  assumes "n < 256"
  shows "unescape ([backslash, CHR ''u'', CHR ''{''] @ show_hex n @ [CHR ''}''] @ rest) =
    map_option ((@) (encode n)) (unescape rest)"
  using takeWhile_hex [OF assms, of rest] hex_roundtrip [OF assms]
  by (simp add: backslash_def quote_mark_def)

lemma encode_control: "is_control ch \<Longrightarrow> encode (control_code ch) = ch"
  by (auto simp: is_control_def control_code_def encode_def less_char_def less_eq_char_def split: list.splits)

lemma quote_char_cases:
  "ch \<in> {[backslash], [quote_mark], [newline], [CHR 0x0D], [CHR 0x09]} \<or>
   is_control ch \<and> quote_char ch = [backslash, CHR ''u'', CHR ''{''] @ show_hex (control_code ch) @ [CHR ''}''] \<or>
   ch \<noteq> [backslash] \<and> quote_char ch = ch"
  by (simp add: quote_char_def)

lemma unescape_quote_special:
  assumes "ch \<in> {[backslash], [quote_mark], [newline], [CHR 0x0D], [CHR 0x09]}"
  shows "unescape (quote_char ch @ rest) = map_option ((@) ch) (unescape rest)"
  using assms by (cases "unescape rest") (auto simp: quote_char_def backslash_def quote_mark_def newline_def)

lemma unescape_quote_char:
  assumes "valid_char ch"
  shows "unescape (quote_char ch @ rest) = map_option ((@) ch) (unescape rest)"
proof -
  consider "ch \<in> {[backslash], [quote_mark], [newline], [CHR 0x0D], [CHR 0x09]}"
    | "quote_char ch = [backslash, CHR ''u'', CHR ''{''] @ show_hex (control_code ch) @ [CHR ''}'']" "is_control ch"
    | "quote_char ch = ch" "ch \<noteq> [backslash]"
    using quote_char_cases by blast
  then show ?thesis
  proof cases
    case 1
    then show ?thesis by (rule unescape_quote_special)
  next
    case 2
    then show ?thesis using unescape_hex [OF control_code_less, of ch rest] encode_control [of ch] by simp
  next
    case 3
    then have "backslash \<notin> set ch" using valid_char_ascii [OF assms, of backslash] by (auto simp: backslash_def)
    then show ?thesis using 3 by (simp add: unescape_plain)
  qed
qed

lemma unescape_quoted:
  "list_all valid_char chs \<Longrightarrow> unescape (concat (map quote_char chs)) = Some (concat chs)"
  by (induction chs) (auto simp: unescape_quote_char)

lemma read_quote_string: "utf8 v \<Longrightarrow> read_toon_value (quote_string v) = Some v"
  using unescape_quoted [OF valid_chars, of v] by (simp add: read_toon_value_def quote_string_def)

lemma needs_quotes_quote: "needs_quotes [quote_mark]"
  by (simp add: needs_quotes_def)

lemma toon_unquoted:
  assumes "utf8 v" "render_toon_value v \<noteq> quote_string v"
  shows "read_toon_value v = Some v"
proof -
  have v: "v \<noteq> []" "\<not> is_toon_literal v" "\<not> list_ex needs_quotes (chars v)"
    using assms(2) by (auto simp: render_toon_value_def split: if_splits)
  then obtain c cs where c: "v = c # cs" by (cases v) auto
  define ch where "ch = c # takeWhile is_continuation cs"
  have "ch \<in> set (chars v)" by (simp add: c ch_def)
  then have "valid_char ch" "\<not> needs_quotes ch" using v(3) valid_chars [OF assms(1)] by (auto simp: list_all_iff list_ex_iff)
  then have "c \<noteq> quote_mark"
    using valid_char_ascii [of ch quote_mark] needs_quotes_quote by (auto simp: ch_def quote_mark_def less_char_def)
  with v c show ?thesis by (simp add: read_toon_value_def)
qed

lemma read_render:
  assumes "utf8 v"
  shows "read_toon_value (render_toon_value v) = Some v"
proof (cases "render_toon_value v = quote_string v")
  case False
  then have "render_toon_value v = v" by (auto simp: render_toon_value_def split: if_splits)
  then show ?thesis using toon_unquoted [OF assms False] by simp
qed (simp add: read_quote_string assms)

end
