(* ===== verification/ToonLines.thy ===== *)
theory ToonLines
  imports ToonReader
begin

text \<open>
  The lines of a toon rendering are the lines the renderer counts: every value is rendered on one
  line, so the body has at most as many lines as the policy allows.
\<close>

fun utf8_value :: "StructuredValue \<Rightarrow> bool" where
  "utf8_value (String s) = utf8 s"
| "utf8_value (StringList vs) = list_all utf8 vs"
| "utf8_value _ = True"

definition utf8_field :: "ToolResultField \<Rightarrow> bool" where
  "utf8_field f \<longleftrightarrow> utf8 (fd_key f) \<and> utf8_value (fd_value f)"

definition utf8_artifact :: "ArtifactRef \<Rightarrow> bool" where
  "utf8_artifact r \<longleftrightarrow> one_line (as_str (ar_id r)) \<and> utf8 (ar_uri r) \<and> utf8 (ar_media_type r) \<and>
     pred_option utf8 (ar_label r) \<and> pred_option utf8 (ar_digest r)"

definition utf8_output :: "OutputRef \<Rightarrow> bool" where
  "utf8_output r \<longleftrightarrow> one_line (as_str (or_id r)) \<and> utf8 (or_uri r) \<and> utf8 (or_media_type r) \<and>
     pred_option utf8 (or_label r) \<and> pred_option utf8 (or_digest r)"

text \<open>A result of UTF-8 strings whose identifiers are on one line.\<close>

definition utf8_result :: "ToolResult \<Rightarrow> bool" where
  "utf8_result r \<longleftrightarrow>
     utf8 (r_tool_id r) \<and> one_line (as_str (r_id r)) \<and> one_line (as_str (r_invocation_id r)) \<and>
     pred_option utf8 (r_schema_ref r) \<and> list_all utf8_field (r_fields r) \<and>
     list_all utf8_artifact (r_evidence_refs r) \<and> list_all utf8_output (r_output_refs r) \<and>
     pred_option (\<lambda>t. utf8 (tm_reason t)) (r_truncation r) \<and>
     list_all (\<lambda>m. utf8 (rd_field_path m) \<and> utf8 (rd_reason m)) (r_redactions r)"

section \<open>What is shown is UTF-8\<close>

lemma utf8_ascii_Cons: "c < CHR 0x80 \<Longrightarrow> utf8 (c # s) \<longleftrightarrow> utf8 s"
  by (cases s) (auto simp: utf8_def starts_char_def is_continuation_def not_le)

lemma utf8_truncate: "utf8 v \<Longrightarrow> truncate_string_value v n = Some t \<Longrightarrow> utf8 t"
  by (auto simp: truncate_string_value_cases utf8_take)

lemma utf8_list_loop:
  assumes "truncate_list_loop n vs kept kb = (kept', kb')" "list_all utf8 vs" "list_all utf8 kept"
  shows "list_all utf8 kept'"
  using assms
proof (induction vs arbitrary: kept kb)
  case (Cons v vs)
  define rem where "rem = n - saturating_add kb (if kept = [] then 0 else 1)"
  define t where "t = (case truncate_string_value v rem of None \<Rightarrow> v | Some t \<Rightarrow> t)"
  have "utf8 t" using Cons.prems(2) utf8_truncate [of v rem] by (auto simp: t_def split: option.splits)
  then show ?case
    using Cons.prems Cons.IH [of kept kb]
      Cons.IH [of "kept @ [t]" "saturating_add kb ((if kept = [] then 0 else 1) + length t)"]
    by (simp add: Let_def rem_def t_def split: if_splits)
qed simp

lemma utf8_truncate_field: "utf8_field f \<Longrightarrow> utf8_field (fst (truncate_field n f))"
  using utf8_list_loop utf8_truncate
  by (auto simp: utf8_field_def truncate_field_def truncate_string_list_def split: StructuredValue.splits option.splits prod.splits)

lemma utf8_budget_loop:
  assumes "budget_loop n fs acc om orig ret = (fs', om', orig', ret')" "list_all utf8_field fs" "list_all utf8_field acc"
  shows "list_all utf8_field fs'"
  using assms
proof (induction fs arbitrary: acc om orig ret)
  case (Cons f fs)
  obtain f' k where t: "truncate_field n f = (f', k)" by fastforce
  have "utf8_field f'" using utf8_truncate_field [of f n] Cons.prems(2) t by simp
  then show ?case
    using Cons.prems Cons.IH [of "acc @ [f]" om orig ret]
      Cons.IH [of "acc @ [f']" "Suc om" "saturating_add orig (the (oversized_field_bytes f n))" "saturating_add ret k"]
    by (simp add: t split: option.splits)
qed simp

lemma utf8_budget:
  assumes "apply_render_byte_budget r n pol = Inr (r', reason)" "utf8_result r"
  shows "utf8_result r'"
proof (cases "oversized_fields (max_inline_bytes_as_usize n) (r_fields r) = []")
  case True
  then show ?thesis using assms by (simp add: apply_render_byte_budget_def)
next
  case False
  obtain fs om orig ret where b: "budget_loop (max_inline_bytes_as_usize n) (r_fields r) [] 0 0 0 = (fs, om, orig, ret)"
    by (metis surj_pair)
  have fs: "list_all utf8_field fs" using utf8_budget_loop [OF b] assms(2) by (simp add: utf8_result_def)
  let ?t = "''rendering truncated oversized tool output to max_inline_bytes='' @ show_nat (max_inline_bytes_as_usize n)"
  have t: "utf8 ?t" "utf8 (''; '' @ ?t)" by (simp_all add: utf8_ascii_Cons less_char_def)
  have "\<exists>tr. r' = r\<lparr>r_fields := fs, r_truncation := tr\<rparr> \<and> (tr = r_truncation r \<or> (\<exists>t. tr = Some t \<and>
      (tm_reason t = ?t \<or> (\<exists>e. r_truncation r = Some e \<and> tm_reason t = tm_reason e @ (''; '' @ ?t)))))"
  proof (cases "om = 0")
    case True
    then have "r' = r\<lparr>r_fields := fs\<rparr>"
      using assms(1) False b by (auto simp: apply_render_byte_budget_def Let_def split: if_splits)
    then have "r' = r\<lparr>r_fields := fs, r_truncation := r_truncation r\<rparr>" by (cases r) simp
    then show ?thesis by blast
  next
    case om: False
    then show ?thesis
      using assms(1) False b by (auto simp: apply_render_byte_budget_def Let_def split: if_splits option.splits)
  qed
  then obtain tr where r': "r' = r\<lparr>r_fields := fs, r_truncation := tr\<rparr>"
    and tr: "tr = r_truncation r \<or> (\<exists>t. tr = Some t \<and>
      (tm_reason t = ?t \<or> (\<exists>e. r_truncation r = Some e \<and> tm_reason t = tm_reason e @ (''; '' @ ?t))))" by blast
  have old: "utf8 (tm_reason e)" if "r_truncation r = Some e" for e using assms(2) that by (simp add: utf8_result_def)
  have "pred_option (\<lambda>t. utf8 (tm_reason t)) tr"
    using tr t old utf8_append [OF old t(2)] by (cases "r_truncation r") (auto simp del: append.simps)
  then show ?thesis using assms(2) fs by (simp add: utf8_result_def r')
qed

lemma utf8_renderable:
  assumes "renderable_result r pol = Inr (r', reason)" "utf8_result r"
  shows "utf8_result r'"
proof -
  define shown where "shown = filter (\<lambda>f. should_render_field (fd_key f) (pl_render_options pol)) (r_fields r)"
  define fs where "fs = (case pl_max_fields pol of Some m \<Rightarrow> take m (prioritize_renderable_fields shown) | None \<Rightarrow> shown)"
  define r1 where "r1 = r\<lparr>r_fields := fs,
            r_evidence_refs := (if pl_include_evidence_refs pol then r_evidence_refs r else []),
            r_output_refs := (if pl_include_output_refs pol then r_output_refs r else []),
            r_redactions := (if pl_include_redactions pol then r_redactions r else [])\<rparr>"
  have "set fs \<subseteq> set (r_fields r)" by (auto simp: fs_def shown_def split: option.splits dest: in_set_takeD)
  then have "utf8_result r1" using assms(2) by (auto simp: r1_def utf8_result_def list_all_iff)
  then show ?thesis
    using assms(1) utf8_budget [of r1]
    by (auto simp: renderable_result_def Let_def r1_def fs_def shown_def split: option.splits)
qed

section \<open>Every line is one line\<close>

lemma one_line_optional: "pred_option utf8 v \<Longrightarrow> one_line (render_optional_string v)"
  by (cases v) (simp_all add: render_optional_string_def newline_def)

lemma one_line_structured: "utf8_value v \<Longrightarrow> one_line (render_structured_value v)"
proof (cases v)
  case (StringList vs)
  assume "utf8_value v"
  then have "one_line (join '','' (map render_toon_value vs))"
    using StringList by (intro one_line_join) (auto simp: list_all_iff newline_def)
  then show ?thesis using StringList by (simp add: newline_def)
qed (auto simp: newline_def)

lemma one_line_sections:
  assumes "utf8_result r" "sec \<in> set (toon_sections r)"
  shows "list_all one_line (ts_lines sec)"
proof -
  consider "ts_lines sec = build_fields_section (r_fields r)"
    | "ts_lines sec = build_artifact_refs_section ''evidence_refs'' (r_evidence_refs r)"
    | "ts_lines sec = build_output_refs_section (r_output_refs r)"
    | t where "r_truncation r = Some t" "ts_lines sec = build_truncation_section t"
    | "ts_lines sec = build_redactions_section (r_redactions r)"
    using assms(2) by (cases "r_truncation r") (auto simp: toon_sections_def)
  then show ?thesis
  proof cases
    case 1
    then show ?thesis using assms(1) one_line_structured
      by (simp add: build_fields_section_def utf8_result_def utf8_field_def list_all_iff newline_def)
  next
    case 2
    then show ?thesis using assms(1) one_line_optional
      by (simp add: build_artifact_refs_section_def utf8_result_def utf8_artifact_def list_all_iff newline_def)
  next
    case 3
    then show ?thesis using assms(1) one_line_optional
      by (simp add: build_output_refs_section_def utf8_result_def utf8_output_def list_all_iff newline_def)
  next
    case 4
    then show ?thesis using assms(1)
      by (simp add: build_truncation_section_def utf8_result_def newline_def)
  next
    case 5
    then show ?thesis using assms(1)
      by (simp add: build_redactions_section_def utf8_result_def list_all_iff newline_def)
  qed
qed

lemma one_line_status: "one_line (status_name s)"
  by (cases s) (simp_all add: newline_def)

lemma one_line_schema: "one_line (schema_version r)"
  by (simp add: schema_version_def TOOL_RESULT_SCHEMA_NAME_def newline_def)

lemma one_line_prelude:
  assumes "utf8_result r" "pred_option utf8 fb"
  shows "list_all one_line (toon_prelude r fb)"
proof -
  have "utf8 (format_as_str Json)" by (rule utf8_ascii) (simp add: less_char_def)
  then show ?thesis
    using assms one_line_status one_line_schema
    by (cases fb; cases "r_schema_ref r") (simp_all add: toon_prelude_def utf8_result_def newline_def)
qed

lemma utf8_label: "sec \<in> set (toon_sections r) \<Longrightarrow> utf8 (ts_label sec)"
  by (auto simp: toon_sections_def utf8_ascii_Cons less_char_def split: option.splits)

lemma utf8_reason: "utf8 label \<Longrightarrow> utf8 (rendering_truncation_reason secs n label m)"
proof -
  assume l: "utf8 label"
  have counts: "utf8 (format_omitted_section_counts secs)"
    unfolding format_omitted_section_counts_def
    by (intro utf8_append utf8_show_nat) (rule utf8_ascii, simp add: less_char_def)+
  show ?thesis
    unfolding rendering_truncation_reason_def using l counts
    by (intro utf8_append; (cases n; cases m)?)
       (auto simp: utf8_ascii_Cons less_char_def intro!: utf8_append)
qed

lemma section_loop_reason:
  assumes "section_loop m secs ls = (ls', Some reason)" "\<forall>sec \<in> set secs. utf8 (ts_label sec)"
  shows "utf8 reason"
  using assms
proof (induction secs arbitrary: ls)
  case (Cons sec secs)
  then show ?case using utf8_reason [of "ts_label sec" "sec # secs" m None] by (auto split: if_splits)
qed simp

lemma one_line_notice: "utf8 reason \<Longrightarrow> list_all one_line (build_rendering_truncation_notice reason k)"
  by (simp add: build_rendering_truncation_notice_def newline_def)

lemma toon_body_lines:
  assumes "toon_body m secs pre = (ls, reason)" "list_all one_line pre"
    and "\<forall>sec \<in> set secs. utf8 (ts_label sec) \<and> list_all one_line (ts_lines sec)"
  shows "list_all one_line ls"
proof -
  define x where "x = (if (case m of None \<Rightarrow> False | Some n \<Rightarrow> length pre > n) then
      (pre, Some (rendering_truncation_reason secs m ''tool output prelude'' (map_option (\<lambda>n. length pre - n) m)))
      else section_loop m secs pre)"
  obtain ls0 reason0 where l: "x = (ls0, reason0)" by fastforce
  have "utf8 ''tool output prelude''" by (rule utf8_ascii) (simp add: less_char_def)
  then have r: "utf8 reason'" if "reason0 = Some reason'" for reason'
    using that l section_loop_reason [of m secs pre ls0 reason'] assms(3) utf8_reason
    by (auto simp: x_def split: if_splits)
  have s: "list_all one_line ls0"
    using l section_loop_lines [of m secs pre ls0 reason0] assms(2,3)
    by (auto simp: x_def list_all_iff split: if_splits)
  have "toon_body m secs pre = (case reason0 of None \<Rightarrow> (ls0, None)
      | Some r \<Rightarrow> (let n = (case m of None \<Rightarrow> u64_max | Some n \<Rightarrow> n);
            notice = build_rendering_truncation_notice r (n - length ls0)
          in (take (n - length notice) ls0 @ notice, Some r)))"
    using l by (simp add: toon_body_def x_def [symmetric])
  with s r assms(1) show ?thesis
    using one_line_notice by (auto simp: Let_def list_all_iff split: option.splits dest!: in_set_takeD)
qed

lemma render_toon_lines:
  assumes "render_toon r pol fb = Inr (body, reason, tr)" "utf8_result r" "pred_option utf8 fb"
    and "pl_max_inline_lines pol = Some n"
  shows "line_count body \<le> max 1 n"
proof -
  obtain r' br where r': "renderable_result r pol = Inr (r', br)" using assms(1) by (auto simp: render_toon_def)
  obtain ls why where b: "toon_body (Some n) (toon_sections r') (toon_prelude r' fb) = (ls, why)" by fastforce
  have body: "body = join [newline] ls" using assms(1,4) r' b by (simp add: render_toon_def Let_def)
  have u: "utf8_result r'" using utf8_renderable [OF r' assms(2)] .
  have "list_all one_line ls"
    using toon_body_lines [OF b one_line_prelude [OF u assms(3)]] one_line_sections [OF u] utf8_label by blast
  then have "line_count body \<le> length ls"
    unfolding body by (intro line_count_join) (auto simp: one_line_def list_all_iff)
  with toon_body_length [OF b] show ?thesis by simp
qed

end
