(* ===== verification/Presentation.thy ===== *)
theory Presentation
  imports SettingsFacts ToonLines "HOL-Library.Code_Target_Nat"
begin

text \<open>
  Settings and renderers together: what a caller sees of a tool result under the settings that
  hold for a scope.
\<close>

lemma pred_option_code [code]: "pred_option P None = True" "pred_option P (Some x) = P x"
  by simp_all


section \<open>Services\<close>

inductive settings_reachable :: "SettingsService \<Rightarrow> bool" where
  new: "settings_reachable (service_new t)"
| with_defaults: "defaults_try_from d = Inr d' \<Longrightarrow> settings_reachable (service_new_with_defaults t d')"
| with_settings: "service_new_with_settings t ss = Inr svc \<Longrightarrow> \<forall>s \<in> set ss. record_ok s \<Longrightarrow> settings_reachable svc"
| update: "settings_reachable svc \<Longrightarrow> service_apply_update svc actor scope upd reason t = Inr (svc', change)
    \<Longrightarrow> settings_reachable svc'"

lemma reachable_ok: "settings_reachable svc \<Longrightarrow> service_ok svc"
proof (induction rule: settings_reachable.induct)
  case (with_defaults d d' t)
  then have "defaults_ok d'" by (auto simp: defaults_try_from_def defaults_ok_def)
  then show ?case by (rule service_new_with_defaults_ok)
next
  case (with_settings t ss svc)
  then show ?case using service_new_with_settings_service_ok by blast
qed (simp_all add: service_new_ok service_update_ok)

section \<open>What a caller sees\<close>

definition sample_output :: ToolResult where
  "sample_output =
     \<lparr>r_id = OpaqueId ''res-1'', r_schema_version = 1, r_created_at = 5, r_invocation_id = OpaqueId ''inv-1'',
      r_tool_id = ''fs.read'', r_status = ToolResultStatus.Succeeded, r_schema_ref = None,
      r_fields = [\<lparr>fd_key = ''policy_outcome'', fd_value = String ''allowed''\<rparr>,
                  \<lparr>fd_key = ''summary'', fd_value = String ''two, words''\<rparr>],
      r_evidence_refs = [], r_output_refs = [], r_truncation = None, r_redactions = []\<rparr>"

definition sample_json :: json_codec where
  "sample_json = \<lparr>json_pretty = (\<lambda>_. Inr ''{}''), json_compact = (\<lambda>_. Inr ''{}'')\<rparr>"








text \<open>
  C21. A toon rendering under the settings of a scope has at most the resolved number of lines, for
  every result made of UTF-8 strings whose identifiers hold no line break.
\<close>

theorem toon_lines_within_settings:
  assumes "settings_reachable svc" "utf8_result result"
    and "rn_format (pl_render_options (render_policy_with_render_options (resolve_defaults svc scope) requested)) = Toon"
    and "render_tool_result_with_policy json result
      (render_policy_with_render_options (resolve_defaults svc scope) requested) = Inr out"
  shows "line_count (ro_body out) \<le> td_max_inline_lines (resolve_defaults svc scope) \<and> line_count (ro_body out) \<le> 10000"
proof -
  let ?d = "resolve_defaults svc scope" and ?p = "render_policy_with_render_options (resolve_defaults svc scope) requested"
  obtain body fb tr where r: "render_toon result ?p None = Inr (body, fb, tr)" "ro_body out = body"
    using assms(3,4) by (auto simp: render_tool_result_with_policy_def rendered_output_def)
  have "pl_max_inline_lines ?p = Some (td_max_inline_lines ?d)"
    by (simp add: render_policy_with_render_options_def Let_def)
  from render_toon_lines [OF r(1) assms(2) _ this]
  have "line_count body \<le> max 1 (td_max_inline_lines ?d)" by simp
  with r(2) resolve_defaults_ok [OF reachable_ok [OF assms(1)], of scope] show ?thesis
    by (simp add: defaults_ok_iff settings_bounds)
qed

theorem toon_lines_within_settings_witness:
  "\<exists>out. render_tool_result_with_policy sample_json sample_output
     (render_policy_with_render_options (resolve_defaults (service_new 0) workspace_scope) None) = Inr out \<and>
     line_count (ro_body out) = 8 \<and> line_count (ro_body out) \<le> 10000"
proof -
  have t: "rn_format (pl_render_options (render_policy_with_render_options (resolve_defaults (service_new 0) workspace_scope) None)) = Toon"
    by code_simp
  have "case render_tool_result_with_policy sample_json sample_output
     (render_policy_with_render_options (resolve_defaults (service_new 0) workspace_scope) None) of
     Inl _ \<Rightarrow> False | Inr out \<Rightarrow> line_count (ro_body out) = 8" by code_simp
  then obtain out where *: "render_tool_result_with_policy sample_json sample_output
     (render_policy_with_render_options (resolve_defaults (service_new 0) workspace_scope) None) = Inr out"
    "line_count (ro_body out) = 8" by (auto split: sum.splits)
  have "utf8_result sample_output" by code_simp
  with toon_lines_within_settings [OF settings_reachable.new _ t *(1)] * show ?thesis by blast
qed





section \<open>Updates and migration\<close>

text \<open>
  C24. A successful settings update is what its audit record says: the record's old defaults are
  what the scope resolved to, the new defaults are these with the update applied, they are valid
  and they are what the scope resolves to afterwards; the record is appended to the change log and
  no scope outside the updated scope's reach resolves differently.
\<close>

theorem settings_update_audited:
  assumes "service_apply_update svc actor scope upd reason t = Inr (svc', change)"
  shows "chg_old_defaults change = resolve_defaults svc scope \<and>
    chg_new_defaults change = apply_to upd (chg_old_defaults change) \<and>
    resolve_defaults svc' scope = chg_new_defaults change \<and>
    validate_defaults (resolve_defaults svc' scope) = Inr () \<and>
    sv_changes svc' = sv_changes svc @ [change] \<and>
    (\<forall>other. scope \<notin> set (resolution_chain other) \<longrightarrow> resolve_defaults svc' other = resolve_defaults svc other)"
  using service_update_resolves [OF assms] service_update_frame [OF assms] by blast

definition sample_update :: ToolOutputOverrides where
  "sample_update = ToolOutputOverrides_default\<lparr>ov_max_inline_lines := Some 7\<rparr>"

theorem settings_update_audited_witness:
  "\<exists>svc' change.
     service_apply_update (service_new 0) (Actor.System ''cli'') (session_scope ''s1'') sample_update ''quiet'' 9 = Inr (svc', change) \<and>
     td_max_inline_lines (resolve_defaults svc' (session_scope ''s1'')) = 7 \<and>
     td_max_inline_lines (resolve_defaults svc' (session_scope ''s2'')) = 200"
proof -
  have "case service_apply_update (service_new 0) (Actor.System ''cli'') (session_scope ''s1'') sample_update ''quiet'' 9 of
      Inl _ \<Rightarrow> False | Inr (svc', change) \<Rightarrow> td_max_inline_lines (chg_new_defaults change) = 7" by code_simp
  then obtain svc' change where u:
    "service_apply_update (service_new 0) (Actor.System ''cli'') (session_scope ''s1'') sample_update ''quiet'' 9 = Inr (svc', change)"
    "td_max_inline_lines (chg_new_defaults change) = 7" by (auto split: sum.splits)
  have o: "session_scope ''s1'' \<notin> set (resolution_chain (session_scope ''s2''))" by code_simp
  have r: "resolve_defaults svc' (session_scope ''s1'') = chg_new_defaults change"
    "resolve_defaults svc' (session_scope ''s2'') = resolve_defaults (service_new 0) (session_scope ''s2'')"
    using settings_update_audited [OF u(1)] o by blast+
  have "td_max_inline_lines (resolve_defaults (service_new 0) (session_scope ''s2'')) = 200" by code_simp
  then show ?thesis using u r by auto
qed


text \<open>
  C26. Migrating legacy records changes what a scope resolves to in one case only: a tool scope of a
  level whose workspace-wide tool record is a legacy one. Every other scope resolves as before, and
  afterwards no legacy record is left.
\<close>

theorem migration_keeps_resolution:
  assumes "service_new_with_settings t ss = Inr svc" "\<forall>s \<in> set ss. record_ok s"
    and "stable (sv_settings (unmigrated t ss)) scope"
  shows "resolve_defaults svc scope = resolve_defaults (unmigrated t ss) scope \<and>
    (\<forall>s \<in> set (sv_settings svc). tset_legacy_defaults s = None)"
  using migrate_fold_resolve [OF new_with_settings_ok(1) [OF assms(1)] _ assms(3)] new_with_settings_ok(2) [OF assms(1)]
    service_new_with_settings_service_ok [OF assms(1,2)]
  by (auto simp: migrate_legacy_settings_def service_ok_def migrated_def)

definition legacy_record :: "ToolOutputSettingsScope \<Rightarrow> ToolOutputDefaults \<Rightarrow> ToolOutputSettings" where
  "legacy_record scope d = (settings_new scope 0)\<lparr>tset_legacy_defaults := Some d\<rparr>"

theorem migration_keeps_resolution_witness:
  "\<exists>svc. service_new_with_settings 0
       [legacy_record (session_scope ''s1'') (ToolOutputDefaults_default\<lparr>td_max_inline_lines := 9\<rparr>)] = Inr svc \<and>
     td_max_inline_lines (resolve_defaults svc (session_scope ''s1'')) = 9"
proof -
  let ?ss = "[legacy_record (session_scope ''s1'') (ToolOutputDefaults_default\<lparr>td_max_inline_lines := 9\<rparr>)]"
  have "case service_new_with_settings 0 ?ss of Inl _ \<Rightarrow> False | Inr _ \<Rightarrow> True" by code_simp
  then obtain svc where svc: "service_new_with_settings 0 ?ss = Inr svc" by (auto split: sum.splits)
  have "\<forall>s \<in> set ?ss. record_ok s" "stable (sv_settings (unmigrated 0 ?ss)) (session_scope ''s1'')" by code_simp+
  from migration_keeps_resolution [OF svc this]
  have "resolve_defaults svc (session_scope ''s1'') = resolve_defaults (unmigrated 0 ?ss) (session_scope ''s1'')" by blast
  moreover have "td_max_inline_lines (resolve_defaults (unmigrated 0 ?ss) (session_scope ''s1'')) = 9" by code_simp
  ultimately show ?thesis using svc by auto
qed





end
