(* ===== verification/Spec2Isabelle.thy ===== *)
theory Spec2Isabelle
  imports ScenarioReceipt Paging Presentation
begin

text \<open>
  Verification of the Atelia secretary daemon.
\<close>

section \<open>The ledger\<close>

text \<open>
  C2. Every ledger the store reaches from the empty one through its operations satisfies the
  ledger invariant: records are keyed by their ids, the two event indexes represent one log
  numbered from 1 without gaps, every event of the log passes the event checks, every reference
  resolves inside its repository, blocked roots do not overlap other repositories, and locks,
  tool results and migration locks are unique.
\<close>

theorem ledger_invariant:
  assumes "reachable ok ext s"
  shows "ledger_inv ok s"
  using assms by (rule reachable_inv)

theorem ledger_invariant_witness: "ledger_inv any_uuid ledger_b"
  using ledger_invariant [OF reachable_b] .



section \<open>Live watches\<close>

text \<open>
  C1. A live watch delivers every matching event exactly once and in order, however the store
  changes meanwhile: the snapshot it starts with, followed by what it forwards from the channel it
  subscribed to, is the matching part of the log after the cursor. \<open>st k\<close> is the ledger the
  \<open>k\<close>-th time the watch reads it, \<open>p\<close> the length of the log when it subscribed, and the
  forwarder handles each message at a time the ledger has the event.
\<close>

theorem watch_exactly_once:
  assumes "history ok ext st"
    and "watch_job_events_live st query = Inr (snapshot, cutoff, resolved)"
    and "p \<le> length (event_log (st 1))" and "1 \<le> n"
    and "msgs = channel_since (st n) query p"
    and "\<And>k. k < length msgs \<Longrightarrow> m + k \<le> n \<and> msgs ! k \<in> set (event_log (st (m + k)))"
  shows "\<exists>live. forward_filtered_job_events (\<lambda>k. st (m + k)) query (Some cutoff) 0 (map Received msgs) = map Inr live \<and>
    snapshot @ live = filter (selected (st n) query) (drop (unwrap_or resolved 0) (event_log (st n)))"
  using watch_delivers [OF assms(1-3) assms(5,6,4)] .

theorem watch_exactly_once_witness:
  "\<exists>live. forward_filtered_job_events (\<lambda>k. sample_history (2 + k)) EventQuery_default (Some 1) 0
      (map Received [started_a\<lparr>e_sequence_number := 2\<rparr>]) = map Inr live \<and>
    [submitted_a\<lparr>e_sequence_number := 1\<rparr>] @ live =
      filter (selected (sample_history 2) EventQuery_default) (drop (unwrap_or None 0) (event_log (sample_history 2)))"
proof (rule watch_exactly_once [OF sample_history_ok, where p = 1])
  show "watch_job_events_live sample_history EventQuery_default = Inr ([submitted_a\<lparr>e_sequence_number := 1\<rparr>], 1, None)"
    by code_simp
  show "[started_a\<lparr>e_sequence_number := 2\<rparr>] = channel_since (sample_history 2) EventQuery_default 1" by code_simp
  show "1 \<le> length (event_log (sample_history 1))" by (simp add: sample_history_def log_a)
  show "\<And>k. k < length [started_a\<lparr>e_sequence_number := 2\<rparr>] \<Longrightarrow>
      2 + k \<le> 2 \<and> [started_a\<lparr>e_sequence_number := 2\<rparr>] ! k \<in> set (event_log (sample_history (2 + k)))"
    by (simp add: sample_history_def log_b)
qed simp



section \<open>Transactions, crashes and restarts\<close>

text \<open>
  C3. Store operations are transactions. One that fails, for a reason of its own or of the file
  system, leaves the ledger in memory and every channel as they were, and the snapshot file too
  unless the failing call was the directory sync after the rename. One that succeeds has its
  ledger in memory, its snapshot in the file, and its events on the global channel and on their
  repositories' channels.
\<close>

theorem transaction_atomic:
  assumes "mutate_with_published_events env io mutator st = (st', result)"
  shows "case result of
      Inl e \<Rightarrow>
        st_inner st' = st_inner st \<and> event_broadcaster (st_broadcasts st') = event_broadcaster (st_broadcasts st) \<and>
        (\<forall>r. channel (st_broadcasts st') r = channel (st_broadcasts st) r) \<and>
        (snapshot_file st' = snapshot_file st \<or> io_fail io SyncDir \<noteq> None)
    | Inr value \<Rightarrow>
        \<exists>events. mutator (st_inner st) = Inr ((value, events), st_inner st') \<and>
          stored env st' (st_inner st') \<and>
          event_broadcaster (st_broadcasts st') = event_broadcaster (st_broadcasts st) @ events \<and>
          (\<forall>r. channel (st_broadcasts st') r = channel (st_broadcasts st) r @
             filter (\<lambda>e. event_repository_id (st_inner st') e = Inr (Some r)) events)"
proof (cases result)
  case (Inl e)
  with mutate_published_error [of env io mutator st st' e] assms show ?thesis by simp
next
  case (Inr v)
  obtain es where "mutator (st_inner st) = Inr ((v, es), st_inner st')" "stored env st' (st_inner st')"
    "event_broadcaster (st_broadcasts st') = event_broadcaster (st_broadcasts st) @ es"
    "\<And>r. channel (st_broadcasts st') r = channel (st_broadcasts st) r @
       filter (\<lambda>e. event_repository_id (st_inner st') e = Inr (Some r)) es"
    using mutate_published_ok [OF assms [unfolded Inr]] by blast
  then show ?thesis unfolding Inr sum.case by blast
qed

theorem transaction_atomic_witness:
  "\<exists>e st. run_op sample_env full_disk start_op store_a = (st, Inl e) \<and> st_inner st = ledger_a \<and>
     snapshot_file st = Some ''1''"
proof -
  obtain st e where r: "run_op sample_env full_disk start_op store_a = (st, Inl e)" using run_full_disk by blast
  have "st_inner st = st_inner store_a \<and> snapshot_file st = snapshot_file store_a"
    using transaction_atomic [OF r [unfolded run_op_def]] by (simp add: full_disk_def no_failures_def)
  moreover have "snapshot_file store_a = Some ''1''" by code_simp
  ultimately show ?thesis using r by (simp add: store_a_def opened_store_def)
qed





text \<open>
  C9. What the load check accepts: a reachable ledger with fewer than \<open>u64::MAX\<close> events loads
  exactly when its jobs have consistent timestamps, its receipts still match the ledger, and its
  registry passes its own check. Every other condition of the load check holds of every reachable
  ledger.
\<close>

theorem load_accepts_iff:
  assumes "reachable ok ext s" and "length (event_log s) < u64_max"
  shows "validate_loaded_store ok ext s = Inr () \<longleftrightarrow>
     (\<forall>i j. bt_get (jobs s) i = Some j \<longrightarrow> job_timeline j) \<and>
     (\<forall>key r. hm_get (idempotent_submit_jobs s) key = Some r \<longrightarrow>
        validate_submit_job_idempotency_record s key r = Inr ()) \<and>
     ext (extension_registry_snapshot s) = Inr ()"
  using load_check_iff [OF reachable_inv [OF assms(1)] assms(2)] .

theorem load_accepts_iff_witness:
  "validate_loaded_store any_uuid any_registry ledger_b = Inr () \<longleftrightarrow>
     (\<forall>i j. bt_get (jobs ledger_b) i = Some j \<longrightarrow> job_timeline j) \<and>
     (\<forall>key r. hm_get (idempotent_submit_jobs ledger_b) key = Some r \<longrightarrow>
        validate_submit_job_idempotency_record ledger_b key r = Inr ()) \<and>
     any_registry (extension_registry_snapshot ledger_b) = Inr ()"
  by (rule load_accepts_iff [OF reachable_b]) (simp add: log_b u64_max_def)

text \<open>
  C10. What the load check establishes: a snapshot that passes it satisfies the ledger invariant,
  provided its maps are keyed by the ids of their records, every job points at an event of its
  own, and at most one migration lock is held; those three are what the check does not look at.
\<close>

theorem load_establishes_invariant:
  assumes "validate_loaded_store ok ext s = Inr ()"
    and "well_keyed s" and "jobs_point_at_events s" and "one_held_migration_lock s"
    and "length (job_events_by_sequence s) < u64_max"
  shows "ledger_inv ok s"
  using load_check_inv [OF assms] .

theorem load_establishes_invariant_witness: "ledger_inv any_uuid ledger_b"
proof (rule load_establishes_invariant)
  have inv: "ledger_inv any_uuid ledger_b" using reachable_inv [OF reachable_b] .
  show "validate_loaded_store any_uuid any_registry ledger_b = Inr ()"
    using loadable_b by (simp add: loadable_def sample_env_def)
  show "well_keyed ledger_b" "jobs_point_at_events ledger_b" "one_held_migration_lock ledger_b"
    using ledger_invD [OF inv] log_rep_get_id [OF ledger_invD(2) [OF inv]]
    by (auto simp: well_keyed_def jobs_point_at_events_def one_held_migration_lock_def log_rep_def records_valid_def
        job_valid_def migrations_ok_def)
  have "length (job_events_by_sequence ledger_b) = 2" by code_simp
  then show "length (job_events_by_sequence ledger_b) < u64_max" by (simp add: u64_max_def)
qed

text \<open>
  C7. The channels mirror the log: whatever operations run on an opened store, and wherever the
  file system fails, the events sent on the global channel since it was opened are the ones
  appended to the log since, and those on a repository's channel are the ones of that repository.
\<close>

theorem channels_mirror_log:
  assumes "store_runs env st0 st" and "freshly_opened env st0"
  shows "\<exists>published. event_log (st_inner st) = event_log (st_inner st0) @ published \<and>
    event_broadcaster (st_broadcasts st) = published \<and>
    (\<forall>r. channel (st_broadcasts st) r = filter (of_repository (st_inner st) r) published)"
proof -
  have s: "\<exists>es. ledger_steps (env_uuid_ok env) (env_validate_ext env) (st_inner st0) es (st_inner st)"
    and m: "mirrors (length (event_log (st_inner st0))) st" using store_runs_ok [OF assms] by blast+
  from s obtain es where "op_ok (env_uuid_ok env) (st_inner st0) es (st_inner st)"
    using assms(2) by (auto simp: freshly_opened_def dest: ledger_steps_ok)
  then have "event_log (st_inner st) = event_log (st_inner st0) @ es" by (simp add: op_ok_def)
  with m show ?thesis by (simp add: mirrors_def)
qed

theorem channels_mirror_log_witness:
  "\<exists>published. event_log (st_inner store_b) = event_log (st_inner store_a) @ published \<and>
    event_broadcaster (st_broadcasts store_b) = published \<and>
    (\<forall>r. channel (st_broadcasts store_b) r = filter (of_repository (st_inner store_b) r) published)"
  using channels_mirror_log [OF store_runs.op [OF store_runs.opened run_store] opened_a] .

section \<open>Jobs\<close>

text \<open>
  C8. The life of a job, over any further operations: it is never removed; its identity,
  repository, requester, kind, goal and creation time never change; its status only follows the
  transition relation; its start and completion times are written once; and a terminal status is
  final.
\<close>

theorem job_life:
  assumes "reachable ok ext s" and "ledger_steps ok ext s es s'" and "bt_get (jobs s) i = Some j"
  shows "\<exists>j'. bt_get (jobs s') i = Some j' \<and>
    j_id j' = j_id j \<and> j_repository_id j' = j_repository_id j \<and> j_requester j' = j_requester j \<and>
    j_kind j' = j_kind j \<and> j_goal j' = j_goal j \<and> j_created_at j' = j_created_at j \<and>
    j_updated_at j \<le> j_updated_at j' \<and> can_transition_to\<^sup>*\<^sup>* (j_status j) (j_status j') \<and>
    (j_started_at j \<noteq> None \<longrightarrow> j_started_at j' = j_started_at j) \<and>
    (j_completed_at j \<noteq> None \<longrightarrow> j_completed_at j' = j_completed_at j) \<and>
    (is_terminal (j_status j) \<longrightarrow> j_status j' = j_status j)"
proof -
  obtain j' where "bt_get (jobs s') i = Some j'" "job_moves\<^sup>*\<^sup>* j j'"
    using steps_jobs_move [OF assms(2) reachable_inv [OF assms(1)]] assms(3) by (auto simp: jobs_move_def)
  with moves_frame moves_status moves_write_once moves_terminal show ?thesis by (intro exI [of _ j']) blast
qed

theorem job_life_witness:
  "\<exists>j'. bt_get (jobs ledger_b) (j_id job_a) = Some j' \<and> can_transition_to\<^sup>*\<^sup>* Queued (j_status j')"
proof -
  have j: "bt_get (jobs ledger_a) (j_id job_a) = Some (job_a\<lparr>j_latest_event_id := Some (e_id submitted_a)\<rparr>)"
    by code_simp
  have "ledger_steps any_uuid any_registry ledger_a ([] @ [started_a\<lparr>e_sequence_number := 2\<rparr>]) ledger_b"
    by (rule ledger_steps.step [OF ledger_steps.stay run_start])
  from job_life [OF reachable_a this j] show ?thesis by (auto simp: job_a_def JobRecord_new_def)
qed

section \<open>Reads\<close>

text \<open>
  C14. Replaying after an event id gives the log after that event, cut at the limit: a reader that
  remembers the last event it saw misses nothing and sees nothing twice.
\<close>

theorem replay_resumes:
  assumes "reachable ok ext s" and "k < length (event_log s)"
  shows "replay_job_events s (AfterEventId (e_id (event_log s ! k))) limit =
     Inr (case limit of None \<Rightarrow> drop (Suc k) (event_log s) | Some l \<Rightarrow> take l (drop (Suc k) (event_log s)))"
proof -
  have rep: "log_rep s (event_log s)" using ledger_invD(2) [OF reachable_inv [OF assms(1)]] .
  show ?thesis using replay_log [OF rep cursor_after_event [OF rep assms(2)]] .
qed

theorem replay_resumes_witness:
  "replay_job_events ledger_b (AfterEventId (e_id (event_log ledger_b ! 0))) None =
     Inr (case None of None \<Rightarrow> drop (Suc 0) (event_log ledger_b) | Some l \<Rightarrow> take l (drop (Suc 0) (event_log ledger_b)))"
  by (rule replay_resumes [OF reachable_b]) (simp add: log_b)

text \<open>
  C12. Paging through the events: following the page tokens of an event query returns every event
  of the log after the cursor that the query selects, once and in order, after enough pages.
\<close>

theorem event_pages_complete:
  assumes "reachable ok ext s" and "event_cursor_sequence s (eq_cursor query) = Inr n"
    and "0 < unwrap_or (eq_page_size query) usize_max"
    and "length (event_log s) < fuel * unwrap_or (eq_page_size query) usize_max"
  shows "walk (event_page s query) fuel None = Inr (Some (filter (selected s query) (drop n (event_log s))))"
proof -
  have inv: "ledger_inv ok s" using reachable_inv [OF assms(1)] .
  have "length (filter (selected s query) (drop n (event_log s))) \<le> length (event_log s)"
    using length_filter_le [of "selected s query" "drop n (event_log s)"] by simp
  moreover have "length (event_log s) \<le> u64_max" using log_length [OF inv] by simp
  ultimately show ?thesis using assms(3,4) by (intro paged_query.walk_all [OF event_pages [OF inv assms(2)]]) simp_all
qed

theorem event_pages_complete_witness:
  "walk (event_page ledger_b (EventQuery_default\<lparr>eq_page_size := Some 1\<rparr>)) 3 None =
     Inr (Some (filter (selected ledger_b (EventQuery_default\<lparr>eq_page_size := Some 1\<rparr>)) (drop 0 (event_log ledger_b))))"
  by (rule event_pages_complete [OF reachable_b])
    (simp_all add: EventQuery_default_def event_cursor_sequence_def unwrap_or_def log_b)

text \<open>
  C13. Paging through the jobs: following the page tokens of a job query returns every job the
  query selects once, in the order of their ids, after enough pages.
\<close>

theorem job_pages_complete:
  assumes "0 < unwrap_or (jq_page_size query) usize_max" and "length (jobs s) \<le> u64_max"
    and "length (jobs s) < fuel * unwrap_or (jq_page_size query) usize_max"
  shows "walk (job_page s query) fuel None = Inr (Some (filter (job_selected query) (list_jobs s)))"
proof -
  have "length (filter (job_selected query) (list_jobs s)) \<le> length (jobs s)"
    using length_filter_le [of "job_selected query" "list_jobs s"] by (simp add: list_jobs_def list_records_btree_def bt_values_def)
  then show ?thesis using assms by (intro job_pages.walk_all) simp_all
qed

theorem job_pages_complete_witness:
  "walk (job_page ledger_b \<lparr>jq_repository_id = None, jq_status = Some Running, jq_requester = None, jq_page_size = Some 1,
       jq_page_token = None\<rparr>) 2 None =
     Inr (Some (filter (job_selected \<lparr>jq_repository_id = None, jq_status = Some Running, jq_requester = None,
       jq_page_size = Some 1, jq_page_token = None\<rparr>) (list_jobs ledger_b)))"
proof (rule job_pages_complete)
  have "length (jobs ledger_b) = 1" by code_simp
  then show "length (jobs ledger_b) \<le> u64_max" "length (jobs ledger_b) < 2 * unwrap_or (jq_page_size
      \<lparr>jq_repository_id = None, jq_status = Some Running, jq_requester = None, jq_page_size = Some 1,
       jq_page_token = None\<rparr>) usize_max" by (simp_all add: u64_max_def unwrap_or_def)
qed (simp add: unwrap_or_def)

text \<open>
  C15. The status of a repository: at most the requested number of its jobs, the most recently
  updated first and none of them older than a job left out, and the last event of the log that
  belongs to the repository.
\<close>

theorem project_status:
  assumes "reachable ok ext s"
  shows "\<exists>snap. project_status_snapshot s r n m = Inr snap \<and>
    (\<forall>j \<in> set (ss_recent_jobs snap). j_repository_id j = r \<and> j \<in> set (list_jobs s)) \<and>
    length (ss_recent_jobs snap) \<le> n \<and>
    sorted_wrt (\<lambda>a b. (j_updated_at b, j_id b) \<le> (j_updated_at a, j_id a)) (ss_recent_jobs snap) \<and>
    (\<forall>j \<in> set (list_jobs s). j_repository_id j = r \<longrightarrow> j \<notin> set (ss_recent_jobs snap) \<longrightarrow>
       length (ss_recent_jobs snap) = n \<and>
       (\<forall>j' \<in> set (ss_recent_jobs snap). (j_updated_at j, j_id j) \<le> (j_updated_at j', j_id j'))) \<and>
    ss_latest_event snap = find (\<lambda>e. event_repository_id s e = Inr (Some r)) (rev (event_log s))"
proof -
  let ?f = "\<lambda>job. (j_updated_at job, j_id job)"
  let ?xs = "filter (\<lambda>job. j_repository_id job = r) (bt_values (jobs s))"
  obtain snap where snap: "project_status_snapshot s r n m = Inr snap"
    "ss_recent_jobs snap = take n (rev (sort_key ?f ?xs))"
    "ss_latest_event snap = find (\<lambda>e. event_repository_id s e = Inr (Some r)) (rev (event_log s))"
    using latest_event_log [OF reachable_inv [OF assms], of r] by (simp add: project_status_snapshot_def Let_def)
  note T = top_n [where f = ?f and xs = ?xs and n = n, folded snap(2)]
  have full: "length (ss_recent_jobs snap) = n" if "j \<in> set ?xs" "j \<notin> set (ss_recent_jobs snap)" for j
  proof -
    have "\<not> length ?xs \<le> n" using that snap(2) by auto
    then show ?thesis using T(2) by simp
  qed
  have L: "list_jobs s = bt_values (jobs s)" by (simp add: list_jobs_def list_records_btree_def)
  show ?thesis
  proof (intro exI [of _ snap] conjI ballI impI)
    fix j assume "j \<in> set (list_jobs s)" "j_repository_id j = r" and n: "j \<notin> set (ss_recent_jobs snap)"
    then have x: "j \<in> set ?xs" by (simp add: L)
    show "length (ss_recent_jobs snap) = n" using full [OF x n] .
    show "(j_updated_at j, j_id j) \<le> (j_updated_at j', j_id j')" if "j' \<in> set (ss_recent_jobs snap)" for j'
      using T(4) [OF x n that] .
  qed (use snap T(1-3) L in auto)
qed

theorem project_status_witness:
  "\<exists>snap. project_status_snapshot ledger_b (rp_id repo_a) 1 1 = Inr snap \<and>
    ss_latest_event snap = find (\<lambda>e. event_repository_id ledger_b e = Inr (Some (rp_id repo_a))) (rev (event_log ledger_b))"
  using project_status [OF reachable_b, of "rp_id repo_a" 1 1] by blast

section \<open>Locks and receipts\<close>

text \<open>
  C16. The migration lock excludes: acquiring it succeeds only when every lock held before has
  expired by then, and afterwards the new lock is the only one held.
\<close>

theorem migration_lock_excludes:
  assumes "reachable ok ext s" and "acquire_schema_migration_lock uuid leader safe timeout t s = Inr (m, s')"
  shows "(\<forall>i m0 k. hm_get (schema_migrations s) i = Some m0 \<longrightarrow> m_migration_lock m0 = Some k \<longrightarrow>
       k_status k = MigrationLockStatus.Held \<longrightarrow> lock_is_expired k t) \<and>
    hm_get (schema_migrations s') (m_id m) = Some m \<and>
    (\<forall>i m'. hm_get (schema_migrations s') i = Some m' \<longrightarrow> (held m' \<longleftrightarrow> i = m_id m))"
proof -
  have ok: "migrations_ok (schema_migrations s)" using ledger_invD(8) [OF reachable_inv [OF assms(1)]] .
  let ?s = "expire_schema_migration_locks t s"
  have a: "trim leader \<noteq> []" "active_migration_lock ?s t = None" "new_migration_lock uuid leader t safe timeout = Inr m"
    and s': "s' = ?s\<lparr>schema_migrations := hm_insert (m_id m) m (schema_migrations ?s)\<rparr>"
    using assms(2) by (simp_all add: acquire_eq_Inr)
  have free: "\<not> held m'" if "hm_get (schema_migrations ?s) i = Some m'" for i m'
    using no_held_after_expire [OF ok a(2) that] .
  have "lock_is_expired k t" if "hm_get (schema_migrations s) i = Some m0" "m_migration_lock m0 = Some k"
      "k_status k = MigrationLockStatus.Held" for i m0 k
    using free [of i "expire_record t m0"] that by (simp add: held_expire_record)
  moreover have "hm_get (schema_migrations s') i = (if i = m_id m then Some m else hm_get (schema_migrations ?s) i)" for i
    by (simp add: s')
  ultimately show ?thesis using free new_lock_valid [OF a(3,1)] by (metis option.inject)
qed

theorem migration_lock_excludes_witness:
  "\<exists>m s'. acquire_schema_migration_lock ''a'' ''leader'' True 1000 50 ledger_a = Inr (m, s') \<and>
     hm_get (schema_migrations s') (m_id m) = Some m"
proof -
  have "\<not> isl (acquire_schema_migration_lock ''a'' ''leader'' True 1000 50 ledger_a)" by code_simp
  then obtain m s' where a: "acquire_schema_migration_lock ''a'' ''leader'' True 1000 50 ledger_a = Inr (m, s')"
    by (metis sum.collapse(2) surj_pair)
  then show ?thesis using migration_lock_excludes [OF reachable_a a] by blast
qed

text \<open>
  C17. Idempotent submissions: a key bound to a receipt stays bound to that receipt through any
  further operations, recording the same receipt again never replaces it, and recording a
  different one is refused.
\<close>

theorem receipt_first_wins:
  assumes "ledger_steps ok ext s es s'" and "get_submit_job_idempotency s key = Some r"
  shows "get_submit_job_idempotency s' key = Some r \<and>
    (\<forall>r' s'' u. record_submit_job_idempotency key r' s' = Inr (u, s'') \<longrightarrow> r' = r \<and> s'' = s')"
proof -
  have "hm_get (idempotent_submit_jobs s') key = Some r"
    using steps_receipts [OF assms(1)] assms(2) by (simp add: get_submit_job_idempotency_def)
  then show ?thesis
    by (auto simp: get_submit_job_idempotency_def record_submit_job_idempotency_def
        insert_submit_job_idempotency_locked_def split: if_splits)
qed

theorem receipt_first_wins_witness:
  "get_submit_job_idempotency ledger_c ''key'' = Some committed_receipt_a \<and>
    (\<nexists>u s''. record_submit_job_idempotency ''key'' receipt_a ledger_c = Inr (u, s''))"
proof -
  have "receipt_a \<noteq> committed_receipt_a" by code_simp
  moreover have "get_submit_job_idempotency ledger_c ''key'' = Some committed_receipt_a"
    by (simp add: get_submit_job_idempotency_def receipt_c)
  ultimately show ?thesis
    using receipt_first_wins [OF ledger_steps.stay [of any_uuid any_registry ledger_c], of "''key''"] by blast
qed

section \<open>Policy\<close>

text \<open>
  C18. What the default policy lets run: exactly reads and informational requests inside the
  registered scope of a repository that is not blocked, and bounded writes and processes of a
  trusted one.
\<close>

theorem policy_runs:
  "p_outcome (evaluate uuid now i) \<in> {Allowed, Audited} \<longleftrightarrow>
     pi_current_trust_state i \<noteq> RepositoryTrustState.Blocked \<and> pi_registered_scope i \<and>
     (from_name (pi_requested_capability i) \<in> {Informational, FilesystemRead} \<or>
      from_name (pi_requested_capability i) \<in> {FilesystemWrite, ProcessExec} \<and>
        pi_current_trust_state i = Trusted \<and> \<not> pi_broad_or_unbounded i)"
  using evaluate_rule_runs [of i] by (simp add: evaluate_def Let_def)

text \<open>
  C19. The policy is monotone: with less trust, a scope that is no longer registered or a broader
  request, the outcome never becomes more permissive.
\<close>

theorem policy_monotone:
  assumes "pi_requested_capability i = pi_requested_capability i'"
    and "distrust (pi_current_trust_state i) \<le> distrust (pi_current_trust_state i')"
    and "pi_registered_scope i' \<longrightarrow> pi_registered_scope i"
    and "pi_broad_or_unbounded i \<longrightarrow> pi_broad_or_unbounded i'"
  shows "strictness (p_outcome (evaluate uuid now i)) \<le> strictness (p_outcome (evaluate uuid' now' i'))"
  using evaluate_rule_monotone [OF assms] by (simp add: evaluate_def Let_def)

theorem policy_monotone_witness:
  "strictness (p_outcome (evaluate ''a'' 1 (PolicyInput_new (Actor.User ''u'' None) (rp_id repo_a) ''fs.write''
       \<lparr>sc_kind = ''repository'', sc_value = ''.''\<rparr> ''write'' Trusted True DEFAULT_POLICY_VERSION)))
   \<le> strictness (p_outcome (evaluate ''b'' 2 (PolicyInput_new (Actor.User ''u'' None) (rp_id repo_a) ''fs.write''
       \<lparr>sc_kind = ''repository'', sc_value = ''.''\<rparr> ''write'' ReadOnly True DEFAULT_POLICY_VERSION)))"
  by (rule policy_monotone) (simp_all add: PolicyInput_new_def)

end
